(* ===== verification/Prelude.thy ===== *)
theory Prelude
  imports Main "HOL-Library.Word"
begin

text \<open>
  Shared vocabulary of the development.

  \<^item> Names for the machine types of the Rust sources (\<open>u8\<close>, \<open>usize\<close>, \<open>U256\<close>, \<open>H256\<close>,
    \<open>Address\<close>, \<open>Bytes\<close>). \<open>usize\<close> is 64 bits wide: the sources convert with
    \<open>low_u64() as usize\<close> throughout and assume it.
  \<^item> \<open>outcome\<close>: what a Rust call can do. \<open>Ok\<close> and \<open>Err\<close> are the two constructors of
    \<open>Result\<close>; \<open>Panic\<close> is a failed \<open>expect\<close>, \<open>unwrap\<close>, \<open>assert!\<close>, slice index or checked
    arithmetic operation. A panic is a value of the model, so that "this never panics" is
    a statement.
  \<^item> \<open>action\<close>: a call that also changes a state. The state survives an error, as the
    fields of \<open>&mut self\<close> do.
  \<^item> \<open>wp\<close>: weakest preconditions of actions; the collection \<open>wp_simps\<close> computes them.
  \<^item> Big-endian byte encoding of 256-bit words with its round trip, and the lemmas on
    words and lists that several components use.
\<close>

unbundle bit_operations_syntax

section \<open>Machine types\<close>

type_synonym u8 = "8 word"
type_synonym u64 = "64 word"
type_synonym usize = "64 word"
type_synonym u256 = "256 word"
type_synonym u512 = "512 word"
type_synonym h256 = "256 word"
type_synonym address = "160 word"
type_synonym bytes = "u8 list"

section \<open>Outcomes of calls\<close>

datatype ('e, 'a) outcome = Ok 'a | Err 'e | Panic

named_theorems outcome_simps "case analysis of sequenced outcomes"

primrec and_then :: "('e, 'a) outcome \<Rightarrow> ('a \<Rightarrow> ('e, 'b) outcome) \<Rightarrow> ('e, 'b) outcome" where
  "and_then (Ok x) f = f x"
| "and_then (Err e) f = Err e"
| "and_then Panic f = Panic"

definition expect :: "'a option \<Rightarrow> ('e, 'a) outcome" where
  "expect x = (case x of Some y \<Rightarrow> Ok y | None \<Rightarrow> Panic)"

definition assert_that :: "bool \<Rightarrow> ('e, unit) outcome" where
  "assert_that b = (if b then Ok () else Panic)"

lemma and_then_Ok_iff [outcome_simps]:
  "and_then m f = Ok y \<longleftrightarrow> (\<exists>x. m = Ok x \<and> f x = Ok y)"
  by (cases m) auto

lemma and_then_Err_iff [outcome_simps]:
  "and_then m f = Err e \<longleftrightarrow> m = Err e \<or> (\<exists>x. m = Ok x \<and> f x = Err e)"
  by (cases m) auto

lemma and_then_Panic_iff [outcome_simps]:
  "and_then m f = Panic \<longleftrightarrow> m = Panic \<or> (\<exists>x. m = Ok x \<and> f x = Panic)"
  by (cases m) auto

lemma expect_simps [simp]:
  "expect (Some x) = Ok x" "expect None = Panic"
  by (simp_all add: expect_def)

lemma expect_iffs [outcome_simps]:
  "expect x = Ok y \<longleftrightarrow> x = Some y" "expect x = Panic \<longleftrightarrow> x = None" "expect x \<noteq> Err e"
  by (auto simp: expect_def split: option.splits)

lemma assert_that_simps [simp]:
  "assert_that True = Ok ()" "assert_that False = Panic"
  by (simp_all add: assert_that_def)

lemma assert_that_iffs [outcome_simps]:
  "assert_that b = Ok u \<longleftrightarrow> b" "assert_that b = Panic \<longleftrightarrow> \<not> b" "assert_that b \<noteq> Err e"
  by (auto simp: assert_that_def)

section \<open>Actions: outcomes with a state\<close>

type_synonym ('s, 'e, 'a) action = "'s \<Rightarrow> ('e, 'a) outcome \<times> 's"

definition ret :: "'a \<Rightarrow> ('s, 'e, 'a) action" where
  "ret x = (\<lambda>s. (Ok x, s))"

definition fail :: "'e \<Rightarrow> ('s, 'e, 'a) action" where
  "fail e = (\<lambda>s. (Err e, s))"

definition panic :: "('s, 'e, 'a) action" where
  "panic = (\<lambda>s. (Panic, s))"

definition bind :: "('s, 'e, 'a) action \<Rightarrow> ('a \<Rightarrow> ('s, 'e, 'b) action) \<Rightarrow> ('s, 'e, 'b) action" where
  "bind m f = (\<lambda>s. case m s of
      (Ok x, s') \<Rightarrow> f x s'
    | (Err e, s') \<Rightarrow> (Err e, s')
    | (Panic, s') \<Rightarrow> (Panic, s'))"

definition gets :: "('s \<Rightarrow> 'a) \<Rightarrow> ('s, 'e, 'a) action" where
  "gets f = (\<lambda>s. (Ok (f s), s))"

definition modify :: "('s \<Rightarrow> 's) \<Rightarrow> ('s, 'e, unit) action" where
  "modify f = (\<lambda>s. (Ok (), f s))"

definition lift :: "('e, 'a) outcome \<Rightarrow> ('s, 'e, 'a) action" where
  "lift r = (\<lambda>s. (r, s))"

named_theorems action_simps "running an action on a state"

lemma action_run [action_simps]:
  "ret x s = (Ok x, s)" "fail e s = (Err e, s)" "panic s = (Panic, s)"
  "gets f s = (Ok (f s), s)" "modify g s = (Ok (), g s)" "lift r s = (r, s)"
  "bind m k s = (case m s of (Ok y, s') \<Rightarrow> k y s' | (Err e', s') \<Rightarrow> (Err e', s')
     | (Panic, s') \<Rightarrow> (Panic, s'))"
  by (simp_all add: ret_def fail_def panic_def gets_def modify_def lift_def bind_def)

section \<open>Weakest preconditions\<close>

definition wp ::
  "('s, 'e, 'a) action \<Rightarrow> ('a \<Rightarrow> 's \<Rightarrow> bool) \<Rightarrow> ('e \<Rightarrow> 's \<Rightarrow> bool) \<Rightarrow> 's \<Rightarrow> bool" where
  "wp m Q E s = (case m s of (Ok x, s') \<Rightarrow> Q x s' | (Err e, s') \<Rightarrow> E e s' | (Panic, s') \<Rightarrow> False)"

named_theorems wp_simps "weakest preconditions of actions"

lemma wp_basic [wp_simps]:
  "wp (ret x) Q E s = Q x s" "wp (fail e) Q E s = E e s" "wp panic Q E s = False"
  "wp (gets f) Q E s = Q (f s) s" "wp (modify g) R E s = R () (g s)"
  by (simp_all add: wp_def action_simps)

lemma wp_bind [wp_simps]: "wp (bind m f) Q E s = wp m (\<lambda>x. wp (f x) Q E) E s"
  by (auto simp: wp_def action_simps split: outcome.splits prod.splits)

lemma wp_lift [wp_simps]:
  "wp (lift r) Q E s = (case r of Ok x \<Rightarrow> Q x s | Err e \<Rightarrow> E e s | Panic \<Rightarrow> False)"
  by (simp add: wp_def action_simps split: outcome.splits)

lemma wp_liftI:
  assumes "r \<noteq> Panic" "\<And>x. r = Ok x \<Longrightarrow> Q x s" "\<And>e. r = Err e \<Longrightarrow> E e s"
  shows "wp (lift r) Q E s"
  using assms by (cases r) (simp_all add: wp_lift)

lemma wp_if [wp_simps]:
  "wp (if b then m else n) Q E s = (if b then wp m Q E s else wp n Q E s)"
  by simp

lemma wp_mono:
  assumes "wp m Q E s"
    and "\<And>x s'. m s = (Ok x, s') \<Longrightarrow> Q x s' \<Longrightarrow> Q' x s'"
    and "\<And>e s'. m s = (Err e, s') \<Longrightarrow> E e s' \<Longrightarrow> E' e s'"
  shows "wp m Q' E' s"
  using assms by (auto simp: wp_def split: outcome.splits prod.splits)

lemma wp_OkD: "wp m Q E s \<Longrightarrow> m s = (Ok x, s') \<Longrightarrow> Q x s'"
  by (simp add: wp_def)

lemma wp_ErrD: "wp m Q E s \<Longrightarrow> m s = (Err e, s') \<Longrightarrow> E e s'"
  by (simp add: wp_def)

lemma wp_no_panic: "wp m Q E s \<Longrightarrow> fst (m s) \<noteq> Panic"
  by (auto simp: wp_def split: outcome.splits prod.splits)

text \<open>An action that never panics and keeps a property of the state, on success and on error.\<close>

definition keeps :: "('s, 'e, 'a) action \<Rightarrow> ('s \<Rightarrow> bool) \<Rightarrow> bool" where
  "keeps m P \<longleftrightarrow> (\<forall>s. P s \<longrightarrow> wp m (\<lambda>_. P) (\<lambda>_. P) s)"

lemma keepsD: "keeps m P \<Longrightarrow> P s \<Longrightarrow> wp m (\<lambda>_. P) (\<lambda>_. P) s"
  by (simp add: keeps_def)

lemma keeps_wp:
  assumes "keeps m P" "P s" "\<And>x s'. P s' \<Longrightarrow> Q x s'" "\<And>e s'. P s' \<Longrightarrow> E e s'"
  shows "wp m Q E s"
  using keepsD [OF assms(1,2)] assms(3,4) by (rule wp_mono)

section \<open>Words\<close>

text \<open>\<open>v.low_u64() as usize\<close> of a 256-bit value, used as an index.\<close>

definition low_usize :: "u256 \<Rightarrow> nat" where
  "low_usize w = unat (ucast w :: usize)"

lemma low_usize_eq: "low_usize w = unat w mod 2 ^ 64"
  by (simp add: low_usize_def unsigned_ucast_eq take_bit_eq_mod)

lemma low_usize_small: "unat w < 2 ^ 64 \<Longrightarrow> low_usize w = unat w"
  by (simp add: low_usize_eq)

lemma low_usize_less: "low_usize w < 2 ^ 64"
  by (simp add: low_usize_eq)

text \<open>Rust's \<open>overflowing_add\<close> and \<open>overflowing_mul\<close>: wrapped result and overflow flag.\<close>

definition overflowing_add :: "'w::len word \<Rightarrow> 'w word \<Rightarrow> 'w word \<times> bool" where
  "overflowing_add a b = (a + b, 2 ^ LENGTH('w) \<le> unat a + unat b)"

definition overflowing_mul :: "'w::len word \<Rightarrow> 'w word \<Rightarrow> 'w word \<times> bool" where
  "overflowing_mul a b = (a * b, 2 ^ LENGTH('w) \<le> unat a * unat b)"

definition saturating_add :: "'w::len word \<Rightarrow> 'w word \<Rightarrow> 'w word" where
  "saturating_add a b = (if 2 ^ LENGTH('w) \<le> unat a + unat b then - 1 else a + b)"

text \<open>Rust's \<open>+\<close>, \<open>-\<close> and \<open>*\<close> on unsigned integers: a panic where the result does not fit.\<close>

definition checked_plus :: "'w::len word \<Rightarrow> 'w word \<Rightarrow> ('e, 'w word) outcome" where
  "checked_plus a b = (if unat a + unat b < 2 ^ LENGTH('w) then Ok (a + b) else Panic)"

definition checked_minus :: "'w::len word \<Rightarrow> 'w word \<Rightarrow> ('e, 'w word) outcome" where
  "checked_minus a b = (if b \<le> a then Ok (a - b) else Panic)"

definition checked_times :: "'w::len word \<Rightarrow> 'w word \<Rightarrow> ('e, 'w word) outcome" where
  "checked_times a b = (if unat a * unat b < 2 ^ LENGTH('w) then Ok (a * b) else Panic)"

lemma unat_plus_exact: "unat a + unat b < 2 ^ LENGTH('w) \<Longrightarrow> unat (a + b :: 'w::len word) = unat a + unat b"
  by (simp add: unat_word_ariths)

lemma unat_times_exact: "unat a * unat b < 2 ^ LENGTH('w) \<Longrightarrow> unat (a * b :: 'w::len word) = unat a * unat b"
  by (simp add: unat_word_ariths)

lemma unat_minus_exact: "b \<le> a \<Longrightarrow> unat (a - b :: 'w::len word) = unat a - unat b"
  by (simp add: unat_sub)

lemma unat_below: "unat (a :: 'w::len word) < 2 ^ LENGTH('w)"
  by (fact unsigned_less)

lemma unat_drop_bit: "unat (drop_bit n a :: 'w::len word) = unat a div 2 ^ n"
  by (simp only: unat_drop_bit_eq) (simp add: drop_bit_eq_div)

lemma unat_ucast: "unat (ucast (w :: 'a::len word) :: 'b::len word) = unat w mod 2 ^ LENGTH('b)"
  by (simp add: unsigned_ucast_eq take_bit_eq_mod)

lemma word_eq_unat: "a = b \<longleftrightarrow> unat a = unat b"
  by (simp add: word_eq_iff_unsigned [where ?'a = nat])

lemma unat_ucast_exact: "unat (a :: 'v::len word) < 2 ^ LENGTH('w) \<Longrightarrow> unat (ucast a :: 'w::len word) = unat a"
  by (simp add: unsigned_ucast_eq take_bit_eq_mod)

lemma unat_ucast_up: "LENGTH('v) \<le> LENGTH('w) \<Longrightarrow> unat (ucast (a :: 'v::len word) :: 'w::len word) = unat a"
proof (rule unat_ucast_exact)
  assume "LENGTH('v) \<le> LENGTH('w)"
  then have "(2 :: nat) ^ LENGTH('v) \<le> 2 ^ LENGTH('w)" by simp
  with unat_below [of a] show "unat a < 2 ^ LENGTH('w)" by linarith
qed

lemma saturating_add_unat:
  "unat (saturating_add a b :: 'w::len word) = min (unat a + unat b) (2 ^ LENGTH('w) - 1)"
proof -
  have "unat (- 1 :: 'w word) = 2 ^ LENGTH('w) - 1"
    by (simp add: unsigned_minus_1_eq_mask mask_eq_exp_minus_1)
  then show ?thesis
    by (auto simp: saturating_add_def unat_word_ariths)
qed

section \<open>Big-endian bytes\<close>

text \<open>\<open>U256::from(&[u8])\<close> and \<open>to_big_endian\<close> into 32 bytes.\<close>

definition be_word :: "bytes \<Rightarrow> u256" where
  "be_word bs = foldl (\<lambda>acc b. acc * 256 + ucast b) 0 bs"

definition to_big_endian :: "u256 \<Rightarrow> bytes" where
  "to_big_endian w = map (\<lambda>i. ucast (drop_bit (8 * i) w)) (rev [0..<32])"

lemma length_to_big_endian [simp]: "length (to_big_endian w) = 32"
  by (simp add: to_big_endian_def)

lemma take_bit_split:
  "take_bit (m + k) (w :: 'w::len word) = push_bit m (take_bit k (drop_bit m w)) + take_bit m w"
proof -
  have "take_bit (m + k) w =
      push_bit m (drop_bit m (take_bit (m + k) w)) + take_bit m (take_bit (m + k) w)"
    by (rule bits_ident [symmetric])
  then show ?thesis
    by (simp add: drop_bit_take_bit)
qed

lemma foldl_bytes:
  "foldl (\<lambda>acc b. acc * 256 + ucast (b :: u8)) a
     (map (\<lambda>i. ucast (drop_bit (8 * i) w)) (rev [0..<n]))
   = (a * 2 ^ (8 * n) + take_bit (8 * n) w :: u256)"
proof (induction n arbitrary: a)
  case 0
  show ?case by simp
next
  case (Suc n)
  have byte: "(ucast (ucast (drop_bit (8 * n) w) :: u8) :: u256) = take_bit 8 (drop_bit (8 * n) w)"
    by (simp add: unsigned_ucast_eq)
  have "take_bit (8 * Suc n) w = take_bit (8 * n + 8) w"
    by (simp only: mult_Suc_right add.commute)
  also have "\<dots> = take_bit 8 (drop_bit (8 * n) w) * 2 ^ (8 * n) + take_bit (8 * n) w"
    by (simp only: take_bit_split push_bit_eq_mult)
  finally have split: "take_bit (8 * Suc n) w
      = take_bit 8 (drop_bit (8 * n) w) * 2 ^ (8 * n) + take_bit (8 * n) w" .
  have "(256 :: u256) * 2 ^ (8 * n) = 2 ^ (8 * Suc n)"
    by (simp add: power_add)
  then show ?case
    using Suc.IH [of "a * 256 + ucast (ucast (drop_bit (8 * n) w) :: u8)"]
    by (simp add: byte split distrib_right mult.assoc del: mult_Suc_right)
qed

theorem be_word_to_big_endian [simp]: "be_word (to_big_endian w) = w"
  using foldl_bytes [of 0 w 32]
  by (simp add: be_word_def to_big_endian_def take_bit_word_eq_self)

section \<open>Lists\<close>

text \<open>The last \<open>n\<close> elements of a vector, named: the shape in which stack code reads it.\<close>

lemma list_snoc_cases:
  assumes "Suc n \<le> length xs"
  obtains ys y where "xs = ys @ [y]" "n \<le> length ys"
  using assms by (cases xs rule: rev_cases) auto

text \<open>Overwriting a range of a vector: \<open>v[off..off + n].copy_from_slice(s)\<close>.\<close>

definition overwrite :: "'a list \<Rightarrow> nat \<Rightarrow> 'a list \<Rightarrow> 'a list" where
  "overwrite xs off ys = take off xs @ ys @ drop (off + length ys) xs"

definition sub_range :: "'a list \<Rightarrow> nat \<Rightarrow> nat \<Rightarrow> 'a list" where
  "sub_range xs off n = take n (drop off xs)"

lemma length_overwrite: "off + length ys \<le> length xs \<Longrightarrow> length (overwrite xs off ys) = length xs"
  by (simp add: overwrite_def)

lemma length_sub_range: "off + n \<le> length xs \<Longrightarrow> length (sub_range xs off n) = n"
  by (simp add: sub_range_def)

lemma sub_range_overwrite_same:
  "off + length ys \<le> length xs \<Longrightarrow> sub_range (overwrite xs off ys) off (length ys) = ys"
  by (simp add: overwrite_def sub_range_def)

lemma nth_overwrite:
  assumes "off + length ys \<le> length xs" "i < length xs"
  shows "overwrite xs off ys ! i =
    (if off \<le> i \<and> i < off + length ys then ys ! (i - off) else xs ! i)"
  using assms by (auto simp: overwrite_def nth_append)

lemma nth_sub_range: "off + n \<le> length xs \<Longrightarrow> i < n \<Longrightarrow> sub_range xs off n ! i = xs ! (off + i)"
  by (simp add: sub_range_def)

lemma sub_range_overwrite_disjoint:
  assumes "off + length ys \<le> length xs" "p + n \<le> length xs"
    and "p + n \<le> off \<or> off + length ys \<le> p"
  shows "sub_range (overwrite xs off ys) p n = sub_range xs p n"
  by (rule nth_equalityI)
    (use assms in \<open>auto simp: length_sub_range length_overwrite nth_sub_range nth_overwrite\<close>)

end
