(* ===== verification/Schedule.thy ===== *)
theory Schedule
  imports Prelude
begin

text \<open>
  The cost schedule of the virtual machine: src/ethcore/vm/src/schedule.rs. The struct
  \<open>Schedule\<close> is the record \<open>schedule\<close>, its fields in the order of the source with the prefix
  \<open>sch_\<close>; the constructors for the protocol versions are the definitions at the end.
\<close>

datatype clean_dust_mode = Off | BasicOnly | WithCodeAndStorage

record wasm_costs =
  wasm_regular :: "32 word"
  wasm_div :: "32 word"
  wasm_mul :: "32 word"
  wasm_mem :: "32 word"
  wasm_static_u256 :: "32 word"
  wasm_static_address :: "32 word"
  wasm_initial_mem :: "32 word"
  wasm_grow_mem :: "32 word"
  wasm_memcpy :: "32 word"
  wasm_max_stack_height :: "32 word"
  wasm_opcodes_mul :: "32 word"
  wasm_opcodes_div :: "32 word"
  wasm_have_create2 :: bool
  wasm_have_gasleft :: bool

record schedule =
  sch_exceptional_failed_code_deposit :: bool
  sch_have_delegate_call :: bool
  sch_have_create2 :: bool
  sch_have_revert :: bool
  sch_have_extcodehash :: bool
  sch_stack_limit :: usize
  sch_max_depth :: usize
  sch_tier_step_gas :: "usize list"
  sch_exp_gas :: usize
  sch_exp_byte_gas :: usize
  sch_sha3_gas :: usize
  sch_sha3_word_gas :: usize
  sch_sload_gas :: usize
  sch_sstore_set_gas :: usize
  sch_sstore_reset_gas :: usize
  sch_sstore_refund_gas :: usize
  sch_jumpdest_gas :: usize
  sch_log_gas :: usize
  sch_log_data_gas :: usize
  sch_log_topic_gas :: usize
  sch_create_gas :: usize
  sch_call_gas :: usize
  sch_call_stipend :: usize
  sch_call_value_transfer_gas :: usize
  sch_call_new_account_gas :: usize
  sch_suicide_refund_gas :: usize
  sch_memory_gas :: usize
  sch_quad_coeff_div :: usize
  sch_create_data_gas :: usize
  sch_create_data_limit :: usize
  sch_tx_gas :: usize
  sch_tx_create_gas :: usize
  sch_tx_data_zero_gas :: usize
  sch_tx_data_non_zero_gas :: usize
  sch_copy_gas :: usize
  sch_extcodesize_gas :: usize
  sch_extcodecopy_base_gas :: usize
  sch_balance_gas :: usize
  sch_extcodehash_gas :: usize
  sch_suicide_gas :: usize
  sch_suicide_to_new_account_cost :: usize
  sch_sub_gas_cap_divisor :: "usize option"
  sch_no_empty :: bool
  sch_kill_empty :: bool
  sch_blockhash_gas :: usize
  sch_have_static_call :: bool
  sch_have_return_data :: bool
  sch_have_bitwise_shifting :: bool
  sch_kill_dust :: clean_dust_mode
  sch_eip1283 :: bool
  sch_keep_unsigned_nonce :: bool
  sch_wasm :: "wasm_costs option"

definition default_wasm_costs :: wasm_costs where
  "default_wasm_costs =
    \<lparr>wasm_regular = 1, wasm_div = 16, wasm_mul = 4, wasm_mem = 2, wasm_static_u256 = 64,
     wasm_static_address = 40, wasm_initial_mem = 4096, wasm_grow_mem = 8192, wasm_memcpy = 1,
     wasm_max_stack_height = 64 * 1024, wasm_opcodes_mul = 3, wasm_opcodes_div = 8,
     wasm_have_create2 = False, wasm_have_gasleft = False\<rparr>"

definition new_schedule :: "bool \<Rightarrow> bool \<Rightarrow> usize \<Rightarrow> schedule" where
  "new_schedule efcd hdc tcg =
    \<lparr>sch_exceptional_failed_code_deposit = efcd, sch_have_delegate_call = hdc,
     sch_have_create2 = False, sch_have_revert = False, sch_have_extcodehash = False,
     sch_stack_limit = 1024, sch_max_depth = 1024,
     sch_tier_step_gas = [0, 2, 3, 5, 8, 10, 20, 0], sch_exp_gas = 10, sch_exp_byte_gas = 10,
     sch_sha3_gas = 30, sch_sha3_word_gas = 6, sch_sload_gas = 50, sch_sstore_set_gas = 20000,
     sch_sstore_reset_gas = 5000, sch_sstore_refund_gas = 15000, sch_jumpdest_gas = 1,
     sch_log_gas = 375, sch_log_data_gas = 8, sch_log_topic_gas = 375, sch_create_gas = 32000,
     sch_call_gas = 40, sch_call_stipend = 2300, sch_call_value_transfer_gas = 9000,
     sch_call_new_account_gas = 25000, sch_suicide_refund_gas = 24000, sch_memory_gas = 3,
     sch_quad_coeff_div = 512, sch_create_data_gas = 200, sch_create_data_limit = - 1,
     sch_tx_gas = 21000, sch_tx_create_gas = tcg, sch_tx_data_zero_gas = 4,
     sch_tx_data_non_zero_gas = 68, sch_copy_gas = 3, sch_extcodesize_gas = 20,
     sch_extcodecopy_base_gas = 20, sch_balance_gas = 20, sch_extcodehash_gas = 400,
     sch_suicide_gas = 0, sch_suicide_to_new_account_cost = 0, sch_sub_gas_cap_divisor = None,
     sch_no_empty = False, sch_kill_empty = False, sch_blockhash_gas = 20,
     sch_have_static_call = False, sch_have_return_data = False,
     sch_have_bitwise_shifting = False, sch_kill_dust = Off, sch_eip1283 = False,
     sch_keep_unsigned_nonce = False, sch_wasm = None\<rparr>"

definition new_frontier :: schedule where
  "new_frontier = new_schedule False False 21000"

definition new_homestead :: schedule where
  "new_homestead = new_schedule True True 53000"

definition new_post_eip150 :: "usize \<Rightarrow> bool \<Rightarrow> bool \<Rightarrow> bool \<Rightarrow> schedule" where
  "new_post_eip150 max_code_size fix_exp no_empty kill_empty =
    \<lparr>sch_exceptional_failed_code_deposit = True, sch_have_delegate_call = True,
     sch_have_create2 = False, sch_have_revert = False, sch_have_extcodehash = False,
     sch_stack_limit = 1024, sch_max_depth = 1024,
     sch_tier_step_gas = [0, 2, 3, 5, 8, 10, 20, 0], sch_exp_gas = 10,
     sch_exp_byte_gas = (if fix_exp then 50 else 10), sch_sha3_gas = 30, sch_sha3_word_gas = 6,
     sch_sload_gas = 200, sch_sstore_set_gas = 20000, sch_sstore_reset_gas = 5000,
     sch_sstore_refund_gas = 15000, sch_jumpdest_gas = 1, sch_log_gas = 375,
     sch_log_data_gas = 8, sch_log_topic_gas = 375, sch_create_gas = 32000, sch_call_gas = 700,
     sch_call_stipend = 2300, sch_call_value_transfer_gas = 9000,
     sch_call_new_account_gas = 25000, sch_suicide_refund_gas = 24000, sch_memory_gas = 3,
     sch_quad_coeff_div = 512, sch_create_data_gas = 200, sch_create_data_limit = max_code_size,
     sch_tx_gas = 21000, sch_tx_create_gas = 53000, sch_tx_data_zero_gas = 4,
     sch_tx_data_non_zero_gas = 68, sch_copy_gas = 3, sch_extcodesize_gas = 700,
     sch_extcodecopy_base_gas = 700, sch_balance_gas = 400, sch_extcodehash_gas = 400,
     sch_suicide_gas = 5000, sch_suicide_to_new_account_cost = 25000,
     sch_sub_gas_cap_divisor = Some 64, sch_no_empty = no_empty, sch_kill_empty = kill_empty,
     sch_blockhash_gas = 20, sch_have_static_call = False, sch_have_return_data = False,
     sch_have_bitwise_shifting = False, sch_kill_dust = Off, sch_eip1283 = False,
     sch_keep_unsigned_nonce = False, sch_wasm = None\<rparr>"

definition new_byzantium :: schedule where
  "new_byzantium = (new_post_eip150 24576 True True True)
    \<lparr>sch_have_create2 := True, sch_have_revert := True, sch_have_static_call := True,
     sch_have_return_data := True\<rparr>"

definition new_constantinople :: schedule where
  "new_constantinople = new_byzantium\<lparr>sch_have_bitwise_shifting := True\<rparr>"

text \<open>\<open>Schedule::wasm\<close> panics where the schedule has no wasm costs.\<close>

definition wasm_of :: "schedule \<Rightarrow> ('e, wasm_costs) outcome" where
  "wasm_of s = expect (sch_wasm s)"

section \<open>What the interpreter relies on\<close>

text \<open>
  The interpreter asserts \<open>quad_coeff_div == 512\<close> and \<open>call_value_transfer_gas > call_stipend\<close>,
  indexes eight tier prices, subtracts \<open>sload_gas\<close> from the store prices, and adds and
  multiplies prices in \<open>usize\<close>. \<open>schedule_ok\<close> collects what makes all of it safe;
  \<open>schedule_priced\<close> says that every instruction after which execution goes on costs gas.
\<close>

definition small_price :: "usize \<Rightarrow> bool" where
  "small_price p \<longleftrightarrow> p < 2 ^ 32"

definition schedule_ok :: "schedule \<Rightarrow> bool" where
  "schedule_ok s \<longleftrightarrow>
     sch_quad_coeff_div s = 512 \<and> sch_call_stipend s < sch_call_value_transfer_gas s \<and>
     length (sch_tier_step_gas s) = 8 \<and>
     sch_sload_gas s \<le> sch_sstore_set_gas s \<and> sch_sload_gas s \<le> sch_sstore_reset_gas s \<and>
     sch_sub_gas_cap_divisor s \<noteq> Some 0 \<and>
     small_price (sch_exp_gas s) \<and> small_price (sch_exp_byte_gas s) \<and>
     small_price (sch_log_gas s) \<and> small_price (sch_log_topic_gas s) \<and>
     small_price (sch_memory_gas s) \<and> small_price (sch_call_value_transfer_gas s) \<and>
     small_price (sch_sstore_refund_gas s) \<and> small_price (sch_sstore_set_gas s) \<and>
     small_price (sch_sstore_reset_gas s) \<and> small_price (sch_stack_limit s)"

definition schedule_priced :: "schedule \<Rightarrow> bool" where
  "schedule_priced s \<longleftrightarrow>
     (\<forall>t \<in> {1, 2, 3, 4, 5, 6}. 0 < sch_tier_step_gas s ! t) \<and>
     0 < sch_exp_gas s \<and> 0 < sch_sha3_gas s \<and> 0 < sch_sload_gas s \<and>
     0 < sch_sstore_set_gas s \<and> 0 < sch_sstore_reset_gas s \<and> 0 < sch_log_gas s \<and>
     0 < sch_create_gas s \<and> 0 < sch_call_gas s \<and> 0 < sch_extcodesize_gas s \<and>
     0 < sch_extcodecopy_base_gas s \<and> 0 < sch_extcodehash_gas s \<and> 0 < sch_balance_gas s \<and>
     0 < sch_blockhash_gas s"

lemma new_schedule_ok: "schedule_ok (new_schedule efcd hdc tcg) \<and> schedule_priced (new_schedule efcd hdc tcg)"
  by (simp add: new_schedule_def schedule_ok_def schedule_priced_def small_price_def)

lemma new_post_eip150_ok:
  "schedule_ok (new_post_eip150 m f n k) \<and> schedule_priced (new_post_eip150 m f n k)"
  by (simp add: new_post_eip150_def schedule_ok_def schedule_priced_def small_price_def)


end
