(* ===== verification/Vm_Types.thy ===== *)
theory Vm_Types
  imports Schedule
begin

text \<open>
  The types the virtual machine and its callers share: src/ethcore/vm/src (error.rs,
  call_type.rs, action_params.rs, env_info.rs, return_data.rs, ext.rs).

  The trait \<open>Ext\<close> is the record \<open>ext_ops\<close>: one field per method, over an abstract state \<open>'x\<close>.
  A method is an action on that state: the \<open>&mut self\<close> methods change it, and the queries,
  though \<open>&self\<close>, fill the caches behind the implementation's \<open>RefCell\<close>s. The accessors of
  fixed data (\<open>schedule\<close>, \<open>env_info\<close>, \<open>depth\<close>, \<open>is_static\<close>) are plain functions. The interpreter
  takes such a record as the source takes \<open>&mut vm::Ext\<close>.
\<close>

section \<open>Errors\<close>

datatype vm_error =
    OutOfGas
  | BadJumpDestination nat
  | BadInstruction u8
  | StackUnderflow string nat nat
  | OutOfStack string nat nat
  | BuiltIn string
  | MutableCallInStaticContext
  | Internal string
  | Wasm string
  | OutOfBounds
  | Reverted

type_synonym 'a vm_result = "(vm_error, 'a) outcome"

section \<open>Call types\<close>

datatype call_type = CT_None | CT_Call | CT_CallCode | CT_DelegateCall | CT_StaticCall

text \<open>The number that \<open>rlp_append\<close> writes and \<open>decode\<close> reads.\<close>

primrec call_type_code :: "call_type \<Rightarrow> 32 word" where
  "call_type_code CT_None = 0"
| "call_type_code CT_Call = 1"
| "call_type_code CT_CallCode = 2"
| "call_type_code CT_DelegateCall = 3"
| "call_type_code CT_StaticCall = 4"

definition call_type_decode :: "32 word \<Rightarrow> (string, call_type) outcome" where
  "call_type_decode v =
    (if v = 0 then Ok CT_None
     else if v = 1 then Ok CT_Call
     else if v = 2 then Ok CT_CallCode
     else if v = 3 then Ok CT_DelegateCall
     else if v = 4 then Ok CT_StaticCall
     else Err ''Invalid value of CallType item'')"

lemma call_type_decode_iff: "call_type_decode v = Ok c \<longleftrightarrow> call_type_code c = v"
  by (cases c) (auto simp: call_type_decode_def)

section \<open>Action parameters\<close>

datatype action_value = Transfer u256 | Apparent u256

primrec value_of :: "action_value \<Rightarrow> u256" where
  "value_of (Transfer x) = x"
| "value_of (Apparent x) = x"

datatype params_type = Embedded | Separate

record action_params =
  ap_code_address :: address
  ap_code_hash :: "h256 option"
  ap_address :: address
  ap_sender :: address
  ap_origin :: address
  ap_gas :: u256
  ap_gas_price :: u256
  ap_value :: action_value
  ap_code :: "bytes option"
  ap_data :: "bytes option"
  ap_call_type :: call_type
  ap_params_type :: params_type
  ap_is_input_private :: bool
  ap_is_output_private :: bool

text \<open>The hash of the empty string is a constant of the \<open>keccak-hash\<close> crate, a parameter here.\<close>

definition default_action_params :: "h256 \<Rightarrow> action_params" where
  "default_action_params keccak_empty =
    \<lparr>ap_code_address = 0, ap_code_hash = Some keccak_empty, ap_address = 0, ap_sender = 0,
     ap_origin = 0, ap_gas = 0, ap_gas_price = 0, ap_value = Transfer 0, ap_code = None,
     ap_data = None, ap_call_type = CT_None, ap_params_type = Separate,
     ap_is_input_private = False, ap_is_output_private = False\<rparr>"

section \<open>Environment and return data\<close>

record env_info =
  env_number :: u64
  env_author :: address
  env_timestamp :: u64
  env_difficulty :: u256
  env_gas_limit :: u256
  env_last_hashes :: "h256 list"
  env_gas_used :: u256

definition default_env_info :: env_info where
  "default_env_info = \<lparr>env_number = 0, env_author = 0, env_timestamp = 0, env_difficulty = 0,
     env_gas_limit = 0, env_last_hashes = [], env_gas_used = 0\<rparr>"

record return_data =
  rd_mem :: bytes
  rd_offset :: nat
  rd_size :: nat

definition empty_return_data :: return_data where
  "empty_return_data = \<lparr>rd_mem = [], rd_offset = 0, rd_size = 0\<rparr>"

definition new_return_data :: "bytes \<Rightarrow> nat \<Rightarrow> nat \<Rightarrow> return_data" where
  "new_return_data m off n = \<lparr>rd_mem = m, rd_offset = off, rd_size = n\<rparr>"

text \<open>\<open>Deref\<close> slices the buffer, and panics where the slice is out of its range.\<close>

definition return_data_deref :: "return_data \<Rightarrow> ('e, bytes) outcome" where
  "return_data_deref r =
    (if rd_offset r + rd_size r \<le> length (rd_mem r)
     then Ok (sub_range (rd_mem r) (rd_offset r) (rd_size r)) else Panic)"

definition return_data_ok :: "return_data \<Rightarrow> bool" where
  "return_data_ok r \<longleftrightarrow> rd_offset r + rd_size r \<le> length (rd_mem r)"

definition return_data_bytes :: "return_data \<Rightarrow> bytes" where
  "return_data_bytes r = sub_range (rd_mem r) (rd_offset r) (rd_size r)"

lemma return_data_deref_ok [simp]:
  "return_data_ok r \<Longrightarrow> return_data_deref r = Ok (return_data_bytes r)"
  by (simp add: return_data_ok_def return_data_deref_def return_data_bytes_def)

lemma empty_return_data_simps [simp]:
  "return_data_ok empty_return_data" "return_data_bytes empty_return_data = []"
  by (simp_all add: return_data_ok_def return_data_bytes_def empty_return_data_def sub_range_def)

lemma length_return_data_bytes [simp]: "return_data_ok r \<Longrightarrow> length (return_data_bytes r) = rd_size r"
  by (simp add: return_data_ok_def return_data_bytes_def length_sub_range)

datatype gas_left =
    Known u256
  | NeedsReturn u256 return_data bool

section \<open>Traps and results of nested executions\<close>

datatype trap_kind = Trap_Call action_params | Trap_Create action_params address

datatype contract_create_result =
    Created address u256
  | Create_Failed
  | Create_Reverted u256 return_data

datatype message_call_result =
    Call_Success u256 return_data
  | Call_Failed
  | Call_Reverted u256 return_data

datatype create_contract_address =
    FromSenderAndNonce
  | FromSenderSaltAndCodeHash h256
  | FromSenderAndCodeHash

section \<open>The externalities interface\<close>

record 'x ext_ops =
  ext_initial_storage_at :: "h256 \<Rightarrow> ('x, vm_error, h256) action"
  ext_storage_at :: "h256 \<Rightarrow> ('x, vm_error, h256) action"
  ext_set_storage :: "h256 \<Rightarrow> h256 \<Rightarrow> ('x, vm_error, unit) action"
  ext_exists :: "address \<Rightarrow> ('x, vm_error, bool) action"
  ext_exists_and_not_null :: "address \<Rightarrow> ('x, vm_error, bool) action"
  ext_origin_balance :: "('x, vm_error, u256) action"
  ext_balance :: "address \<Rightarrow> ('x, vm_error, u256) action"
  ext_blockhash :: "u256 \<Rightarrow> ('x, vm_error, h256) action"
  ext_create :: "u256 \<Rightarrow> u256 \<Rightarrow> bytes \<Rightarrow> create_contract_address \<Rightarrow> bool \<Rightarrow>
     ('x, vm_error, trap_kind + contract_create_result) action"
  ext_call :: "u256 \<Rightarrow> address \<Rightarrow> address \<Rightarrow> u256 option \<Rightarrow> bytes \<Rightarrow> address \<Rightarrow> call_type \<Rightarrow> bool \<Rightarrow>
     ('x, vm_error, trap_kind + message_call_result) action"
  ext_extcode :: "address \<Rightarrow> ('x, vm_error, bytes option) action"
  ext_extcodehash :: "address \<Rightarrow> ('x, vm_error, h256 option) action"
  ext_extcodesize :: "address \<Rightarrow> ('x, vm_error, nat option) action"
  ext_log :: "h256 list \<Rightarrow> bytes \<Rightarrow> ('x, vm_error, unit) action"
  ext_ret :: "u256 \<Rightarrow> return_data \<Rightarrow> bool \<Rightarrow> ('x, vm_error, u256) action"
  ext_suicide :: "address \<Rightarrow> ('x, vm_error, unit) action"
  ext_schedule :: "'x \<Rightarrow> schedule"
  ext_env_info :: "'x \<Rightarrow> env_info"
  ext_depth :: "'x \<Rightarrow> nat"
  ext_add_sstore_refund :: "usize \<Rightarrow> ('x, vm_error, unit) action"
  ext_sub_sstore_refund :: "usize \<Rightarrow> ('x, vm_error, unit) action"
  ext_trace_next_instruction :: "nat \<Rightarrow> u8 \<Rightarrow> u256 \<Rightarrow> 'x \<Rightarrow> bool \<times> 'x"
  ext_trace_prepare_execute ::
    "nat \<Rightarrow> u8 \<Rightarrow> u256 \<Rightarrow> (nat \<times> nat) option \<Rightarrow> (u256 \<times> u256) option \<Rightarrow> 'x \<Rightarrow> 'x"
  ext_trace_executed :: "u256 \<Rightarrow> u256 list \<Rightarrow> bytes \<Rightarrow> 'x \<Rightarrow> 'x"
  ext_is_static :: "'x \<Rightarrow> bool"

section \<open>Finalization\<close>

text \<open>\<open>Finalize\<close> of src/ethcore/evm/src/evm.rs: the result of an execution, after \<open>ret\<close>.\<close>

record finalization_result =
  fin_gas_left :: u256
  fin_apply_state :: bool
  fin_return_data :: return_data

definition finalize ::
  "'x ext_ops \<Rightarrow> gas_left vm_result \<Rightarrow> ('x, vm_error, finalization_result) action" where
  "finalize E r = (case r of
      Ok (Known g) \<Rightarrow> ret \<lparr>fin_gas_left = g, fin_apply_state = True, fin_return_data = empty_return_data\<rparr>
    | Ok (NeedsReturn g data apply_state) \<Rightarrow>
        bind (ext_ret E g data apply_state) (\<lambda>g'.
        ret \<lparr>fin_gas_left = g', fin_apply_state = apply_state, fin_return_data = data\<rparr>)
    | Err e \<Rightarrow> fail e
    | Panic \<Rightarrow> panic)"

end
