(* ===== verification/Cost.thy ===== *)
theory Cost
  imports Vm_Types
begin

text \<open>
  The trait \<open>CostType\<close> of src/ethcore/evm/src/evm.rs, in which the interpreter counts gas. It has
  two implementations, \<open>usize\<close> and \<open>U256\<close>; both are words, so the operations are defined once
  for any width \<open>'g\<close> and read as the two implementations at the widths 64 and 256.
\<close>

definition cost_of :: "usize \<Rightarrow> 'g::len word" where
  "cost_of n = ucast n"

definition as_u256 :: "'g::len word \<Rightarrow> u256" where
  "as_u256 g = ucast g"

definition from_u256 :: "u256 \<Rightarrow> ('g::len word) vm_result" where
  "from_u256 val = (let res = ucast val in if ucast res \<noteq> val then Err OutOfGas else Ok res)"

definition as_usize :: "'g::len word \<Rightarrow> ('e, usize) outcome" where
  "as_usize g = (if unat g < 2 ^ 64 then Ok (ucast g) else Panic)"

definition overflow_add :: "'g::len word \<Rightarrow> 'g word \<Rightarrow> 'g word \<times> bool" where
  "overflow_add a b = overflowing_add a b"

definition overflow_mul :: "'g::len word \<Rightarrow> 'g word \<Rightarrow> 'g word \<times> bool" where
  "overflow_mul a b = overflowing_mul a b"

text \<open>
  Both implementations form the double-width product, raise the flag when the high half of the
  product (before the shift) is not zero, and keep the low half of the shifted product.
\<close>

definition overflow_mul_shr :: "'g::len word \<Rightarrow> 'g word \<Rightarrow> nat \<Rightarrow> 'g word \<times> bool" where
  "overflow_mul_shr a b shr =
    (let x = unat a * unat b in (word_of_nat (x div 2 ^ shr), 2 ^ LENGTH('g) \<le> x))"

text \<open>The macro \<open>overflowing!\<close> of gasometer.rs.\<close>

definition overflowing :: "'a \<times> bool \<Rightarrow> 'a vm_result" where
  "overflowing p = (if snd p then Err OutOfGas else Ok (fst p))"

lemma from_u256_iff:
  "from_u256 v = Ok (g :: 'g::len word) \<longleftrightarrow> g = ucast v \<and> (ucast (ucast v :: 'g word) :: u256) = v"
  by (auto simp: from_u256_def Let_def)

lemma from_u256_usize_iff: "from_u256 v = Ok (g :: usize) \<longleftrightarrow> unat v < 2 ^ 64 \<and> unat g = unat v"
proof -
  have "(ucast (ucast v :: usize) :: u256) = v \<longleftrightarrow> unat v < 2 ^ 64"
    by (simp add: word_eq_unat [of _ v] unat_ucast mod_less_eq_dividend) (metis mod_less mod_less_divisor zero_less_numeral)
  then show ?thesis
    by (auto simp: from_u256_iff word_eq_unat [of g] unat_ucast)
qed

lemma from_u256_no_panic [simp]: "from_u256 v \<noteq> Panic"
  by (simp add: from_u256_def Let_def)

lemma as_usize_usize [simp]: "as_usize (g :: usize) = Ok g"
  using unat_below [of g] by (simp add: as_usize_def)

lemma unat_cost_of: "64 \<le> LENGTH('g) \<Longrightarrow> unat (cost_of n :: 'g::len word) = unat n"
  by (simp add: cost_of_def unat_ucast_up)

lemma cost_of_usize [simp]: "(cost_of n :: usize) = n"
  by (simp add: cost_of_def)

lemma unat_as_u256: "LENGTH('g) \<le> 256 \<Longrightarrow> unat (as_u256 (g :: 'g::len word)) = unat g"
  by (simp add: as_u256_def unat_ucast_up)

lemma overflowing_add_iff:
  "overflowing (overflow_add a b) = Ok c \<longleftrightarrow> unat a + unat b < 2 ^ LENGTH('g) \<and> c = (a + b :: 'g::len word)"
  by (auto simp: overflowing_def overflow_add_def overflowing_add_def)

lemma overflowing_mul_iff:
  "overflowing (overflow_mul a b) = Ok c \<longleftrightarrow> unat a * unat b < 2 ^ LENGTH('g) \<and> c = (a * b :: 'g::len word)"
  by (auto simp: overflowing_def overflow_mul_def overflowing_mul_def)

lemma overflowing_unat_add:
  "overflowing (overflow_add a b) = Ok c \<Longrightarrow> unat c = unat a + unat b"
  by (auto simp: overflowing_add_iff unat_plus_exact)

lemma overflowing_unat_mul:
  "overflowing (overflow_mul a b) = Ok c \<Longrightarrow> unat c = unat a * unat b"
  by (auto simp: overflowing_mul_iff unat_times_exact)

lemma overflowing_unat_mul_shr:
  "overflowing (overflow_mul_shr a b s) = Ok c \<Longrightarrow> unat c = unat a * unat b div 2 ^ s"
  by (auto simp: overflowing_def overflow_mul_shr_def Let_def unat_of_nat split: if_splits)
    (meson div_le_dividend le_less_trans mod_less not_le)

lemma overflowing_no_panic [simp]: "overflowing p \<noteq> Panic"
  by (simp add: overflowing_def)

end
