(* ===== verification/Instructions.thy ===== *)
theory Instructions
  imports Prelude
begin

text \<open>
  The instruction set of the virtual machine: src/ethcore/evm/src/instructions.rs.

  The enum \<open>Instruction\<close> is the datatype \<open>instruction\<close>. The 32 variants \<open>PUSH1\<close> to
  \<open>PUSH32\<close> are \<open>PUSH k\<close> with a 5-bit index (\<open>PUSH1\<close> is \<open>PUSH 0\<close>), the variants \<open>DUP1\<close> to
  \<open>DUP16\<close> and \<open>SWAP1\<close> to \<open>SWAP16\<close> are \<open>DUP k\<close> and \<open>SWAP k\<close> with a 4-bit index: the same
  139 values, one constructor per family. \<open>AND\<close>, \<open>OR\<close>, \<open>XOR\<close> and \<open>NOT\<close> carry the
  suffix \<open>_OP\<close>, their names being operators of HOL. \<open>u8_of\<close> is \<open>as u8\<close>, \<open>from_u8\<close> its inverse, and the
  derived order is the order of the discriminants. The static table \<open>INSTRUCTIONS\<close> is the
  list of the assignments that fill it.
\<close>

section \<open>The enum and its discriminants\<close>

datatype (plugins only:) instruction =
    STOP | ADD | MUL | SUB | DIV | SDIV | MOD | SMOD | ADDMOD | MULMOD | EXP | SIGNEXTEND |
    LT | GT | SLT | SGT | EQ | ISZERO | AND_OP | OR_OP | XOR_OP | NOT_OP | BYTE | SHL | SHR |
    SAR | SHA3 | ADDRESS | BALANCE | ORIGIN | CALLER | CALLVALUE | CALLDATALOAD |
    CALLDATASIZE | CALLDATACOPY | CODESIZE | CODECOPY | GASPRICE | EXTCODESIZE | EXTCODECOPY |
    RETURNDATASIZE | RETURNDATACOPY | EXTCODEHASH | BLOCKHASH | COINBASE | TIMESTAMP | NUMBER |
    DIFFICULTY | GASLIMIT | POP | MLOAD | MSTORE | MSTORE8 | SLOAD | SSTORE | JUMP | JUMPI |
    PC | MSIZE | GAS | JUMPDEST | PUSH "5 word" | DUP "4 word" | SWAP "4 word" | LOG0 | LOG1 |
    LOG2 | LOG3 | LOG4 | CREATE | CALL | CALLCODE | RETURN | DELEGATECALL | CREATE2 | REVERT |
    STATICCALL | SUICIDE

primrec u8_of :: "instruction \<Rightarrow> u8" where
  "u8_of STOP = 0x00"
| "u8_of ADD = 0x01"
| "u8_of MUL = 0x02"
| "u8_of SUB = 0x03"
| "u8_of DIV = 0x04"
| "u8_of SDIV = 0x05"
| "u8_of MOD = 0x06"
| "u8_of SMOD = 0x07"
| "u8_of ADDMOD = 0x08"
| "u8_of MULMOD = 0x09"
| "u8_of EXP = 0x0a"
| "u8_of SIGNEXTEND = 0x0b"
| "u8_of LT = 0x10"
| "u8_of GT = 0x11"
| "u8_of SLT = 0x12"
| "u8_of SGT = 0x13"
| "u8_of EQ = 0x14"
| "u8_of ISZERO = 0x15"
| "u8_of AND_OP = 0x16"
| "u8_of OR_OP = 0x17"
| "u8_of XOR_OP = 0x18"
| "u8_of NOT_OP = 0x19"
| "u8_of BYTE = 0x1a"
| "u8_of SHL = 0x1b"
| "u8_of SHR = 0x1c"
| "u8_of SAR = 0x1d"
| "u8_of SHA3 = 0x20"
| "u8_of ADDRESS = 0x30"
| "u8_of BALANCE = 0x31"
| "u8_of ORIGIN = 0x32"
| "u8_of CALLER = 0x33"
| "u8_of CALLVALUE = 0x34"
| "u8_of CALLDATALOAD = 0x35"
| "u8_of CALLDATASIZE = 0x36"
| "u8_of CALLDATACOPY = 0x37"
| "u8_of CODESIZE = 0x38"
| "u8_of CODECOPY = 0x39"
| "u8_of GASPRICE = 0x3a"
| "u8_of EXTCODESIZE = 0x3b"
| "u8_of EXTCODECOPY = 0x3c"
| "u8_of RETURNDATASIZE = 0x3d"
| "u8_of RETURNDATACOPY = 0x3e"
| "u8_of EXTCODEHASH = 0x3f"
| "u8_of BLOCKHASH = 0x40"
| "u8_of COINBASE = 0x41"
| "u8_of TIMESTAMP = 0x42"
| "u8_of NUMBER = 0x43"
| "u8_of DIFFICULTY = 0x44"
| "u8_of GASLIMIT = 0x45"
| "u8_of POP = 0x50"
| "u8_of MLOAD = 0x51"
| "u8_of MSTORE = 0x52"
| "u8_of MSTORE8 = 0x53"
| "u8_of SLOAD = 0x54"
| "u8_of SSTORE = 0x55"
| "u8_of JUMP = 0x56"
| "u8_of JUMPI = 0x57"
| "u8_of PC = 0x58"
| "u8_of MSIZE = 0x59"
| "u8_of GAS = 0x5a"
| "u8_of JUMPDEST = 0x5b"
| "u8_of (PUSH k) = 0x60 + ucast k"
| "u8_of (DUP k) = 0x80 + ucast k"
| "u8_of (SWAP k) = 0x90 + ucast k"
| "u8_of LOG0 = 0xa0"
| "u8_of LOG1 = 0xa1"
| "u8_of LOG2 = 0xa2"
| "u8_of LOG3 = 0xa3"
| "u8_of LOG4 = 0xa4"
| "u8_of CREATE = 0xf0"
| "u8_of CALL = 0xf1"
| "u8_of CALLCODE = 0xf2"
| "u8_of RETURN = 0xf3"
| "u8_of DELEGATECALL = 0xf4"
| "u8_of CREATE2 = 0xf5"
| "u8_of REVERT = 0xfd"
| "u8_of STATICCALL = 0xfa"
| "u8_of SUICIDE = 0xff"

abbreviation PUSH1 :: instruction where "PUSH1 \<equiv> PUSH 0"
abbreviation PUSH32 :: instruction where "PUSH32 \<equiv> PUSH 31"
abbreviation DUP1 :: instruction where "DUP1 \<equiv> DUP 0"
abbreviation DUP16 :: instruction where "DUP16 \<equiv> DUP 15"
abbreviation SWAP1 :: instruction where "SWAP1 \<equiv> SWAP 0"
abbreviation SWAP16 :: instruction where "SWAP16 \<equiv> SWAP 15"

definition discriminators :: "(u8 \<times> instruction) list" where
  "discriminators = [
    (0x00, STOP), (0x01, ADD), (0x02, MUL), (0x03, SUB), (0x04, DIV), (0x05, SDIV),
    (0x06, MOD), (0x07, SMOD), (0x08, ADDMOD), (0x09, MULMOD), (0x0a, EXP), (0x0b, SIGNEXTEND),
    (0x10, LT), (0x11, GT), (0x12, SLT), (0x13, SGT), (0x14, EQ), (0x15, ISZERO),
    (0x16, AND_OP), (0x17, OR_OP), (0x18, XOR_OP), (0x19, NOT_OP), (0x1a, BYTE), (0x1b, SHL),
    (0x1c, SHR), (0x1d, SAR), (0x20, SHA3), (0x30, ADDRESS), (0x31, BALANCE), (0x32, ORIGIN),
    (0x33, CALLER), (0x34, CALLVALUE), (0x35, CALLDATALOAD), (0x36, CALLDATASIZE),
    (0x37, CALLDATACOPY), (0x38, CODESIZE), (0x39, CODECOPY), (0x3a, GASPRICE),
    (0x3b, EXTCODESIZE), (0x3c, EXTCODECOPY), (0x3d, RETURNDATASIZE), (0x3e, RETURNDATACOPY),
    (0x3f, EXTCODEHASH), (0x40, BLOCKHASH), (0x41, COINBASE), (0x42, TIMESTAMP),
    (0x43, NUMBER), (0x44, DIFFICULTY), (0x45, GASLIMIT), (0x50, POP), (0x51, MLOAD),
    (0x52, MSTORE), (0x53, MSTORE8), (0x54, SLOAD), (0x55, SSTORE), (0x56, JUMP),
    (0x57, JUMPI), (0x58, PC), (0x59, MSIZE), (0x5a, GAS), (0x5b, JUMPDEST), (0xa0, LOG0),
    (0xa1, LOG1), (0xa2, LOG2), (0xa3, LOG3), (0xa4, LOG4), (0xf0, CREATE), (0xf1, CALL),
    (0xf2, CALLCODE), (0xf3, RETURN), (0xf4, DELEGATECALL), (0xf5, CREATE2), (0xfd, REVERT),
    (0xfa, STATICCALL), (0xff, SUICIDE)]"

definition from_u8 :: "u8 \<Rightarrow> instruction option" where
  "from_u8 v =
    (if 0x60 \<le> v \<and> v \<le> 0x7f then Some (PUSH (ucast (v - 0x60)))
     else if 0x80 \<le> v \<and> v \<le> 0x8f then Some (DUP (ucast (v - 0x80)))
     else if 0x90 \<le> v \<and> v \<le> 0x9f then Some (SWAP (ucast (v - 0x90)))
     else map_of discriminators v)"

section \<open>The instruction table\<close>

datatype gas_price_tier = Tier_Zero | Tier_Base | Tier_VeryLow | Tier_Low | Tier_Mid | Tier_High
  | Tier_Ext | Tier_Special

primrec idx :: "gas_price_tier \<Rightarrow> nat" where
  "idx Tier_Zero = 0"
| "idx Tier_Base = 1"
| "idx Tier_VeryLow = 2"
| "idx Tier_Low = 3"
| "idx Tier_Mid = 4"
| "idx Tier_High = 5"
| "idx Tier_Ext = 6"
| "idx Tier_Special = 7"

record instruction_info =
  info_name :: string
  info_args :: nat
  info_ret :: nat
  info_tier :: gas_price_tier

definition new_info :: "string \<Rightarrow> nat \<Rightarrow> nat \<Rightarrow> gas_price_tier \<Rightarrow> instruction_info" where
  "new_info nm a r t = \<lparr>info_name = nm, info_args = a, info_ret = r, info_tier = t\<rparr>"

definition basic_table :: "(instruction \<times> instruction_info) list" where
  "basic_table = [
     (STOP, new_info ''STOP'' 0 0 Tier_Zero),
     (ADD, new_info ''ADD'' 2 1 Tier_VeryLow),
     (SUB, new_info ''SUB'' 2 1 Tier_VeryLow),
     (MUL, new_info ''MUL'' 2 1 Tier_Low),
     (DIV, new_info ''DIV'' 2 1 Tier_Low),
     (SDIV, new_info ''SDIV'' 2 1 Tier_Low),
     (MOD, new_info ''MOD'' 2 1 Tier_Low),
     (SMOD, new_info ''SMOD'' 2 1 Tier_Low),
     (EXP, new_info ''EXP'' 2 1 Tier_Special),
     (NOT_OP, new_info ''NOT'' 1 1 Tier_VeryLow),
     (LT, new_info ''LT'' 2 1 Tier_VeryLow),
     (GT, new_info ''GT'' 2 1 Tier_VeryLow),
     (SLT, new_info ''SLT'' 2 1 Tier_VeryLow),
     (SGT, new_info ''SGT'' 2 1 Tier_VeryLow),
     (EQ, new_info ''EQ'' 2 1 Tier_VeryLow),
     (ISZERO, new_info ''ISZERO'' 1 1 Tier_VeryLow),
     (AND_OP, new_info ''AND'' 2 1 Tier_VeryLow),
     (OR_OP, new_info ''OR'' 2 1 Tier_VeryLow),
     (XOR_OP, new_info ''XOR'' 2 1 Tier_VeryLow),
     (BYTE, new_info ''BYTE'' 2 1 Tier_VeryLow),
     (SHL, new_info ''SHL'' 2 1 Tier_VeryLow),
     (SHR, new_info ''SHR'' 2 1 Tier_VeryLow),
     (SAR, new_info ''SAR'' 2 1 Tier_VeryLow),
     (ADDMOD, new_info ''ADDMOD'' 3 1 Tier_Mid),
     (MULMOD, new_info ''MULMOD'' 3 1 Tier_Mid),
     (SIGNEXTEND, new_info ''SIGNEXTEND'' 2 1 Tier_Low),
     (RETURNDATASIZE, new_info ''RETURNDATASIZE'' 0 1 Tier_Base),
     (RETURNDATACOPY, new_info ''RETURNDATACOPY'' 3 0 Tier_VeryLow),
     (SHA3, new_info ''SHA3'' 2 1 Tier_Special),
     (ADDRESS, new_info ''ADDRESS'' 0 1 Tier_Base),
     (BALANCE, new_info ''BALANCE'' 1 1 Tier_Special),
     (ORIGIN, new_info ''ORIGIN'' 0 1 Tier_Base),
     (CALLER, new_info ''CALLER'' 0 1 Tier_Base),
     (CALLVALUE, new_info ''CALLVALUE'' 0 1 Tier_Base),
     (CALLDATALOAD, new_info ''CALLDATALOAD'' 1 1 Tier_VeryLow),
     (CALLDATASIZE, new_info ''CALLDATASIZE'' 0 1 Tier_Base),
     (CALLDATACOPY, new_info ''CALLDATACOPY'' 3 0 Tier_VeryLow),
     (EXTCODEHASH, new_info ''EXTCODEHASH'' 1 1 Tier_Special),
     (CODESIZE, new_info ''CODESIZE'' 0 1 Tier_Base),
     (CODECOPY, new_info ''CODECOPY'' 3 0 Tier_VeryLow),
     (GASPRICE, new_info ''GASPRICE'' 0 1 Tier_Base),
     (EXTCODESIZE, new_info ''EXTCODESIZE'' 1 1 Tier_Special),
     (EXTCODECOPY, new_info ''EXTCODECOPY'' 4 0 Tier_Special),
     (BLOCKHASH, new_info ''BLOCKHASH'' 1 1 Tier_Ext),
     (COINBASE, new_info ''COINBASE'' 0 1 Tier_Base),
     (TIMESTAMP, new_info ''TIMESTAMP'' 0 1 Tier_Base),
     (NUMBER, new_info ''NUMBER'' 0 1 Tier_Base),
     (DIFFICULTY, new_info ''DIFFICULTY'' 0 1 Tier_Base),
     (GASLIMIT, new_info ''GASLIMIT'' 0 1 Tier_Base),
     (POP, new_info ''POP'' 1 0 Tier_Base),
     (MLOAD, new_info ''MLOAD'' 1 1 Tier_VeryLow),
     (MSTORE, new_info ''MSTORE'' 2 0 Tier_VeryLow),
     (MSTORE8, new_info ''MSTORE8'' 2 0 Tier_VeryLow),
     (SLOAD, new_info ''SLOAD'' 1 1 Tier_Special),
     (SSTORE, new_info ''SSTORE'' 2 0 Tier_Special),
     (JUMP, new_info ''JUMP'' 1 0 Tier_Mid),
     (JUMPI, new_info ''JUMPI'' 2 0 Tier_High),
     (PC, new_info ''PC'' 0 1 Tier_Base),
     (MSIZE, new_info ''MSIZE'' 0 1 Tier_Base),
     (GAS, new_info ''GAS'' 0 1 Tier_Base),
     (JUMPDEST, new_info ''JUMPDEST'' 0 0 Tier_Special)]"

text \<open>The index in a mnemonic such as \<open>PUSH12\<close>.\<close>

definition decimal :: "nat \<Rightarrow> string" where
  "decimal n = (if n < 10 then [char_of (48 + n)] else [char_of (48 + n div 10), char_of (48 + n mod 10)])"

definition push_table :: "(instruction \<times> instruction_info) list" where
  "push_table = map (\<lambda>n. (PUSH (word_of_nat n), new_info (''PUSH'' @ decimal (n + 1)) 0 1 Tier_VeryLow)) [0..<32]"

definition dup_table :: "(instruction \<times> instruction_info) list" where
  "dup_table = map (\<lambda>n. (DUP (word_of_nat n), new_info (''DUP'' @ decimal (n + 1)) (n + 1) (n + 2) Tier_VeryLow)) [0..<16]"

definition swap_table :: "(instruction \<times> instruction_info) list" where
  "swap_table = map (\<lambda>n. (SWAP (word_of_nat n), new_info (''SWAP'' @ decimal (n + 1)) (n + 2) (n + 2) Tier_VeryLow)) [0..<16]"

definition system_table :: "(instruction \<times> instruction_info) list" where
  "system_table = [
     (LOG0, new_info ''LOG0'' 2 0 Tier_Special),
     (LOG1, new_info ''LOG1'' 3 0 Tier_Special),
     (LOG2, new_info ''LOG2'' 4 0 Tier_Special),
     (LOG3, new_info ''LOG3'' 5 0 Tier_Special),
     (LOG4, new_info ''LOG4'' 6 0 Tier_Special),
     (CREATE, new_info ''CREATE'' 3 1 Tier_Special),
     (CALL, new_info ''CALL'' 7 1 Tier_Special),
     (CALLCODE, new_info ''CALLCODE'' 7 1 Tier_Special),
     (RETURN, new_info ''RETURN'' 2 0 Tier_Zero),
     (DELEGATECALL, new_info ''DELEGATECALL'' 6 1 Tier_Special),
     (STATICCALL, new_info ''STATICCALL'' 6 1 Tier_Special),
     (SUICIDE, new_info ''SUICIDE'' 1 0 Tier_Special),
     (CREATE2, new_info ''CREATE2'' 4 1 Tier_Special),
     (REVERT, new_info ''REVERT'' 2 0 Tier_Zero)]"

definition INSTRUCTIONS :: "instruction \<Rightarrow> instruction_info option" where
  "INSTRUCTIONS i = map_of (basic_table @ push_table @ dup_table @ swap_table @ system_table) i"

definition info :: "instruction \<Rightarrow> ('e, instruction_info) outcome" where
  "info i = expect (INSTRUCTIONS i)"

section \<open>The discriminants are a bijection\<close>

lemma five_bit: "unat (k :: 5 word) \<le> 31" and four_bit: "unat (j :: 4 word) \<le> 15"
  using unat_below [of k] unat_below [of j] by simp_all

lemma family_unat:
  "unat (0x60 + ucast (k :: 5 word) :: u8) = 0x60 + unat k"
  "unat (0x80 + ucast (j :: 4 word) :: u8) = 0x80 + unat j"
  "unat (0x90 + ucast (j :: 4 word) :: u8) = 0x90 + unat j"
  using five_bit [of k] four_bit [of j]
  by (simp_all add: unat_word_ariths unat_ucast)

lemma family_index:
  "ucast (ucast (k :: 5 word) :: u8) = k" "ucast (ucast (j :: 4 word) :: u8) = j"
  using five_bit [of k] four_bit [of j]
  by (simp_all add: word_eq_unat [of _ k] word_eq_unat [of _ j] unat_ucast)

lemma family_byte:
  "0x60 \<le> v \<Longrightarrow> v \<le> 0x7f \<Longrightarrow> 0x60 + ucast (ucast (v - 0x60) :: 5 word) = (v :: u8)"
  "0x80 \<le> v \<Longrightarrow> v \<le> 0x8f \<Longrightarrow> 0x80 + ucast (ucast (v - 0x80) :: 4 word) = (v :: u8)"
  "0x90 \<le> v \<Longrightarrow> v \<le> 0x9f \<Longrightarrow> 0x90 + ucast (ucast (v - 0x90) :: 4 word) = (v :: u8)"
  by (simp_all add: word_eq_unat [of _ v] family_unat unat_ucast unat_sub word_le_nat_alt)

lemma from_u8_u8_of: "from_u8 (u8_of i) = Some i"
  using five_bit four_bit
  by (cases i) (simp_all add: from_u8_def discriminators_def family_unat family_index word_le_nat_alt)

lemma discriminators_u8_of: "\<forall>p \<in> set discriminators. u8_of (snd p) = fst p"
  by (simp add: discriminators_def)

lemma from_u8_SomeD: 
  assumes "from_u8 v = Some i" 
  shows "u8_of i = v"
  using assms map_of_SomeD [of discriminators v i] bspec [OF discriminators_u8_of, of "(v, i)"]
  by (auto simp: from_u8_def family_byte split: if_splits)


lemma u8_of_inject: "u8_of i = u8_of j \<longleftrightarrow> i = j"
proof
  assume "u8_of i = u8_of j"
  then have "from_u8 (u8_of i) = from_u8 (u8_of j)" by (rule arg_cong)
  then show "i = j" by (simp only: from_u8_u8_of option.inject)
next
  assume "i = j"
  then show "u8_of i = u8_of j" by (simp only:)
qed

section \<open>Reading the table\<close>

lemma map_of_family:
  assumes "\<And>m n. m < N \<Longrightarrow> n < N \<Longrightarrow> c m = c n \<Longrightarrow> m = n" "n < N"
  shows "map_of (map (\<lambda>n. (c n, f n)) [0..<N]) (c n) = Some (f n)"
proof -
  have "inj_on c {0..<N}" using assms(1) by (auto simp: inj_on_def)
  then have "distinct (map fst (map (\<lambda>n. (c n, f n)) [0..<N]))"
    by (simp add: comp_def distinct_map)
  moreover have "(c n, f n) \<in> set (map (\<lambda>n. (c n, f n)) [0..<N])" using assms(2) by auto
  ultimately show ?thesis by (rule map_of_is_SomeI)
qed

lemma map_of_family_other:
  assumes "\<And>n. c n \<noteq> i"
  shows "map_of (map (\<lambda>n. (c n, f n)) ns) i = None"
  using assms by (induction ns) auto

lemma family_tables:
  "map_of push_table (PUSH k) = Some (new_info (''PUSH'' @ decimal (unat k + 1)) 0 1 Tier_VeryLow)"
  "map_of dup_table (DUP j) = Some (new_info (''DUP'' @ decimal (unat j + 1)) (unat j + 1) (unat j + 2) Tier_VeryLow)"
  "map_of swap_table (SWAP j) = Some (new_info (''SWAP'' @ decimal (unat j + 1)) (unat j + 2) (unat j + 2) Tier_VeryLow)"
  unfolding push_table_def dup_table_def swap_table_def
  using map_of_family [of 32 "\<lambda>n. PUSH (word_of_nat n)" "unat k"]
    map_of_family [of 16 "\<lambda>n. DUP (word_of_nat n)" "unat j"]
    map_of_family [of 16 "\<lambda>n. SWAP (word_of_nat n)" "unat j"] five_bit [of k] four_bit [of j]
  by (simp_all add: of_nat_inverse word_eq_unat unat_of_nat)

lemma family_tables_other:
  "(\<And>k. PUSH k \<noteq> i) \<Longrightarrow> map_of push_table i = None"
  "(\<And>j. DUP j \<noteq> i) \<Longrightarrow> map_of dup_table i = None"
  "(\<And>j. SWAP j \<noteq> i) \<Longrightarrow> map_of swap_table i = None"
  by (simp_all add: push_table_def dup_table_def swap_table_def map_of_family_other)

lemma INSTRUCTIONS_basic [simp]:
  "INSTRUCTIONS STOP = Some (new_info ''STOP'' 0 0 Tier_Zero)"
  "INSTRUCTIONS ADD = Some (new_info ''ADD'' 2 1 Tier_VeryLow)"
  "INSTRUCTIONS SUB = Some (new_info ''SUB'' 2 1 Tier_VeryLow)"
  "INSTRUCTIONS MUL = Some (new_info ''MUL'' 2 1 Tier_Low)"
  "INSTRUCTIONS DIV = Some (new_info ''DIV'' 2 1 Tier_Low)"
  "INSTRUCTIONS SDIV = Some (new_info ''SDIV'' 2 1 Tier_Low)"
  "INSTRUCTIONS MOD = Some (new_info ''MOD'' 2 1 Tier_Low)"
  "INSTRUCTIONS SMOD = Some (new_info ''SMOD'' 2 1 Tier_Low)"
  "INSTRUCTIONS EXP = Some (new_info ''EXP'' 2 1 Tier_Special)"
  "INSTRUCTIONS NOT_OP = Some (new_info ''NOT'' 1 1 Tier_VeryLow)"
  "INSTRUCTIONS LT = Some (new_info ''LT'' 2 1 Tier_VeryLow)"
  "INSTRUCTIONS GT = Some (new_info ''GT'' 2 1 Tier_VeryLow)"
  "INSTRUCTIONS SLT = Some (new_info ''SLT'' 2 1 Tier_VeryLow)"
  "INSTRUCTIONS SGT = Some (new_info ''SGT'' 2 1 Tier_VeryLow)"
  "INSTRUCTIONS EQ = Some (new_info ''EQ'' 2 1 Tier_VeryLow)"
  "INSTRUCTIONS ISZERO = Some (new_info ''ISZERO'' 1 1 Tier_VeryLow)"
  "INSTRUCTIONS AND_OP = Some (new_info ''AND'' 2 1 Tier_VeryLow)"
  "INSTRUCTIONS OR_OP = Some (new_info ''OR'' 2 1 Tier_VeryLow)"
  "INSTRUCTIONS XOR_OP = Some (new_info ''XOR'' 2 1 Tier_VeryLow)"
  "INSTRUCTIONS BYTE = Some (new_info ''BYTE'' 2 1 Tier_VeryLow)"
  "INSTRUCTIONS SHL = Some (new_info ''SHL'' 2 1 Tier_VeryLow)"
  "INSTRUCTIONS SHR = Some (new_info ''SHR'' 2 1 Tier_VeryLow)"
  "INSTRUCTIONS SAR = Some (new_info ''SAR'' 2 1 Tier_VeryLow)"
  "INSTRUCTIONS ADDMOD = Some (new_info ''ADDMOD'' 3 1 Tier_Mid)"
  "INSTRUCTIONS MULMOD = Some (new_info ''MULMOD'' 3 1 Tier_Mid)"
  "INSTRUCTIONS SIGNEXTEND = Some (new_info ''SIGNEXTEND'' 2 1 Tier_Low)"
  "INSTRUCTIONS RETURNDATASIZE = Some (new_info ''RETURNDATASIZE'' 0 1 Tier_Base)"
  "INSTRUCTIONS RETURNDATACOPY = Some (new_info ''RETURNDATACOPY'' 3 0 Tier_VeryLow)"
  "INSTRUCTIONS SHA3 = Some (new_info ''SHA3'' 2 1 Tier_Special)"
  "INSTRUCTIONS ADDRESS = Some (new_info ''ADDRESS'' 0 1 Tier_Base)"
  "INSTRUCTIONS BALANCE = Some (new_info ''BALANCE'' 1 1 Tier_Special)"
  "INSTRUCTIONS ORIGIN = Some (new_info ''ORIGIN'' 0 1 Tier_Base)"
  "INSTRUCTIONS CALLER = Some (new_info ''CALLER'' 0 1 Tier_Base)"
  "INSTRUCTIONS CALLVALUE = Some (new_info ''CALLVALUE'' 0 1 Tier_Base)"
  "INSTRUCTIONS CALLDATALOAD = Some (new_info ''CALLDATALOAD'' 1 1 Tier_VeryLow)"
  "INSTRUCTIONS CALLDATASIZE = Some (new_info ''CALLDATASIZE'' 0 1 Tier_Base)"
  "INSTRUCTIONS CALLDATACOPY = Some (new_info ''CALLDATACOPY'' 3 0 Tier_VeryLow)"
  "INSTRUCTIONS EXTCODEHASH = Some (new_info ''EXTCODEHASH'' 1 1 Tier_Special)"
  "INSTRUCTIONS CODESIZE = Some (new_info ''CODESIZE'' 0 1 Tier_Base)"
  "INSTRUCTIONS CODECOPY = Some (new_info ''CODECOPY'' 3 0 Tier_VeryLow)"
  "INSTRUCTIONS GASPRICE = Some (new_info ''GASPRICE'' 0 1 Tier_Base)"
  "INSTRUCTIONS EXTCODESIZE = Some (new_info ''EXTCODESIZE'' 1 1 Tier_Special)"
  "INSTRUCTIONS EXTCODECOPY = Some (new_info ''EXTCODECOPY'' 4 0 Tier_Special)"
  "INSTRUCTIONS BLOCKHASH = Some (new_info ''BLOCKHASH'' 1 1 Tier_Ext)"
  "INSTRUCTIONS COINBASE = Some (new_info ''COINBASE'' 0 1 Tier_Base)"
  "INSTRUCTIONS TIMESTAMP = Some (new_info ''TIMESTAMP'' 0 1 Tier_Base)"
  "INSTRUCTIONS NUMBER = Some (new_info ''NUMBER'' 0 1 Tier_Base)"
  "INSTRUCTIONS DIFFICULTY = Some (new_info ''DIFFICULTY'' 0 1 Tier_Base)"
  "INSTRUCTIONS GASLIMIT = Some (new_info ''GASLIMIT'' 0 1 Tier_Base)"
  "INSTRUCTIONS POP = Some (new_info ''POP'' 1 0 Tier_Base)"
  "INSTRUCTIONS MLOAD = Some (new_info ''MLOAD'' 1 1 Tier_VeryLow)"
  "INSTRUCTIONS MSTORE = Some (new_info ''MSTORE'' 2 0 Tier_VeryLow)"
  "INSTRUCTIONS MSTORE8 = Some (new_info ''MSTORE8'' 2 0 Tier_VeryLow)"
  "INSTRUCTIONS SLOAD = Some (new_info ''SLOAD'' 1 1 Tier_Special)"
  "INSTRUCTIONS SSTORE = Some (new_info ''SSTORE'' 2 0 Tier_Special)"
  "INSTRUCTIONS JUMP = Some (new_info ''JUMP'' 1 0 Tier_Mid)"
  "INSTRUCTIONS JUMPI = Some (new_info ''JUMPI'' 2 0 Tier_High)"
  "INSTRUCTIONS PC = Some (new_info ''PC'' 0 1 Tier_Base)"
  "INSTRUCTIONS MSIZE = Some (new_info ''MSIZE'' 0 1 Tier_Base)"
  "INSTRUCTIONS GAS = Some (new_info ''GAS'' 0 1 Tier_Base)"
  "INSTRUCTIONS JUMPDEST = Some (new_info ''JUMPDEST'' 0 0 Tier_Special)"
  "INSTRUCTIONS LOG0 = Some (new_info ''LOG0'' 2 0 Tier_Special)"
  "INSTRUCTIONS LOG1 = Some (new_info ''LOG1'' 3 0 Tier_Special)"
  "INSTRUCTIONS LOG2 = Some (new_info ''LOG2'' 4 0 Tier_Special)"
  "INSTRUCTIONS LOG3 = Some (new_info ''LOG3'' 5 0 Tier_Special)"
  "INSTRUCTIONS LOG4 = Some (new_info ''LOG4'' 6 0 Tier_Special)"
  "INSTRUCTIONS CREATE = Some (new_info ''CREATE'' 3 1 Tier_Special)"
  "INSTRUCTIONS CALL = Some (new_info ''CALL'' 7 1 Tier_Special)"
  "INSTRUCTIONS CALLCODE = Some (new_info ''CALLCODE'' 7 1 Tier_Special)"
  "INSTRUCTIONS RETURN = Some (new_info ''RETURN'' 2 0 Tier_Zero)"
  "INSTRUCTIONS DELEGATECALL = Some (new_info ''DELEGATECALL'' 6 1 Tier_Special)"
  "INSTRUCTIONS STATICCALL = Some (new_info ''STATICCALL'' 6 1 Tier_Special)"
  "INSTRUCTIONS SUICIDE = Some (new_info ''SUICIDE'' 1 0 Tier_Special)"
  "INSTRUCTIONS CREATE2 = Some (new_info ''CREATE2'' 4 1 Tier_Special)"
  "INSTRUCTIONS REVERT = Some (new_info ''REVERT'' 2 0 Tier_Zero)"
  by (simp_all add: INSTRUCTIONS_def basic_table_def system_table_def map_add_def family_tables_other)

lemma INSTRUCTIONS_families [simp]:
  "INSTRUCTIONS (PUSH k) = Some (new_info (''PUSH'' @ decimal (unat k + 1)) 0 1 Tier_VeryLow)"
  "INSTRUCTIONS (DUP j) = Some (new_info (''DUP'' @ decimal (unat j + 1)) (unat j + 1) (unat j + 2) Tier_VeryLow)"
  "INSTRUCTIONS (SWAP j) = Some (new_info (''SWAP'' @ decimal (unat j + 1)) (unat j + 2) (unat j + 2) Tier_VeryLow)"
  by (simp_all add: INSTRUCTIONS_def basic_table_def system_table_def map_add_def
    family_tables family_tables_other)

lemma new_info_simps [simp]:
  "info_name (new_info nm a r t) = nm" "info_args (new_info nm a r t) = a"
  "info_ret (new_info nm a r t) = r" "info_tier (new_info nm a r t) = t"
  by (simp_all add: new_info_def)

section \<open>Order and classification\<close>

instantiation instruction :: linorder
begin

definition less_eq_instruction :: "instruction \<Rightarrow> instruction \<Rightarrow> bool" where
  "less_eq_instruction i j = (u8_of i \<le> u8_of j)"

definition less_instruction :: "instruction \<Rightarrow> instruction \<Rightarrow> bool" where
  "less_instruction i j = (u8_of i < u8_of j)"

instance
proof
  fix i j k :: instruction
  show "(i < j) = (i \<le> j \<and> \<not> j \<le> i)"
    by (simp only: less_eq_instruction_def less_instruction_def less_le_not_le)
  show "i \<le> i"
    by (simp only: less_eq_instruction_def order_refl)
  show "i \<le> j \<Longrightarrow> j \<le> k \<Longrightarrow> i \<le> k"
    by (simp only: less_eq_instruction_def)
  show "i \<le> j \<Longrightarrow> j \<le> i \<Longrightarrow> i = j"
    by (simp only: less_eq_instruction_def flip: u8_of_inject)
  show "i \<le> j \<or> j \<le> i"
    by (simp only: less_eq_instruction_def linear)
qed

end

definition is_push :: "instruction \<Rightarrow> bool" where
  "is_push i \<longleftrightarrow> PUSH1 \<le> i \<and> i \<le> PUSH32"

definition push_bytes :: "instruction \<Rightarrow> nat option" where
  "push_bytes i = (if is_push i then Some (unat (u8_of i - u8_of PUSH1 + 1)) else None)"

definition dup_position :: "instruction \<Rightarrow> nat option" where
  "dup_position i = (if DUP1 \<le> i \<and> i \<le> DUP16 then Some (unat (u8_of i - u8_of DUP1)) else None)"

definition swap_position :: "instruction \<Rightarrow> nat option" where
  "swap_position i = (if SWAP1 \<le> i \<and> i \<le> SWAP16 then Some (unat (u8_of i - u8_of SWAP1 + 1)) else None)"

definition log_topics :: "instruction \<Rightarrow> nat option" where
  "log_topics i = (if LOG0 \<le> i \<and> i \<le> LOG4 then Some (unat (u8_of i - u8_of LOG0)) else None)"

definition MAX_NO_OF_TOPICS :: nat where
  "MAX_NO_OF_TOPICS = 4"

lemmas order_unat = less_eq_instruction_def word_le_nat_alt family_unat

lemma is_push_PUSH [simp]: "is_push (PUSH k)"
  using five_bit [of k] by (simp add: is_push_def order_unat)

lemma push_bytes_PUSH [simp]: "push_bytes (PUSH k) = Some (unat k + 1)"
  using five_bit [of k]
  by (simp add: push_bytes_def unat_word_ariths unat_ucast)

lemma dup_position_DUP [simp]: "dup_position (DUP k) = Some (unat k)"
  using four_bit [of k]
  by (simp add: dup_position_def order_unat unat_ucast)

lemma swap_position_SWAP [simp]: "swap_position (SWAP k) = Some (unat k + 1)"
  using four_bit [of k]
  by (simp add: swap_position_def order_unat unat_word_ariths unat_ucast)

lemma log_topics_LOG [simp]:
  "log_topics LOG0 = Some 0" "log_topics LOG1 = Some 1" "log_topics LOG2 = Some 2"
  "log_topics LOG3 = Some 3" "log_topics LOG4 = Some 4"
  by (simp_all add: log_topics_def less_eq_instruction_def)

lemma is_push_iff: "is_push i \<longleftrightarrow> (\<exists>k. i = PUSH k)"
  using five_bit four_bit
  by (cases i) (simp_all add: is_push_def order_unat)

lemma push_bytes_None: "push_bytes i = None \<longleftrightarrow> (\<forall>k. i \<noteq> PUSH k)"
  by (simp add: push_bytes_def is_push_iff)

section \<open>Properties\<close>


text \<open>
  C15. The table lookup of \<open>Instruction::info\<close> never panics: every variant has an entry, its
  tier indexes the eight prices of a schedule, no instruction reads more than 17 stack items
  and none leaves the stack more than one item higher than it found it.
\<close>

theorem info_total:
  "\<exists>x. info i = Ok x \<and> idx (info_tier x) < 8 \<and> info_args x \<le> 17 \<and> info_ret x \<le> info_args x + 1"
  using four_bit order_trans [OF four_bit, of 16] by (cases i) (simp_all add: info_def)

end
