(* ===== verification/Vm_Stack.thy ===== *)
theory Vm_Stack
  imports Instructions
begin

text \<open>
  The operand stack: src/ethcore/evm/src/interpreter/stack.rs. \<open>VecStack\<close> is a vector whose last
  element is the top, with a four-element buffer for the topics of \<open>LOG*\<close>. The trait
  \<open>Stack\<close> is the locale \<open>stack_trait\<close>; \<open>VecStack\<close> interprets it with the abstraction "the
  elements, top first".
\<close>

record 'a vec_stack =
  vs_stack :: "'a list"
  vs_logs :: "'a list"

definition with_capacity :: "usize \<Rightarrow> 'a \<Rightarrow> 'a vec_stack" where
  "with_capacity capacity zero = \<lparr>vs_stack = [], vs_logs = replicate MAX_NO_OF_TOPICS zero\<rparr>"

definition peek :: "'a vec_stack \<Rightarrow> nat \<Rightarrow> ('e, 'a) outcome" where
  "peek v no_from_top =
    (if no_from_top < length (vs_stack v)
     then Ok (vs_stack v ! (length (vs_stack v) - no_from_top - 1)) else Panic)"

definition swap_with_top :: "'a vec_stack \<Rightarrow> nat \<Rightarrow> ('e, 'a vec_stack) outcome" where
  "swap_with_top v no_from_top =
    (let xs = vs_stack v; len = length xs in
     if no_from_top < len
     then Ok (v\<lparr>vs_stack := xs[len - no_from_top - 1 := xs ! (len - 1),
                              len - 1 := xs ! (len - no_from_top - 1)]\<rparr>)
     else Panic)"

definition has :: "'a vec_stack \<Rightarrow> nat \<Rightarrow> bool" where
  "has v no_of_elems \<longleftrightarrow> no_of_elems \<le> length (vs_stack v)"

definition pop_back :: "'a vec_stack \<Rightarrow> ('e, 'a \<times> 'a vec_stack) outcome" where
  "pop_back v =
    (if vs_stack v = [] then Panic
     else Ok (last (vs_stack v), v\<lparr>vs_stack := butlast (vs_stack v)\<rparr>))"

text \<open>The loop of \<open>pop_n\<close>: \<open>logs[i] = pop_back()\<close> for \<open>i\<close> from \<open>i\<^sub>0\<close> on, \<open>n\<close> times.\<close>

primrec pop_n_loop :: "nat \<Rightarrow> nat \<Rightarrow> 'a vec_stack \<Rightarrow> ('e, 'a vec_stack) outcome" where
  "pop_n_loop 0 i v = Ok v"
| "pop_n_loop (Suc n) i v =
     and_then (pop_back v) (\<lambda>(x, v').
     if i < length (vs_logs v') then pop_n_loop n (Suc i) (v'\<lparr>vs_logs := (vs_logs v')[i := x]\<rparr>)
     else Panic)"

definition pop_n :: "'a vec_stack \<Rightarrow> nat \<Rightarrow> ('e, 'a list \<times> 'a vec_stack) outcome" where
  "pop_n v no_of_elems =
    and_then (assert_that (no_of_elems \<le> MAX_NO_OF_TOPICS)) (\<lambda>_.
    and_then (pop_n_loop no_of_elems 0 v) (\<lambda>v'. Ok (take no_of_elems (vs_logs v'), v')))"

definition push :: "'a vec_stack \<Rightarrow> 'a \<Rightarrow> 'a vec_stack" where
  "push v x = v\<lparr>vs_stack := vs_stack v @ [x]\<rparr>"

definition stack_size :: "'a vec_stack \<Rightarrow> nat" where
  "stack_size v = length (vs_stack v)"

definition peek_top :: "'a vec_stack \<Rightarrow> nat \<Rightarrow> ('e, 'a list) outcome" where
  "peek_top v no_from_top =
    (if no_from_top \<le> length (vs_stack v)
     then Ok (drop (length (vs_stack v) - no_from_top) (vs_stack v)) else Panic)"

section \<open>The contract of a stack\<close>

locale stack_trait =
  fixes elems :: "'s \<Rightarrow> 'a list"
    and pushs :: "'s \<Rightarrow> 'a \<Rightarrow> 's"
    and pops :: "'s \<Rightarrow> ('e, 'a \<times> 's) outcome"
    and peeks :: "'s \<Rightarrow> nat \<Rightarrow> ('e, 'a) outcome"
    and swaps :: "'s \<Rightarrow> nat \<Rightarrow> ('e, 's) outcome"
    and sizes :: "'s \<Rightarrow> nat"
    and popn :: "'s \<Rightarrow> nat \<Rightarrow> ('e, 'a list \<times> 's) outcome"
    and inv :: "'s \<Rightarrow> bool"
    and limit :: nat
  assumes elems_push: "elems (pushs s x) = x # elems s"
    and inv_push: "inv s \<Longrightarrow> inv (pushs s x)"
    and pop_empty: "elems s = [] \<Longrightarrow> pops s = Panic"
    and pop_cons: "elems s = x # xs \<Longrightarrow> \<exists>s'. pops s = Ok (x, s') \<and> elems s' = xs \<and> (inv s \<longrightarrow> inv s')"
    and peek_nth: "peeks s n = (if n < length (elems s) then Ok (elems s ! n) else Panic)"
    and swap_ok: "n < length (elems s) \<Longrightarrow> \<exists>s'. swaps s n = Ok s' \<and>
        elems s' = (elems s)[0 := elems s ! n, n := elems s ! 0] \<and> (inv s \<longrightarrow> inv s')"
    and size_length: "sizes s = length (elems s)"
    and popn_ok: "inv s \<Longrightarrow> n \<le> limit \<Longrightarrow> n \<le> length (elems s) \<Longrightarrow>
        \<exists>s'. popn s n = Ok (take n (elems s), s') \<and> elems s' = drop n (elems s) \<and> inv s'"
begin

lemma pop_push: "\<exists>s'. pops (pushs s x) = Ok (x, s') \<and> elems s' = elems s"
  using pop_cons [OF elems_push] by blast

lemma pop_succeeds: "0 < sizes s \<longleftrightarrow> pops s \<noteq> Panic"
proof (cases "elems s")
  case Nil
  then show ?thesis by (simp add: size_length pop_empty)
next
  case (Cons x xs)
  then show ?thesis using pop_cons [OF Cons] by (auto simp: size_length)
qed

lemma swap_swap:
  assumes "n < sizes s"
  shows "\<exists>s' s''. swaps s n = Ok s' \<and> swaps s' n = Ok s'' \<and> elems s'' = elems s"
proof -
  from assms have n: "n < length (elems s)" by (simp add: size_length)
  then obtain s' where s': "swaps s n = Ok s'"
      "elems s' = (elems s)[0 := elems s ! n, n := elems s ! 0]"
    using swap_ok by blast
  from n s'(2) have "n < length (elems s')" by simp
  then obtain s'' where s'': "swaps s' n = Ok s''"
      "elems s'' = (elems s')[0 := elems s' ! n, n := elems s' ! 0]"
    using swap_ok by blast
  from n have "elems s \<noteq> []" by auto
  then have "elems s'' = elems s"
    by (intro nth_equalityI) (use n s'(2) s''(2) in \<open>auto simp: nth_list_update\<close>)
  with s'(1) s''(1) show ?thesis by blast
qed

lemma pop_n_push_all:
  assumes "inv s" "length xs \<le> limit"
  shows "\<exists>s'. popn (foldl pushs s (rev xs)) (length xs) = Ok (xs, s') \<and> elems s' = elems s"
proof -
  have elems: "elems (foldl pushs s ys) = rev ys @ elems s" for ys
    by (induction ys rule: rev_induct) (auto simp: elems_push)
  have inv: "inv (foldl pushs s ys)" for ys
    by (induction ys rule: rev_induct) (auto simp: inv_push assms)
  have "length xs \<le> length (elems (foldl pushs s (rev xs)))" by (simp add: elems)
  with popn_ok [OF inv assms(2)] show ?thesis by (fastforce simp: elems)
qed

end

section \<open>The vector implements it\<close>

definition top_first :: "'a vec_stack \<Rightarrow> 'a list" where
  "top_first v = rev (vs_stack v)"

definition vec_stack_ok :: "'a vec_stack \<Rightarrow> bool" where
  "vec_stack_ok v \<longleftrightarrow> length (vs_logs v) = MAX_NO_OF_TOPICS"

lemma pop_back_snoc: "vs_stack v = xs @ [x] \<Longrightarrow> pop_back v = Ok (x, v\<lparr>vs_stack := xs\<rparr>)"
  by (simp add: pop_back_def)

lemma pop_n_loop_ok:
  assumes "n \<le> length (vs_stack v)" "i + n \<le> length (vs_logs v)"
  shows "\<exists>v'. (pop_n_loop n i v :: ('e, 'a vec_stack) outcome) = Ok v' \<and>
    vs_stack v' = take (length (vs_stack v) - n) (vs_stack v) \<and>
    length (vs_logs v') = length (vs_logs v) \<and>
    take (i + n) (vs_logs v') = take i (vs_logs v) @ rev (drop (length (vs_stack v) - n) (vs_stack v))"
  using assms
proof (induction n arbitrary: i v)
  case 0
  then show ?case by simp
next
  case (Suc n)
  from Suc.prems(1) obtain ys y where st: "vs_stack v = ys @ [y]" "n \<le> length ys"
    by (rule list_snoc_cases)
  let ?v = "v\<lparr>vs_stack := ys, vs_logs := (vs_logs v)[i := y]\<rparr>"
  have "\<exists>v'. (pop_n_loop n (Suc i) ?v :: ('e, 'a vec_stack) outcome) = Ok v' \<and>
      vs_stack v' = take (length ys - n) ys \<and> length (vs_logs v') = length (vs_logs v) \<and>
      take (Suc i + n) (vs_logs v') = take (Suc i) ((vs_logs v)[i := y]) @ rev (drop (length ys - n) ys)"
    using Suc.IH [of ?v "Suc i"] st(2) Suc.prems(2) by simp
  with st Suc.prems(2) show ?case
    by (auto simp: pop_back_snoc take_Suc_conv_app_nth)
qed

lemma pop_n_ok:
  assumes "vec_stack_ok s" "n \<le> MAX_NO_OF_TOPICS" "n \<le> length (top_first s)"
  shows "\<exists>s'. (pop_n s n :: ('e, 'a list \<times> 'a vec_stack) outcome) = Ok (take n (top_first s), s') \<and>
    top_first s' = drop n (top_first s) \<and> vec_stack_ok s'"
proof -
  from assms obtain v' where "(pop_n_loop n 0 s :: ('e, 'a vec_stack) outcome) = Ok v'"
      "vs_stack v' = take (length (vs_stack s) - n) (vs_stack s)"
      "length (vs_logs v') = length (vs_logs s)"
      "take n (vs_logs v') = rev (drop (length (vs_stack s) - n) (vs_stack s))"
    using pop_n_loop_ok [of n s 0, where ?'e = 'e]
    by (auto simp: vec_stack_ok_def top_first_def)
  with assms show ?thesis
    by (simp add: pop_n_def vec_stack_ok_def top_first_def rev_drop rev_take)
qed

lemma rev_swap_update:
  assumes "n < length xs"
  shows "rev (xs[length xs - n - 1 := xs ! (length xs - 1), length xs - 1 := xs ! (length xs - n - 1)])
    = (rev xs)[0 := rev xs ! n, n := rev xs ! 0]"
proof (rule nth_equalityI)
  fix i
  assume "i < length (rev (xs[length xs - n - 1 := xs ! (length xs - 1),
    length xs - 1 := xs ! (length xs - n - 1)]))"
  then have i: "i < length xs" by simp
  have idx: "length xs - Suc 0 = length xs - Suc i \<longleftrightarrow> i = 0"
    "length xs - Suc n = length xs - Suc i \<longleftrightarrow> i = n"
    "rev xs ! 0 = xs ! (length xs - Suc 0)" "rev xs ! n = xs ! (length xs - Suc n)"
    using assms i rev_nth [OF order_le_less_trans [OF le0 i]] rev_nth [OF assms] by auto
  show "rev (xs[length xs - n - 1 := xs ! (length xs - 1),
      length xs - 1 := xs ! (length xs - n - 1)]) ! i = (rev xs)[0 := rev xs ! n, n := rev xs ! 0] ! i"
    using assms i by (cases "xs = []") (simp_all add: rev_nth nth_list_update idx)
qed simp

interpretation vs: stack_trait top_first push pop_back peek swap_with_top stack_size pop_n
  vec_stack_ok MAX_NO_OF_TOPICS
proof
  fix s s' :: "'a vec_stack" and x :: 'a and xs :: "'a list" and n :: nat
  show "top_first (push s x) = x # top_first s"
    by (simp add: top_first_def push_def)
  show "vec_stack_ok s \<Longrightarrow> vec_stack_ok (push s x)"
    by (simp add: vec_stack_ok_def push_def)
  show "top_first s = [] \<Longrightarrow> pop_back s = Panic"
    by (simp add: top_first_def pop_back_def)
  show "top_first s = x # xs \<Longrightarrow>
      \<exists>s'. pop_back s = Ok (x, s') \<and> top_first s' = xs \<and> (vec_stack_ok s \<longrightarrow> vec_stack_ok s')"
    by (auto simp: top_first_def pop_back_def vec_stack_ok_def rev_eq_Cons_iff)
  show "peek s n = (if n < length (top_first s) then Ok (top_first s ! n) else Panic)"
    by (simp add: peek_def top_first_def rev_nth)
  show "n < length (top_first s) \<Longrightarrow> \<exists>s'. swap_with_top s n = Ok s' \<and>
      top_first s' = (top_first s)[0 := top_first s ! n, n := top_first s ! 0] \<and>
      (vec_stack_ok s \<longrightarrow> vec_stack_ok s')"
    by (simp add: swap_with_top_def top_first_def Let_def rev_swap_update [simplified] vec_stack_ok_def)
  show "stack_size s = length (top_first s)"
    by (simp add: stack_size_def top_first_def)
  show "vec_stack_ok s \<Longrightarrow> n \<le> MAX_NO_OF_TOPICS \<Longrightarrow> n \<le> length (top_first s) \<Longrightarrow>
      \<exists>s'. pop_n s n = Ok (take n (top_first s), s') \<and> top_first s' = drop n (top_first s) \<and> vec_stack_ok s'"
    by (rule pop_n_ok)
qed

end
