(* ===== verification/Gasometer.thy ===== *)
theory Gasometer
  imports Cost Vm_Stack
begin

text \<open>
  Gas metering: src/ethcore/evm/src/interpreter/gasometer.rs. The definitions follow the source
  function by function, over a cost type \<open>'g word\<close>; \<open>requirements\<close> is split into one definition per
  group of match arms (the \<open>request_*\<close> definitions) and the conversion of the request at its
  end. \<open>bind\<close> and \<open>and_then\<close> are the \<open>?\<close> of the source, in the order of its evaluation.
\<close>

section \<open>Data\<close>

datatype 'c request =
    Request_Gas 'c
  | Request_GasMem 'c 'c
  | Request_GasMemProvide 'c 'c "u256 option"
  | Request_GasMemCopy 'c 'c 'c

record 'c instruction_requirements =
  req_gas_cost :: 'c
  req_provide_gas :: "'c option"
  req_memory_total_gas :: 'c
  req_memory_required_size :: usize

record 'c gasometer =
  current_gas :: 'c
  current_mem_gas :: 'c

definition new_gasometer :: "'g::len word \<Rightarrow> 'g word gasometer" where
  "new_gasometer g = \<lparr>current_gas = g, current_mem_gas = cost_of 0\<rparr>"

definition verify_gas :: "'g::len word gasometer \<Rightarrow> 'g word \<Rightarrow> unit vm_result" where
  "verify_gas gm gas_cost = (if current_gas gm < gas_cost then Err OutOfGas else Ok ())"

section \<open>Gas for a nested execution\<close>

definition max_gas_provided :: "usize \<Rightarrow> 'g::len word \<Rightarrow> ('g word) vm_result" where
  "max_gas_provided cap_divisor gas_remaining =
    (if cap_divisor = 64 then checked_minus gas_remaining (drop_bit 6 gas_remaining)
     else if (cost_of cap_divisor :: 'g word) = 0 then Panic
     else checked_minus gas_remaining (gas_remaining div cost_of cap_divisor))"

definition gas_provided ::
  "'g::len word gasometer \<Rightarrow> schedule \<Rightarrow> 'g word \<Rightarrow> u256 option \<Rightarrow> ('g word) vm_result" where
  "gas_provided gm s needed requested_u =
    (let requested = map_option from_u256 requested_u in
     case sch_sub_gas_cap_divisor s of
       Some cap_divisor \<Rightarrow>
         if needed \<le> current_gas gm then
           and_then (checked_minus (current_gas gm) needed) (\<lambda>gas_remaining.
           and_then (max_gas_provided cap_divisor gas_remaining) (\<lambda>max_gas.
           case requested of Some (Ok r) \<Rightarrow> Ok (min r max_gas) | _ \<Rightarrow> Ok max_gas))
         else (case requested of Some r \<Rightarrow> r | None \<Rightarrow> Ok (cost_of 0))
     | None \<Rightarrow>
         (case requested of Some r \<Rightarrow> r
          | None \<Rightarrow> if needed \<le> current_gas gm then checked_minus (current_gas gm) needed
                    else Ok (cost_of 0)))"

section \<open>Memory\<close>

definition mem_needed_const :: "u256 \<Rightarrow> usize \<Rightarrow> ('g::len word) vm_result" where
  "mem_needed_const mem add = and_then (overflowing (overflowing_add mem (ucast add))) from_u256"

definition mem_needed :: "u256 \<Rightarrow> u256 \<Rightarrow> ('g::len word) vm_result" where
  "mem_needed offset n =
    (if n = 0 then Ok (cost_of 0)
     else and_then (overflowing (overflowing_add offset n)) from_u256)"

definition add_gas_usize :: "'g::len word \<Rightarrow> usize \<Rightarrow> 'g word \<times> bool" where
  "add_gas_usize val num = overflow_add val (cost_of num)"

definition to_word_size :: "'g::len word \<Rightarrow> 'g word \<times> bool" where
  "to_word_size val =
    (let (gas, overflow) = add_gas_usize val 31
     in if overflow then (gas, overflow) else (drop_bit 5 gas, False))"

definition gas_for_mem :: "schedule \<Rightarrow> 'g::len word \<Rightarrow> ('g word) vm_result" where
  "gas_for_mem s mem_size =
    (let n = drop_bit 5 mem_size in
     and_then (overflowing (overflow_mul n (cost_of (sch_memory_gas s)))) (\<lambda>a.
     and_then (assert_that (sch_quad_coeff_div s = 512)) (\<lambda>_.
     and_then (overflowing (overflow_mul_shr n n 9)) (\<lambda>b.
     overflowing (overflow_add a b)))))"

definition mem_gas_cost ::
  "'g::len word gasometer \<Rightarrow> schedule \<Rightarrow> nat \<Rightarrow> 'g word \<Rightarrow> ('g word \<times> 'g word \<times> usize) vm_result" where
  "mem_gas_cost gm s current_mem_size mem_size =
    (let cur = (cost_of (word_of_nat current_mem_size) :: 'g word) in
     and_then (overflowing (to_word_size mem_size)) (\<lambda>words.
     let req_mem_size_rounded = push_bit 5 words in
     and_then
       (if cur < req_mem_size_rounded then
          and_then (gas_for_mem s req_mem_size_rounded) (\<lambda>new_mem_gas.
          and_then (checked_minus new_mem_gas (current_mem_gas gm)) (\<lambda>cost. Ok (cost, new_mem_gas)))
        else Ok (cost_of 0, current_mem_gas gm)) (\<lambda>(mem_cost, new_mem_gas).
     and_then (as_usize req_mem_size_rounded) (\<lambda>rounded. Ok (mem_cost, new_mem_gas, rounded)))))"

section \<open>EIP-1283\<close>

definition calculate_eip1283_sstore_gas :: "schedule \<Rightarrow> u256 \<Rightarrow> u256 \<Rightarrow> u256 \<Rightarrow> usize" where
  "calculate_eip1283_sstore_gas s original current new =
    (if current = new then sch_sload_gas s
     else if original = current then
       (if original = 0 then sch_sstore_set_gas s else sch_sstore_reset_gas s)
     else sch_sload_gas s)"

definition handle_eip1283_sstore_clears_refund ::
  "'x ext_ops \<Rightarrow> u256 \<Rightarrow> u256 \<Rightarrow> u256 \<Rightarrow> ('x, vm_error, unit) action" where
  "handle_eip1283_sstore_clears_refund E original current new =
    bind (gets (ext_schedule E)) (\<lambda>s.
    let sstore_clears_schedule = sch_sstore_refund_gas s in
    if current = new then ret ()
    else if original = current then
      (if original = 0 then ret ()
       else if new = 0 then ext_add_sstore_refund E sstore_clears_schedule
       else ret ())
    else
      bind (if original \<noteq> 0 then
              (if current = 0 then ext_sub_sstore_refund E sstore_clears_schedule
               else if new = 0 then ext_add_sstore_refund E sstore_clears_schedule
               else ret ())
            else ret ()) (\<lambda>_.
      if original = new then
        (if original = 0 then
           bind (lift (checked_minus (sch_sstore_set_gas s) (sch_sload_gas s))) (ext_add_sstore_refund E)
         else
           bind (lift (checked_minus (sch_sstore_reset_gas s) (sch_sload_gas s))) (ext_add_sstore_refund E))
      else ret ()))"

section \<open>The request of an instruction\<close>

text \<open>\<open>U256::bits\<close>: the position of the highest set bit, plus one.\<close>

fun nat_bits :: "nat \<Rightarrow> nat" where
  "nat_bits n = (if n = 0 then 0 else Suc (nat_bits (n div 2)))"

declare nat_bits.simps [simp del]

definition u256_to_address :: "u256 \<Rightarrow> address" where
  "u256_to_address v = ucast v"

definition tier_gas :: "schedule \<Rightarrow> instruction_info \<Rightarrow> ('g::len word) vm_result" where
  "tier_gas s ii =
    (let tier = idx (info_tier ii) in
     if tier < length (sch_tier_step_gas s) then Ok (cost_of (sch_tier_step_gas s ! tier)) else Panic)"

text \<open>
  The condition, common to \<open>SUICIDE\<close> and \<open>CALL\<close>, under which the receiving account counts as new;
  the queries are made only where the source's \<open>&&\<close> and \<open>||\<close> reach them.
\<close>

definition charges_new_account ::
  "'x ext_ops \<Rightarrow> schedule \<Rightarrow> bool \<Rightarrow> address \<Rightarrow> ('x, vm_error, bool) action" where
  "charges_new_account E s is_value_transfer adr =
    (if \<not> sch_no_empty s then bind (ext_exists E adr) (\<lambda>e. ret (\<not> e))
     else if is_value_transfer then bind (ext_exists_and_not_null E adr) (\<lambda>e. ret (\<not> e))
     else ret False)"

definition request_sstore ::
  "'x ext_ops \<Rightarrow> schedule \<Rightarrow> u256 vec_stack \<Rightarrow> ('x, vm_error, 'g::len word request) action" where
  "request_sstore E s stk =
    bind (lift (peek stk 0)) (\<lambda>adr.
    bind (lift (peek stk 1)) (\<lambda>newval.
    bind (ext_storage_at E adr) (\<lambda>val.
    bind (if sch_eip1283 s then
            bind (ext_initial_storage_at E adr) (\<lambda>orig.
            ret (calculate_eip1283_sstore_gas s orig val newval))
          else if val = 0 \<and> newval \<noteq> 0 then ret (sch_sstore_set_gas s)
          else ret (sch_sstore_reset_gas s)) (\<lambda>gas.
    ret (Request_Gas (cost_of gas))))))"

definition request_suicide ::
  "'x ext_ops \<Rightarrow> schedule \<Rightarrow> u256 vec_stack \<Rightarrow> ('x, vm_error, 'g::len word request) action" where
  "request_suicide E s stk =
    bind (ext_origin_balance E) (\<lambda>balance.
    bind (lift (peek stk 0)) (\<lambda>a.
    bind (charges_new_account E s (balance \<noteq> 0) (u256_to_address a)) (\<lambda>new.
    if new then
      bind (lift (overflowing (overflow_add (cost_of (sch_suicide_gas s))
        (cost_of (sch_suicide_to_new_account_cost s))))) (\<lambda>gas. ret (Request_Gas gas))
    else ret (Request_Gas (cost_of (sch_suicide_gas s))))))"

definition request_mem ::
  "'g::len word \<Rightarrow> instruction \<Rightarrow> u256 vec_stack \<Rightarrow> ('g word request) vm_result" where
  "request_mem default_gas i stk =
    (if i = MSTORE \<or> i = MLOAD then
       and_then (peek stk 0) (\<lambda>off. and_then (mem_needed_const off 32) (\<lambda>m. Ok (Request_GasMem default_gas m)))
     else if i = MSTORE8 then
       and_then (peek stk 0) (\<lambda>off. and_then (mem_needed_const off 1) (\<lambda>m. Ok (Request_GasMem default_gas m)))
     else
       and_then (peek stk 0) (\<lambda>off. and_then (peek stk 1) (\<lambda>n.
       and_then (mem_needed off n) (\<lambda>m. Ok (Request_GasMem default_gas m)))))"

definition request_sha3 :: "schedule \<Rightarrow> u256 vec_stack \<Rightarrow> ('g::len word request) vm_result" where
  "request_sha3 s stk =
    and_then (peek stk 1) (\<lambda>n.
    and_then (from_u256 n) (\<lambda>g.
    and_then (overflowing (to_word_size (g :: 'g word))) (\<lambda>words.
    and_then (overflowing (overflow_mul (cost_of (sch_sha3_word_gas s)) words)) (\<lambda>word_gas.
    and_then (overflowing (overflow_add (cost_of (sch_sha3_gas s)) word_gas)) (\<lambda>gas.
    and_then (peek stk 0) (\<lambda>off.
    and_then (mem_needed off n) (\<lambda>m. Ok (Request_GasMem gas m))))))))"

definition request_copy ::
  "schedule \<Rightarrow> 'g::len word \<Rightarrow> instruction \<Rightarrow> u256 vec_stack \<Rightarrow> ('g word request) vm_result" where
  "request_copy s default_gas i stk =
    (if i = EXTCODECOPY then
       and_then (peek stk 1) (\<lambda>off. and_then (peek stk 3) (\<lambda>n.
       and_then (mem_needed off n) (\<lambda>m. and_then (from_u256 n) (\<lambda>c.
       Ok (Request_GasMemCopy (cost_of (sch_extcodecopy_base_gas s)) m c)))))
     else
       and_then (peek stk 0) (\<lambda>off. and_then (peek stk 2) (\<lambda>n.
       and_then (mem_needed off n) (\<lambda>m. and_then (from_u256 n) (\<lambda>c.
       Ok (Request_GasMemCopy default_gas m c))))))"

definition request_log ::
  "schedule \<Rightarrow> instruction \<Rightarrow> u256 vec_stack \<Rightarrow> ('g::len word request) vm_result" where
  "request_log s i stk =
    and_then (expect (log_topics i)) (\<lambda>no_of_topics.
    and_then (checked_times (sch_log_topic_gas s) (word_of_nat no_of_topics)) (\<lambda>topics_gas.
    and_then (checked_plus (sch_log_gas s) topics_gas) (\<lambda>log_gas.
    and_then (peek stk 1) (\<lambda>n.
    and_then (from_u256 n) (\<lambda>g.
    and_then (overflowing (overflow_mul (g :: 'g word) (cost_of (sch_log_data_gas s)))) (\<lambda>data_gas.
    and_then (overflowing (overflow_add data_gas (cost_of log_gas))) (\<lambda>gas.
    and_then (peek stk 0) (\<lambda>off.
    and_then (mem_needed off n) (\<lambda>m. Ok (Request_GasMem gas m))))))))))"

definition request_call ::
  "'x ext_ops \<Rightarrow> schedule \<Rightarrow> instruction \<Rightarrow> u256 vec_stack \<Rightarrow> ('x, vm_error, 'g::len word request) action" where
  "request_call E s i stk =
    bind (lift (and_then (peek stk 5) (\<lambda>off. and_then (peek stk 6) (mem_needed off)))) (\<lambda>out_mem.
    bind (lift (and_then (peek stk 3) (\<lambda>off. and_then (peek stk 4) (mem_needed off)))) (\<lambda>in_mem.
    bind (lift (peek stk 1)) (\<lambda>a.
    bind (lift (peek stk 2)) (\<lambda>val.
    let mem = max out_mem in_mem; is_value_transfer = val \<noteq> 0 in
    bind (if i = CALL then charges_new_account E s is_value_transfer (u256_to_address a)
          else ret False) (\<lambda>new.
    bind (if new then lift (overflowing (overflow_add (cost_of (sch_call_gas s)) (cost_of (sch_call_new_account_gas s))))
          else ret (cost_of (sch_call_gas s))) (\<lambda>gas.
    bind (if is_value_transfer then lift (overflowing (overflow_add gas (cost_of (sch_call_value_transfer_gas s))))
          else ret gas) (\<lambda>gas'.
    bind (lift (peek stk 0)) (\<lambda>requested.
    ret (Request_GasMemProvide gas' mem (Some requested))))))))))"

definition request_delegate ::
  "schedule \<Rightarrow> u256 vec_stack \<Rightarrow> ('g::len word request) vm_result" where
  "request_delegate s stk =
    and_then (and_then (peek stk 4) (\<lambda>off. and_then (peek stk 5) (mem_needed off))) (\<lambda>out_mem.
    and_then (and_then (peek stk 2) (\<lambda>off. and_then (peek stk 3) (mem_needed off))) (\<lambda>in_mem.
    and_then (peek stk 0) (\<lambda>requested.
    Ok (Request_GasMemProvide (cost_of (sch_call_gas s)) (max out_mem in_mem) (Some requested)))))"

definition request_create ::
  "schedule \<Rightarrow> instruction \<Rightarrow> u256 vec_stack \<Rightarrow> ('g::len word request) vm_result" where
  "request_create s i stk =
    and_then (peek stk 1) (\<lambda>start.
    and_then (peek stk 2) (\<lambda>len.
    if i = CREATE then
      and_then (mem_needed start len) (\<lambda>mem. Ok (Request_GasMemProvide (cost_of (sch_create_gas s)) mem None))
    else
      and_then (from_u256 len) (\<lambda>g.
      and_then (overflowing (to_word_size (g :: 'g word))) (\<lambda>word.
      and_then (overflowing (overflow_mul (cost_of (sch_sha3_word_gas s)) word)) (\<lambda>word_gas.
      and_then (overflowing (overflow_add (cost_of (sch_create_gas s)) word_gas)) (\<lambda>gas.
      and_then (mem_needed start len) (\<lambda>mem. Ok (Request_GasMemProvide gas mem None))))))))"

definition request_exp :: "schedule \<Rightarrow> u256 vec_stack \<Rightarrow> ('g::len word request) vm_result" where
  "request_exp s stk =
    and_then (peek stk 1) (\<lambda>expon.
    let byte_count = word_of_nat ((nat_bits (unat expon) + 7) div 8) in
    and_then (checked_times (sch_exp_byte_gas s) byte_count) (\<lambda>bytes_gas.
    and_then (checked_plus (sch_exp_gas s) bytes_gas) (\<lambda>gas. Ok (Request_Gas (cost_of gas)))))"

definition is_log :: "instruction \<Rightarrow> bool" where
  "is_log i \<longleftrightarrow> i = LOG0 \<or> i = LOG1 \<or> i = LOG2 \<or> i = LOG3 \<or> i = LOG4"

definition request_of ::
  "'x ext_ops \<Rightarrow> schedule \<Rightarrow> 'g::len word \<Rightarrow> instruction \<Rightarrow> u256 vec_stack \<Rightarrow>
   ('x, vm_error, 'g word request) action" where
  "request_of E s default_gas i stk =
    (if i = JUMPDEST then ret (Request_Gas (cost_of 1))
     else if i = SSTORE then request_sstore E s stk
     else if i = SLOAD then ret (Request_Gas (cost_of (sch_sload_gas s)))
     else if i = BALANCE then ret (Request_Gas (cost_of (sch_balance_gas s)))
     else if i = EXTCODESIZE then ret (Request_Gas (cost_of (sch_extcodesize_gas s)))
     else if i = EXTCODEHASH then ret (Request_Gas (cost_of (sch_extcodehash_gas s)))
     else if i = SUICIDE then request_suicide E s stk
     else if i = MSTORE \<or> i = MLOAD \<or> i = MSTORE8 \<or> i = RETURN \<or> i = REVERT
       then lift (request_mem default_gas i stk)
     else if i = SHA3 then lift (request_sha3 s stk)
     else if i = CALLDATACOPY \<or> i = CODECOPY \<or> i = RETURNDATACOPY \<or> i = EXTCODECOPY
       then lift (request_copy s default_gas i stk)
     else if is_log i then lift (request_log s i stk)
     else if i = CALL \<or> i = CALLCODE then request_call E s i stk
     else if i = DELEGATECALL \<or> i = STATICCALL then lift (request_delegate s stk)
     else if i = CREATE \<or> i = CREATE2 then lift (request_create s i stk)
     else if i = EXP then lift (request_exp s stk)
     else if i = BLOCKHASH then ret (Request_Gas (cost_of (sch_blockhash_gas s)))
     else ret (Request_Gas default_gas))"

section \<open>Requirements\<close>

definition meet_request ::
  "'g::len word gasometer \<Rightarrow> schedule \<Rightarrow> nat \<Rightarrow> 'g word request \<Rightarrow> ('g word instruction_requirements) vm_result" where
  "meet_request gm s current_mem_size cost = (case cost of
      Request_Gas gas \<Rightarrow>
        Ok \<lparr>req_gas_cost = gas, req_provide_gas = None, req_memory_total_gas = current_mem_gas gm,
            req_memory_required_size = 0\<rparr>
    | Request_GasMem gas mem_size \<Rightarrow>
        and_then (mem_gas_cost gm s current_mem_size mem_size) (\<lambda>(mem_cost, new_mem_gas, new_mem_size).
        and_then (overflowing (overflow_add gas mem_cost)) (\<lambda>gas'.
        Ok \<lparr>req_gas_cost = gas', req_provide_gas = None, req_memory_total_gas = new_mem_gas,
            req_memory_required_size = new_mem_size\<rparr>))
    | Request_GasMemProvide gas mem_size requested \<Rightarrow>
        and_then (mem_gas_cost gm s current_mem_size mem_size) (\<lambda>(mem_cost, new_mem_gas, new_mem_size).
        and_then (overflowing (overflow_add gas mem_cost)) (\<lambda>gas'.
        and_then (gas_provided gm s gas' requested) (\<lambda>provided.
        and_then (overflowing (overflow_add gas' provided)) (\<lambda>total_gas.
        Ok \<lparr>req_gas_cost = total_gas, req_provide_gas = Some provided,
            req_memory_total_gas = new_mem_gas, req_memory_required_size = new_mem_size\<rparr>))))
    | Request_GasMemCopy gas mem_size copy \<Rightarrow>
        and_then (mem_gas_cost gm s current_mem_size mem_size) (\<lambda>(mem_cost, new_mem_gas, new_mem_size).
        and_then (overflowing (to_word_size copy)) (\<lambda>copy_words.
        and_then (overflowing (overflow_mul (cost_of (sch_copy_gas s)) copy_words)) (\<lambda>copy_gas.
        and_then (overflowing (overflow_add gas copy_gas)) (\<lambda>gas'.
        and_then (overflowing (overflow_add gas' mem_cost)) (\<lambda>gas''.
        Ok \<lparr>req_gas_cost = gas'', req_provide_gas = None, req_memory_total_gas = new_mem_gas,
            req_memory_required_size = new_mem_size\<rparr>))))))"

definition requirements ::
  "'g::len word gasometer \<Rightarrow> 'x ext_ops \<Rightarrow> instruction \<Rightarrow> instruction_info \<Rightarrow> u256 vec_stack \<Rightarrow> nat \<Rightarrow>
   ('x, vm_error, 'g word instruction_requirements) action" where
  "requirements gm E i ii stk current_mem_size =
    bind (gets (ext_schedule E)) (\<lambda>s.
    bind (lift (tier_gas s ii)) (\<lambda>default_gas.
    bind (request_of E s default_gas i stk) (\<lambda>cost.
    lift (meet_request gm s current_mem_size cost))))"

section \<open>Memory gas\<close>

definition memory_cost :: "schedule \<Rightarrow> nat \<Rightarrow> nat" where
  "memory_cost s w = w * unat (sch_memory_gas s) + w * w div 512"

lemma memory_cost_mono: "v \<le> w \<Longrightarrow> memory_cost s v \<le> memory_cost s w"
  by (simp add: memory_cost_def add_mono div_le_mono mult_le_mono)

lemma mem_needed_Ok:
  assumes "mem_needed off n = Ok (m :: usize)"
  shows "n = 0 \<or> unat off + unat n = unat m"
  using assms
  by (auto simp: mem_needed_def outcome_simps overflowing_def overflowing_add_def from_u256_usize_iff
    unat_plus_exact split: if_splits)

lemma mem_needed_const_Ok:
  assumes "mem_needed_const off k = Ok (m :: usize)"
  shows "unat off + unat k = unat m"
proof -
  have "unat (ucast k :: u256) = unat k" by (simp add: unat_ucast_up)
  then show ?thesis
    using assms
    by (auto simp: mem_needed_const_def outcome_simps overflowing_def overflowing_add_def
      from_u256_usize_iff unat_plus_exact split: if_splits)
qed

lemma mem_needed_no_panic [simp]: "mem_needed off n \<noteq> Panic" "mem_needed_const off k \<noteq> Panic"
  by (simp_all add: mem_needed_def mem_needed_const_def outcome_simps)

lemma to_word_size_Ok:
  assumes "overflowing (to_word_size (m :: 'g::len word)) = Ok w" "64 \<le> LENGTH('g)"
  shows "unat w = (unat m + 31) div 32" "unat m + 31 < 2 ^ LENGTH('g)"
proof -
  have 31: "unat (cost_of 31 :: 'g word) = 31" using assms(2) by (simp add: unat_cost_of)
  have "unat m + 31 < 2 ^ LENGTH('g)"
    using assms(1) 31
    by (auto simp: to_word_size_def add_gas_usize_def overflow_add_def overflowing_add_def
      overflowing_def Let_def not_le split: if_splits)
  moreover from this have "unat (m + cost_of 31 :: 'g word) = unat m + 31"
    using 31 by (simp add: unat_plus_exact)
  ultimately show "unat w = (unat m + 31) div 32" "unat m + 31 < 2 ^ LENGTH('g)"
    using assms(1) 31
    by (auto simp: to_word_size_def add_gas_usize_def overflow_add_def overflowing_add_def
      overflowing_def Let_def unat_drop_bit split: if_splits)
qed

lemma unat_round_up:
  assumes "unat (w :: 'g::len word) = (n + 31) div 32" "n + 31 < 2 ^ LENGTH('g)"
  shows "unat (push_bit 5 w) = 32 * ((n + 31) div 32)"
proof -
  have "32 * ((n + 31) div 32) \<le> n + 31" by (rule times_div_less_eq_dividend)
  with assms(2) have "32 * unat w < 2 ^ LENGTH('g)" unfolding assms(1) by linarith
  then have "unat (push_bit 5 w) = 32 * unat w"
    by (subst unsigned_push_bit_eq) (simp add: take_bit_eq_mod push_bit_eq_mult mult.commute)
  then show ?thesis by (simp only: assms(1))
qed

lemma gas_for_mem_Ok:
  assumes "gas_for_mem s m = Ok (g :: 'g::len word)" "64 \<le> LENGTH('g)"
  shows "unat g = memory_cost s (unat m div 32)"
  using assms
  by (auto simp: gas_for_mem_def outcome_simps Let_def memory_cost_def unat_drop_bit
    dest!: overflowing_unat_mul overflowing_unat_add overflowing_unat_mul_shr)
    (simp add: unat_cost_of)

lemma gas_for_mem_no_panic: "sch_quad_coeff_div s = 512 \<Longrightarrow> gas_for_mem s m \<noteq> Panic"
  by (simp add: gas_for_mem_def outcome_simps Let_def)

text \<open>
  What the interpreter keeps of its memory and its gasometer: the size is a number of words, and the
  gas recorded for it is the cost of that many words.
\<close>

definition memory_paid :: "schedule \<Rightarrow> nat \<Rightarrow> 'g::len word gasometer \<Rightarrow> bool" where
  "memory_paid s n gm \<longleftrightarrow> 32 dvd n \<and> n < 2 ^ 64 \<and> unat (current_mem_gas gm) = memory_cost s (n div 32)"

lemma mem_gas_cost_Ok:
  assumes "mem_gas_cost gm s cur m = Ok (cost, tot, (n :: usize))"
    and "memory_paid s cur gm" "64 \<le> LENGTH('g)"
  shows "unat n = 32 * ((unat (m :: 'g::len word) + 31) div 32)"
    and "unat tot = memory_cost s (max cur (unat n) div 32)"
    and "unat cost + unat (current_mem_gas gm) = unat tot"
proof -
  from assms(2) have cur: "32 dvd cur" "cur < 2 ^ 64" "unat (current_mem_gas gm) = memory_cost s (cur div 32)"
    by (simp_all add: memory_paid_def)
  then have curw: "unat (cost_of (word_of_nat cur) :: 'g word) = cur"
    using assms(3) by (simp add: unat_cost_of unat_of_nat)
  from assms(1) obtain w where w: "overflowing (to_word_size m) = Ok w"
    and rest: "(if cost_of (word_of_nat cur) < push_bit 5 w
        then and_then (gas_for_mem s (push_bit 5 w)) (\<lambda>g.
             and_then (checked_minus g (current_mem_gas gm)) (\<lambda>c. Ok (c, g)))
        else Ok (cost_of 0, current_mem_gas gm)) = (Ok (cost, tot) :: ('g word \<times> 'g word) vm_result)"
    and n: "as_usize (push_bit 5 w) = (Ok n :: usize vm_result)"
    by (auto simp: mem_gas_cost_def Let_def outcome_simps split: prod.splits)
  let ?r = "32 * ((unat m + 31) div 32)"
  have r: "unat (push_bit 5 w) = ?r"
    by (rule unat_round_up [OF to_word_size_Ok [OF w assms(3)]])
  show n_eq: "unat n = ?r"
    using n r by (auto simp: as_usize_def unat_ucast_exact split: if_splits)
  have zero: "unat (cost_of 0 :: 'g word) = 0" using assms(3) by (simp add: unat_cost_of)
  have both: "unat tot = memory_cost s (max cur ?r div 32) \<and>
      unat cost + unat (current_mem_gas gm) = unat tot"
  proof (cases "cur < ?r")
    case True
    then have "cost_of (word_of_nat cur) < push_bit 5 w" by (simp add: word_less_nat_alt curw r)
    with rest have g: "gas_for_mem s (push_bit 5 w) = Ok tot"
      and c: "checked_minus tot (current_mem_gas gm) = (Ok cost :: 'g word vm_result)"
      by (auto simp: outcome_simps)
    from gas_for_mem_Ok [OF g assms(3)] r have t: "unat tot = memory_cost s (?r div 32)" by simp
    with c True show ?thesis
      by (auto simp: checked_minus_def unat_minus_exact word_le_nat_alt max_def split: if_splits)
  next
    case False
    then have "\<not> cost_of (word_of_nat cur) < push_bit 5 w" by (simp add: word_less_nat_alt curw r)
    with rest cur(3) False zero show ?thesis by (auto simp: max_def)
  qed
  then show "unat tot = memory_cost s (max cur (unat n) div 32)"
    "unat cost + unat (current_mem_gas gm) = unat tot" by (simp_all add: n_eq)
qed

lemma mem_gas_cost_no_panic:
  assumes "memory_paid s cur gm" "sch_quad_coeff_div s = 512"
  shows "mem_gas_cost gm s cur (m :: usize) \<noteq> Panic"
proof -
  from assms(1) have curw: "unat (word_of_nat cur :: usize) = cur"
    by (simp add: memory_paid_def unat_of_nat)
  have "checked_minus g (current_mem_gas gm) \<noteq> (Panic :: usize vm_result)"
    if w: "overflowing (to_word_size m) = Ok w" and lt: "word_of_nat cur < push_bit 5 w"
      and g: "gas_for_mem s (push_bit 5 w) = Ok g" for w g
  proof -
    have "cur < unat (push_bit 5 w)" using lt by (simp add: word_less_nat_alt curw)
    then have "memory_cost s (cur div 32) \<le> unat g"
      unfolding gas_for_mem_Ok [OF g, simplified] by (intro memory_cost_mono div_le_mono) simp
    then show ?thesis
      using assms(1) by (simp add: checked_minus_def memory_paid_def word_le_nat_alt)
  qed
  then have "(if word_of_nat cur < push_bit 5 w
        then and_then (gas_for_mem s (push_bit 5 w)) (\<lambda>g.
             and_then (checked_minus g (current_mem_gas gm)) (\<lambda>c. Ok (c, g)))
        else Ok (0, current_mem_gas gm)) \<noteq> (Panic :: (usize \<times> usize) vm_result)"
    if "overflowing (to_word_size m) = Ok w" for w
    using that gas_for_mem_no_panic [OF assms(2), of "push_bit 5 w"] by (simp add: and_then_Panic_iff)
  then show ?thesis
    by (auto simp: mem_gas_cost_def Let_def and_then_Panic_iff)
qed


section \<open>Gas passed on\<close>

lemma max_gas_provided_Ok:
  assumes "d \<noteq> 0" "64 \<le> LENGTH('g)"
  shows "\<exists>p. max_gas_provided d (rem :: 'g::len word) = Ok p \<and> unat p = unat rem - unat rem div unat d"
proof -
  have nz: "(cost_of d :: 'g word) \<noteq> 0"
    using assms by (simp add: word_eq_unat [of "cost_of d"] unat_cost_of unat_eq_zero)
  have shift: "unat (drop_bit 6 rem) = unat rem div 64"
    by (simp add: unat_drop_bit)
  have quot: "unat (rem div cost_of d) = unat rem div unat d"
    using assms(2) by (simp add: unat_div unat_cost_of)
  show ?thesis
    using nz shift quot
    by (auto simp: max_gas_provided_def checked_minus_def word_le_nat_alt unat_minus_exact)
qed

lemma gas_provided_capped:
  assumes "sch_sub_gas_cap_divisor s = Some d" "d \<noteq> 0" "needed \<le> current_gas gm"
  shows "\<exists>p :: usize. gas_provided gm s needed requested = Ok p \<and>
    (let rem = unat (current_gas gm) - unat needed; cap = rem - rem div unat d in
     unat p = (case requested of Some r \<Rightarrow> min (unat r) cap | None \<Rightarrow> cap))"
proof -
  let ?rem = "current_gas gm - needed"
  from assms(3) have rem: "unat ?rem = unat (current_gas gm) - unat needed" by (rule unat_minus_exact)
  from max_gas_provided_Ok [OF assms(2), of ?rem] obtain p where
    p: "max_gas_provided d ?rem = Ok p" "unat p = unat ?rem - unat ?rem div unat d" by auto
  show ?thesis
  proof (cases requested)
    case None
    then show ?thesis
      using assms p rem by (simp add: gas_provided_def checked_minus_def Let_def)
  next
    case (Some r)
    show ?thesis
    proof (cases "from_u256 r :: usize vm_result")
      case (Ok g)
      then have "unat g = unat r" by (simp add: from_u256_usize_iff)
      then show ?thesis
        using assms p rem Ok Some
        by (auto simp: gas_provided_def checked_minus_def Let_def min_def word_le_nat_alt)
    next
      case (Err e)
      then have "\<not> unat r < 2 ^ 64"
        using from_u256_usize_iff [of r "ucast r"] by (auto simp: unat_ucast_exact)
      moreover have "unat p < 2 ^ 64" using unat_below [of p] by simp
      ultimately show ?thesis
        using assms p rem Err Some by (auto simp: gas_provided_def checked_minus_def Let_def min_def)
    qed simp
  qed
qed

lemma gas_provided_no_panic:
  assumes "sch_sub_gas_cap_divisor s \<noteq> Some 0"
  shows "gas_provided gm s (needed :: usize) requested \<noteq> Panic"
proof (cases "\<exists>d. sch_sub_gas_cap_divisor s = Some d \<and> needed \<le> current_gas gm")
  case True
  then show ?thesis using assms gas_provided_capped [of s _ needed gm requested] by fastforce
next
  case False
  then show ?thesis
    by (auto simp: gas_provided_def checked_minus_def Let_def split: option.splits)
qed

section \<open>Requests\<close>

primrec request_gas :: "'c request \<Rightarrow> 'c" where
  "request_gas (Request_Gas g) = g"
| "request_gas (Request_GasMem g m) = g"
| "request_gas (Request_GasMemProvide g m r) = g"
| "request_gas (Request_GasMemCopy g m c) = g"

primrec request_size :: "'c request \<Rightarrow> 'c option" where
  "request_size (Request_Gas g) = None"
| "request_size (Request_GasMem g m) = Some m"
| "request_size (Request_GasMemProvide g m r) = Some m"
| "request_size (Request_GasMemCopy g m c) = Some m"

primrec request_provides :: "'c request \<Rightarrow> bool" where
  "request_provides (Request_Gas g) = False"
| "request_provides (Request_GasMem g m) = False"
| "request_provides (Request_GasMemProvide g m r) = True"
| "request_provides (Request_GasMemCopy g m c) = False"

text \<open>What the requirements computed from a request guarantee.\<close>

definition requirements_meet ::
  "schedule \<Rightarrow> nat \<Rightarrow> usize request \<Rightarrow> usize instruction_requirements \<Rightarrow> bool" where
  "requirements_meet s cur q r \<longleftrightarrow>
     (\<forall>g. memory_paid s (max cur (unat (req_memory_required_size r)))
        \<lparr>current_gas = g, current_mem_gas = req_memory_total_gas r\<rparr>) \<and>
     (\<forall>m. request_size q = Some m \<longrightarrow> unat m \<le> unat (req_memory_required_size r)) \<and>
     (case req_provide_gas r of
        None \<Rightarrow> \<not> request_provides q \<and> unat (request_gas q) \<le> unat (req_gas_cost r)
      | Some p \<Rightarrow> request_provides q \<and> unat (request_gas q) + unat p \<le> unat (req_gas_cost r))"

lemma mem_gas_cost_paid:
  assumes "mem_gas_cost gm s cur m = Ok (cost, tot, n)" "memory_paid s cur (gm :: usize gasometer)"
  shows "memory_paid s (max cur (unat n)) \<lparr>current_gas = g, current_mem_gas = tot\<rparr>" "unat m \<le> unat n"
proof -
  note Ok = mem_gas_cost_Ok [OF assms, simplified]
  have "32 dvd max cur (unat n)" using assms(2) by (simp add: memory_paid_def max_def Ok(1))
  moreover have "max cur (unat n) < 2 ^ 64"
    using assms(2) unat_below [of n] by (simp add: memory_paid_def)
  ultimately show "memory_paid s (max cur (unat n)) \<lparr>current_gas = g, current_mem_gas = tot\<rparr>"
    by (simp add: memory_paid_def Ok(2))
  show "unat m \<le> unat n" unfolding Ok(1) by presburger
qed

lemma meet_request_no_panic:
  assumes "memory_paid s cur gm" "schedule_ok s"
  shows "meet_request gm s cur (q :: usize request) \<noteq> Panic"
  using mem_gas_cost_no_panic [OF assms(1)] gas_provided_no_panic assms(2)
  by (cases q) (auto simp: meet_request_def and_then_Panic_iff schedule_ok_def)

lemma meet_request_Ok:
  assumes "meet_request gm s cur q = Ok r" "memory_paid s cur gm"
  shows "requirements_meet s cur q r"
proof (cases q)
  case (Request_Gas g)
  with assms show ?thesis by (auto simp: meet_request_def requirements_meet_def memory_paid_def)
next
  case (Request_GasMem g m)
  with assms show ?thesis
    by (auto simp: meet_request_def requirements_meet_def and_then_Ok_iff split: prod.splits
      dest!: overflowing_unat_add intro: mem_gas_cost_paid)
next
  case (Request_GasMemProvide g m req)
  with assms show ?thesis
    by (auto simp: meet_request_def requirements_meet_def and_then_Ok_iff split: prod.splits
      dest!: overflowing_unat_add intro: mem_gas_cost_paid)
next
  case (Request_GasMemCopy g m c)
  with assms show ?thesis
    by (auto simp: meet_request_def requirements_meet_def and_then_Ok_iff split: prod.splits
      dest!: overflowing_unat_add intro: mem_gas_cost_paid)
qed

section \<open>Properties\<close>

text \<open>
  C24. Memory is charged exactly: with the gas of the current memory recorded, growing to \<open>mem_size\<close>
  bytes charges precisely the difference between the cost \<open>w * memory_gas + w * w / 512\<close> of the new
  number of words \<open>w\<close> and what was recorded, nothing where the memory is already large enough, and
  the new recorded gas is the cost of the new size. The size is the request rounded up to words.
  This holds for both cost types.
\<close>

theorem memory_gas_exact:
  assumes "mem_gas_cost gm s cur (m :: 'g::len word) = Ok (cost, tot, n)"
    and "memory_paid s cur gm" "64 \<le> LENGTH('g)"
  shows "unat n = 32 * ((unat m + 31) div 32) \<and>
    unat tot = memory_cost s (max cur (unat n) div 32) \<and>
    unat cost = memory_cost s (max cur (unat n) div 32) - memory_cost s (cur div 32)"
proof -
  note exact = mem_gas_cost_Ok [OF assms]
  from exact(3) have "unat cost = unat tot - unat (current_mem_gas gm)" by simp
  with exact(1,2) assms(2) show ?thesis by (simp add: memory_paid_def)
qed

theorem memory_gas_exact_witness:
  "mem_gas_cost (new_gasometer 1000 :: usize gasometer) new_homestead 0 40 = Ok (6, 6, 64)
   \<and> memory_cost new_homestead 2 = 6"
proof -
  have run: "mem_gas_cost (new_gasometer 1000 :: usize gasometer) new_homestead 0 40 = Ok (6, 6, 64)"
    by (simp add: mem_gas_cost_def new_gasometer_def new_homestead_def new_schedule_def Let_def
      to_word_size_def add_gas_usize_def overflow_add_def overflowing_add_def overflowing_def
      gas_for_mem_def overflow_mul_def overflowing_mul_def overflow_mul_shr_def checked_minus_def)
  moreover have "memory_paid new_homestead 0 (new_gasometer 1000 :: usize gasometer)"
    by (simp add: memory_paid_def new_gasometer_def memory_cost_def)
  ultimately show ?thesis
    using memory_gas_exact [of "new_gasometer 1000 :: usize gasometer" new_homestead 0 40 6 6 64] by simp
qed

text \<open>
  C25. The all-but-one-\<open>d\<close>th rule (EIP-150): under a schedule with divisor \<open>d\<close>, when the base cost is
  affordable, a nested execution receives exactly the requested gas, capped at the remaining gas
  less its \<open>d\<close>th part (rounded down), or the cap itself when no amount is requested or the request
  does not even fit the cost type. It never fails, whatever was requested.
\<close>

theorem gas_provided_all_but_one_dth:
  assumes "sch_sub_gas_cap_divisor s = Some d" "d \<noteq> 0" "needed \<le> current_gas gm"
  shows "\<exists>p :: usize. gas_provided gm s needed requested = Ok p \<and>
    (let rem = unat (current_gas gm) - unat needed; cap = rem - rem div unat d in
     unat p = (case requested of Some r \<Rightarrow> min (unat r) cap | None \<Rightarrow> cap))"
  using assms by (rule gas_provided_capped)

theorem gas_provided_all_but_one_dth_witness:
  "\<exists>p :: usize. gas_provided (new_gasometer 6500) new_byzantium 100 (Some (2 ^ 200)) = Ok p \<and> unat p = 6300"
  using gas_provided_all_but_one_dth [of new_byzantium 64 100 "new_gasometer 6500" "Some (2 ^ 200)"]
  by (simp add: new_byzantium_def new_post_eip150_def new_gasometer_def)


end
