(* ===== verification/Vm_Memory.thy ===== *)
theory Vm_Memory
  imports Vm_Types
begin

text \<open>
  The memory of the interpreter: src/ethcore/evm/src/interpreter/memory.rs, the trait \<open>Memory\<close>
  and its implementation for \<open>Vec<u8>\<close>. Offsets and sizes arrive as 256-bit words and are
  truncated to 64 bits, as in the source; an access outside the vector is a panic. The trait is
  the locale \<open>memory_trait\<close>, which the vector interprets.
\<close>

definition MAX_RETURN_WASTE_BYTES :: nat where
  "MAX_RETURN_WASTE_BYTES = 16384"

definition is_valid_range :: "nat \<Rightarrow> nat \<Rightarrow> bool" where
  "is_valid_range off n \<longleftrightarrow> (let overflow = 2 ^ 64 \<le> off + n in 0 < n \<and> \<not> overflow)"

definition mem_size :: "bytes \<Rightarrow> nat" where
  "mem_size m = length m"

definition read_slice :: "bytes \<Rightarrow> u256 \<Rightarrow> u256 \<Rightarrow> ('e, bytes) outcome" where
  "read_slice m init_off_u init_size_u =
    (let off = low_usize init_off_u; n = low_usize init_size_u in
     if \<not> is_valid_range off n then Ok []
     else if off + n \<le> length m then Ok (sub_range m off n) else Panic)"

definition mem_read :: "bytes \<Rightarrow> u256 \<Rightarrow> ('e, u256) outcome" where
  "mem_read m offset =
    (let off = low_usize offset in
     if off + 32 \<le> length m then Ok (be_word (sub_range m off 32)) else Panic)"

text \<open>\<open>writeable_slice\<close> returns a mutable slice; the model returns its position and length.\<close>

definition writeable_slice :: "bytes \<Rightarrow> u256 \<Rightarrow> u256 \<Rightarrow> ('e, nat \<times> nat) outcome" where
  "writeable_slice m offset n =
    (let off = low_usize offset; s = low_usize n in
     if \<not> is_valid_range off s then Ok (0, 0)
     else if off + s \<le> length m then Ok (off, s) else Panic)"

definition write_slice :: "bytes \<Rightarrow> u256 \<Rightarrow> bytes \<Rightarrow> ('e, bytes) outcome" where
  "write_slice m offset src =
    (if src \<noteq> [] then
       (let off = low_usize offset in
        if off + length src \<le> length m then Ok (overwrite m off src) else Panic)
     else Ok m)"

definition mem_write :: "bytes \<Rightarrow> u256 \<Rightarrow> u256 \<Rightarrow> ('e, bytes) outcome" where
  "mem_write m offset val =
    (let off = low_usize offset in
     if off + 32 \<le> length m then Ok (overwrite m off (to_big_endian val)) else Panic)"

definition write_byte :: "bytes \<Rightarrow> u256 \<Rightarrow> u256 \<Rightarrow> ('e, bytes) outcome" where
  "write_byte m offset val =
    (let off = low_usize offset; v = (ucast val :: u64) in
     if off < length m then Ok (m[off := ucast v]) else Panic)"

definition mem_resize :: "bytes \<Rightarrow> nat \<Rightarrow> bytes" where
  "mem_resize m new_size = take new_size m @ replicate (new_size - length m) 0"

definition mem_expand :: "bytes \<Rightarrow> nat \<Rightarrow> bytes" where
  "mem_expand m n = (if length m < n then mem_resize m n else m)"

definition into_return_data :: "bytes \<Rightarrow> u256 \<Rightarrow> u256 \<Rightarrow> ('e, return_data) outcome" where
  "into_return_data m offset_u size_u =
    (let offset = low_usize offset_u; n = low_usize size_u in
     if \<not> is_valid_range offset n then Ok empty_return_data
     else if length m < n then Panic
     else if MAX_RETURN_WASTE_BYTES < length m - n then
       (if offset = 0 then Ok (new_return_data (take n m) offset n)
        else if offset + n \<le> length m then Ok (new_return_data (sub_range m offset n) 0 n)
        else Panic)
     else Ok (new_return_data m offset n))"

section \<open>The contract of a memory\<close>

text \<open>
  What the interpreter relies on: growing keeps the content and pads with zeros; a word, a byte
  or a slice inside the memory can be written; what was written is read back; bytes elsewhere do
  not change and the size stays the same.
\<close>

locale memory_trait =
  fixes bytes_of :: "'m \<Rightarrow> bytes"
    and m_size :: "'m \<Rightarrow> nat"
    and m_expand :: "'m \<Rightarrow> nat \<Rightarrow> 'm"
    and m_read :: "'m \<Rightarrow> u256 \<Rightarrow> ('e, u256) outcome"
    and m_write :: "'m \<Rightarrow> u256 \<Rightarrow> u256 \<Rightarrow> ('e, 'm) outcome"
    and m_write_slice :: "'m \<Rightarrow> u256 \<Rightarrow> bytes \<Rightarrow> ('e, 'm) outcome"
    and m_read_slice :: "'m \<Rightarrow> u256 \<Rightarrow> u256 \<Rightarrow> ('e, bytes) outcome"
  assumes size_bytes: "m_size m = length (bytes_of m)"
    and expand_bytes: "bytes_of (m_expand m n) = bytes_of m @ replicate (n - m_size m) 0"
    and read_inside: "low_usize off + 32 \<le> m_size m \<Longrightarrow>
        m_read m off = Ok (be_word (sub_range (bytes_of m) (low_usize off) 32))"
    and write_inside: "low_usize off + 32 \<le> m_size m \<Longrightarrow>
        \<exists>m'. m_write m off v = Ok m' \<and> bytes_of m' = overwrite (bytes_of m) (low_usize off) (to_big_endian v)"
    and write_slice_inside: "low_usize off + length s \<le> m_size m \<Longrightarrow>
        \<exists>m'. m_write_slice m off s = Ok m' \<and> bytes_of m' = overwrite (bytes_of m) (low_usize off) s"
    and read_slice_inside: "low_usize off + low_usize k \<le> m_size m \<Longrightarrow> m_size m < 2 ^ 64 \<Longrightarrow>
        m_read_slice m off k = Ok (sub_range (bytes_of m) (low_usize off) (low_usize k))"
begin

lemma expand_size: "m_size (m_expand m n) = max (m_size m) n"
  by (simp add: size_bytes expand_bytes)

lemma read_after_write:
  assumes "low_usize off + 32 \<le> m_size m"
  shows "\<exists>m'. m_write m off v = Ok m' \<and> m_read m' off = Ok v \<and> m_size m' = m_size m"
proof -
  from write_inside [OF assms] obtain m' where
    m': "m_write m off v = Ok m'" "bytes_of m' = overwrite (bytes_of m) (low_usize off) (to_big_endian v)"
    by blast
  have size: "m_size m' = m_size m"
    using assms by (simp add: size_bytes m'(2) length_overwrite)
  have "sub_range (bytes_of m') (low_usize off) 32 = to_big_endian v"
    using sub_range_overwrite_same [of "low_usize off" "to_big_endian v" "bytes_of m"] assms
    by (simp add: m'(2) size_bytes)
  with m'(1) size assms show ?thesis
    by (simp add: read_inside)
qed

lemma read_elsewhere:
  assumes "low_usize off + 32 \<le> m_size m" "low_usize p + 32 \<le> m_size m"
    and "low_usize p + 32 \<le> low_usize off \<or> low_usize off + 32 \<le> low_usize p"
    and "m_write m off v = Ok m'"
  shows "m_read m' p = m_read m p"
proof -
  from write_inside [OF assms(1), of v] assms(4)
  have b: "bytes_of m' = overwrite (bytes_of m) (low_usize off) (to_big_endian v)" by auto
  then have "m_size m' = m_size m"
    using assms(1) by (simp add: size_bytes length_overwrite)
  with assms b show ?thesis
    by (simp add: read_inside sub_range_overwrite_disjoint size_bytes)
qed

lemma slice_after_write_slice:
  assumes "low_usize off + length s \<le> m_size m" "m_size m < 2 ^ 64" "low_usize n = length s"
  shows "\<exists>m'. m_write_slice m off s = Ok m' \<and> m_read_slice m' off n = Ok s"
proof -
  from write_slice_inside [OF assms(1)] obtain m' where
    m': "m_write_slice m off s = Ok m'" "bytes_of m' = overwrite (bytes_of m) (low_usize off) s"
    by blast
  then have "m_size m' = m_size m"
    using assms(1) by (simp add: size_bytes length_overwrite)
  with m' assms show ?thesis
    by (simp add: read_slice_inside sub_range_overwrite_same size_bytes)
qed

end

section \<open>The vector implements it\<close>

lemma mem_expand_eq: "mem_expand m n = m @ replicate (n - length m) 0"
  by (simp add: mem_expand_def mem_resize_def)

lemma length_mem_expand [simp]: "length (mem_expand m n) = max (length m) n"
  by (simp add: mem_expand_eq)

lemma overwrite_Nil [simp]: "overwrite m off [] = m"
  by (simp add: overwrite_def)

lemma sub_range_0 [simp]: "sub_range m off 0 = []"
  by (simp add: sub_range_def)

interpretation vm: memory_trait "\<lambda>m. m" mem_size mem_expand mem_read mem_write write_slice read_slice
  by unfold_locales
    (auto simp: mem_size_def mem_expand_eq mem_read_def mem_write_def write_slice_def read_slice_def
      Let_def is_valid_range_def)

section \<open>Returning memory\<close>

lemma read_slice_bytes:
  "read_slice m off n = Ok bs \<Longrightarrow>
   bs = (if is_valid_range (low_usize off) (low_usize n)
         then sub_range m (low_usize off) (low_usize n) else [])"
  by (auto simp: read_slice_def Let_def split: if_splits)

lemma into_return_data_read_slice:
  assumes "read_slice m off n = (Ok bs :: ('e, bytes) outcome)"
  shows "\<exists>r. into_return_data m off n = (Ok r :: ('e, return_data) outcome) \<and>
    return_data_ok r \<and> return_data_bytes r = bs"
proof (cases "is_valid_range (low_usize off) (low_usize n)")
  case True
  with assms have "low_usize off + low_usize n \<le> length m" "bs = sub_range m (low_usize off) (low_usize n)"
    by (auto simp: read_slice_def Let_def split: if_splits)
  then show ?thesis
    using True
    by (auto simp: into_return_data_def Let_def new_return_data_def return_data_ok_def
      return_data_bytes_def sub_range_def MAX_RETURN_WASTE_BYTES_def)
next
  case False
  with assms show ?thesis
    by (simp add: into_return_data_def read_slice_def)
qed

section \<open>Properties\<close>

text \<open>
  C17. Memory behaves as an array: a word written inside the memory is read back unchanged
  (the big-endian encoding round-trips), the write leaves the size alone, and every word that
  does not overlap it keeps its value.
\<close>

theorem memory_read_write:
  assumes "low_usize off + 32 \<le> mem_size m" "low_usize p + 32 \<le> mem_size m"
    and "low_usize p + 32 \<le> low_usize off \<or> low_usize off + 32 \<le> low_usize p"
  shows "\<exists>m'. mem_write m off v = (Ok m' :: bytes vm_result) \<and> mem_size m' = mem_size m \<and>
    mem_read m' off = (Ok v :: u256 vm_result) \<and> mem_read m' p = (mem_read m p :: u256 vm_result)"
proof -
  from vm.read_after_write [OF assms(1), of v]
  obtain m' where "mem_write m off v = (Ok m' :: bytes vm_result)"
      "mem_read m' off = (Ok v :: u256 vm_result)" "mem_size m' = mem_size m"
    by blast
  with vm.read_elsewhere [OF assms] show ?thesis by blast
qed

theorem memory_read_write_witness:
  "\<exists>m'. mem_write (replicate 64 0) 0 0xabcdef = (Ok m' :: bytes vm_result) \<and> mem_size m' = 64 \<and>
    mem_read m' 0 = (Ok 0xabcdef :: u256 vm_result) \<and>
    mem_read m' 32 = (mem_read (replicate 64 0) 32 :: u256 vm_result)"
  using memory_read_write [of 0 "replicate 64 0" 32 "0xabcdef"]
  by (simp add: mem_size_def low_usize_def)

text \<open>
  C18. Converting the memory into return data yields exactly the bytes \<open>read_slice\<close> would, whether
  the buffer is kept, truncated or copied to save space, and the slice that \<open>ReturnData\<close> later
  takes is inside its buffer.
\<close>

theorem into_return_data_same_bytes:
  assumes "read_slice m off n = (Ok bs :: bytes vm_result)"
  shows "\<exists>r. into_return_data m off n = (Ok r :: return_data vm_result) \<and>
    return_data_deref r = (Ok bs :: bytes vm_result)"
  using into_return_data_read_slice [OF assms] by auto

theorem into_return_data_same_bytes_witness:
  "\<exists>r. into_return_data [1, 2, 3, 4] 1 2 = (Ok r :: return_data vm_result) \<and>
    return_data_deref r = (Ok [2, 3] :: bytes vm_result)"
  by (rule into_return_data_same_bytes)
    (simp add: read_slice_def is_valid_range_def low_usize_def sub_range_def Let_def)

end
