(* ===== verification/Jump_Dests.thy ===== *)
theory Jump_Dests
  imports Instructions
begin

text \<open>
  Valid jump destinations: src/ethcore/evm/src/interpreter/shared_cache.rs. The scan
  \<open>find_jump_destinations\<close> walks the code and skips the immediate bytes of \<open>PUSH*\<close>; the bit set it
  fills is a set of positions. \<open>SharedCache\<close> keeps results by code hash in a size-bounded LRU
  cache. The cache is its content, a map, together with the eviction that follows an insertion:
  which entries the LRU policy drops is not fixed here, only that it adds none
  (\<open>shared_cache_ok\<close>). \<open>keccak_empty\<close> is the constant \<open>KECCAK_EMPTY\<close> of the hashing crate.
\<close>

function scan_jump_destinations :: "bytes \<Rightarrow> nat \<Rightarrow> nat set \<Rightarrow> nat set" where
  "scan_jump_destinations code position jump_dests =
    (if position < length code then
       (case from_u8 (code ! position) of
          Some instr \<Rightarrow>
            if instr = JUMPDEST
            then scan_jump_destinations code (position + 1) (insert position jump_dests)
            else (case push_bytes instr of
                Some n \<Rightarrow> scan_jump_destinations code (position + n + 1) jump_dests
              | None \<Rightarrow> scan_jump_destinations code (position + 1) jump_dests)
        | None \<Rightarrow> scan_jump_destinations code (position + 1) jump_dests)
     else jump_dests)"
  by pat_completeness auto
termination
  by (relation "measure (\<lambda>(code, position, _). length code - position)") auto

declare scan_jump_destinations.simps [simp del]

definition find_jump_destinations :: "bytes \<Rightarrow> nat set" where
  "find_jump_destinations code = scan_jump_destinations code 0 {}"

record shared_cache =
  sc_jump_destinations :: "h256 \<Rightarrow> (nat set) option"
  sc_evict :: "(h256 \<Rightarrow> (nat set) option) \<Rightarrow> (h256 \<Rightarrow> (nat set) option)"

definition jump_destinations ::
  "h256 \<Rightarrow> shared_cache \<Rightarrow> h256 option \<Rightarrow> bytes \<Rightarrow> nat set \<times> shared_cache" where
  "jump_destinations keccak_empty c code_hash code =
    (let d = find_jump_destinations code in
     case code_hash of
       Some h \<Rightarrow>
         if h = keccak_empty then (d, c)
         else (case sc_jump_destinations c h of
             Some cached \<Rightarrow> (cached, c)
           | None \<Rightarrow> (d, c\<lparr>sc_jump_destinations := sc_evict c ((sc_jump_destinations c)(h \<mapsto> d))\<rparr>))
     | None \<Rightarrow> (d, c))"

section \<open>Instruction boundaries\<close>

text \<open>
  The specification: position 0 starts an instruction, and after an instruction at \<open>p\<close> the next
  one starts past its immediate bytes. Bytes inside the immediate of a \<open>PUSH\<close> start none.
\<close>

definition immediate_size :: "u8 \<Rightarrow> nat" where
  "immediate_size b = (case from_u8 b of Some i \<Rightarrow> (case push_bytes i of Some n \<Rightarrow> n | None \<Rightarrow> 0) | None \<Rightarrow> 0)"

inductive boundary :: "bytes \<Rightarrow> nat \<Rightarrow> bool" for code where
  boundary_start: "boundary code 0"
| boundary_next: "boundary code p \<Longrightarrow> p < length code \<Longrightarrow> boundary code (Suc (p + immediate_size (code ! p)))"

inductive boundary_from :: "bytes \<Rightarrow> nat \<Rightarrow> nat \<Rightarrow> bool" for code where
  from_here: "boundary_from code p p"
| from_next: "p < length code \<Longrightarrow> boundary_from code (Suc (p + immediate_size (code ! p))) q \<Longrightarrow> boundary_from code p q"

inductive_cases boundary_fromE: "boundary_from code p q"

lemma boundary_from_step: "boundary_from code p q \<Longrightarrow> q < length code \<Longrightarrow>
    boundary_from code p (Suc (q + immediate_size (code ! q)))"
  by (induction rule: boundary_from.induct) (auto intro: boundary_from.intros)

lemma boundary_iff_from_0: "boundary code p \<longleftrightarrow> boundary_from code 0 p"
proof
  show "boundary code p \<Longrightarrow> boundary_from code 0 p"
    by (induction rule: boundary.induct) (auto intro: from_here dest: boundary_from_step)
  have "boundary_from code q p \<Longrightarrow> boundary code q \<Longrightarrow> boundary code p" for q
    by (induction rule: boundary_from.induct) (auto intro: boundary_next)
  then show "boundary_from code 0 p \<Longrightarrow> boundary code p"
    by (blast intro: boundary_start)
qed

lemma boundary_from_unfold:
  "boundary_from code p q \<longleftrightarrow> q = p \<or> p < length code \<and> boundary_from code (Suc (p + immediate_size (code ! p))) q"
  by (auto elim: boundary_fromE intro: boundary_from.intros)

lemma boundary_from_end: "\<not> p < length code \<Longrightarrow> boundary_from code p q \<longleftrightarrow> q = p"
  by (subst boundary_from_unfold) simp

lemma jumpdest_byte: "from_u8 b = Some i \<Longrightarrow> i = JUMPDEST \<longleftrightarrow> b = 0x5b"
  using from_u8_SomeD [of b i] from_u8_u8_of [of JUMPDEST] by auto

lemma push_bytes_jumpdest [simp]: "push_bytes JUMPDEST = None"
  by (simp add: push_bytes_None)

lemma immediate_jumpdest [simp]: "immediate_size 0x5b = 0"
proof -
  have "from_u8 0x5b = Some JUMPDEST" using from_u8_u8_of [of JUMPDEST] by simp
  then show ?thesis
    by (simp add: immediate_size_def)
qed

lemma scan_step:
  assumes "p < length code"
  shows "scan_jump_destinations code p ds =
    scan_jump_destinations code (Suc (p + immediate_size (code ! p)))
      (if code ! p = 0x5b then insert p ds else ds)"
proof (cases "from_u8 (code ! p)")
  case None
  then have "code ! p \<noteq> 0x5b" using from_u8_u8_of [of JUMPDEST] by auto
  with None assms show ?thesis
    by (simp add: scan_jump_destinations.simps [of code p] immediate_size_def)
next
  case (Some i)
  with assms jumpdest_byte [OF Some] show ?thesis
    by (cases "code ! p = 0x5b")
      (auto simp: scan_jump_destinations.simps [of code p] immediate_size_def split: option.splits)
qed

lemma scan_correct:
  "scan_jump_destinations code p ds = ds \<union> {q. boundary_from code p q \<and> q < length code \<and> code ! q = 0x5b}"
proof (induction "length code - p" arbitrary: p ds rule: less_induct)
  case less
  show ?case
  proof (cases "p < length code")
    case True
    then have "length code - (Suc (p + immediate_size (code ! p))) < length code - p" by simp
    from less.hyps [OF this, of "if code ! p = 0x5b then insert p ds else ds"] True
    show ?thesis
      by (auto simp: scan_step boundary_from_unfold [of code p])
  next
    case False
    then show ?thesis
      by (auto simp: scan_jump_destinations.simps [of code p] boundary_from_end)
  qed
qed

lemma find_jump_destinations_iff:
  "p \<in> find_jump_destinations code \<longleftrightarrow> boundary code p \<and> p < length code \<and> code ! p = 0x5b"
  by (simp add: find_jump_destinations_def scan_correct boundary_iff_from_0)

section \<open>The shared cache\<close>

text \<open>
  The cache is consistent for a set of codes when every entry under the hash of one of them is
  that code's scan. Hashes of these codes are taken to be distinct (\<open>inj_on keccak\<close>), which is
  what keying by hash relies on.
\<close>

definition shared_cache_ok :: "(bytes \<Rightarrow> h256) \<Rightarrow> bytes set \<Rightarrow> shared_cache \<Rightarrow> bool" where
  "shared_cache_ok keccak codes c \<longleftrightarrow>
     (\<forall>code \<in> codes. \<forall>d. sc_jump_destinations c (keccak code) = Some d \<longrightarrow> d = find_jump_destinations code) \<and>
     (\<forall>m. sc_evict c m \<subseteq>\<^sub>m m)"

lemma evicted_entry:
  assumes "shared_cache_ok keccak codes c" "sc_evict c m k = Some d"
  shows "m k = Some d"
  using assms unfolding shared_cache_ok_def map_le_def by (metis domI)

lemma shared_cache_ok_insert:
  assumes "shared_cache_ok keccak codes c" "inj_on keccak codes" "code \<in> codes"
  shows "shared_cache_ok keccak codes (c\<lparr>sc_jump_destinations :=
    sc_evict c ((sc_jump_destinations c)(keccak code \<mapsto> find_jump_destinations code))\<rparr>)"
proof -
  have "d = find_jump_destinations code'"
    if "code' \<in> codes"
      "sc_evict c ((sc_jump_destinations c)(keccak code \<mapsto> find_jump_destinations code)) (keccak code') = Some d"
    for code' d
    using evicted_entry [OF assms(1) that(2)] assms that(1)
    by (auto simp: shared_cache_ok_def inj_on_def split: if_splits)
  with assms(1) show ?thesis by (auto simp: shared_cache_ok_def)
qed

section \<open>Properties\<close>

text \<open>
  C19. The scan finds exactly the valid destinations: a position is in the set if and only if an
  instruction starts there and that instruction is \<open>JUMPDEST\<close>. In particular a byte \<open>0x5b\<close> that is
  data of a \<open>PUSH\<close> is never one.
\<close>

theorem jump_destinations_exact:
  "find_jump_destinations code = {p. boundary code p \<and> p < length code \<and> code ! p = u8_of JUMPDEST}"
  by (auto simp: find_jump_destinations_iff)


text \<open>
  C20. The shared cache is transparent: with a consistent cache, \<open>jump_destinations\<close> returns the
  scan of the given code whether it hits, misses or bypasses the cache, and the cache it leaves
  behind is consistent again, whatever the LRU policy evicts.
\<close>

theorem jump_destinations_cached:
  assumes "shared_cache_ok keccak codes c" "inj_on keccak codes" "code \<in> codes"
    and "code_hash = None \<or> code_hash = Some (keccak code)"
    and "jump_destinations keccak_empty c code_hash code = (d, c')"
  shows "d = find_jump_destinations code \<and> shared_cache_ok keccak codes c'"
proof (cases "code_hash = None \<or> code_hash = Some keccak_empty \<or> sc_jump_destinations c (keccak code) \<noteq> None")
  case True
  with assms have "c' = c" "d = find_jump_destinations code"
    by (auto simp: jump_destinations_def Let_def shared_cache_ok_def split: if_splits)
  with assms(1) show ?thesis by simp
next
  case False
  with assms(4) have "code_hash = Some (keccak code)" "keccak code \<noteq> keccak_empty"
      "sc_jump_destinations c (keccak code) = None"
    by auto
  with assms(5) have "d = find_jump_destinations code"
      "c' = c\<lparr>sc_jump_destinations := sc_evict c ((sc_jump_destinations c)(keccak code \<mapsto> d))\<rparr>"
    by (auto simp: jump_destinations_def Let_def)
  with shared_cache_ok_insert [OF assms(1-3)] show ?thesis by simp
qed

theorem jump_destinations_cached_witness:
  "let c = \<lparr>sc_jump_destinations = Map.empty, sc_evict = (\<lambda>m. m)\<rparr>;
       r = jump_destinations 0 c (Some 7) [0x5b, 0x60, 0x5b]
   in fst r = find_jump_destinations [0x5b, 0x60, 0x5b] \<and>
      shared_cache_ok (\<lambda>_. 7) {[0x5b, 0x60, 0x5b]} (snd r)"
  unfolding Let_def
  by (rule jump_destinations_cached [where keccak = "\<lambda>_. 7" and codes = "{[0x5b, 0x60, 0x5b]}"
        and code_hash = "Some 7" and keccak_empty = 0])
    (auto simp: shared_cache_ok_def)

end
