(* ===== verification/Evm_Arith.thy ===== *)
theory Evm_Arith
  imports Prelude "HOL-Library.Signed_Division"
begin

text \<open>
  The arithmetic of the interpreter: the values that the arms of \<open>exec_instruction\<close> in
  src/ethcore/evm/src/interpreter/mod.rs push for the arithmetic, comparison, bitwise and shift
  instructions, with the helpers \<open>get_and_reset_sign\<close>, \<open>set_sign\<close> and \<open>bool_to_u256\<close>. The operands
  are named as in the source, in the order in which it pops them. The lemmas compare each of them
  with the mathematical operation on the (signed or unsigned) value of the operands.
\<close>

definition bool_to_u256 :: "bool \<Rightarrow> u256" where
  "bool_to_u256 val = (if val then 1 else 0)"

definition set_sign :: "u256 \<Rightarrow> bool \<Rightarrow> u256" where
  "set_sign val sign = (if sign then fst (overflowing_add (NOT 0 XOR val) 1) else val)"

definition get_and_reset_sign :: "u256 \<Rightarrow> u256 \<times> bool" where
  "get_and_reset_sign val = (let sign = bit val 255 in (set_sign val sign, sign))"

definition op_div :: "u256 \<Rightarrow> u256 \<Rightarrow> u256" where
  "op_div a b =
    (if b \<noteq> 0 then
       (if b = 1 then a
        else if b = 2 then drop_bit 1 a
        else if b = 0x20 then drop_bit 5 a
        else if b = 0x100 then drop_bit 8 a
        else if b = 0x10000 then drop_bit 16 a
        else if b = 0x1000000 then drop_bit 24 a
        else if b = 2 ^ 64 then drop_bit 64 a
        else if b = 2 ^ 96 then drop_bit 96 a
        else if b = 2 ^ 224 then drop_bit 224 a
        else if b = 2 ^ 248 then drop_bit 248 a
        else a div b)
     else 0)"

definition op_mod :: "u256 \<Rightarrow> u256 \<Rightarrow> u256" where
  "op_mod a b = (if b \<noteq> 0 then a mod b else 0)"

definition op_sdiv :: "u256 \<Rightarrow> u256 \<Rightarrow> u256" where
  "op_sdiv ua ub =
    (let (a, sign_a) = get_and_reset_sign ua;
         (b, sign_b) = get_and_reset_sign ub;
         min = push_bit 255 1 - 1
     in if b = 0 then 0
        else if a = min \<and> b = NOT 0 then min
        else set_sign (a div b) (sign_a \<noteq> sign_b))"

definition op_smod :: "u256 \<Rightarrow> u256 \<Rightarrow> u256" where
  "op_smod ua ub =
    (let (a, sign_a) = get_and_reset_sign ua;
         b = fst (get_and_reset_sign ub)
     in if b \<noteq> 0 then set_sign (a mod b) sign_a else 0)"

definition op_exp :: "u256 \<Rightarrow> u256 \<Rightarrow> u256" where
  "op_exp base expon = base ^ unat expon"

definition op_slt :: "u256 \<Rightarrow> u256 \<Rightarrow> u256" where
  "op_slt ua ub =
    (let (a, neg_a) = get_and_reset_sign ua;
         (b, neg_b) = get_and_reset_sign ub;
         is_positive_lt = a < b \<and> \<not> (neg_a \<or> neg_b);
         is_negative_lt = a > b \<and> (neg_a \<and> neg_b);
         has_different_signs = neg_a \<and> \<not> neg_b
     in bool_to_u256 (is_positive_lt \<or> is_negative_lt \<or> has_different_signs))"

definition op_sgt :: "u256 \<Rightarrow> u256 \<Rightarrow> u256" where
  "op_sgt ua ub =
    (let (a, neg_a) = get_and_reset_sign ua;
         (b, neg_b) = get_and_reset_sign ub;
         is_positive_gt = a > b \<and> \<not> (neg_a \<or> neg_b);
         is_negative_gt = a < b \<and> (neg_a \<and> neg_b);
         has_different_signs = \<not> neg_a \<and> neg_b
     in bool_to_u256 (is_positive_gt \<or> is_negative_gt \<or> has_different_signs))"

definition op_byte :: "u256 \<Rightarrow> u256 \<Rightarrow> u256" where
  "op_byte word val =
    (if word < 32 then drop_bit (8 * (31 - low_usize word)) val AND 0xff else 0)"

definition op_addmod :: "u256 \<Rightarrow> u256 \<Rightarrow> u256 \<Rightarrow> u256" where
  "op_addmod a b c =
    (if c \<noteq> 0 then
       (let a5 = (ucast a :: u512);
            res = fst (overflowing_add a5 (ucast b));
            x = res mod ucast c
        in ucast x)
     else 0)"

definition op_mulmod :: "u256 \<Rightarrow> u256 \<Rightarrow> u256 \<Rightarrow> u256" where
  "op_mulmod a b c =
    (if c \<noteq> 0 then
       (let a5 = (ucast a :: u512);
            res = fst (overflowing_mul a5 (ucast b));
            x = res mod ucast c
        in ucast x)
     else 0)"

text \<open>The result of \<open>SIGNEXTEND\<close> where its first operand is below 32.\<close>

definition op_signextend :: "u256 \<Rightarrow> u256 \<Rightarrow> u256" where
  "op_signextend b number =
    (let bit_position = low_usize b * 8 + 7;
         mask = push_bit bit_position 1 - 1
     in if bit number bit_position then number OR NOT mask else number AND mask)"

definition op_shl :: "u256 \<Rightarrow> u256 \<Rightarrow> u256" where
  "op_shl shift val = (if shift \<ge> 256 then 0 else push_bit (unat shift) val)"

definition op_shr :: "u256 \<Rightarrow> u256 \<Rightarrow> u256" where
  "op_shr shift val = (if shift \<ge> 256 then 0 else drop_bit (unat shift) val)"

definition op_sar :: "u256 \<Rightarrow> u256 \<Rightarrow> u256" where
  "op_sar shift val =
    (let sign = (val AND push_bit 255 1 \<noteq> 0)
     in if shift \<ge> 256 then (if sign then NOT 0 else 0)
        else (let shifted = drop_bit (unat shift) val
              in if sign then shifted OR push_bit (256 - unat shift) (NOT 0) else shifted))"

section \<open>Signed operations\<close>

lemma set_sign_simps: "set_sign v False = v" "set_sign v True = - v"
proof -
  have "(NOT 0 XOR v) + 1 = - v" by (simp only: minus_eq_not_plus_1) simp
  then show "set_sign v False = v" "set_sign v True = - v"
    by (simp_all only: set_sign_def overflowing_add_def fst_conv if_True if_False)
qed

lemma sign_bit: "bit (v :: u256) 255 \<longleftrightarrow> sint v < 0"
  using bit_last_iff [of v] by simp

lemma abs_word: "get_and_reset_sign v = (word_of_int \<bar>sint v\<bar>, sint v < 0)"
  by (simp add: get_and_reset_sign_def sign_bit set_sign_simps abs_if)

lemma sint_range256: "- (2 ^ 255) \<le> sint (v :: u256)" "sint (v :: u256) < 2 ^ 255"
  using sint_ge [of v] sint_lt [of v] by simp_all

lemma uint_abs: "uint (word_of_int \<bar>sint (v :: u256)\<bar> :: u256) = \<bar>sint v\<bar>"
proof -
  have "\<bar>sint v\<bar> < 2 ^ 256" using sint_range256 [of v] by simp
  then show ?thesis by (simp add: unsigned_of_int take_bit_eq_mod)
qed

lemma word_of_int_div:
  assumes "uint (a :: u256) = x" "uint b = y" shows "a div b = word_of_int (x div y)" "a mod b = word_of_int (x mod y)"
  using assms by (simp_all add: word_div_def word_mod_def)

lemma op_sdiv_eq: "op_sdiv a b = word_of_int (sint a sdiv sint b)"
proof -
  let ?a = "word_of_int \<bar>sint a\<bar> :: u256" and ?b = "word_of_int \<bar>sint b\<bar> :: u256"
  have b0: "?b = 0 \<longleftrightarrow> sint b = 0"
    using uint_abs [of b] by (metis abs_eq_0 uint_0_iff)
  have not_max: "?b \<noteq> NOT 0"
  proof
    assume "?b = NOT 0"
    then have "uint ?b = 2 ^ 256 - 1" by (simp add: unsigned_minus_1_eq_mask mask_eq_exp_minus_1)
    then show False using uint_abs [of b] sint_range256 [of b] by simp
  qed
  show ?thesis
    by (simp add: op_sdiv_def abs_word Let_def b0 not_max set_sign_simps
      word_of_int_div [OF uint_abs uint_abs] signed_divide_int_def sgn_if)
     (auto simp: set_sign_simps)
qed

lemma op_smod_eq: "op_smod a b = word_of_int (if sint b = 0 then 0 else sint a smod sint b)"
proof -
  let ?a = "word_of_int \<bar>sint a\<bar> :: u256" and ?b = "word_of_int \<bar>sint b\<bar> :: u256"
  have b0: "?b = 0 \<longleftrightarrow> sint b = 0"
    using uint_abs [of b] by (metis abs_eq_0 uint_0_iff)
  have smod: "x smod y = sgn x * (\<bar>x\<bar> mod \<bar>y\<bar>)" for x y :: int
    by (simp add: signed_modulo_int_def signed_divide_int_def minus_div_mult_eq_mod [symmetric] sgn_if)
  show ?thesis
    by (auto simp: op_smod_def abs_word Let_def b0 set_sign_simps
      word_of_int_div [OF uint_abs uint_abs] smod sgn_if)
qed

lemma compare_abs: "(word_of_int \<bar>sint (a :: u256)\<bar> :: u256) < word_of_int \<bar>sint (b :: u256)\<bar> \<longleftrightarrow> \<bar>sint a\<bar> < \<bar>sint b\<bar>"
  by (simp only: word_less_def uint_abs)

lemma op_slt_eq: "op_slt a b = bool_to_u256 (sint a < sint b)"
  by (auto simp: op_slt_def abs_word Let_def compare_abs intro!: arg_cong [where f = bool_to_u256])

lemma op_sgt_eq: "op_sgt a b = bool_to_u256 (sint a > sint b)"
  by (auto simp: op_sgt_def abs_word Let_def compare_abs intro!: arg_cong [where f = bool_to_u256])

lemma op_signextend_eq:
  assumes "b < 32" shows "op_signextend b v = signed_take_bit (8 * unat b + 7) v"
proof -
  have "unat b < 32" using assms by (simp add: word_less_nat_alt)
  then have "low_usize b = unat b" by (simp add: low_usize_small)
  moreover have "signed_take_bit n v = (if bit v n then v OR NOT (mask n) else v AND mask n)" for n
    by (simp add: signed_take_bit_def take_bit_eq_mask bit_eq_iff) (auto simp: bit_simps)
  ultimately show ?thesis
    by (simp add: op_signextend_def Let_def mask_eq_decr_exp push_bit_eq_mult mult.commute)
qed

lemma op_sar_signed_drop: "op_sar s v = signed_drop_bit (unat s) v"
proof -
  have sign: "v AND push_bit 255 1 \<noteq> 0 \<longleftrightarrow> bit v 255"
    by (rule bit_iff_and_push_bit_not_eq_0 [symmetric])
  have "op_sar s v = (if 256 \<le> unat s then (if bit v 255 then NOT 0 else 0)
      else if bit v 255 then drop_bit (unat s) v OR push_bit (256 - unat s) (NOT 0)
      else drop_bit (unat s) v)"
    by (simp only: op_sar_def Let_def sign word_le_nat_alt) simp
  then show ?thesis
    by (auto simp: bit_eq_iff bit_simps bit_signed_drop_bit_iff min_def dest: bit_imp_le_length)
qed

lemma op_sar_eq: "sint (op_sar s v) = sint v div 2 ^ unat s"
  by (simp add: op_sar_signed_drop sint_signed_drop_bit_eq drop_bit_eq_div)

section \<open>Unsigned operations\<close>

lemma op_div_eq: "op_div a b = a div b"
proof -
  have "drop_bit n a = a div 2 ^ n" for n by (rule drop_bit_eq_div)
  then show ?thesis by (simp add: op_div_def)
qed

lemma op_byte_eq: "op_byte i v = (if i < 32 then ucast (to_big_endian v ! unat i) else 0)"
proof (cases "i < 32")
  case True
  then have i: "unat i < 32" by (simp add: word_less_nat_alt)
  then have "low_usize i = unat i" by (simp add: low_usize_small)
  moreover have "to_big_endian v ! unat i = ucast (drop_bit (8 * (31 - unat i)) v)"
    using i by (simp add: to_big_endian_def rev_nth)
  moreover have "(ucast (ucast w :: u8) :: u256) = w AND 0xff" for w :: u256
    using take_bit_eq_mask [of 8 w] by (simp add: unsigned_ucast_eq mask_eq_exp_minus_1)
  ultimately show ?thesis using True by (simp add: op_byte_def)
qed (simp add: op_byte_def)

lemma mod_512:
  assumes "(c :: u256) \<noteq> 0" "unat (r :: u512) = n"
  shows "unat (ucast (r mod ucast c) :: u256) = n mod unat c"
proof -
  have c: "unat (ucast c :: u512) = unat c" by (simp add: unat_ucast_up)
  have "unat c \<noteq> 0" using assms(1) by (simp add: unat_eq_zero)
  then have "n mod unat c < 2 ^ 256" using unat_below [of c] by simp (meson less_trans mod_less_divisor neq0_conv)
  then show ?thesis using assms(2) c by (simp add: unat_ucast unat_mod_distrib)
qed

lemma op_addmod_eq: "unat (op_addmod a b c) = (if c = 0 then 0 else (unat a + unat b) mod unat c)"
proof -
  have "unat (ucast a + ucast b :: u512) = unat a + unat b"
    using unat_below [of a] unat_below [of b] by (subst unat_plus_exact) (simp_all add: unat_ucast_up)
  from mod_512 [OF _ this] show ?thesis
    by (simp add: op_addmod_def Let_def overflowing_add_def)
qed

lemma op_mulmod_eq: "unat (op_mulmod a b c) = (if c = 0 then 0 else (unat a * unat b) mod unat c)"
proof -
  have "unat a * unat b < 2 ^ 256 * 2 ^ 256"
    using unat_below [of a] unat_below [of b] by (intro mult_strict_mono) simp_all
  then have "unat (ucast a * ucast b :: u512) = unat a * unat b"
    by (subst unat_times_exact) (simp_all add: unat_ucast_up)
  from mod_512 [OF _ this] show ?thesis
    by (simp add: op_mulmod_def Let_def overflowing_mul_def)
qed

lemma op_shl_eq: "op_shl s v = v * 2 ^ unat s"
proof (cases "s \<ge> 256")
  case True
  then have "256 \<le> unat s" by (simp add: word_le_nat_alt)
  then have "(2 :: u256) ^ unat s = 0" by simp
  with True show ?thesis by (simp only: op_shl_def if_True mult_zero_right)
qed (simp add: op_shl_def push_bit_eq_mult)

lemma op_shr_eq: "unat (op_shr s v) = unat v div 2 ^ unat s"
proof (cases "s \<ge> 256")
  case True
  then have "(2 :: nat) ^ 256 \<le> 2 ^ unat s" by (intro power_increasing) (simp_all add: word_le_nat_alt)
  then have "unat v < 2 ^ unat s" using unat_below [of v] by simp
  then show ?thesis using True by (simp add: op_shr_def)
qed (simp add: op_shr_def unat_drop_bit)

section \<open>Properties\<close>

text \<open>
  C21. The signed instructions, which the interpreter computes on magnitudes and signs, are the
  two's-complement operations: \<open>SDIV\<close> and \<open>SMOD\<close> truncate towards zero (and give 0 for a zero
  divisor; the one overflowing quotient wraps), \<open>SLT\<close> and \<open>SGT\<close> compare the signed values, \<open>SAR\<close> is
  division by a power of two rounding down, for every shift amount.
\<close>

theorem signed_instructions:
  "op_sdiv a b = word_of_int (sint a sdiv sint b)
   \<and> op_smod a b = word_of_int (if sint b = 0 then 0 else sint a smod sint b)
   \<and> op_slt a b = bool_to_u256 (sint a < sint b)
   \<and> op_sgt a b = bool_to_u256 (sint a > sint b)
   \<and> sint (op_sar a b) = sint b div 2 ^ unat a"
  by (simp only: op_sdiv_eq op_smod_eq op_slt_eq op_sgt_eq op_sar_eq simp_thms)

text \<open>
  C22. The unsigned instructions compute what they stand for: the ten shortcuts of \<open>DIV\<close> agree
  with the division they replace, \<open>ADDMOD\<close> and \<open>MULMOD\<close> reduce the unbounded sum and product,
  shifts by any amount are multiplication and division by a power of two, and \<open>BYTE\<close> selects a
  byte of the big-endian representation.
\<close>

theorem unsigned_instructions:
  "op_div a b = a div b
   \<and> unat (op_addmod a b c) = (if c = 0 then 0 else (unat a + unat b) mod unat c)
   \<and> unat (op_mulmod a b c) = (if c = 0 then 0 else (unat a * unat b) mod unat c)
   \<and> op_shl a b = b * 2 ^ unat a
   \<and> unat (op_shr a b) = unat b div 2 ^ unat a
   \<and> op_byte a b = (if a < 32 then ucast (to_big_endian b ! unat a) else 0)"
  by (simp only: op_div_eq op_addmod_eq op_mulmod_eq op_shl_eq op_shr_eq op_byte_eq simp_thms)

text \<open>
  C23. \<open>SIGNEXTEND\<close> with an index below 32 extends the sign of the selected low bytes: the result
  is the value of those bytes read as a two's-complement number.
\<close>

theorem signextend_instruction:
  assumes "b < 32"
  shows "op_signextend b v = signed_take_bit (8 * unat b + 7) v"
  using assms by (rule op_signextend_eq)

theorem signextend_instruction_witness: "op_signextend 0 0x1ff = - 1"
  using signextend_instruction [of 0 "0x1ff"] by (simp add: signed_take_bit_def mask_eq_exp_minus_1)

end
