(* ===== verification/Interpreter.thy ===== *)
theory Interpreter
  imports Gasometer Vm_Memory Jump_Dests Evm_Arith
begin

text \<open>
  The interpreter: src/ethcore/evm/src/interpreter/mod.rs. Its state is the record \<open>interpreter\<close>
  (the struct of the source without the logging \<open>informant\<close> and the phantom type); an operation is
  an action on the pair of that record and the state \<open>'x\<close> behind the \<open>Ext\<close> interface. The match
  arms of \<open>exec_instruction\<close> are the \<open>exec_*\<close> definitions, and \<open>exec_instruction\<close> dispatches to
  them. A parameter \<open>keccak\<close> stands for the hash function.
\<close>

section \<open>Code reader\<close>

record code_reader =
  rdr_position :: nat
  rdr_code :: bytes

definition new_reader :: "bytes \<Rightarrow> code_reader" where
  "new_reader code = \<lparr>rdr_position = 0, rdr_code = code\<rparr>"

definition reader_read :: "code_reader \<Rightarrow> nat \<Rightarrow> ('e, u256 \<times> code_reader) outcome" where
  "reader_read r no_of_bytes =
    (let pos = rdr_position r; max = min (pos + no_of_bytes) (length (rdr_code r)) in
     if pos \<le> max
     then Ok (be_word (sub_range (rdr_code r) pos (max - pos)), r\<lparr>rdr_position := pos + no_of_bytes\<rparr>)
     else Panic)"

definition reader_len :: "code_reader \<Rightarrow> nat" where
  "reader_len r = length (rdr_code r)"

section \<open>State\<close>

datatype 'c instruction_result =
    IR_Ok
  | IR_UnusedGas 'c
  | IR_JumpToPosition u256
  | IR_StopExecutionNeedsReturn 'c u256 u256 bool
  | IR_StopExecution
  | IR_Trap trap_kind

record interpreter_params =
  ip_code_address :: address
  ip_code_hash :: "h256 option"
  ip_address :: address
  ip_sender :: address
  ip_origin :: address
  ip_gas :: u256
  ip_gas_price :: u256
  ip_value :: action_value
  ip_data :: "bytes option"
  ip_call_type :: call_type
  ip_params_type :: params_type

definition interpreter_params_from :: "action_params \<Rightarrow> interpreter_params" where
  "interpreter_params_from p =
    \<lparr>ip_code_address = ap_code_address p, ip_code_hash = ap_code_hash p, ip_address = ap_address p,
     ip_sender = ap_sender p, ip_origin = ap_origin p, ip_gas = ap_gas p, ip_gas_price = ap_gas_price p,
     ip_value = ap_value p, ip_data = ap_data p, ip_call_type = ap_call_type p,
     ip_params_type = ap_params_type p\<rparr>"

datatype interpreter_result =
    Stopped
  | Done "vm_error + gas_left"
  | Continue
  | Trapped trap_kind

record 'c interpreter =
  it_mem :: bytes
  it_cache :: shared_cache
  it_params :: interpreter_params
  it_reader :: code_reader
  it_return_data :: return_data
  it_do_trace :: bool
  it_done :: bool
  it_valid_jump_destinations :: "(nat set) option"
  it_gasometer :: "'c gasometer option"
  it_stack :: "u256 vec_stack"
  it_resume_output_range :: "(u256 \<times> u256) option"
  it_resume_result :: "'c instruction_result option"
  it_last_stack_ret_len :: nat

definition new_interpreter ::
  "action_params \<Rightarrow> shared_cache \<Rightarrow> schedule \<Rightarrow> ('e, ('g::len word) interpreter) outcome" where
  "new_interpreter params cache s =
    and_then (expect (ap_code params)) (\<lambda>code.
    let gasometer = (case from_u256 (ap_gas params) of Ok gas \<Rightarrow> Some (new_gasometer gas) | _ \<Rightarrow> None)
    in Ok \<lparr>it_mem = [], it_cache = cache, it_params = interpreter_params_from params,
       it_reader = new_reader code, it_return_data = empty_return_data, it_do_trace = True,
       it_done = False, it_valid_jump_destinations = None, it_gasometer = gasometer,
       it_stack = with_capacity (sch_stack_limit s) 0, it_resume_output_range = None,
       it_resume_result = None, it_last_stack_ret_len = 0\<rparr>)"

section \<open>Actions on the interpreter and its externalities\<close>

type_synonym ('c, 'x, 'a) vm_action = "('c interpreter \<times> 'x, vm_error, 'a) action"

definition vm_get :: "('c interpreter \<Rightarrow> 'a) \<Rightarrow> ('c, 'x, 'a) vm_action" where
  "vm_get f = gets (\<lambda>st. f (fst st))"

definition vm_set :: "('c interpreter \<Rightarrow> 'c interpreter) \<Rightarrow> ('c, 'x, unit) vm_action" where
  "vm_set f = modify (\<lambda>st. (f (fst st), snd st))"

definition ext_get :: "('x \<Rightarrow> 'a) \<Rightarrow> ('c, 'x, 'a) vm_action" where
  "ext_get f = gets (\<lambda>st. f (snd st))"

definition with_ext :: "('x, vm_error, 'a) action \<Rightarrow> ('c, 'x, 'a) vm_action" where
  "with_ext m = (\<lambda>st. let (r, x') = m (snd st) in (r, (fst st, x')))"

definition vm_push :: "u256 \<Rightarrow> ('c, 'x, unit) vm_action" where
  "vm_push v = vm_set (\<lambda>i. i\<lparr>it_stack := push (it_stack i) v\<rparr>)"

definition vm_pop :: "('c, 'x, u256) vm_action" where
  "vm_pop =
    bind (vm_get it_stack) (\<lambda>stk.
    bind (lift (pop_back stk)) (\<lambda>(v, stk').
    bind (vm_set (\<lambda>i. i\<lparr>it_stack := stk'\<rparr>)) (\<lambda>_. ret v)))"

definition vm_set_mem :: "bytes \<Rightarrow> ('c, 'x, unit) vm_action" where
  "vm_set_mem m = vm_set (\<lambda>i. i\<lparr>it_mem := m\<rparr>)"

text \<open>An arm that pops its operands, pushes one value and falls through to \<open>Ok(InstructionResult::Ok)\<close>.\<close>

definition unary :: "(u256 \<Rightarrow> u256) \<Rightarrow> ('c, 'x, 'c instruction_result) vm_action" where
  "unary f = bind vm_pop (\<lambda>a. bind (vm_push (f a)) (\<lambda>_. ret IR_Ok))"

definition binary :: "(u256 \<Rightarrow> u256 \<Rightarrow> u256) \<Rightarrow> ('c, 'x, 'c instruction_result) vm_action" where
  "binary f = bind vm_pop (\<lambda>a. bind vm_pop (\<lambda>b. bind (vm_push (f a b)) (\<lambda>_. ret IR_Ok)))"

definition ternary :: "(u256 \<Rightarrow> u256 \<Rightarrow> u256 \<Rightarrow> u256) \<Rightarrow> ('c, 'x, 'c instruction_result) vm_action" where
  "ternary f =
    bind vm_pop (\<lambda>a. bind vm_pop (\<lambda>b. bind vm_pop (\<lambda>c. bind (vm_push (f a b c)) (\<lambda>_. ret IR_Ok))))"

definition push_value :: "('c interpreter \<Rightarrow> u256) \<Rightarrow> ('c, 'x, 'c instruction_result) vm_action" where
  "push_value f = bind (vm_get f) (\<lambda>v. bind (vm_push v) (\<lambda>_. ret IR_Ok))"

definition push_env :: "('x \<Rightarrow> u256) \<Rightarrow> ('c, 'x, 'c instruction_result) vm_action" where
  "push_env f = bind (ext_get f) (\<lambda>v. bind (vm_push v) (\<lambda>_. ret IR_Ok))"

text \<open>\<open>Cost::from_u256(..).expect(..)\<close>: an error is a panic.\<close>

definition expect_ok :: "('e, 'a) outcome \<Rightarrow> ('f, 'a) outcome" where
  "expect_ok r = (case r of Ok x \<Rightarrow> Ok x | _ \<Rightarrow> Panic)"

definition address_to_u256 :: "address \<Rightarrow> u256" where
  "address_to_u256 a = ucast a"

section \<open>The arms of \<open>exec_instruction\<close>\<close>

definition exec_jump :: "('c, 'x, 'c instruction_result) vm_action" where
  "exec_jump = bind vm_pop (\<lambda>jump. ret (IR_JumpToPosition jump))"

definition exec_jumpi :: "('c, 'x, 'c instruction_result) vm_action" where
  "exec_jumpi =
    bind vm_pop (\<lambda>jump.
    bind vm_pop (\<lambda>condition.
    if condition \<noteq> 0 then ret (IR_JumpToPosition jump) else ret IR_Ok))"

definition exec_create ::
  "'x ext_ops \<Rightarrow> instruction \<Rightarrow> ('g::len word) option \<Rightarrow> ('g word, 'x, 'g word instruction_result) vm_action" where
  "exec_create E i provided =
    bind vm_pop (\<lambda>endowment.
    bind vm_pop (\<lambda>init_off.
    bind vm_pop (\<lambda>init_size.
    bind (if i = CREATE then ret FromSenderAndNonce
          else bind vm_pop (\<lambda>salt. ret (FromSenderSaltAndCodeHash salt))) (\<lambda>address_scheme.
    bind (lift (expect provided)) (\<lambda>create_gas.
    bind (ext_get (ext_is_static E)) (\<lambda>is_static.
    if is_static then fail MutableCallInStaticContext else
    bind (vm_set (\<lambda>i. i\<lparr>it_return_data := empty_return_data\<rparr>)) (\<lambda>_.
    bind (vm_get (\<lambda>i. ip_address (it_params i))) (\<lambda>adr.
    bind (with_ext (ext_balance E adr)) (\<lambda>balance.
    bind (ext_get (\<lambda>x. ext_depth E x < unat (sch_max_depth (ext_schedule E x)))) (\<lambda>depth_ok.
    let can_create = endowment \<le> balance \<and> depth_ok in
    if \<not> can_create then bind (vm_push 0) (\<lambda>_. ret (IR_UnusedGas create_gas)) else
    bind (vm_get it_mem) (\<lambda>m.
    bind (lift (read_slice m init_off init_size)) (\<lambda>contract_code.
    bind (with_ext (ext_create E (as_u256 create_gas) endowment contract_code address_scheme True)) (\<lambda>create_result.
    case create_result of
      Inr (Created a gas_left) \<Rightarrow>
        bind (vm_push (address_to_u256 a)) (\<lambda>_.
        bind (lift (expect_ok (from_u256 gas_left))) (\<lambda>g. ret (IR_UnusedGas g)))
    | Inr (Create_Reverted gas_left return_data) \<Rightarrow>
        bind (vm_push 0) (\<lambda>_.
        bind (vm_set (\<lambda>i. i\<lparr>it_return_data := return_data\<rparr>)) (\<lambda>_.
        bind (lift (expect_ok (from_u256 gas_left))) (\<lambda>g. ret (IR_UnusedGas g))))
    | Inr Create_Failed \<Rightarrow> bind (vm_push 0) (\<lambda>_. ret IR_Ok)
    | Inl trap \<Rightarrow> ret (IR_Trap trap))))))))))))))"

text \<open>
  The output of a call: the slice \<open>writeable_slice(out_off, out_size)\<close> of the memory receives as
  many bytes of the returned data as fit.
\<close>

definition write_output :: "bytes \<Rightarrow> u256 \<Rightarrow> u256 \<Rightarrow> return_data \<Rightarrow> ('e, bytes) outcome" where
  "write_output m out_off out_size data =
    and_then (writeable_slice m out_off out_size) (\<lambda>(off, n).
    and_then (return_data_deref data) (\<lambda>bs.
    let len = min n (length bs) in Ok (overwrite m off (take len bs))))"

definition call_output ::
  "u256 \<Rightarrow> u256 \<Rightarrow> u256 \<Rightarrow> u256 \<Rightarrow> return_data \<Rightarrow>
   ('g::len word, 'x, 'g word instruction_result) vm_action" where
  "call_output flag out_off out_size gas_left data =
    bind (vm_get it_mem) (\<lambda>m.
    bind (lift (write_output m out_off out_size data)) (\<lambda>m'.
    bind (vm_set_mem m') (\<lambda>_.
    bind (vm_push flag) (\<lambda>_.
    bind (vm_set (\<lambda>i. i\<lparr>it_return_data := data\<rparr>)) (\<lambda>_.
    bind (lift (expect_ok (from_u256 gas_left))) (\<lambda>g. ret (IR_UnusedGas g)))))))"

text \<open>Sender, receiver, whether the balance suffices, and the call type.\<close>

definition call_parties ::
  "'x ext_ops \<Rightarrow> instruction \<Rightarrow> u256 option \<Rightarrow> address \<Rightarrow>
   ('c, 'x, address \<times> address \<times> bool \<times> call_type) vm_action" where
  "call_parties E i val code_address =
    bind (vm_get it_params) (\<lambda>p.
    if i = CALL then
      bind (ext_get (ext_is_static E)) (\<lambda>is_static.
      if is_static \<and> (case val of Some v \<Rightarrow> v \<noteq> 0 | None \<Rightarrow> False) then fail MutableCallInStaticContext else
      bind (with_ext (ext_balance E (ip_address p))) (\<lambda>balance.
      bind (lift (expect val)) (\<lambda>v. ret (ip_address p, code_address, v \<le> balance, CT_Call))))
    else if i = CALLCODE then
      bind (with_ext (ext_balance E (ip_address p))) (\<lambda>balance.
      bind (lift (expect val)) (\<lambda>v. ret (ip_address p, ip_address p, v \<le> balance, CT_CallCode)))
    else if i = DELEGATECALL then ret (ip_sender p, ip_address p, True, CT_DelegateCall)
    else if i = STATICCALL then ret (ip_address p, code_address, True, CT_StaticCall)
    else panic)"

text \<open>The gas of the call with the stipend that a transfer of value adds.\<close>

definition with_stipend :: "schedule \<Rightarrow> u256 option \<Rightarrow> 'g::len word \<Rightarrow> 'g word" where
  "with_stipend s val call_gas =
    fst (overflow_add call_gas (case val of
        None \<Rightarrow> cost_of 0
      | Some v \<Rightarrow> if v \<noteq> 0 then cost_of (sch_call_stipend s) else cost_of 0))"

definition exec_call ::
  "'x ext_ops \<Rightarrow> instruction \<Rightarrow> ('g::len word) option \<Rightarrow> ('g word, 'x, 'g word instruction_result) vm_action" where
  "exec_call E i provided =
    bind (ext_get (ext_schedule E)) (\<lambda>s.
    bind (lift (assert_that (sch_call_stipend s < sch_call_value_transfer_gas s))) (\<lambda>_.
    bind vm_pop (\<lambda>_.
    bind (lift (expect provided)) (\<lambda>call_gas.
    bind vm_pop (\<lambda>code_address_u.
    let code_address = u256_to_address code_address_u in
    bind (if i = DELEGATECALL then ret None
          else if i = STATICCALL then ret (Some 0)
          else bind vm_pop (\<lambda>v. ret (Some v))) (\<lambda>val.
    bind vm_pop (\<lambda>in_off.
    bind vm_pop (\<lambda>in_size.
    bind vm_pop (\<lambda>out_off.
    bind vm_pop (\<lambda>out_size.
    let call_gas = with_stipend s val call_gas in
    bind (call_parties E i val code_address) (\<lambda>(sender_address, receive_address, has_balance, call_type).
    bind (vm_set (\<lambda>i. i\<lparr>it_return_data := empty_return_data\<rparr>)) (\<lambda>_.
    bind (ext_get (\<lambda>x. ext_depth E x < unat (sch_max_depth (ext_schedule E x)))) (\<lambda>depth_ok.
    let can_call = has_balance \<and> depth_ok in
    if \<not> can_call then bind (vm_push 0) (\<lambda>_. ret (IR_UnusedGas call_gas)) else
    bind (vm_get it_mem) (\<lambda>m.
    bind (lift (read_slice m in_off in_size)) (\<lambda>input.
    bind (with_ext (ext_call E (as_u256 call_gas) sender_address receive_address val input
      code_address call_type True)) (\<lambda>call_result.
    bind (vm_set (\<lambda>i. i\<lparr>it_resume_output_range := Some (out_off, out_size)\<rparr>)) (\<lambda>_.
    case call_result of
      Inr (Call_Success gas_left data) \<Rightarrow> call_output 1 out_off out_size gas_left data
    | Inr (Call_Reverted gas_left data) \<Rightarrow> call_output 0 out_off out_size gas_left data
    | Inr Call_Failed \<Rightarrow> bind (vm_push 0) (\<lambda>_. ret IR_Ok)
    | Inl trap \<Rightarrow> ret (IR_Trap trap))))))))))))))))))"

definition exec_return :: "'c \<Rightarrow> bool \<Rightarrow> ('c, 'x, 'c instruction_result) vm_action" where
  "exec_return gas apply_state =
    bind vm_pop (\<lambda>init_off.
    bind vm_pop (\<lambda>init_size.
    ret (IR_StopExecutionNeedsReturn gas init_off init_size apply_state)))"

definition exec_suicide :: "'x ext_ops \<Rightarrow> ('c, 'x, 'c instruction_result) vm_action" where
  "exec_suicide E =
    bind vm_pop (\<lambda>adr.
    bind (with_ext (ext_suicide E (u256_to_address adr))) (\<lambda>_.
    ret IR_StopExecution))"

definition exec_log :: "'x ext_ops \<Rightarrow> instruction \<Rightarrow> ('c, 'x, 'c instruction_result) vm_action" where
  "exec_log E i =
    bind (lift (expect (log_topics i))) (\<lambda>no_of_topics.
    bind vm_pop (\<lambda>offset.
    bind vm_pop (\<lambda>n.
    bind (vm_get it_stack) (\<lambda>stk.
    bind (lift (pop_n stk no_of_topics)) (\<lambda>(topics, stk').
    bind (vm_set (\<lambda>i. i\<lparr>it_stack := stk'\<rparr>)) (\<lambda>_.
    bind (vm_get it_mem) (\<lambda>m.
    bind (lift (read_slice m offset n)) (\<lambda>data.
    bind (with_ext (ext_log E topics data)) (\<lambda>_.
    ret IR_Ok)))))))))"

definition exec_push :: "instruction \<Rightarrow> ('c, 'x, 'c instruction_result) vm_action" where
  "exec_push i =
    bind (lift (expect (push_bytes i))) (\<lambda>n.
    bind (vm_get it_reader) (\<lambda>r.
    bind (lift (reader_read r n)) (\<lambda>(val, r').
    bind (vm_set (\<lambda>i. i\<lparr>it_reader := r'\<rparr>)) (\<lambda>_.
    bind (vm_push val) (\<lambda>_.
    ret IR_Ok)))))"

definition exec_mload :: "('c, 'x, 'c instruction_result) vm_action" where
  "exec_mload =
    bind (vm_get it_mem) (\<lambda>m.
    bind vm_pop (\<lambda>offset.
    bind (lift (mem_read m offset)) (\<lambda>word.
    bind (vm_push word) (\<lambda>_. ret IR_Ok))))"

definition exec_mstore :: "('c, 'x, 'c instruction_result) vm_action" where
  "exec_mstore =
    bind vm_pop (\<lambda>offset.
    bind vm_pop (\<lambda>word.
    bind (vm_get it_mem) (\<lambda>m.
    bind (lift (mem_write m offset word)) (\<lambda>m'.
    bind (vm_set_mem m') (\<lambda>_. ret IR_Ok)))))"

definition exec_mstore8 :: "('c, 'x, 'c instruction_result) vm_action" where
  "exec_mstore8 =
    bind vm_pop (\<lambda>offset.
    bind vm_pop (\<lambda>byte.
    bind (vm_get it_mem) (\<lambda>m.
    bind (lift (write_byte m offset byte)) (\<lambda>m'.
    bind (vm_set_mem m') (\<lambda>_. ret IR_Ok)))))"

definition exec_sha3 :: "(bytes \<Rightarrow> h256) \<Rightarrow> ('c, 'x, 'c instruction_result) vm_action" where
  "exec_sha3 keccak =
    bind vm_pop (\<lambda>offset.
    bind vm_pop (\<lambda>n.
    bind (vm_get it_mem) (\<lambda>m.
    bind (lift (read_slice m offset n)) (\<lambda>bs.
    bind (vm_push (keccak bs)) (\<lambda>_. ret IR_Ok)))))"

definition exec_sload :: "'x ext_ops \<Rightarrow> ('c, 'x, 'c instruction_result) vm_action" where
  "exec_sload E =
    bind vm_pop (\<lambda>key.
    bind (with_ext (ext_storage_at E key)) (\<lambda>word.
    bind (vm_push word) (\<lambda>_. ret IR_Ok)))"

definition exec_sstore :: "'x ext_ops \<Rightarrow> ('c, 'x, 'c instruction_result) vm_action" where
  "exec_sstore E =
    bind vm_pop (\<lambda>adr.
    bind vm_pop (\<lambda>val.
    bind (with_ext (ext_storage_at E adr)) (\<lambda>current_val.
    bind (ext_get (ext_schedule E)) (\<lambda>s.
    bind (if sch_eip1283 s then
            bind (with_ext (ext_initial_storage_at E adr)) (\<lambda>original_val.
            with_ext (handle_eip1283_sstore_clears_refund E original_val current_val val))
          else if current_val \<noteq> 0 \<and> val = 0 then
            with_ext (ext_add_sstore_refund E (sch_sstore_refund_gas s))
          else ret ()) (\<lambda>_.
    bind (with_ext (ext_set_storage E adr val)) (\<lambda>_.
    ret IR_Ok))))))"

definition exec_balance :: "'x ext_ops \<Rightarrow> ('c, 'x, 'c instruction_result) vm_action" where
  "exec_balance E =
    bind vm_pop (\<lambda>a.
    bind (with_ext (ext_balance E (u256_to_address a))) (\<lambda>balance.
    bind (vm_push balance) (\<lambda>_. ret IR_Ok)))"

text \<open>
  The word of call data at an offset: \<open>id + 32\<close> wraps at 64 bits, and an offset beyond the data
  reads as zero.
\<close>

definition calldata_word :: "bytes option \<Rightarrow> u256 \<Rightarrow> u256" where
  "calldata_word params_data big_id =
    (let id = low_usize big_id; max = (id + 32) mod 2 ^ 64 in
     case params_data of
       Some data \<Rightarrow>
         let bound = min (length data) max in
         if id < bound \<and> big_id < word_of_nat (length data)
         then be_word (overwrite (replicate 32 0) 0 (sub_range data id (bound - id)))
         else 0
     | None \<Rightarrow> 0)"

definition exec_calldataload :: "('c, 'x, 'c instruction_result) vm_action" where
  "exec_calldataload =
    bind vm_pop (\<lambda>big_id.
    bind (vm_get (\<lambda>i. calldata_word (ip_data (it_params i)) big_id)) (\<lambda>v.
    bind (vm_push v) (\<lambda>_. ret IR_Ok)))"

definition exec_extcodesize :: "'x ext_ops \<Rightarrow> ('c, 'x, 'c instruction_result) vm_action" where
  "exec_extcodesize E =
    bind vm_pop (\<lambda>a.
    bind (with_ext (ext_extcodesize E (u256_to_address a))) (\<lambda>len.
    bind (vm_push (word_of_nat (case len of Some n \<Rightarrow> n | None \<Rightarrow> 0))) (\<lambda>_. ret IR_Ok)))"

definition exec_extcodehash :: "'x ext_ops \<Rightarrow> ('c, 'x, 'c instruction_result) vm_action" where
  "exec_extcodehash E =
    bind vm_pop (\<lambda>a.
    bind (with_ext (ext_extcodehash E (u256_to_address a))) (\<lambda>hash.
    bind (vm_push (case hash of Some h \<Rightarrow> h | None \<Rightarrow> 0)) (\<lambda>_. ret IR_Ok)))"

definition exec_blockhash :: "'x ext_ops \<Rightarrow> ('c, 'x, 'c instruction_result) vm_action" where
  "exec_blockhash E =
    bind vm_pop (\<lambda>block_number.
    bind (with_ext (ext_blockhash E block_number)) (\<lambda>block_hash.
    bind (vm_push block_hash) (\<lambda>_. ret IR_Ok)))"

text \<open>
  \<open>copy_data_to_memory\<close>: the part of the range beyond the source is zeroed through
  \<open>writeable_slice\<close>, the part inside the source is copied.
\<close>

definition zero_slice :: "bytes \<Rightarrow> u256 \<Rightarrow> u256 \<Rightarrow> ('e, bytes) outcome" where
  "zero_slice m off n =
    and_then (writeable_slice m off n) (\<lambda>(p, k). Ok (overwrite m p (replicate k 0)))"

definition copy_data ::
  "bytes \<Rightarrow> u256 \<Rightarrow> u256 \<Rightarrow> u256 \<Rightarrow> bytes \<Rightarrow> ('e, bytes) outcome" where
  "copy_data m dest_offset source_offset n source =
    (let source_size = word_of_nat (length source) in
     and_then
       (if source_size < source_offset \<or> source_size < n then Ok True
        else and_then (checked_plus source_offset n) (\<lambda>end_offset. Ok (source_size < end_offset))) (\<lambda>beyond.
     and_then
       (if beyond then
          and_then
            (if source_size < source_offset then zero_slice m dest_offset n
             else
               and_then (checked_plus dest_offset source_size) (\<lambda>d.
               and_then (checked_minus d source_offset) (\<lambda>start.
               and_then (checked_plus source_offset n) (\<lambda>e.
               and_then (checked_minus e source_size) (\<lambda>len.
               zero_slice m start len))))) (\<lambda>m'. Ok (m', length source))
        else
          and_then (checked_plus (ucast n :: u64) (ucast source_offset)) (\<lambda>e. Ok (m, unat e)))
       (\<lambda>(m', output_end).
     if source_offset < source_size then
       (let output_begin = low_usize source_offset in
        if output_begin \<le> output_end \<and> output_end \<le> length source
        then write_slice m' dest_offset (sub_range source output_begin (output_end - output_begin))
        else Panic)
     else Ok m')))"

definition copy_data_to_memory :: "bytes \<Rightarrow> ('c, 'x, 'c instruction_result) vm_action" where
  "copy_data_to_memory source =
    bind vm_pop (\<lambda>dest_offset.
    bind vm_pop (\<lambda>source_offset.
    bind vm_pop (\<lambda>n.
    bind (vm_get it_mem) (\<lambda>m.
    bind (lift (copy_data m dest_offset source_offset n source)) (\<lambda>m'.
    bind (vm_set_mem m') (\<lambda>_. ret IR_Ok))))))"

definition exec_calldatacopy :: "('c, 'x, 'c instruction_result) vm_action" where
  "exec_calldatacopy =
    bind (vm_get (\<lambda>i. case ip_data (it_params i) of Some d \<Rightarrow> d | None \<Rightarrow> [])) copy_data_to_memory"

definition exec_returndatacopy :: "('c, 'x, 'c instruction_result) vm_action" where
  "exec_returndatacopy =
    bind (vm_get it_stack) (\<lambda>stk.
    bind (lift (peek stk 1)) (\<lambda>source_offset.
    bind (lift (peek stk 2)) (\<lambda>n.
    bind (vm_get it_return_data) (\<lambda>rd.
    bind (lift (return_data_deref rd)) (\<lambda>bs.
    if saturating_add source_offset n > word_of_nat (length bs) then fail OutOfBounds
    else copy_data_to_memory bs)))))"

definition exec_codecopy :: "('c, 'x, 'c instruction_result) vm_action" where
  "exec_codecopy = bind (vm_get (\<lambda>i. rdr_code (it_reader i))) copy_data_to_memory"

definition exec_extcodecopy :: "'x ext_ops \<Rightarrow> ('c, 'x, 'c instruction_result) vm_action" where
  "exec_extcodecopy E =
    bind vm_pop (\<lambda>a.
    bind (with_ext (ext_extcode E (u256_to_address a))) (\<lambda>code.
    copy_data_to_memory (case code of Some c \<Rightarrow> c | None \<Rightarrow> [])))"

definition exec_returndatasize :: "('c, 'x, 'c instruction_result) vm_action" where
  "exec_returndatasize =
    bind (vm_get it_return_data) (\<lambda>rd.
    bind (lift (return_data_deref rd)) (\<lambda>bs.
    bind (vm_push (word_of_nat (length bs))) (\<lambda>_. ret IR_Ok)))"

definition exec_dup :: "instruction \<Rightarrow> ('c, 'x, 'c instruction_result) vm_action" where
  "exec_dup i =
    bind (lift (expect (dup_position i))) (\<lambda>position.
    bind (vm_get it_stack) (\<lambda>stk.
    bind (lift (peek stk position)) (\<lambda>val.
    bind (vm_push val) (\<lambda>_. ret IR_Ok))))"

definition exec_swap :: "instruction \<Rightarrow> ('c, 'x, 'c instruction_result) vm_action" where
  "exec_swap i =
    bind (lift (expect (swap_position i))) (\<lambda>position.
    bind (vm_get it_stack) (\<lambda>stk.
    bind (lift (swap_with_top stk position)) (\<lambda>stk'.
    bind (vm_set (\<lambda>i. i\<lparr>it_stack := stk'\<rparr>)) (\<lambda>_. ret IR_Ok))))"

definition exec_pop :: "('c, 'x, 'c instruction_result) vm_action" where
  "exec_pop = bind vm_pop (\<lambda>_. ret IR_Ok)"

definition exec_signextend :: "('c, 'x, 'c instruction_result) vm_action" where
  "exec_signextend =
    bind vm_pop (\<lambda>b.
    if b < 32 then
      bind vm_pop (\<lambda>number. bind (vm_push (op_signextend b number)) (\<lambda>_. ret IR_Ok))
    else ret IR_Ok)"

section \<open>Dispatch\<close>

primrec exec_instruction ::
  "instruction \<Rightarrow> (bytes \<Rightarrow> h256) \<Rightarrow> 'x ext_ops \<Rightarrow> 'g::len word \<Rightarrow> ('g word) option \<Rightarrow>
   ('g word, 'x, 'g word instruction_result) vm_action" where
  "exec_instruction JUMP keccak E gas provided = exec_jump"
| "exec_instruction JUMPI keccak E gas provided = exec_jumpi"
| "exec_instruction JUMPDEST keccak E gas provided = ret IR_Ok"
| "exec_instruction CREATE keccak E gas provided = exec_create E CREATE provided"
| "exec_instruction CREATE2 keccak E gas provided = exec_create E CREATE2 provided"
| "exec_instruction CALL keccak E gas provided = exec_call E CALL provided"
| "exec_instruction CALLCODE keccak E gas provided = exec_call E CALLCODE provided"
| "exec_instruction DELEGATECALL keccak E gas provided = exec_call E DELEGATECALL provided"
| "exec_instruction STATICCALL keccak E gas provided = exec_call E STATICCALL provided"
| "exec_instruction RETURN keccak E gas provided = exec_return gas True"
| "exec_instruction REVERT keccak E gas provided = exec_return gas False"
| "exec_instruction STOP keccak E gas provided = ret IR_StopExecution"
| "exec_instruction SUICIDE keccak E gas provided = exec_suicide E"
| "exec_instruction LOG0 keccak E gas provided = exec_log E LOG0"
| "exec_instruction LOG1 keccak E gas provided = exec_log E LOG1"
| "exec_instruction LOG2 keccak E gas provided = exec_log E LOG2"
| "exec_instruction LOG3 keccak E gas provided = exec_log E LOG3"
| "exec_instruction LOG4 keccak E gas provided = exec_log E LOG4"
| "exec_instruction (PUSH k) keccak E gas provided = exec_push (PUSH k)"
| "exec_instruction MLOAD keccak E gas provided = exec_mload"
| "exec_instruction MSTORE keccak E gas provided = exec_mstore"
| "exec_instruction MSTORE8 keccak E gas provided = exec_mstore8"
| "exec_instruction MSIZE keccak E gas provided = push_value (\<lambda>i. word_of_nat (mem_size (it_mem i)))"
| "exec_instruction SHA3 keccak E gas provided = exec_sha3 keccak"
| "exec_instruction SLOAD keccak E gas provided = exec_sload E"
| "exec_instruction SSTORE keccak E gas provided = exec_sstore E"
| "exec_instruction PC keccak E gas provided = push_value (\<lambda>i. word_of_nat (rdr_position (it_reader i) - 1))"
| "exec_instruction GAS keccak E gas provided = push_value (\<lambda>i. as_u256 gas)"
| "exec_instruction ADDRESS keccak E gas provided = push_value (\<lambda>i. address_to_u256 (ip_address (it_params i)))"
| "exec_instruction ORIGIN keccak E gas provided = push_value (\<lambda>i. address_to_u256 (ip_origin (it_params i)))"
| "exec_instruction BALANCE keccak E gas provided = exec_balance E"
| "exec_instruction CALLER keccak E gas provided = push_value (\<lambda>i. address_to_u256 (ip_sender (it_params i)))"
| "exec_instruction CALLVALUE keccak E gas provided = push_value (\<lambda>i. value_of (ip_value (it_params i)))"
| "exec_instruction CALLDATALOAD keccak E gas provided = exec_calldataload"
| "exec_instruction CALLDATASIZE keccak E gas provided = push_value (\<lambda>i. word_of_nat (case ip_data (it_params i) of Some d \<Rightarrow> length d | None \<Rightarrow> 0))"
| "exec_instruction CODESIZE keccak E gas provided = push_value (\<lambda>i. word_of_nat (reader_len (it_reader i)))"
| "exec_instruction RETURNDATASIZE keccak E gas provided = exec_returndatasize"
| "exec_instruction EXTCODESIZE keccak E gas provided = exec_extcodesize E"
| "exec_instruction EXTCODEHASH keccak E gas provided = exec_extcodehash E"
| "exec_instruction CALLDATACOPY keccak E gas provided = exec_calldatacopy"
| "exec_instruction RETURNDATACOPY keccak E gas provided = exec_returndatacopy"
| "exec_instruction CODECOPY keccak E gas provided = exec_codecopy"
| "exec_instruction EXTCODECOPY keccak E gas provided = exec_extcodecopy E"
| "exec_instruction GASPRICE keccak E gas provided = push_value (\<lambda>i. ip_gas_price (it_params i))"
| "exec_instruction BLOCKHASH keccak E gas provided = exec_blockhash E"
| "exec_instruction COINBASE keccak E gas provided = push_env (\<lambda>x. address_to_u256 (env_author (ext_env_info E x)))"
| "exec_instruction TIMESTAMP keccak E gas provided = push_env (\<lambda>x. ucast (env_timestamp (ext_env_info E x)))"
| "exec_instruction NUMBER keccak E gas provided = push_env (\<lambda>x. ucast (env_number (ext_env_info E x)))"
| "exec_instruction DIFFICULTY keccak E gas provided = push_env (\<lambda>x. env_difficulty (ext_env_info E x))"
| "exec_instruction GASLIMIT keccak E gas provided = push_env (\<lambda>x. env_gas_limit (ext_env_info E x))"
| "exec_instruction (DUP j) keccak E gas provided = exec_dup (DUP j)"
| "exec_instruction (SWAP j) keccak E gas provided = exec_swap (SWAP j)"
| "exec_instruction POP keccak E gas provided = exec_pop"
| "exec_instruction ADD keccak E gas provided = binary (\<lambda>a b. fst (overflowing_add a b))"
| "exec_instruction MUL keccak E gas provided = binary (\<lambda>a b. fst (overflowing_mul a b))"
| "exec_instruction SUB keccak E gas provided = binary (\<lambda>a b. a - b)"
| "exec_instruction DIV keccak E gas provided = binary op_div"
| "exec_instruction MOD keccak E gas provided = binary op_mod"
| "exec_instruction SDIV keccak E gas provided = binary op_sdiv"
| "exec_instruction SMOD keccak E gas provided = binary op_smod"
| "exec_instruction EXP keccak E gas provided = binary op_exp"
| "exec_instruction NOT_OP keccak E gas provided = unary (\<lambda>a. NOT a)"
| "exec_instruction LT keccak E gas provided = binary (\<lambda>a b. bool_to_u256 (a < b))"
| "exec_instruction SLT keccak E gas provided = binary op_slt"
| "exec_instruction GT keccak E gas provided = binary (\<lambda>a b. bool_to_u256 (a > b))"
| "exec_instruction SGT keccak E gas provided = binary op_sgt"
| "exec_instruction EQ keccak E gas provided = binary (\<lambda>a b. bool_to_u256 (a = b))"
| "exec_instruction ISZERO keccak E gas provided = unary (\<lambda>a. bool_to_u256 (a = 0))"
| "exec_instruction AND_OP keccak E gas provided = binary (\<lambda>a b. a AND b)"
| "exec_instruction OR_OP keccak E gas provided = binary (\<lambda>a b. a OR b)"
| "exec_instruction XOR_OP keccak E gas provided = binary (\<lambda>a b. a XOR b)"
| "exec_instruction BYTE keccak E gas provided = binary op_byte"
| "exec_instruction ADDMOD keccak E gas provided = ternary op_addmod"
| "exec_instruction MULMOD keccak E gas provided = ternary op_mulmod"
| "exec_instruction SIGNEXTEND keccak E gas provided = exec_signextend"
| "exec_instruction SHL keccak E gas provided = binary op_shl"
| "exec_instruction SHR keccak E gas provided = binary op_shr"
| "exec_instruction SAR keccak E gas provided = binary op_sar"

section \<open>Checks around an instruction\<close>

definition unsupported :: "schedule \<Rightarrow> instruction \<Rightarrow> bool" where
  "unsupported s i \<longleftrightarrow>
     (i = DELEGATECALL \<and> \<not> sch_have_delegate_call s) \<or>
     (i = CREATE2 \<and> \<not> sch_have_create2 s) \<or>
     (i = STATICCALL \<and> \<not> sch_have_static_call s) \<or>
     ((i = RETURNDATACOPY \<or> i = RETURNDATASIZE) \<and> \<not> sch_have_return_data s) \<or>
     (i = REVERT \<and> \<not> sch_have_revert s) \<or>
     ((i = SHL \<or> i = SHR \<or> i = SAR) \<and> \<not> sch_have_bitwise_shifting s) \<or>
     (i = EXTCODEHASH \<and> \<not> sch_have_extcodehash s)"

definition verify_instruction ::
  "schedule \<Rightarrow> instruction \<Rightarrow> instruction_info \<Rightarrow> u256 vec_stack \<Rightarrow> unit vm_result" where
  "verify_instruction s i ii stk =
    (if unsupported s i then Err (BadInstruction (u8_of i))
     else if \<not> has stk (info_args ii)
       then Err (StackUnderflow (info_name ii) (info_args ii) (stack_size stk))
     else if stack_size stk - info_args ii + info_ret ii > unat (sch_stack_limit s) then
       (if info_args ii \<le> info_ret ii
        then Err (OutOfStack (info_name ii) (info_ret ii - info_args ii) (unat (sch_stack_limit s)))
        else Panic)
     else Ok ())"

definition mem_written :: "instruction \<Rightarrow> u256 vec_stack \<Rightarrow> ((nat \<times> nat) option) vm_result" where
  "mem_written i stk =
    (let read = (\<lambda>pos. and_then (peek stk pos) (\<lambda>v. Ok (low_usize v)));
         range = (\<lambda>a b. and_then (read a) (\<lambda>off. and_then (read b) (\<lambda>n. Ok (Some (off, n)))))
     in and_then
       (if i = MSTORE \<or> i = MLOAD then and_then (read 0) (\<lambda>off. Ok (Some (off, 32)))
        else if i = MSTORE8 then and_then (read 0) (\<lambda>off. Ok (Some (off, 1)))
        else if i = CALLDATACOPY \<or> i = CODECOPY \<or> i = RETURNDATACOPY then range 0 2
        else if i = EXTCODECOPY then range 1 3
        else if i = CALL \<or> i = CALLCODE then range 5 6
        else if i = DELEGATECALL \<or> i = STATICCALL then range 4 5
        else Ok None) (\<lambda>written.
     case written of
       Some (offset, n) \<Rightarrow> if \<not> is_valid_range offset n then Ok None else Ok written
     | None \<Rightarrow> Ok written))"

definition store_written :: "instruction \<Rightarrow> u256 vec_stack \<Rightarrow> ((u256 \<times> u256) option) vm_result" where
  "store_written i stk =
    (if i = SSTORE then and_then (peek stk 0) (\<lambda>a. and_then (peek stk 1) (\<lambda>v. Ok (Some (a, v))))
     else Ok None)"

definition verify_jump :: "u256 \<Rightarrow> nat set \<Rightarrow> nat vm_result" where
  "verify_jump jump_u valid_jump_destinations =
    (let jump = low_usize jump_u in
     if jump \<in> valid_jump_destinations \<and> word_of_nat jump = jump_u then Ok jump
     else Err (BadJumpDestination jump))"

section \<open>A step\<close>

definition the_gasometer :: "('c, 'x, 'c gasometer) vm_action" where
  "the_gasometer = bind (vm_get it_gasometer) (\<lambda>g. lift (expect g))"

definition set_gasometer :: "'c gasometer \<Rightarrow> ('c, 'x, unit) vm_action" where
  "set_gasometer gm = vm_set (\<lambda>i. i\<lparr>it_gasometer := Some gm\<rparr>)"

text \<open>Fetching: the opcode at the position, advanced past; \<open>trace_next_instruction\<close>; decoding.\<close>

definition fetch :: "'x ext_ops \<Rightarrow> ('g::len word, 'x, u8 \<times> instruction) vm_action" where
  "fetch E =
    bind (vm_get it_reader) (\<lambda>r.
    if rdr_position r < length (rdr_code r) then
      let opcode = rdr_code r ! rdr_position r in
      bind (vm_set (\<lambda>i. i\<lparr>it_reader := r\<lparr>rdr_position := rdr_position r + 1\<rparr>\<rparr>)) (\<lambda>_.
      bind (vm_get it_do_trace) (\<lambda>do_trace.
      bind (if do_trace then
              bind the_gasometer (\<lambda>gm.
              with_ext (\<lambda>x. let (b, x') = ext_trace_next_instruction E (rdr_position r) opcode
                                            (as_u256 (current_gas gm)) x in (Ok b, x')))
            else ret False) (\<lambda>traced.
      bind (vm_set (\<lambda>i. i\<lparr>it_do_trace := traced\<rparr>)) (\<lambda>_.
      case from_u8 opcode of Some i \<Rightarrow> ret (opcode, i) | None \<Rightarrow> fail (BadInstruction opcode)))))
    else panic)"

definition trace_prepare ::
  "'x ext_ops \<Rightarrow> u8 \<Rightarrow> instruction \<Rightarrow> u256 vec_stack \<Rightarrow> 'g::len word \<Rightarrow> ('g word, 'x, unit) vm_action" where
  "trace_prepare E opcode i stk gas_cost =
    bind (vm_get it_do_trace) (\<lambda>do_trace.
    if do_trace then
      bind (lift (mem_written i stk)) (\<lambda>mw.
      bind (lift (store_written i stk)) (\<lambda>sw.
      bind (vm_get (\<lambda>it. rdr_position (it_reader it) - 1)) (\<lambda>pc.
      with_ext (modify (ext_trace_prepare_execute E pc opcode (as_u256 gas_cost) mw sw)))))
    else ret ())"

definition deduct_gas ::
  "'g::len word gasometer \<Rightarrow> 'g word instruction_requirements \<Rightarrow> ('g word, 'x, unit) vm_action" where
  "deduct_gas gm req =
    bind (lift (verify_gas gm (req_gas_cost req))) (\<lambda>_.
    bind (vm_set (\<lambda>it. it\<lparr>it_mem := mem_expand (it_mem it) (unat (req_memory_required_size req))\<rparr>)) (\<lambda>_.
    bind (lift (checked_minus (current_gas gm) (req_gas_cost req))) (\<lambda>gas.
    set_gasometer \<lparr>current_gas = gas, current_mem_gas = req_memory_total_gas req\<rparr>)))"

text \<open>Charging: verification, gas requirements, tracing, expansion of the memory, deduction.\<close>

definition charge ::
  "'x ext_ops \<Rightarrow> u8 \<Rightarrow> instruction \<Rightarrow> ('g::len word, 'x, 'g word instruction_requirements) vm_action" where
  "charge E opcode i =
    bind (lift (info i)) (\<lambda>ii.
    bind (vm_set (\<lambda>it. it\<lparr>it_last_stack_ret_len := info_ret ii\<rparr>)) (\<lambda>_.
    bind (vm_get it_stack) (\<lambda>stk.
    bind (ext_get (ext_schedule E)) (\<lambda>s.
    bind (lift (verify_instruction s i ii stk)) (\<lambda>_.
    bind the_gasometer (\<lambda>gm.
    bind (vm_get (\<lambda>it. mem_size (it_mem it))) (\<lambda>current_mem_size.
    bind (with_ext (requirements gm E i ii stk current_mem_size)) (\<lambda>req.
    bind (trace_prepare E opcode i stk (req_gas_cost req)) (\<lambda>_.
    bind (deduct_gas gm req) (\<lambda>_.
    ret req))))))))))"

definition execute_next ::
  "(bytes \<Rightarrow> h256) \<Rightarrow> 'x ext_ops \<Rightarrow> ('g::len word, 'x, 'g word instruction_result) vm_action" where
  "execute_next keccak E =
    bind (fetch E) (\<lambda>(opcode, i).
    bind (charge E opcode i) (\<lambda>req.
    bind the_gasometer (\<lambda>gm.
    exec_instruction i keccak E (current_gas gm) (req_provide_gas req))))"

text \<open>The effect of an instruction's result on the position, and whether execution goes on.\<close>

definition advance ::
  "(bytes \<Rightarrow> h256) \<Rightarrow> 'g::len word instruction_result \<Rightarrow> ('g word, 'x, interpreter_result) vm_action" where
  "advance keccak result =
    (let continue = bind (vm_get it_reader) (\<lambda>r.
       if reader_len r \<le> rdr_position r then
         bind the_gasometer (\<lambda>gm. ret (Done (Inr (Known (as_u256 (current_gas gm))))))
       else ret Continue)
     in case result of
       IR_JumpToPosition position \<Rightarrow>
         bind (vm_get it_valid_jump_destinations) (\<lambda>known.
         bind (case known of Some d \<Rightarrow> ret d | None \<Rightarrow>
             bind (vm_get (\<lambda>it. jump_destinations (keccak []) (it_cache it) (ip_code_hash (it_params it))
               (rdr_code (it_reader it)))) (\<lambda>(d, cache).
             bind (vm_set (\<lambda>it. it\<lparr>it_cache := cache, it_valid_jump_destinations := Some d\<rparr>)) (\<lambda>_. ret d))) (\<lambda>dests.
         bind (lift (verify_jump position dests)) (\<lambda>pos.
         bind (vm_set (\<lambda>it. it\<lparr>it_reader := (it_reader it)\<lparr>rdr_position := pos\<rparr>\<rparr>)) (\<lambda>_.
         continue))))
     | IR_StopExecutionNeedsReturn gas init_off init_size apply_state \<Rightarrow>
         bind (vm_get it_mem) (\<lambda>m.
         bind (vm_set_mem []) (\<lambda>_.
         bind (lift (into_return_data m init_off init_size)) (\<lambda>data.
         ret (Done (Inr (NeedsReturn (as_u256 gas) data apply_state))))))
     | IR_StopExecution \<Rightarrow>
         bind the_gasometer (\<lambda>gm. ret (Done (Inr (Known (as_u256 (current_gas gm))))))
     | _ \<Rightarrow> continue)"

definition trace_executed :: "'x ext_ops \<Rightarrow> ('g::len word, 'x, unit) vm_action" where
  "trace_executed E =
    bind (vm_get it_do_trace) (\<lambda>do_trace.
    if do_trace then
      bind the_gasometer (\<lambda>gm.
      bind (vm_get id) (\<lambda>it.
      bind (lift (peek_top (it_stack it) (it_last_stack_ret_len it))) (\<lambda>pushed.
      with_ext (modify (ext_trace_executed E (as_u256 (current_gas gm)) pushed (it_mem it))))))
    else ret ())"

text \<open>
  \<open>step_inner\<close> returns its \<open>InterpreterResult\<close> through \<open>Err\<close>, and \<open>?\<close> turns a virtual machine error
  into \<open>Done(Err(..))\<close>; here the result is the value and such an error the error of the action.
\<close>

definition settle ::
  "(bytes \<Rightarrow> h256) \<Rightarrow> 'x ext_ops \<Rightarrow> 'g::len word instruction_result \<Rightarrow>
   ('g word, 'x, interpreter_result) vm_action" where
  "settle keccak E result = (case result of
      IR_Trap trap \<Rightarrow> ret (Trapped trap)
    | _ \<Rightarrow>
      bind (case result of
          IR_UnusedGas gas \<Rightarrow>
            bind the_gasometer (\<lambda>gm.
            bind (lift (checked_plus (current_gas gm) gas)) (\<lambda>g.
            set_gasometer (gm\<lparr>current_gas := g\<rparr>)))
        | _ \<Rightarrow> ret ()) (\<lambda>_.
      bind (trace_executed E) (\<lambda>_.
      advance keccak result)))"

definition step_inner ::
  "(bytes \<Rightarrow> h256) \<Rightarrow> 'x ext_ops \<Rightarrow> ('g::len word, 'x, interpreter_result) vm_action" where
  "step_inner keccak E =
    bind (vm_get it_resume_result) (\<lambda>resume.
    bind (vm_set (\<lambda>it. it\<lparr>it_resume_result := None\<rparr>)) (\<lambda>_.
    bind (case resume of Some result \<Rightarrow> ret result | None \<Rightarrow> execute_next keccak E) (\<lambda>result.
    settle keccak E result)))"

definition recover :: "('s, 'e, 'a) action \<Rightarrow> ('e \<Rightarrow> 'a) \<Rightarrow> ('s, 'e, 'a) action" where
  "recover m f = (\<lambda>st. case m st of (Err e, st') \<Rightarrow> (Ok (f e), st') | r \<Rightarrow> r)"

definition step ::
  "(bytes \<Rightarrow> h256) \<Rightarrow> 'x ext_ops \<Rightarrow> ('g::len word, 'x, interpreter_result) vm_action" where
  "step keccak E =
    bind (vm_get id) (\<lambda>it.
    if it_done it then ret Stopped else
    bind (case it_gasometer it of
        None \<Rightarrow> ret (Done (Inl OutOfGas))
      | Some gm \<Rightarrow>
          if reader_len (it_reader it) = 0 then ret (Done (Inr (Known (as_u256 (current_gas gm)))))
          else recover (step_inner keccak E) (\<lambda>e. Done (Inl e))) (\<lambda>result.
    bind (case result of Done _ \<Rightarrow> vm_set (\<lambda>it. it\<lparr>it_done := True\<rparr>) | _ \<Rightarrow> ret ()) (\<lambda>_.
    ret result)))"

section \<open>The execution loop and its resumption\<close>

datatype exec_result = Exec_Done "vm_error + gas_left" | Exec_Trap trap_kind

text \<open>
  The loop of \<open>exec\<close>, with a bound on the number of steps: \<open>None\<close> where the bound was too small. The
  interpreter that the source returns inside \<open>TrapError\<close> is the one in the resulting state.
\<close>

primrec exec ::
  "nat \<Rightarrow> (bytes \<Rightarrow> h256) \<Rightarrow> 'x ext_ops \<Rightarrow> ('g::len word) interpreter \<times> 'x \<Rightarrow>
   (exec_result vm_result \<times> ('g word) interpreter \<times> 'x) option" where
  "exec 0 keccak E st = None"
| "exec (Suc n) keccak E st = (case step keccak E st of
      (Ok Continue, st') \<Rightarrow> exec n keccak E st'
    | (Ok (Done val), st') \<Rightarrow> Some (Ok (Exec_Done val), st')
    | (Ok (Trapped trap), st') \<Rightarrow> Some (Ok (Exec_Trap trap), st')
    | (Ok Stopped, st') \<Rightarrow> Some (Panic, st')
    | (Err e, st') \<Rightarrow> Some (Err e, st')
    | (Panic, st') \<Rightarrow> Some (Panic, st'))"

definition resume_output ::
  "u256 \<Rightarrow> u256 \<Rightarrow> u256 \<Rightarrow> u256 \<Rightarrow> return_data \<Rightarrow> ('g::len word) interpreter \<Rightarrow>
   ('g word) interpreter vm_result" where
  "resume_output flag out_off out_size gas_left data it =
    and_then (write_output (it_mem it) out_off out_size data) (\<lambda>m'.
    and_then (expect_ok (from_u256 gas_left)) (\<lambda>g.
    Ok (it\<lparr>it_mem := m', it_return_data := data, it_stack := push (it_stack it) flag,
           it_resume_result := Some (IR_UnusedGas g)\<rparr>)))"

definition resume_call ::
  "message_call_result \<Rightarrow> ('g::len word) interpreter \<Rightarrow> ('g word) interpreter vm_result" where
  "resume_call result it =
    and_then (expect (it_resume_output_range it)) (\<lambda>(out_off, out_size).
    let it = it\<lparr>it_resume_output_range := None\<rparr> in
    case result of
      Call_Success gas_left data \<Rightarrow> resume_output 1 out_off out_size gas_left data it
    | Call_Reverted gas_left data \<Rightarrow> resume_output 0 out_off out_size gas_left data it
    | Call_Failed \<Rightarrow> Ok (it\<lparr>it_stack := push (it_stack it) 0, it_resume_result := Some IR_Ok\<rparr>))"

definition resume_create ::
  "contract_create_result \<Rightarrow> ('g::len word) interpreter \<Rightarrow> ('g word) interpreter vm_result" where
  "resume_create result it = (case result of
      Created a gas_left \<Rightarrow>
        and_then (expect_ok (from_u256 gas_left)) (\<lambda>g.
        Ok (it\<lparr>it_stack := push (it_stack it) (address_to_u256 a), it_resume_result := Some (IR_UnusedGas g)\<rparr>))
    | Create_Reverted gas_left return_data \<Rightarrow>
        and_then (expect_ok (from_u256 gas_left)) (\<lambda>g.
        Ok (it\<lparr>it_stack := push (it_stack it) 0, it_return_data := return_data,
               it_resume_result := Some (IR_UnusedGas g)\<rparr>))
    | Create_Failed \<Rightarrow> Ok (it\<lparr>it_stack := push (it_stack it) 0, it_resume_result := Some IR_Ok\<rparr>))"

end
