(* ===== verification/Interpreter_Data.thy ===== *)
theory Interpreter_Data
  imports Interpreter
begin

text \<open>
  How the interpreter moves data: the copies into memory (\<open>copy_data_to_memory\<close>), the words of call
  data (\<open>CALLDATALOAD\<close>) and the output of a call, each compared with a direct description of the
  bytes that result. Lengths of vectors are below \<open>2 ^ 64\<close>, as they are in Rust.
\<close>

section \<open>Copies\<close>

lemma overwrite_adjacent:
  assumes "d + length a + length b \<le> length m"
  shows "overwrite (overwrite m (d + length a) b) d a = overwrite m d (a @ b)"
  using assms by (simp add: overwrite_def min_def add.assoc)

text \<open>The bytes that a copy of \<open>n\<close> bytes from offset \<open>so\<close> of a source produces: beyond the source, zeros.\<close>

definition padded :: "bytes \<Rightarrow> nat \<Rightarrow> nat \<Rightarrow> bytes" where
  "padded source so n = take n (drop so source @ replicate n 0)"

lemma length_padded [simp]: "length (padded source so n) = n"
  by (simp add: padded_def)

lemma zero_slice_Ok:
  assumes "unat off + unat n \<le> length m" "length m < 2 ^ 64" "n \<noteq> 0"
  shows "zero_slice m off n = Ok (overwrite m (unat off) (replicate (unat n) 0))"
  using assms unat_gt_0 [of n]
  by (simp add: zero_slice_def writeable_slice_def is_valid_range_def low_usize_small Let_def)

lemma zero_slice_0 [simp]: "zero_slice m off 0 = Ok m"
  by (simp add: zero_slice_def writeable_slice_def is_valid_range_def low_usize_def Let_def)

lemma copy_data_beyond:
  assumes "length source < unat so" "length source < 2 ^ 64"
    and "unat d + unat n \<le> length m" "length m < 2 ^ 64" "n \<noteq> 0"
  shows "copy_data m d so n source =
    (Ok (overwrite m (unat d) (padded source (unat so) (unat n))) :: ('e, bytes) outcome)"
proof -
  have so: "word_of_nat (length source) < so"
    using assms(1,2) by (simp add: word_less_nat_alt unat_of_nat)
  then have "\<not> so < word_of_nat (length source)" by (simp add: not_less less_imp_le)
  moreover note so
  moreover have "padded source (unat so) (unat n) = replicate (unat n) 0"
    using assms(1) by (simp add: padded_def)
  ultimately show ?thesis
    using assms(3-5) by (simp add: copy_data_def Let_def zero_slice_Ok)
qed

lemma copy_data_partial:
  assumes so: "unat so \<le> length source" and L: "length source < 2 ^ 64"
    and beyond: "length source < unat so + unat n"
    and fit: "unat d + unat n \<le> length m" and m: "length m < 2 ^ 64"
  shows "copy_data m d so n source =
    (Ok (overwrite m (unat d) (padded source (unat so) (unat n))) :: ('e, bytes) outcome)"
proof -
  let ?L = "length source"
  define k where "k = ?L - unat so"
  have size: "unat (word_of_nat ?L :: u256) = ?L" using L by (simp add: unat_of_nat)
  have so_le: "\<not> word_of_nat ?L < so" using so by (simp add: word_less_nat_alt size)
  have so_lt: "so < word_of_nat ?L \<longleftrightarrow> 0 < k" using so by (auto simp: word_less_nat_alt size k_def)
  have sum: "unat so + unat n < 2 ^ 256" using so L fit m by simp
  then have e: "unat (so + n) = unat so + unat n" by (intro unat_plus_exact) simp
  have dL: "unat d + ?L < 2 ^ 256" using L fit m by simp
  then have d: "unat (d + word_of_nat ?L) = unat d + ?L" using size by (subst unat_plus_exact) simp_all
  have "so \<le> d + word_of_nat ?L" using so by (simp add: word_le_nat_alt d)
  then have start: "unat (d + word_of_nat ?L - so) = unat d + k"
    using so by (simp add: unat_minus_exact d k_def)
  have "word_of_nat ?L \<le> so + n" using beyond by (simp add: word_le_nat_alt e size)
  then have len: "unat (so + n - word_of_nat ?L) = unat n - k"
    using so beyond by (simp add: unat_minus_exact e size k_def)
  have zero: "zero_slice m (d + word_of_nat ?L - so) (so + n - word_of_nat ?L)
      = (Ok (overwrite m (unat d + k) (replicate (unat n - k) 0)) :: ('e, bytes) outcome)"
  proof (subst zero_slice_Ok)
    have "0 < unat (so + n - word_of_nat ?L)" unfolding len using beyond so by (simp add: k_def)
    then show "so + n - word_of_nat ?L \<noteq> 0" by (simp add: unat_gt_0)
    show "unat (d + word_of_nat ?L - so) + unat (so + n - word_of_nat ?L) \<le> length m"
      unfolding start len using fit beyond so by (simp add: k_def)
  qed (simp_all only: start len m)
  let ?m' = "overwrite m (unat d + k) (replicate (unat n - k) 0)"
  have kn: "k \<le> unat n" using beyond so by (simp add: k_def)
  have tail: "sub_range source (unat so) (?L - unat so) = drop (unat so) source"
    by (simp add: sub_range_def)
  have wr: "write_slice ?m' d (drop (unat so) source) = (Ok (overwrite ?m' (unat d) (drop (unat so) source)) :: ('e, bytes) outcome)"
    using fit m kn by (auto simp: write_slice_def Let_def low_usize_small length_overwrite k_def)
  have join: "overwrite ?m' (unat d) (drop (unat so) source)
      = overwrite m (unat d) (padded source (unat so) (unat n))"
  proof -
    have "padded source (unat so) (unat n) = drop (unat so) source @ replicate (unat n - k) 0"
      using kn by (simp add: padded_def k_def min_def)
    then show ?thesis
      using overwrite_adjacent [of "unat d" "drop (unat so) source" "replicate (unat n - k) 0" m] fit kn
      by (simp add: k_def)
  qed
  have run: "copy_data m d so n source =
      (if so < word_of_nat ?L then write_slice ?m' d (drop (unat so) source) else Ok ?m' :: ('e, bytes) outcome)"
    using so_le so beyond sum dL d e L start len zero tail
      \<open>so \<le> d + word_of_nat ?L\<close> \<open>word_of_nat ?L \<le> so + n\<close>
    by (simp add: copy_data_def Let_def checked_plus_def checked_minus_def word_less_nat_alt size
      low_usize_small fit)
  show ?thesis
  proof (cases "0 < k")
    case True
    then show ?thesis using run so_lt wr join by simp
  next
    case False
    then have "drop (unat so) source = []" by (simp add: k_def)
    with False show ?thesis using run so_lt join by simp
  qed
qed

lemma copy_data_inside:
  assumes inside: "unat so + unat n \<le> length source" and L: "length source < 2 ^ 64"
    and fit: "unat d + unat n \<le> length m" and m: "length m < 2 ^ 64" and n: "n \<noteq> 0"
  shows "copy_data m d so n source =
    (Ok (overwrite m (unat d) (padded source (unat so) (unat n))) :: ('e, bytes) outcome)"
proof -
  let ?L = "length source"
  have size: "unat (word_of_nat ?L :: u256) = ?L" using L by (simp add: unat_of_nat)
  have small: "unat (ucast n :: u64) = unat n" "unat (ucast so :: u64) = unat so"
    using inside L by (simp_all add: unat_ucast_exact)
  have e: "unat (so + n) = unat so + unat n" using inside L by (intro unat_plus_exact) simp
  have u: "unat (ucast n + ucast so :: u64) = unat so + unat n"
    using inside L small by (subst unat_plus_exact) simp_all
  have "0 < unat n" using n by (simp add: unat_gt_0)
  moreover have "padded source (unat so) (unat n) = sub_range source (unat so) (unat n)"
    using inside by (simp add: padded_def sub_range_def)
  moreover have "length (sub_range source (unat so) (unat n)) = unat n"
    using inside by (simp add: length_sub_range)
  ultimately show ?thesis
    using inside L fit m small e u
    by (auto simp: copy_data_def Let_def checked_plus_def word_less_nat_alt size low_usize_small write_slice_def)
qed

lemma copy_data_0:
  assumes "length source < 2 ^ 64" shows "copy_data m d so 0 source = Ok m"
proof (cases "length source < unat so")
  case True
  then have so: "word_of_nat (length source) < so"
    using assms by (simp add: word_less_nat_alt unat_of_nat)
  then have "\<not> so < word_of_nat (length source)" by (simp add: not_less less_imp_le)
  with so show ?thesis by (simp add: copy_data_def Let_def)
next
  case False
  have size: "unat (word_of_nat (length source) :: u256) = length source"
    using assms by (simp add: unat_of_nat)
  have "unat so < 2 ^ 64" using False assms by simp
  moreover have "unat so < 2 ^ 256" using unat_below [of so] by simp
  ultimately show ?thesis
    using False by (auto simp: copy_data_def Let_def checked_plus_def word_less_nat_alt size
      low_usize_small unat_ucast_exact write_slice_def)
qed

lemma copy_data_spec:
  assumes "n = 0 \<or> unat d + unat n \<le> length m" "length m < 2 ^ 64" "length source < 2 ^ 64"
  shows "copy_data m d so n source =
    (Ok (if n = 0 then m else overwrite m (unat d) (padded source (unat so) (unat n))) :: ('e, bytes) outcome)"
proof (cases "n = 0")
  case True
  then show ?thesis using copy_data_0 [OF assms(3)] by simp
next
  case False
  with assms(1) have fit: "unat d + unat n \<le> length m" by simp
  consider "length source < unat so" | "unat so \<le> length source" "length source < unat so + unat n"
    | "unat so + unat n \<le> length source" by linarith
  then show ?thesis
    using False assms(2,3) fit by cases (simp_all add: copy_data_beyond copy_data_partial copy_data_inside)
qed

section \<open>Words of call data\<close>

lemma be_word_zeros: "be_word (replicate n 0) = 0"
  by (induction n) (simp_all add: be_word_def)

lemma calldata_word_padded:
  assumes "length data < 2 ^ 63"
  shows "calldata_word (Some data) big_id = be_word (padded data (unat big_id) 32)"
proof (cases "unat big_id < length data")
  case True
  let ?id = "unat big_id"
  from True assms have id: "low_usize big_id = ?id" by (simp add: low_usize_small)
  have lt: "big_id < word_of_nat (length data)"
    using True assms by (simp add: word_less_nat_alt unat_of_nat)
  let ?bound = "min (length data) (?id + 32)"
  have "sub_range data ?id (?bound - ?id) = take 32 (drop ?id data)"
    using True by (simp add: sub_range_def min_def)
  moreover have "overwrite (replicate 32 0) 0 (take 32 (drop ?id data)) = padded data ?id 32"
    by (simp add: overwrite_def padded_def min_def)
  ultimately show ?thesis
    using True assms id lt by (simp add: calldata_word_def Let_def)
next
  case False
  then have "padded data (unat big_id) 32 = replicate 32 0" by (simp add: padded_def)
  moreover have "\<not> big_id < word_of_nat (length data)"
    using False assms by (simp add: word_less_nat_alt unat_of_nat)
  ultimately show ?thesis by (simp only: calldata_word_def Let_def option.case be_word_zeros simp_thms if_False)
qed

section \<open>Output of calls\<close>

lemma write_output_Ok:
  assumes "n = 0 \<or> unat off + unat n \<le> length m" "length m < 2 ^ 64" "return_data_ok d"
  shows "\<exists>m'. write_output m off n d = Ok m' \<and> length m' = length m"
proof (cases "is_valid_range (low_usize off) (low_usize n)")
  case True
  then have "n \<noteq> 0" by (auto simp: is_valid_range_def low_usize_def Let_def)
  with assms(1,2) have "low_usize off = unat off" "low_usize n = unat n" "unat off + unat n \<le> length m"
    by (simp_all add: low_usize_small)
  with True assms(3) show ?thesis
    by (simp add: write_output_def writeable_slice_def Let_def length_overwrite)
next
  case False
  with assms(3) show ?thesis
    by (simp add: write_output_def writeable_slice_def Let_def length_overwrite)
qed

section \<open>Properties\<close>

text \<open>
  C27. Copies into memory: when the destination lies inside the memory (which the charged expansion
  ensures), \<open>copy_data_to_memory\<close> never panics and writes exactly the requested bytes of the source,
  with zeros for every position beyond its end, whatever the 256-bit source offset; a copy of
  size 0 changes nothing, wherever it points.
\<close>

theorem copy_data_exact:
  assumes "n = 0 \<or> unat d + unat n \<le> length m" "length m < 2 ^ 64" "length source < 2 ^ 64"
  shows "copy_data m d so n source =
    (Ok (if n = 0 then m else overwrite m (unat d) (padded source (unat so) (unat n))) :: bytes vm_result)"
  using assms by (rule copy_data_spec)

theorem copy_data_exact_witness:
  "copy_data [9, 9, 9, 9] 1 1 3 [5, 6] = (Ok [9, 6, 0, 0] :: bytes vm_result)"
proof -
  have "padded [5, 6] 1 3 = [6, 0, 0]" by (simp add: padded_def numeral_3_eq_3)
  then show ?thesis
    using copy_data_exact [of 3 1 "[9, 9, 9, 9]" "[5, 6]" 1] by (simp add: overwrite_def)
qed

text \<open>
  C28. \<open>CALLDATALOAD\<close> pushes the 32 bytes of call data at the given offset, padded with zeros, for
  every 256-bit offset; the wrapping 64-bit addition in its bounds check is harmless.
\<close>

theorem calldataload_exact:
  assumes "length data < 2 ^ 63"
  shows "calldata_word (Some data) big_id = be_word (padded data (unat big_id) 32)"
  using assms by (rule calldata_word_padded)

theorem calldataload_exact_witness: "calldata_word (Some [1, 2]) (2 ^ 64) = 0"
  using calldataload_exact [of "[1, 2]" "2 ^ 64"] by (simp add: padded_def be_word_zeros)

end
