(* ===== verification/Ext_Trait.thy ===== *)
theory Ext_Trait
  imports Vm_Types
begin

text \<open>
  The contract of the trait \<open>Ext\<close>: what the interpreter relies on when it runs over an
  implementation of src/ethcore/vm/src/ext.rs. The locale \<open>ext_trait\<close> fixes the operations, an
  invariant of the state behind them, the schedule, the address of the running contract and the balances; \<open>Externalities\<close> interprets it.

  The invariant carries a budget, a number of state changes that cannot overflow a counter any
  more: creating a contract (which increments a nonce) and changing the refund counter use one
  unit each. The interpreter pays for every unit with gas, so that the budget it needs is
  bounded by the gas it starts with.
\<close>

definition data_ok :: "return_data \<Rightarrow> bool" where
  "data_ok d \<longleftrightarrow> return_data_ok d \<and> length (rd_mem d) < 2 ^ 64"

definition call_result_ok :: "u256 \<Rightarrow> trap_kind + message_call_result \<Rightarrow> bool" where
  "call_result_ok gas r = (case r of
      Inl (Trap_Call p) \<Rightarrow> ap_gas p \<le> gas
    | Inl (Trap_Create p a) \<Rightarrow> False
    | Inr (Call_Success gas_left data) \<Rightarrow> gas_left \<le> gas \<and> data_ok data
    | Inr (Call_Reverted gas_left data) \<Rightarrow> gas_left \<le> gas \<and> data_ok data
    | Inr Call_Failed \<Rightarrow> True)"

definition create_result_ok :: "u256 \<Rightarrow> trap_kind + contract_create_result \<Rightarrow> bool" where
  "create_result_ok gas r = (case r of
      Inl (Trap_Create p a) \<Rightarrow> ap_gas p \<le> gas
    | Inl (Trap_Call p) \<Rightarrow> False
    | Inr (Created a gas_left) \<Rightarrow> gas_left \<le> gas
    | Inr (Create_Reverted gas_left data) \<Rightarrow> gas_left \<le> gas \<and> data_ok data
    | Inr Create_Failed \<Rightarrow> True)"

text \<open>
  What a trap hands to the executive: code and data of a size that fits the memory, no private part, and a
  value that the balance of the sender covers.
\<close>

definition params_ok :: "(address \<Rightarrow> u256) \<Rightarrow> action_params \<Rightarrow> bool" where
  "params_ok b p \<longleftrightarrow> \<not> ap_is_input_private p \<and> \<not> ap_is_output_private p \<and>
     (\<forall>c. ap_code p = Some c \<longrightarrow> length c < 2 ^ 64) \<and> (\<forall>d. ap_data p = Some d \<longrightarrow> length d < 2 ^ 64) \<and>
     (\<forall>v. ap_value p = Transfer v \<longrightarrow> v \<le> b (ap_sender p))"

primrec trap_ok :: "(address \<Rightarrow> u256) \<Rightarrow> trap_kind \<Rightarrow> bool" where
  "trap_ok b (Trap_Call p) \<longleftrightarrow> params_ok b p"
| "trap_ok b (Trap_Create p a) \<longleftrightarrow> params_ok b p \<and> ap_code p \<noteq> None"

locale ext_trait =
  fixes E :: "'x ext_ops"
    and inv :: "nat \<Rightarrow> 'x \<Rightarrow> bool"
    and s :: schedule
    and own :: address
    and bal :: "'x \<Rightarrow> address \<Rightarrow> u256"
  assumes schedule_ok: "schedule_ok s" and schedule_priced: "schedule_priced s"
    and inv_Suc: "inv (Suc k) x \<Longrightarrow> inv k x"
    and schedule: "inv k x \<Longrightarrow> ext_schedule E x = s"
    and initial_storage_at: "keeps (ext_initial_storage_at E key) (inv k)"
    and storage_at: "keeps (ext_storage_at E key) (inv k)"
    and set_storage: "keeps (ext_set_storage E key v) (inv k)"
    and exists: "keeps (ext_exists E a) (inv k)"
    and exists_and_not_null: "keeps (ext_exists_and_not_null E a) (inv k)"
    and origin_balance: "keeps (ext_origin_balance E) (inv k)"
    and balance: "inv k x \<Longrightarrow> wp (ext_balance E a) (\<lambda>b x'. inv k x' \<and> b = bal x' a) (\<lambda>_. inv k) x"
    and blockhash: "keeps (ext_blockhash E n) (inv k)"
    and extcodehash: "keeps (ext_extcodehash E a) (inv k)"
    and extcodesize: "keeps (ext_extcodesize E a) (inv k)"
    and log: "keeps (ext_log E topics bytes) (inv k)"
    and suicide: "keeps (ext_suicide E a) (inv k)"
    and extcode: "inv k x \<Longrightarrow>
      wp (ext_extcode E a) (\<lambda>c x'. inv k x' \<and> (\<forall>bs. c = Some bs \<longrightarrow> length bs < 2 ^ 64)) (\<lambda>_. inv k) x"
    and call: "inv k x \<Longrightarrow> length input < 2 ^ 64 \<Longrightarrow> (\<And>v. val_opt = Some v \<Longrightarrow> v \<le> bal x sender) \<Longrightarrow>
      wp (ext_call E gas sender receiver val_opt input code_adr ct True)
        (\<lambda>r x'. inv k x' \<and> call_result_ok gas r \<and> (\<forall>t. r = Inl t \<longrightarrow> trap_ok (bal x') t)) (\<lambda>_. inv k) x"
    and create: "inv (Suc k) x \<Longrightarrow> length code < 2 ^ 64 \<Longrightarrow> v \<le> bal x own \<Longrightarrow>
      wp (ext_create E gas v code scheme True)
        (\<lambda>r x'. inv k x' \<and> create_result_ok gas r \<and> (\<forall>t. r = Inl t \<longrightarrow> trap_ok (bal x') t)) (\<lambda>_. inv k) x"
    and add_sstore_refund: "inv (Suc k) x \<Longrightarrow> amount < 2 ^ 32 \<Longrightarrow>
      wp (ext_add_sstore_refund E amount) (\<lambda>_. inv k) (\<lambda>_. inv k) x"
    and sub_sstore_refund: "inv (Suc k) x \<Longrightarrow> amount < 2 ^ 32 \<Longrightarrow>
      wp (ext_sub_sstore_refund E amount) (\<lambda>_. inv k) (\<lambda>_. inv k) x"
    and trace_next_instruction: "inv k x \<Longrightarrow> inv k (snd (ext_trace_next_instruction E pc op g x))"
    and trace_prepare_execute: "inv k x \<Longrightarrow> inv k (ext_trace_prepare_execute E pc op g mw sw x)"
    and trace_executed: "inv k x \<Longrightarrow> inv k (ext_trace_executed E g pushed m x)"
begin

lemma balance_keeps: "keeps (ext_balance E a) (inv k)"
  unfolding keeps_def by (intro allI impI wp_mono [OF balance]) auto

lemma inv_mono: "inv k x \<Longrightarrow> j \<le> k \<Longrightarrow> inv j x"
  by (induction k) (auto simp: le_Suc_eq inv_Suc)

end

end
