(* ===== verification/Gas_Safety.thy ===== *)
theory Gas_Safety
  imports Gasometer Ext_Trait
begin

text \<open>
  What the computed requirements guarantee to the execution of an instruction, for gas counted in
  \<open>usize\<close> over any implementation of \<open>Ext\<close>: computing them does not panic on a stack that passed
  \<open>verify_instruction\<close>; they cover every memory range the instruction accesses; every instruction
  that does not halt costs gas; and the \<open>CREATE\<close> and \<open>CALL\<close> families, and only they, are given gas to
  pass on, with the price of a transfer of value on top of it.
\<close>

section \<open>Operands and memory ranges\<close>

definition operand :: "u256 vec_stack \<Rightarrow> nat \<Rightarrow> u256" where
  "operand stk n = vs_stack stk ! (length (vs_stack stk) - n - 1)"

lemma peek_operand: "Suc n \<le> length (vs_stack stk) \<Longrightarrow> peek stk n = Ok (operand stk n)"
  by (simp add: peek_def operand_def)

definition calls :: "instruction \<Rightarrow> bool" where
  "calls i \<longleftrightarrow> i = CALL \<or> i = CALLCODE \<or> i = DELEGATECALL \<or> i = STATICCALL"

definition creates :: "instruction \<Rightarrow> bool" where
  "creates i \<longleftrightarrow> i = CREATE \<or> i = CREATE2"

definition halts :: "instruction \<Rightarrow> bool" where
  "halts i \<longleftrightarrow> i = STOP \<or> i = RETURN \<or> i = REVERT \<or> i = SUICIDE"

text \<open>The memory an instruction reads or writes, as pairs of offset and size.\<close>

definition mem_ranges :: "instruction \<Rightarrow> u256 vec_stack \<Rightarrow> (u256 \<times> u256) list" where
  "mem_ranges i stk =
    (if i = MSTORE \<or> i = MLOAD then [(operand stk 0, 32)]
     else if i = MSTORE8 then [(operand stk 0, 1)]
     else if i = RETURN \<or> i = REVERT \<or> i = SHA3 \<or> is_log i then [(operand stk 0, operand stk 1)]
     else if i = CALLDATACOPY \<or> i = CODECOPY \<or> i = RETURNDATACOPY then [(operand stk 0, operand stk 2)]
     else if i = EXTCODECOPY then [(operand stk 1, operand stk 3)]
     else if i = CALL \<or> i = CALLCODE then [(operand stk 5, operand stk 6), (operand stk 3, operand stk 4)]
     else if i = DELEGATECALL \<or> i = STATICCALL
       then [(operand stk 4, operand stk 5), (operand stk 2, operand stk 3)]
     else if creates i then [(operand stk 1, operand stk 2)]
     else [])"

definition fits :: "nat \<Rightarrow> u256 \<times> u256 \<Rightarrow> bool" where
  "fits len r \<longleftrightarrow> snd r = 0 \<or> unat (fst r) + unat (snd r) \<le> len"

text \<open>The value that \<open>CALL\<close> and \<open>CALLCODE\<close> transfer.\<close>

definition transfers :: "instruction \<Rightarrow> u256 vec_stack \<Rightarrow> bool" where
  "transfers i stk \<longleftrightarrow> (i = CALL \<or> i = CALLCODE) \<and> operand stk 2 \<noteq> 0"

definition call_value :: "instruction \<Rightarrow> u256 vec_stack \<Rightarrow> u256 option" where
  "call_value i stk = (if i = DELEGATECALL then None else if i = STATICCALL then Some 0 else Some (operand stk 2))"

definition request_ok :: "schedule \<Rightarrow> instruction \<Rightarrow> u256 vec_stack \<Rightarrow> usize request \<Rightarrow> bool" where
  "request_ok s i stk q \<longleftrightarrow>
     (\<forall>r \<in> set (mem_ranges i stk). \<exists>m. request_size q = Some m \<and> fits (unat m) r) \<and>
     (request_provides q \<longleftrightarrow> calls i \<or> creates i) \<and>
     (halts i \<or> 0 < unat (request_gas q)) \<and>
     (transfers i stk \<longrightarrow> unat (sch_call_value_transfer_gas s) < unat (request_gas q))"

section \<open>Requests over the memory and the stack alone\<close>

lemma fits_needed: "mem_needed off n = Ok (m :: usize) \<Longrightarrow> fits (unat m) (off, n)"
  by (auto simp: fits_def dest: mem_needed_Ok)

lemma fits_mono: "fits a r \<Longrightarrow> a \<le> b \<Longrightarrow> fits b r"
  by (auto simp: fits_def)

lemma fits_needed_max:
  "mem_needed off n = Ok a \<Longrightarrow> fits (unat (max a b :: usize)) (off, n)"
  "mem_needed off n = Ok b \<Longrightarrow> fits (unat (max a b :: usize)) (off, n)"
  by (auto simp: max_def word_le_nat_alt dest!: fits_needed intro: fits_mono)

lemmas request_ok_simps = request_ok_def mem_ranges_def calls_def creates_def halts_def transfers_def is_log_def

lemma request_mem_ok:
  assumes "i = MSTORE \<or> i = MLOAD \<or> i = MSTORE8 \<or> i = RETURN \<or> i = REVERT"
    and "2 \<le> length (vs_stack stk) \<or> i = MLOAD \<and> 1 \<le> length (vs_stack stk)" "0 < dg \<or> halts i"
  shows "request_mem dg i stk \<noteq> Panic" "request_mem dg i stk = Ok q \<Longrightarrow> request_ok s i stk q"
proof -
  have needed: "request_mem dg i stk =
    (if i = MSTORE \<or> i = MLOAD then and_then (mem_needed_const (operand stk 0) 32) (\<lambda>m. Ok (Request_GasMem dg m))
     else if i = MSTORE8 then and_then (mem_needed_const (operand stk 0) 1) (\<lambda>m. Ok (Request_GasMem dg m))
     else and_then (mem_needed (operand stk 0) (operand stk 1)) (\<lambda>m. Ok (Request_GasMem dg m)))"
    using assms(1,2) by (auto simp: request_mem_def peek_operand)
  then show "request_mem dg i stk \<noteq> Panic" by (simp add: and_then_Panic_iff)
  show "request_ok s i stk q" if "request_mem dg i stk = Ok q"
    using that assms(1,3) unfolding needed
    by (elim disjE)
      (auto simp: request_ok_simps and_then_Ok_iff fits_def unat_gt_0 dest: mem_needed_const_Ok mem_needed_Ok)
qed

lemma request_sha3_ok:
  assumes "2 \<le> length (vs_stack stk)" "0 < sch_sha3_gas s"
  shows "request_sha3 s stk \<noteq> (Panic :: usize request vm_result)" "request_sha3 s stk = Ok q \<Longrightarrow> request_ok s SHA3 stk q"
  using assms
  by (auto simp: request_sha3_def peek_operand and_then_Panic_iff and_then_Ok_iff request_ok_simps fits_needed
    word_less_nat_alt dest!: overflowing_unat_add)

lemma request_copy_ok:
  assumes "i = CALLDATACOPY \<or> i = CODECOPY \<or> i = RETURNDATACOPY \<or> i = EXTCODECOPY"
    and "(if i = EXTCODECOPY then 4 else 3) \<le> length (vs_stack stk)"
    and "i = EXTCODECOPY \<or> 0 < dg" "0 < sch_extcodecopy_base_gas s"
  shows "request_copy s dg i stk \<noteq> Panic" "request_copy s dg i stk = Ok q \<Longrightarrow> request_ok s i stk q"
  using assms
  by (auto simp: request_copy_def peek_operand and_then_Panic_iff and_then_Ok_iff request_ok_simps fits_needed
    word_less_nat_alt split: if_splits)

lemma request_delegate_ok:
  assumes "i = DELEGATECALL \<or> i = STATICCALL" "6 \<le> length (vs_stack stk)" "0 < sch_call_gas s"
  shows "request_delegate s stk \<noteq> (Panic :: usize request vm_result)" "request_delegate s stk = Ok q \<Longrightarrow> request_ok s i stk q"
proof -
  show "request_delegate s stk \<noteq> (Panic :: usize request vm_result)"
    using assms(2) by (auto simp: request_delegate_def peek_operand and_then_Panic_iff)
  show "request_ok s i stk q" if "request_delegate s stk = Ok q"
    using that assms
    by (elim disjE) (auto simp: request_delegate_def peek_operand and_then_Ok_iff request_ok_simps
      word_less_nat_alt fits_needed_max)
qed

lemma request_create_ok:
  assumes "i = CREATE \<or> i = CREATE2" "3 \<le> length (vs_stack stk)" "0 < sch_create_gas s"
  shows "request_create s i stk \<noteq> (Panic :: usize request vm_result)" "request_create s i stk = Ok q \<Longrightarrow> request_ok s i stk q"
proof -
  show "request_create s i stk \<noteq> (Panic :: usize request vm_result)"
    using assms(2) by (auto simp: request_create_def peek_operand and_then_Panic_iff)
  show "request_ok s i stk q" if "request_create s i stk = Ok q"
    using that assms
    by (elim disjE) (auto simp: request_create_def peek_operand and_then_Ok_iff request_ok_simps
      word_less_nat_alt fits_needed dest!: overflowing_unat_add)
qed

lemma nat_bits_le: "n < 2 ^ k \<Longrightarrow> nat_bits n \<le> k"
proof (induction k arbitrary: n)
  case 0
  then show ?case by (simp add: nat_bits.simps)
next
  case (Suc k)
  then have "n div 2 < 2 ^ k" by simp
  with Suc.IH show ?case by (subst nat_bits.simps) simp
qed

lemma request_exp_ok:
  assumes "2 \<le> length (vs_stack stk)" "small_price (sch_exp_gas s)" "small_price (sch_exp_byte_gas s)"
    and "0 < sch_exp_gas s"
  shows "request_exp s stk \<noteq> (Panic :: usize request vm_result)" "request_exp s stk = Ok q \<Longrightarrow> request_ok s EXP stk q"
proof -
  let ?n = "(nat_bits (unat (operand stk 1)) + 7) div 8"
  have n: "?n \<le> 32"
    using nat_bits_le [of "unat (operand stk 1)" 256] unat_below [of "operand stk 1"] by simp
  then have nw: "unat (word_of_nat ?n :: usize) = ?n" by (simp add: unat_of_nat)
  have small: "unat (sch_exp_gas s) < 2 ^ 32" "unat (sch_exp_byte_gas s) < 2 ^ 32"
    using assms(2,3) by (simp_all add: small_price_def word_less_nat_alt)
  then have prod: "unat (sch_exp_byte_gas s) * ?n \<le> 2 ^ 32 * 32"
    using n by (intro mult_le_mono) simp_all
  then have mult: "unat (sch_exp_byte_gas s * word_of_nat ?n) = unat (sch_exp_byte_gas s) * ?n"
    using nw by (subst unat_times_exact) simp_all
  have run: "request_exp s stk = Ok (Request_Gas (sch_exp_gas s + sch_exp_byte_gas s * word_of_nat ?n))"
    using assms(1) prod small nw mult
    by (simp add: request_exp_def peek_operand Let_def checked_times_def checked_plus_def)
  then show "request_exp s stk \<noteq> (Panic :: usize request vm_result)" by simp
  have "0 < unat (sch_exp_gas s + sch_exp_byte_gas s * word_of_nat ?n)"
    using assms(4) prod small mult by (subst unat_plus_exact) (simp_all add: word_less_nat_alt)
  then show "request_ok s EXP stk q" if "request_exp s stk = Ok q"
    using that run by (auto simp: request_ok_simps)
qed

lemma request_log_ok:
  assumes "is_log i" "2 \<le> length (vs_stack stk)" "small_price (sch_log_gas s)"
    and "small_price (sch_log_topic_gas s)" "0 < sch_log_gas s"
  shows "request_log s i stk \<noteq> (Panic :: usize request vm_result)" "request_log s i stk = Ok q \<Longrightarrow> request_ok s i stk q"
proof -
  obtain n where topics: "log_topics i = Some n" and n: "n \<le> 4"
    using assms(1) by (auto simp: is_log_def)
  then have nw: "unat (word_of_nat n :: usize) = n" by (simp add: unat_of_nat)
  have small: "unat (sch_log_gas s) < 2 ^ 32" "unat (sch_log_topic_gas s) < 2 ^ 32"
    using assms(3,4) by (simp_all add: small_price_def word_less_nat_alt)
  then have prod: "unat (sch_log_topic_gas s) * n \<le> 2 ^ 32 * 4"
    using n by (intro mult_le_mono) simp_all
  then have mult: "unat (sch_log_topic_gas s * word_of_nat n) = unat (sch_log_topic_gas s) * n"
    using nw by (subst unat_times_exact) simp_all
  let ?g = "sch_log_gas s + sch_log_topic_gas s * word_of_nat n"
  have g: "unat ?g = unat (sch_log_gas s) + unat (sch_log_topic_gas s) * n"
    using prod small mult by (subst unat_plus_exact) simp_all
  have run: "(request_log s i stk :: usize request vm_result) =
    and_then (from_u256 (operand stk 1)) (\<lambda>g.
    and_then (overflowing (overflow_mul g (cost_of (sch_log_data_gas s)))) (\<lambda>data_gas.
    and_then (overflowing (overflow_add data_gas (cost_of ?g))) (\<lambda>gas.
    and_then (mem_needed (operand stk 0) (operand stk 1)) (\<lambda>m. Ok (Request_GasMem gas m)))))"
    using assms(2) prod small nw mult
    by (simp add: request_log_def peek_operand topics checked_times_def checked_plus_def)
  then show "request_log s i stk \<noteq> (Panic :: usize request vm_result)" by (simp add: and_then_Panic_iff)
  have pos: "0 < unat ?g" using assms(5) g by (simp add: word_less_nat_alt)
  have ranges: "mem_ranges i stk = [(operand stk 0, operand stk 1)]"
    and other: "\<not> calls i" "\<not> creates i" "\<not> transfers i stk"
    using assms(1) by (auto simp: mem_ranges_def is_log_def calls_def creates_def transfers_def)
  show "request_ok s i stk q" if "request_log s i stk = Ok q"
    using that pos other unfolding run
    by (auto simp: request_ok_def ranges and_then_Ok_iff fits_needed dest!: overflowing_unat_add)
qed

section \<open>The default price\<close>

text \<open>The instructions that have an arm of their own in \<open>requirements\<close>; the rest cost their tier.\<close>

definition priced_apart :: "instruction \<Rightarrow> bool" where
  "priced_apart i \<longleftrightarrow> i = JUMPDEST \<or> i = SSTORE \<or> i = SLOAD \<or> i = BALANCE \<or> i = EXTCODESIZE \<or>
     i = EXTCODEHASH \<or> i = SUICIDE \<or> i = SHA3 \<or> i = EXTCODECOPY \<or> is_log i \<or> calls i \<or> creates i \<or>
     i = EXP \<or> i = BLOCKHASH"

lemma info_INSTRUCTIONS: "info i = Ok ii \<longleftrightarrow> INSTRUCTIONS i = Some ii"
  by (simp add: info_def expect_iffs)

lemma default_tier:
  assumes "INSTRUCTIONS i = Some ii" "\<not> priced_apart i" "\<not> halts i"
  shows "idx (info_tier ii) \<in> {1, 2, 3, 4, 5, 6}"
  using assms by (cases i) (auto simp: priced_apart_def is_log_def calls_def creates_def halts_def)

lemma tier_gas_Ok:
  assumes "schedule_ok s"
  shows "tier_gas s ii = Ok (sch_tier_step_gas s ! idx (info_tier ii) :: usize)"
  using assms by (cases "info_tier ii") (simp_all add: tier_gas_def schedule_ok_def)

lemma default_price:
  assumes "INSTRUCTIONS i = Some ii" "schedule_priced s" "\<not> priced_apart i" "\<not> halts i"
  shows "0 < sch_tier_step_gas s ! idx (info_tier ii)"
  using default_tier [OF assms(1,3,4)] assms(2) by (auto simp: schedule_priced_def)

lemma plain_instruction:
  assumes "\<not> priced_apart i" "\<not> (i = MSTORE \<or> i = MLOAD \<or> i = MSTORE8 \<or> i = RETURN \<or> i = REVERT)"
    and "\<not> (i = CALLDATACOPY \<or> i = CODECOPY \<or> i = RETURNDATACOPY)"
  shows "request_of E s dg i stk = ret (Request_Gas dg)" "mem_ranges i stk = []"
    "\<not> calls i" "\<not> creates i" "\<not> transfers i stk"
  using assms by (simp_all add: request_of_def mem_ranges_def priced_apart_def calls_def creates_def transfers_def)

lemma wp_lift_Ok: "wp (lift (Ok v)) Q E x = Q v x"
  by (simp add: wp_lift)

section \<open>Requests that consult the externalities\<close>

context ext_trait
begin

lemmas keeps_ext_rules =
  keeps_wp [OF storage_at] keeps_wp [OF initial_storage_at] keeps_wp [OF set_storage]
  keeps_wp [OF exists] keeps_wp [OF exists_and_not_null] keeps_wp [OF origin_balance]
  keeps_wp [OF balance_keeps] keeps_wp [OF blockhash] keeps_wp [OF extcodehash] keeps_wp [OF extcodesize]
  keeps_wp [OF log] keeps_wp [OF suicide]

lemmas wp_steps = wp_bind wp_basic wp_if wp_lift_Ok

lemma wp_request_sstore:
  assumes "inv k x" "2 \<le> length (vs_stack stk)"
  shows "wp (request_sstore E s stk) (\<lambda>q x'. inv k x' \<and> request_ok s SSTORE stk q) (\<lambda>_. inv k) x"
  using assms schedule_priced
  by (auto simp: request_sstore_def wp_steps peek_operand request_ok_simps schedule_priced_def
      word_less_nat_alt calculate_eip1283_sstore_gas_def intro!: keeps_ext_rules)

lemma keeps_charges_new_account: "keeps (charges_new_account E s v a) (inv k)"
  by (auto simp: keeps_def charges_new_account_def wp_steps intro!: keeps_ext_rules)

lemma wp_request_suicide:
  assumes "inv k x" "1 \<le> length (vs_stack stk)"
  shows "wp (request_suicide E s stk) (\<lambda>q x'. inv k x' \<and> request_ok s SUICIDE stk q) (\<lambda>_. inv k) x"
  using assms
  by (auto simp: request_suicide_def wp_steps peek_operand request_ok_simps
      intro!: keeps_ext_rules keeps_wp [OF keeps_charges_new_account] wp_liftI)

lemma wp_request_call:
  assumes "inv k x" "7 \<le> length (vs_stack stk)" "i = CALL \<or> i = CALLCODE"
  shows "wp (request_call E s i stk) (\<lambda>q x'. inv k x' \<and> request_ok s i stk q) (\<lambda>_. inv k) x"
proof -
  have ok: "request_ok s j stk (Request_GasMemProvide g (max a b) r)"
    if "j = CALL \<or> j = CALLCODE" "mem_needed (operand stk 5) (operand stk 6) = Ok a"
      "mem_needed (operand stk 3) (operand stk 4) = Ok b" "0 < unat g"
      "operand stk 2 \<noteq> 0 \<longrightarrow> unat (sch_call_value_transfer_gas s) < unat g" for g a b r j
    using that by (elim disjE) (auto simp: request_ok_simps fits_needed_max)
  have "0 < unat (sch_call_gas s)"
    using schedule_priced by (simp add: schedule_priced_def word_less_nat_alt)
  then show ?thesis
    using assms
    by (auto simp: request_call_def wp_steps and_then_Ok_iff peek_operand Let_def and_then_Panic_iff
      dest!: overflowing_unat_add intro!: wp_liftI keeps_wp [OF keeps_charges_new_account] ok)
qed

lemma wp_request_of:
  assumes "inv k x" "INSTRUCTIONS i = Some ii" "info_args ii \<le> length (vs_stack stk)"
  shows "wp (request_of E s (sch_tier_step_gas s ! idx (info_tier ii)) i stk)
    (\<lambda>q x'. inv k x' \<and> request_ok s i stk q) (\<lambda>_. inv k) x"
proof -
  let ?dg = "sch_tier_step_gas s ! idx (info_tier ii)"
  note prices = schedule_ok schedule_priced
  have price: "0 < ?dg" if "\<not> priced_apart i" "\<not> halts i"
    using default_price [OF assms(2) schedule_priced that] .
  consider (plain) "\<not> priced_apart i" "\<not> (i = MSTORE \<or> i = MLOAD \<or> i = MSTORE8 \<or> i = RETURN \<or> i = REVERT)"
      "\<not> (i = CALLDATACOPY \<or> i = CODECOPY \<or> i = RETURNDATACOPY)"
    | (mem) "i = MSTORE \<or> i = MLOAD \<or> i = MSTORE8 \<or> i = RETURN \<or> i = REVERT"
    | (copy) "i = CALLDATACOPY \<or> i = CODECOPY \<or> i = RETURNDATACOPY \<or> i = EXTCODECOPY"
    | (flat) "i = JUMPDEST \<or> i = SLOAD \<or> i = BALANCE \<or> i = EXTCODESIZE \<or> i = EXTCODEHASH \<or> i = BLOCKHASH"
    | (log) "is_log i" | (create) "i = CREATE \<or> i = CREATE2"
    | (delegate) "i = DELEGATECALL \<or> i = STATICCALL" | (call) "i = CALL \<or> i = CALLCODE"
    | (sstore) "i = SSTORE" | (suicide) "i = SUICIDE" | (sha3) "i = SHA3" | (exp) "i = EXP"
    by (simp add: priced_apart_def calls_def creates_def) metis
  then show ?thesis
  proof cases
    case plain
    then have "halts i \<or> 0 < ?dg" using price by blast
    with plain show ?thesis
      using assms(1) by (auto simp: plain_instruction wp_basic request_ok_def word_less_nat_alt)
  next
    case mem
    then have run: "request_of E s ?dg i stk = lift (request_mem ?dg i stk)"
      by (elim disjE) (simp_all add: request_of_def)
    have len: "2 \<le> length (vs_stack stk) \<or> i = MLOAD \<and> 1 \<le> length (vs_stack stk)"
      using mem assms(2,3) by (elim disjE) auto
    have pos: "0 < ?dg \<or> halts i"
      using mem price by (elim disjE) (simp_all add: priced_apart_def halts_def is_log_def calls_def creates_def)
    show ?thesis
      unfolding run using assms(1) request_mem_ok [OF mem len pos] by (intro wp_liftI) simp_all
  next
    case copy
    then have "request_of E s ?dg i stk = lift (request_copy s ?dg i stk)"
      by (elim disjE) (simp_all add: request_of_def)
    moreover have "(if i = EXTCODECOPY then 4 else 3) \<le> length (vs_stack stk)"
      using copy assms(2,3) by (elim disjE) auto
    moreover have "i = EXTCODECOPY \<or> 0 < ?dg"
      using copy assms(2) schedule_priced by (elim disjE) (auto simp: schedule_priced_def)
    ultimately show ?thesis
      using assms(1) prices request_copy_ok [OF copy, of stk ?dg s]
      by (auto simp: schedule_priced_def intro!: wp_liftI)
  next
    case flat
    then show ?thesis
      using assms(1) schedule_priced
      by (elim disjE) (simp_all add: request_of_def wp_basic request_ok_simps schedule_priced_def word_less_nat_alt)
  next
    case log
    then have "request_of E s ?dg i stk = lift (request_log s i stk)"
      by (auto simp: is_log_def request_of_def)
    moreover have "2 \<le> length (vs_stack stk)"
      using log assms(2,3) by (auto simp: is_log_def)
    ultimately show ?thesis
      using assms(1) prices request_log_ok [OF log, of stk s]
      by (auto simp: schedule_priced_def schedule_ok_def intro!: wp_liftI)
  next
    case create
    then have "request_of E s ?dg i stk = lift (request_create s i stk)"
      by (elim disjE) (simp_all add: request_of_def is_log_def)
    moreover have "3 \<le> length (vs_stack stk)"
      using create assms(2,3) by (elim disjE) auto
    ultimately show ?thesis
      using assms(1) prices request_create_ok [OF create, of stk s]
      by (auto simp: schedule_priced_def intro!: wp_liftI)
  next
    case delegate
    then have "request_of E s ?dg i stk = lift (request_delegate s stk)"
      by (elim disjE) (simp_all add: request_of_def is_log_def)
    moreover have "6 \<le> length (vs_stack stk)"
      using delegate assms(2,3) by (elim disjE) auto
    ultimately show ?thesis
      using assms(1) prices request_delegate_ok [OF delegate, of stk s]
      by (auto simp: schedule_priced_def intro!: wp_liftI)
  next
    case call
    then have "request_of E s ?dg i stk = request_call E s i stk"
      by (elim disjE) (simp_all add: request_of_def is_log_def)
    moreover have "7 \<le> length (vs_stack stk)"
      using call assms(2,3) by (elim disjE) auto
    ultimately show ?thesis using wp_request_call [OF assms(1) _ call] by simp
  next
    case sstore
    then show ?thesis using wp_request_sstore [OF assms(1)] assms(2,3) by (auto simp: request_of_def)
  next
    case suicide
    then show ?thesis using wp_request_suicide [OF assms(1)] assms(2,3) by (auto simp: request_of_def)
  next
    case sha3
    then have "2 \<le> length (vs_stack stk)" using assms(2,3) by auto
    then show ?thesis
      using sha3 assms(1) prices request_sha3_ok [of stk s]
      by (auto simp: request_of_def schedule_priced_def intro!: wp_liftI)
  next
    case exp
    then have "2 \<le> length (vs_stack stk)" using assms(2,3) by auto
    then show ?thesis
      using exp assms(1) prices request_exp_ok [of stk s]
      by (auto simp: request_of_def is_log_def schedule_priced_def schedule_ok_def intro!: wp_liftI)
  qed
qed

text \<open>The requirements of an instruction, relative to the stack it starts from.\<close>

lemma wp_requirements:
  assumes "inv k x" "INSTRUCTIONS i = Some ii" "info_args ii \<le> length (vs_stack stk)"
    and "memory_paid s cur gm"
  shows "wp (requirements gm E i ii stk cur)
    (\<lambda>r x'. inv k x' \<and> (\<exists>q. request_ok s i stk q \<and> requirements_meet s cur q r)) (\<lambda>_. inv k) x"
proof -
  have "wp (lift (meet_request gm s cur q))
      (\<lambda>r x'. inv k x' \<and> (\<exists>q. request_ok s i stk q \<and> requirements_meet s cur q r)) (\<lambda>_. inv k) x'"
    if "inv k x'" "request_ok s i stk q" for q x'
    using that meet_request_no_panic [OF assms(4) schedule_ok, of q] meet_request_Ok [OF _ assms(4)]
    by (auto intro!: wp_liftI)
  then show ?thesis
    using wp_request_of [OF assms(1-3)] assms(1)
    by (auto simp: requirements_def wp_steps schedule tier_gas_Ok [OF schedule_ok] intro: wp_mono)
qed

end

end
