(* ===== verification/Interpreter_Arms.thy ===== *)
theory Interpreter_Arms
  imports Interpreter_Data Gas_Safety
begin

text \<open>
  The interpreter does not panic. Over any implementation of \<open>Ext\<close> that keeps its contract, with
  gas counted in \<open>usize\<close>, every arm of \<open>exec_instruction\<close> runs to a result on a state that
  passed \<open>verify_instruction\<close> and was charged: no empty stack, no memory access out of range, no failed
  \<open>expect\<close>, no arithmetic overflow. The stack effect of each arm is the one the instruction
  table announces.
\<close>

section \<open>Running actions of the interpreter\<close>

named_theorems vm_wp "weakest preconditions of actions of the interpreter"

lemma wp_vm_get [vm_wp]: "wp (vm_get f) Q R st = Q (f (fst st)) st"
  by (simp add: vm_get_def wp_basic)

lemma wp_vm_set [vm_wp]: "wp (vm_set f) Q R st = Q () (f (fst st), snd st)"
  by (simp add: vm_set_def wp_basic)

lemma wp_ext_get [vm_wp]: "wp (ext_get f) Q R st = Q (f (snd st)) st"
  by (simp add: ext_get_def wp_basic)

lemma wp_with_ext [vm_wp]:
  "wp (with_ext m) Q R st = wp m (\<lambda>r x. Q r (fst st, x)) (\<lambda>e x. R e (fst st, x)) (snd st)"
  by (auto simp: with_ext_def wp_def Let_def split: prod.splits outcome.splits)

lemma wp_vm_push [vm_wp]:
  "wp (vm_push v) Q R st = Q () ((fst st)\<lparr>it_stack := push (it_stack (fst st)) v\<rparr>, snd st)"
  by (simp add: vm_push_def vm_wp)

lemma wp_vm_set_mem [vm_wp]: "wp (vm_set_mem m) Q R st = Q () ((fst st)\<lparr>it_mem := m\<rparr>, snd st)"
  by (simp add: vm_set_mem_def vm_wp)

declare wp_bind [vm_wp] wp_basic [vm_wp] wp_if [vm_wp] wp_lift_Ok [vm_wp]

text \<open>The stack after \<open>n\<close> elements were popped, so that the operands keep their names.\<close>

definition drop_top :: "nat \<Rightarrow> 'a vec_stack \<Rightarrow> 'a vec_stack" where
  "drop_top n stk = stk\<lparr>vs_stack := take (length (vs_stack stk) - n) (vs_stack stk)\<rparr>"

lemma drop_top_0: "drop_top 0 stk = stk"
  by (simp add: drop_top_def)

lemma size_drop_top [simp]: "length (vs_stack (drop_top n stk)) = length (vs_stack stk) - n"
  by (simp add: drop_top_def)

lemma logs_drop_top [simp]: "vs_logs (drop_top n stk) = vs_logs stk"
  by (simp add: drop_top_def)

lemma size_push [simp]: "length (vs_stack (push stk v)) = Suc (length (vs_stack stk))"
  by (simp add: push_def)

lemma logs_push [simp]: "vs_logs (push stk v) = vs_logs stk"
  by (simp add: push_def)

lemma pop_drop_top:
  assumes "Suc n \<le> length (vs_stack stk)"
  shows "pop_back (drop_top n stk) = Ok (operand stk n, drop_top (Suc n) stk)"
proof -
  let ?xs = "vs_stack stk"
  have "take (length ?xs - n) ?xs \<noteq> []" using assms by auto
  moreover from this have "last (take (length ?xs - n) ?xs) = ?xs ! (length ?xs - n - 1)"
    using assms by (cases n) (auto simp: last_conv_nth min_def)
  moreover have "butlast (take (length ?xs - n) ?xs) = take (length ?xs - Suc n) ?xs"
    using assms by (simp add: butlast_take)
  ultimately show ?thesis by (simp add: pop_back_def drop_top_def operand_def)
qed

lemma wp_pop:
  assumes "Suc n \<le> length (vs_stack stk)"
  shows "wp vm_pop Q R (it\<lparr>it_stack := drop_top n stk\<rparr>, x)
    = Q (operand stk n) (it\<lparr>it_stack := drop_top (Suc n) stk\<rparr>, x)"
  by (simp add: vm_pop_def vm_wp pop_drop_top [OF assms])

lemmas wp_pops [vm_wp] =
  wp_pop [of 0] wp_pop [of "Suc 0", folded numeral_2_eq_2] wp_pop [of 2, simplified] wp_pop [of 3, simplified]
  wp_pop [of 4, simplified] wp_pop [of 5, simplified] wp_pop [of 6, simplified]

lemma wp_start: "wp m Q R (it\<lparr>it_stack := drop_top 0 (it_stack it)\<rparr>, x) \<Longrightarrow> wp m Q R (it, x)"
  by (simp add: drop_top_0)

section \<open>What an arm may rely on and what it leaves\<close>

definition machine_ok :: "usize interpreter \<Rightarrow> bool" where
  "machine_ok it \<longleftrightarrow>
     vec_stack_ok (it_stack it) \<and> data_ok (it_return_data it) \<and> length (it_mem it) < 2 ^ 64 \<and>
     rdr_position (it_reader it) \<le> length (rdr_code (it_reader it)) \<and>
     length (rdr_code (it_reader it)) < 2 ^ 64 \<and>
     (\<forall>d. ip_data (it_params it) = Some d \<longrightarrow> length d < 2 ^ 64)"

text \<open>Everything an instruction leaves alone, the size of the memory included.\<close>

definition same_frame :: "'c interpreter \<Rightarrow> 'c interpreter \<Rightarrow> bool" where
  "same_frame it it' \<longleftrightarrow>
     it_gasometer it' = it_gasometer it \<and> it_done it' = it_done it \<and> it_do_trace it' = it_do_trace it \<and>
     it_last_stack_ret_len it' = it_last_stack_ret_len it \<and> it_resume_result it' = it_resume_result it \<and>
     rdr_code (it_reader it') = rdr_code (it_reader it) \<and> it_params it' = it_params it \<and>
     it_cache it' = it_cache it \<and> it_valid_jump_destinations it' = it_valid_jump_destinations it \<and>
     length (it_mem it') = length (it_mem it)"

definition arm_post :: "'c interpreter \<Rightarrow> nat \<Rightarrow> nat \<Rightarrow> 'c interpreter \<Rightarrow> bool" where
  "arm_post it pops pushes it' \<longleftrightarrow>
     same_frame it it' \<and> vec_stack_ok (it_stack it') \<and> data_ok (it_return_data it') \<and>
     stack_size (it_stack it') + pops = stack_size (it_stack it) + pushes"

lemmas arm_simps = arm_post_def same_frame_def stack_size_def vec_stack_ok_def machine_ok_def

lemma regain_2: "2 \<le> l \<Longrightarrow> Suc (Suc (l - 2)) = l"
  by simp

lemma from_u256_small: "unat v < 2 ^ 64 \<Longrightarrow> from_u256 v = Ok (ucast v :: usize)"
  by (simp add: from_u256_usize_iff unat_ucast_exact)

lemma expect_ok_Ok [simp]: "expect_ok (Ok v) = Ok v"
  by (simp add: expect_ok_def)

lemma fits_low:
  assumes "fits (length m) (off, n)" "length m < 2 ^ 64" "n \<noteq> 0"
  shows "low_usize off = unat off" "low_usize n = unat n" "unat off + unat n \<le> length m"
  using assms by (simp_all add: fits_def low_usize_small)

lemma read_slice_fits:
  assumes "fits (length m) (off, n)" "length m < 2 ^ 64"
  shows "\<exists>bs. read_slice m off n = Ok bs"
proof (cases "n = 0")
  case True
  then show ?thesis by (simp add: read_slice_def is_valid_range_def low_usize_def Let_def)
next
  case False
  with fits_low [OF assms this] show ?thesis by (simp add: read_slice_def Let_def)
qed

lemma mem_word_fits:
  assumes "fits (length m) (off, 32)" "length m < 2 ^ 64"
  shows "\<exists>v. mem_read m off = Ok v" "\<exists>m'. mem_write m off w = Ok m' \<and> length m' = length m"
  using fits_low [OF assms] by (simp_all add: mem_read_def mem_write_def Let_def length_overwrite)

lemma write_byte_fits:
  assumes "fits (length m) (off, 1)" "length m < 2 ^ 64"
  shows "\<exists>m'. write_byte m off v = Ok m' \<and> length m' = length m"
  using fits_low [OF assms] by (simp add: write_byte_def Let_def)

lemma copy_data_fits:
  assumes "fits (length m) (d, n)" "length m < 2 ^ 64" "length source < 2 ^ 64"
  shows "\<exists>m'. copy_data m d so n source = Ok m' \<and> length m' = length m"
  using copy_data_spec [of n d m source so] assms by (auto simp: fits_def length_overwrite)

text \<open>Running a fallible computation that is known to succeed.\<close>

lemma wp_lift_ex: "\<exists>v. r = Ok v \<and> P v \<Longrightarrow> (\<And>v. P v \<Longrightarrow> Q v st) \<Longrightarrow> wp (lift r) Q R st"
  by (auto simp: wp_lift)

lemma wp_lift_ex': "\<exists>v. r = Ok v \<Longrightarrow> (\<And>v. Q v st) \<Longrightarrow> wp (lift r) Q R st"
  by (auto simp: wp_lift)

context ext_trait
begin

definition plain_post ::
  "nat \<Rightarrow> usize interpreter \<Rightarrow> nat \<Rightarrow> nat \<Rightarrow> usize instruction_result \<Rightarrow> usize interpreter \<times> 'x \<Rightarrow> bool" where
  "plain_post k it pops pushes r st \<longleftrightarrow> r = IR_Ok \<and> arm_post it pops pushes (fst st) \<and> inv k (snd st)"

lemmas plain = plain_post_def vm_wp arm_simps

section \<open>Arms on the stack alone\<close>

lemma wp_unary:
  assumes "machine_ok it" "inv k x" "1 \<le> stack_size (it_stack it)"
  shows "wp (unary f) (plain_post k it 1 1) (\<lambda>_ st. inv k (snd st)) (it, x)"
  by (rule wp_start) (use assms in \<open>simp add: unary_def plain\<close>)

lemma wp_binary:
  assumes "machine_ok it" "inv k x" "2 \<le> stack_size (it_stack it)"
  shows "wp (binary f) (plain_post k it 2 1) (\<lambda>_ st. inv k (snd st)) (it, x)"
  by (rule wp_start) (use assms in \<open>simp add: binary_def plain\<close>)

lemma wp_ternary:
  assumes "machine_ok it" "inv k x" "3 \<le> stack_size (it_stack it)"
  shows "wp (ternary f) (plain_post k it 3 1) (\<lambda>_ st. inv k (snd st)) (it, x)"
  by (rule wp_start) (use assms in \<open>simp add: ternary_def plain\<close>)

lemma wp_push_value:
  assumes "machine_ok it" "inv k x"
  shows "wp (push_value f) (plain_post k it 0 1) (\<lambda>_ st. inv k (snd st)) (it, x)"
  using assms by (simp add: push_value_def plain)

lemma wp_push_env:
  assumes "machine_ok it" "inv k x"
  shows "wp (push_env g) (plain_post k it 0 1) (\<lambda>_ st. inv k (snd st)) (it, x)"
  using assms by (simp add: push_env_def plain)

lemma wp_exec_pop:
  assumes "machine_ok it" "inv k x" "1 \<le> stack_size (it_stack it)"
  shows "wp exec_pop (plain_post k it 1 0) (\<lambda>_ st. inv k (snd st)) (it, x)"
  by (rule wp_start) (use assms in \<open>simp add: exec_pop_def plain\<close>)

lemma wp_exec_signextend:
  assumes "machine_ok it" "inv k x" "2 \<le> stack_size (it_stack it)"
  shows "wp exec_signextend (plain_post k it 2 1) (\<lambda>_ st. inv k (snd st)) (it, x)"
  by (rule wp_start) (use assms in \<open>auto simp: exec_signextend_def plain\<close>)

lemma wp_exec_dup:
  assumes "machine_ok it" "inv k x" "unat j + 1 \<le> stack_size (it_stack it)"
  shows "wp (exec_dup (DUP j)) (plain_post k it (unat j + 1) (unat j + 2)) (\<lambda>_ st. inv k (snd st)) (it, x)"
  using assms by (simp add: exec_dup_def plain peek_operand)

lemma wp_exec_swap:
  assumes "machine_ok it" "inv k x" "unat j + 2 \<le> stack_size (it_stack it)"
  shows "wp (exec_swap (SWAP j)) (plain_post k it (unat j + 2) (unat j + 2)) (\<lambda>_ st. inv k (snd st)) (it, x)"
  using assms by (simp add: exec_swap_def plain swap_with_top_def Let_def)

lemma wp_exec_push:
  assumes "machine_ok it" "inv k x"
  shows "wp (exec_push (PUSH j)) (plain_post k it 0 1) (\<lambda>_ st. inv k (snd st)) (it, x)"
  using assms by (simp add: exec_push_def plain reader_read_def Let_def)

lemma wp_exec_calldataload:
  assumes "machine_ok it" "inv k x" "1 \<le> stack_size (it_stack it)"
  shows "wp exec_calldataload (plain_post k it 1 1) (\<lambda>_ st. inv k (snd st)) (it, x)"
  by (rule wp_start) (use assms in \<open>simp add: exec_calldataload_def plain\<close>)

lemma wp_exec_returndatasize:
  assumes "machine_ok it" "inv k x"
  shows "wp exec_returndatasize (plain_post k it 0 1) (\<lambda>_ st. inv k (snd st)) (it, x)"
  using assms by (simp add: exec_returndatasize_def plain data_ok_def)

section \<open>Arms on the memory\<close>

lemma wp_exec_mload:
  assumes "machine_ok it" "inv k x" "1 \<le> stack_size (it_stack it)"
    and "fits (length (it_mem it)) (operand (it_stack it) 0, 32)"
  shows "wp exec_mload (plain_post k it 1 1) (\<lambda>_ st. inv k (snd st)) (it, x)"
  by (rule wp_start)
    (use assms in \<open>auto simp: exec_mload_def plain intro!: wp_lift_ex' mem_word_fits(1)\<close>)

lemma wp_exec_mstore:
  assumes "machine_ok it" "inv k x" "2 \<le> stack_size (it_stack it)"
    and "fits (length (it_mem it)) (operand (it_stack it) 0, 32)"
  shows "wp exec_mstore (plain_post k it 2 0) (\<lambda>_ st. inv k (snd st)) (it, x)"
  by (rule wp_start)
    (use assms in \<open>auto simp: exec_mstore_def plain intro!: wp_lift_ex [OF mem_word_fits(2)]\<close>)

lemma wp_exec_mstore8:
  assumes "machine_ok it" "inv k x" "2 \<le> stack_size (it_stack it)"
    and "fits (length (it_mem it)) (operand (it_stack it) 0, 1)"
  shows "wp exec_mstore8 (plain_post k it 2 0) (\<lambda>_ st. inv k (snd st)) (it, x)"
  by (rule wp_start)
    (use assms in \<open>auto simp: exec_mstore8_def plain intro!: wp_lift_ex [OF write_byte_fits]\<close>)

lemma wp_exec_sha3:
  assumes "machine_ok it" "inv k x" "2 \<le> stack_size (it_stack it)"
    and "fits (length (it_mem it)) (operand (it_stack it) 0, operand (it_stack it) 1)"
  shows "wp (exec_sha3 keccak) (plain_post k it 2 1) (\<lambda>_ st. inv k (snd st)) (it, x)"
  by (rule wp_start)
    (use assms in \<open>auto simp: exec_sha3_def plain intro!: wp_lift_ex' read_slice_fits\<close>)

text \<open>The copy is the tail of four arms; its operands start \<open>n\<close> below the top of the original stack.\<close>

lemma wp_copy_data_to_memory:
  assumes "machine_ok it" "inv k x" "3 \<le> stack_size (it_stack it)" "length source < 2 ^ 64"
    and "fits (length (it_mem it)) (operand (it_stack it) 0, operand (it_stack it) 2)"
  shows "wp (copy_data_to_memory source) (plain_post k it 3 0) (\<lambda>_ st. inv k (snd st)) (it, x)"
  by (rule wp_start)
    (use assms in \<open>auto simp: copy_data_to_memory_def plain intro!: wp_lift_ex [OF copy_data_fits]\<close>)

lemma wp_exec_calldatacopy:
  assumes "machine_ok it" "inv k x" "3 \<le> stack_size (it_stack it)"
    and "fits (length (it_mem it)) (operand (it_stack it) 0, operand (it_stack it) 2)"
  shows "wp exec_calldatacopy (plain_post k it 3 0) (\<lambda>_ st. inv k (snd st)) (it, x)"
  using assms
  by (auto simp: exec_calldatacopy_def vm_wp machine_ok_def split: option.splits intro!: wp_copy_data_to_memory)

lemma wp_exec_codecopy:
  assumes "machine_ok it" "inv k x" "3 \<le> stack_size (it_stack it)"
    and "fits (length (it_mem it)) (operand (it_stack it) 0, operand (it_stack it) 2)"
  shows "wp exec_codecopy (plain_post k it 3 0) (\<lambda>_ st. inv k (snd st)) (it, x)"
  using assms by (auto simp: exec_codecopy_def vm_wp machine_ok_def intro!: wp_copy_data_to_memory)

lemma wp_exec_returndatacopy:
  assumes "machine_ok it" "inv k x" "3 \<le> stack_size (it_stack it)"
    and "fits (length (it_mem it)) (operand (it_stack it) 0, operand (it_stack it) 2)"
  shows "wp exec_returndatacopy (plain_post k it 3 0) (\<lambda>_ st. inv k (snd st)) (it, x)"
proof -
  have ok: "return_data_ok (it_return_data it)" "length (return_data_bytes (it_return_data it)) < 2 ^ 64"
    using assms(1) by (auto simp: machine_ok_def data_ok_def return_data_bytes_def sub_range_def)
  then show ?thesis
    using assms wp_copy_data_to_memory [OF assms(1-3) ok(2) assms(4)]
    by (simp add: exec_returndatacopy_def vm_wp peek_operand stack_size_def)
qed

lemma wp_exec_extcodecopy:
  assumes "machine_ok it" "inv k x" "4 \<le> stack_size (it_stack it)"
    and "fits (length (it_mem it)) (operand (it_stack it) 1, operand (it_stack it) 3)"
  shows "wp (exec_extcodecopy E) (plain_post k it 4 0) (\<lambda>_ st. inv k (snd st)) (it, x)"
proof -
  let ?it = "it\<lparr>it_stack := drop_top 1 (it_stack it)\<rparr>"
  have ops: "operand (drop_top 1 (it_stack it)) n = operand (it_stack it) (Suc n)"
    if "n < 3" for n using that assms(3) by (simp add: operand_def drop_top_def stack_size_def)
  have copy: "wp (copy_data_to_memory source) (plain_post k it 4 0) (\<lambda>_ st. inv k (snd st)) (?it, x')"
    if "inv k x'" "length source < 2 ^ 64" for source x'
  proof (rule wp_mono [OF wp_copy_data_to_memory [of ?it k x' source]])
    show "machine_ok ?it" "3 \<le> stack_size (it_stack ?it)"
      using assms(1,3) by (simp_all add: machine_ok_def vec_stack_ok_def stack_size_def)
    show "fits (length (it_mem ?it)) (operand (it_stack ?it) 0, operand (it_stack ?it) 2)"
      using assms(4) ops [of 0] ops [of 2] by (simp add: numeral_3_eq_3 numeral_2_eq_2)
    show "plain_post k it 4 0 r st" if "plain_post k ?it 3 0 r st" for r st
      using that assms(3) by (auto simp: plain_post_def arm_simps)
  qed (use that in simp_all)
  show ?thesis
    by (rule wp_start)
      (use assms copy in \<open>auto simp: exec_extcodecopy_def vm_wp stack_size_def split: option.splits
        intro!: wp_mono [OF extcode]\<close>)
qed

section \<open>Arms that query or change the externalities\<close>

lemma wp_exec_sload:
  assumes "machine_ok it" "inv k x" "1 \<le> stack_size (it_stack it)"
  shows "wp (exec_sload E) (plain_post k it 1 1) (\<lambda>_ st. inv k (snd st)) (it, x)"
  by (rule wp_start) (use assms in \<open>auto simp: exec_sload_def plain intro!: keeps_ext_rules\<close>)

lemma wp_exec_balance:
  assumes "machine_ok it" "inv k x" "1 \<le> stack_size (it_stack it)"
  shows "wp (exec_balance E) (plain_post k it 1 1) (\<lambda>_ st. inv k (snd st)) (it, x)"
  by (rule wp_start) (use assms in \<open>auto simp: exec_balance_def plain intro!: keeps_ext_rules\<close>)

lemma wp_exec_extcodesize:
  assumes "machine_ok it" "inv k x" "1 \<le> stack_size (it_stack it)"
  shows "wp (exec_extcodesize E) (plain_post k it 1 1) (\<lambda>_ st. inv k (snd st)) (it, x)"
  by (rule wp_start) (use assms in \<open>auto simp: exec_extcodesize_def plain intro!: keeps_ext_rules\<close>)

lemma wp_exec_extcodehash:
  assumes "machine_ok it" "inv k x" "1 \<le> stack_size (it_stack it)"
  shows "wp (exec_extcodehash E) (plain_post k it 1 1) (\<lambda>_ st. inv k (snd st)) (it, x)"
  by (rule wp_start) (use assms in \<open>auto simp: exec_extcodehash_def plain intro!: keeps_ext_rules\<close>)

lemma wp_exec_blockhash:
  assumes "machine_ok it" "inv k x" "1 \<le> stack_size (it_stack it)"
  shows "wp (exec_blockhash E) (plain_post k it 1 1) (\<lambda>_ st. inv k (snd st)) (it, x)"
  by (rule wp_start) (use assms in \<open>auto simp: exec_blockhash_def plain intro!: keeps_ext_rules\<close>)

lemma wp_refund:
  assumes "inv (k + 2) x"
  shows "wp (handle_eip1283_sstore_clears_refund E original current new) (\<lambda>_. inv k) (\<lambda>_. inv k) x"
proof -
  have small: "sch_sstore_refund_gas s < 2 ^ 32"
    "sch_sstore_set_gas s - sch_sload_gas s < 2 ^ 32" "sch_sstore_reset_gas s - sch_sload_gas s < 2 ^ 32"
    "sch_sload_gas s \<le> sch_sstore_set_gas s" "sch_sload_gas s \<le> sch_sstore_reset_gas s"
    using schedule_ok by (auto simp: schedule_ok_def small_price_def word_less_nat_alt word_le_nat_alt unat_sub)
  have one: "inv (Suc k) x" and zero: "inv k x" using assms by (auto intro: inv_mono)
  have sched: "ext_schedule E x = s" using assms by (rule schedule)
  have add: "wp (ext_add_sstore_refund E r) (\<lambda>_. inv j) (\<lambda>_. inv j) y"
    if "inv (Suc j) y" "r < 2 ^ 32" for r j y using that by (rule add_sstore_refund)
  have sub: "wp (ext_sub_sstore_refund E r) (\<lambda>_. inv j) (\<lambda>_. inv j) y"
    if "inv (Suc j) y" "r < 2 ^ 32" for r j y using that by (rule sub_sstore_refund)
  let ?first = "if original \<noteq> 0 then
      (if current = 0 then ext_sub_sstore_refund E (sch_sstore_refund_gas s)
       else if new = 0 then ext_add_sstore_refund E (sch_sstore_refund_gas s) else ret ()) else ret ()"
  have first: "wp ?first (\<lambda>_. inv (Suc k)) (\<lambda>_. inv k) x"
    using assms one small
    by (auto simp: wp_basic intro!: wp_mono [OF add] wp_mono [OF sub] intro: inv_Suc)
  have second: "wp (if original = new then
        (if original = 0 then
           bind (lift (checked_minus (sch_sstore_set_gas s) (sch_sload_gas s))) (ext_add_sstore_refund E)
         else bind (lift (checked_minus (sch_sstore_reset_gas s) (sch_sload_gas s))) (ext_add_sstore_refund E))
      else ret ()) (\<lambda>_. inv k) (\<lambda>_. inv k) y" if "inv (Suc k) y" for y
    using that small by (auto simp: wp_bind wp_basic checked_minus_def wp_lift_Ok intro: add inv_Suc)
  have "wp (bind ?first (\<lambda>_. if original = new then
        (if original = 0 then
           bind (lift (checked_minus (sch_sstore_set_gas s) (sch_sload_gas s))) (ext_add_sstore_refund E)
         else bind (lift (checked_minus (sch_sstore_reset_gas s) (sch_sload_gas s))) (ext_add_sstore_refund E))
      else ret ())) (\<lambda>_. inv k) (\<lambda>_. inv k) x"
    unfolding wp_bind using first by (rule wp_mono) (erule second, assumption)
  note dirty = this
  show ?thesis
  proof (cases "current = new \<or> original = current")
    case True
    then show ?thesis
      using one zero small(1)
      by (auto simp: handle_eip1283_sstore_clears_refund_def wp_bind wp_basic sched Let_def intro: add)
  next
    case False
    then have "current \<noteq> new" "original \<noteq> current" by auto
    then show ?thesis
      using dirty
      by (simp only: handle_eip1283_sstore_clears_refund_def wp_bind [of "gets _"] wp_basic sched Let_def if_False)
  qed
qed

lemma wp_exec_sstore:
  assumes "machine_ok it" "inv (k + 2) x" "2 \<le> stack_size (it_stack it)"
  shows "wp (exec_sstore E) (plain_post k it 2 0) (\<lambda>_ st. inv k (snd st)) (it, x)"
proof -
  have small: "sch_sstore_refund_gas s < 2 ^ 32"
    using schedule_ok by (simp add: schedule_ok_def small_price_def)
  have down: "inv k y" "inv (Suc k) y" if "inv (k + 2) y" for y
    using that by (auto intro: inv_mono)
  show ?thesis
    by (rule wp_start)
      (use assms small in \<open>auto simp: exec_sstore_def plain schedule
        intro!: keeps_wp [OF storage_at] keeps_wp [OF initial_storage_at] wp_mono [OF wp_refund]
          keeps_wp [OF set_storage [of _ _ k]] wp_mono [OF add_sstore_refund] intro: down inv_Suc\<close>)
qed

lemma wp_exec_suicide:
  assumes "machine_ok it" "inv k x" "1 \<le> stack_size (it_stack it)"
  shows "wp (exec_suicide E)
    (\<lambda>r st. r = IR_StopExecution \<and> arm_post it 1 0 (fst st) \<and> inv k (snd st)) (\<lambda>_ st. inv k (snd st)) (it, x)"
  by (rule wp_start) (use assms in \<open>auto simp: exec_suicide_def plain intro!: keeps_ext_rules\<close>)

lemma pop_n_drop_top:
  assumes "vec_stack_ok stk" "n \<le> MAX_NO_OF_TOPICS" "n \<le> length (vs_stack stk)"
  shows "\<exists>p. pop_n stk n = (Ok p :: ('e, _) outcome) \<and> vec_stack_ok (snd p) \<and>
    length (vs_stack (snd p)) = length (vs_stack stk) - n"
proof -
  have "n \<le> length (top_first stk)" using assms(3) by (simp add: top_first_def)
  from vs.popn_ok [OF assms(1,2) this] obtain stk' where
    "pop_n stk n = (Ok (take n (top_first stk), stk') :: ('e, _) outcome)"
    "top_first stk' = drop n (top_first stk)" "vec_stack_ok stk'" by blast
  moreover from this(2) have "length (vs_stack stk') = length (vs_stack stk) - n"
    by (metis length_drop length_rev top_first_def)
  ultimately show ?thesis by simp
qed

lemma wp_exec_log:
  assumes "machine_ok it" "inv k x" "log_topics i = Some n" "n \<le> MAX_NO_OF_TOPICS"
    and "pops = n + 2" "pops \<le> stack_size (it_stack it)"
    and "fits (length (it_mem it)) (operand (it_stack it) 0, operand (it_stack it) 1)"
  shows "wp (exec_log E i) (plain_post k it pops 0) (\<lambda>_ st. inv k (snd st)) (it, x)"
proof -
  let ?stk = "drop_top 2 (it_stack it)"
  have "vec_stack_ok ?stk" "n \<le> length (vs_stack ?stk)"
    using assms by (simp_all add: machine_ok_def vec_stack_ok_def stack_size_def)
  note popped = pop_n_drop_top [OF this(1) assms(4) this(2)]
  show ?thesis
    by (rule wp_start)
      (use assms in \<open>auto simp: exec_log_def plain regain_2 intro!: wp_lift_ex [OF popped] wp_lift_ex' read_slice_fits
        keeps_ext_rules\<close>)
qed

lemma wp_exec_jump:
  assumes "machine_ok it" "inv k x" "1 \<le> stack_size (it_stack it)"
  shows "wp exec_jump (\<lambda>r st. (\<exists>p. r = IR_JumpToPosition p) \<and> arm_post it 1 0 (fst st) \<and> inv k (snd st))
    (\<lambda>_ st. inv k (snd st)) (it, x)"
  by (rule wp_start) (use assms in \<open>simp add: exec_jump_def plain\<close>)

lemma wp_exec_jumpi:
  assumes "machine_ok it" "inv k x" "2 \<le> stack_size (it_stack it)"
  shows "wp exec_jumpi (\<lambda>r st. (r = IR_Ok \<or> (\<exists>p. r = IR_JumpToPosition p)) \<and> arm_post it 2 0 (fst st) \<and> inv k (snd st))
    (\<lambda>_ st. inv k (snd st)) (it, x)"
  by (rule wp_start) (use assms in \<open>simp add: exec_jumpi_def plain regain_2\<close>)

lemma wp_exec_return:
  assumes "machine_ok it" "inv k x" "2 \<le> stack_size (it_stack it)"
  shows "wp (exec_return gas apply_state)
    (\<lambda>r st. r = IR_StopExecutionNeedsReturn gas (operand (it_stack it) 0) (operand (it_stack it) 1) apply_state \<and>
       arm_post it 2 0 (fst st) \<and> inv k (snd st)) (\<lambda>_ st. inv k (snd st)) (it, x)"
  by (rule wp_start) (use assms in \<open>simp add: exec_return_def plain\<close>)

section \<open>Arms that start a nested execution\<close>

text \<open>
  The result of such an arm: at most \<open>cap\<close> gas comes back, at once or through the trap, and after
  a trapped call the range for its output lies inside the memory.
\<close>

definition nested_post ::
  "bool \<Rightarrow> nat \<Rightarrow> nat \<Rightarrow> usize interpreter \<Rightarrow> nat \<Rightarrow> usize instruction_result \<Rightarrow> usize interpreter \<times> 'x \<Rightarrow> bool" where
  "nested_post is_call k cap it pops r st \<longleftrightarrow> inv k (snd st) \<and> (case r of
      IR_Ok \<Rightarrow> arm_post it pops 1 (fst st)
    | IR_UnusedGas g \<Rightarrow> unat g \<le> cap \<and> arm_post it pops 1 (fst st)
    | IR_Trap (Trap_Call p) \<Rightarrow> is_call \<and> unat (ap_gas p) \<le> cap \<and> arm_post it pops 0 (fst st) \<and>
        trap_ok (bal (snd st)) (Trap_Call p) \<and>
        (\<exists>range. it_resume_output_range (fst st) = Some range \<and> fits (length (it_mem it)) range)
    | IR_Trap (Trap_Create p a) \<Rightarrow> \<not> is_call \<and> unat (ap_gas p) \<le> cap \<and> arm_post it pops 0 (fst st) \<and>
        trap_ok (bal (snd st)) (Trap_Create p a)
    | _ \<Rightarrow> False)"

lemma from_u256_bounded:
  assumes "g \<le> as_u256 (c :: usize)"
  shows "from_u256 g = Ok (ucast g :: usize)" "unat (ucast g :: usize) \<le> unat c" "unat g \<le> unat c"
proof -
  have le: "unat g \<le> unat c" using assms by (simp add: word_le_nat_alt unat_as_u256)
  then have lt: "unat g < 2 ^ 64" using unat_below [of c] by simp
  then show "from_u256 g = Ok (ucast g :: usize)" by (rule from_u256_small)
  show "unat (ucast g :: usize) \<le> unat c" "unat g \<le> unat c" using le lt by (simp_all add: unat_ucast_exact)
qed

lemma data_ok_empty [simp]: "data_ok empty_return_data"
  by (simp add: data_ok_def) (simp add: empty_return_data_def)

lemma wp_gas_back:
  assumes "g \<le> as_u256 (c :: usize)" "\<And>v :: usize. unat v \<le> unat c \<Longrightarrow> Q v st"
  shows "wp (lift (expect_ok (from_u256 g))) Q R (st :: usize interpreter \<times> 'x)"
  using assms(2) by (simp add: from_u256_bounded [OF assms(1)] wp_lift_Ok)

lemma wp_read_slice:
  assumes "fits (length m) (off, n)" "length m < 2 ^ 64" "\<And>bs. length bs < 2 ^ 64 \<Longrightarrow> Q bs st"
  shows "wp (lift (read_slice m off n :: ('e, bytes) outcome)) Q R st"
proof -
  obtain bs where bs: "read_slice m off n = (Ok bs :: ('e, bytes) outcome)" using read_slice_fits [OF assms(1,2)] by blast
  then have "length bs \<le> length m" by (auto simp: read_slice_def Let_def sub_range_def split: if_splits)
  with bs assms(2,3) show ?thesis by (simp add: wp_lift_Ok)
qed

lemma wp_exec_create:
  assumes "machine_ok it" "inv (Suc k) x" "creates i" "(if i = CREATE then 3 else 4) \<le> stack_size (it_stack it)"
    and "fits (length (it_mem it)) (operand (it_stack it) 1, operand (it_stack it) 2)" "ip_address (it_params it) = own"
  shows "wp (exec_create E i (Some p)) (nested_post False k (unat p) it (if i = CREATE then 3 else 4))
    (\<lambda>_ st. inv k (snd st)) (it, x)"
proof -
  have bal: "wp (ext_balance E a) Q R y"
    if "inv (Suc k) y" "\<And>y'. inv (Suc k) y' \<Longrightarrow> inv k y' \<Longrightarrow> Q (bal y' a) y'" "\<And>e y'. inv k y' \<Longrightarrow> R e y'" for a Q R y
    by (rule wp_mono [OF balance [OF that(1)]]) (use that(2,3) inv_Suc in blast)+
  have "inv k x" using assms(2) by (rule inv_Suc)
  then show ?thesis
    by - (rule wp_start,
      use assms in \<open>auto simp: exec_create_def vm_wp Let_def creates_def nested_post_def arm_simps
          create_result_ok_def from_u256_bounded(3)
        split: sum.splits contract_create_result.splits trap_kind.splits
        intro!: bal wp_read_slice wp_mono [OF create] wp_gas_back\<close>)
qed

text \<open>The value a call instruction transfers, and the gas that its nested execution may return.\<close>

lemma wp_call_output:
  assumes "gas_left \<le> as_u256 (c :: usize)" "data_ok data" "fits (length (it_mem it)) (off, n)"
    and "length (it_mem it) < 2 ^ 64"
    and "\<And>(v :: usize) m. unat v \<le> unat c \<Longrightarrow> length m = length (it_mem it) \<Longrightarrow>
      Q (IR_UnusedGas v) (it\<lparr>it_mem := m, it_stack := push (it_stack it) flag, it_return_data := data\<rparr>, x)"
  shows "wp (call_output flag off n gas_left data) Q R (it, x :: 'x)"
proof -
  obtain m' where m': "write_output (it_mem it) off n data = (Ok m' :: bytes vm_result)" "length m' = length (it_mem it)"
  proof -
    have "\<exists>m'. write_output (it_mem it) off n data = (Ok m' :: bytes vm_result) \<and> length m' = length (it_mem it)"
      using assms(2-4) by (intro write_output_Ok) (auto simp: fits_def data_ok_def)
    then show thesis using that by blast
  qed
  then show ?thesis
    using assms(1,5) by (auto simp: call_output_def vm_wp intro!: wp_gas_back)
qed

lemma wp_call_parties:
  assumes "inv k x" "calls i" "i = CALL \<or> i = CALLCODE \<Longrightarrow> val \<noteq> None" "i = DELEGATECALL \<Longrightarrow> val = None"
    "i = STATICCALL \<Longrightarrow> val = Some 0"
    and "\<And>sender receiver has_balance ct x'. inv k x' \<Longrightarrow>
      (\<And>v. has_balance \<Longrightarrow> val = Some v \<Longrightarrow> v \<le> bal x' sender) \<Longrightarrow> Q (sender, receiver, has_balance, ct) (it, x')"
    and "\<And>e x'. inv k x' \<Longrightarrow> R e (it, x')"
  shows "wp (call_parties E i val adr) Q R (it, x)"
  using assms
  by (auto simp: call_parties_def vm_wp calls_def expect_def wp_lift split: option.splits
    intro!: wp_mono [OF balance])

lemmas unfold_call = exec_call_def vm_wp Let_def call_value_def nested_post_def arm_simps
  call_result_ok_def from_u256_bounded(3)
lemmas call_splits = sum.splits message_call_result.splits trap_kind.splits
lemmas call_rules = wp_call_parties wp_read_slice wp_mono [OF call] wp_call_output

lemma wp_exec_call:
  assumes "machine_ok it" "inv k x" "calls i"
    and "(if i = CALL \<or> i = CALLCODE then 7 else 6) \<le> stack_size (it_stack it)"
    and "\<forall>r \<in> set (mem_ranges i (it_stack it)). fits (length (it_mem it)) r"
  shows "wp (exec_call E i (Some p))
    (nested_post True k (unat (with_stipend s (call_value i (it_stack it)) p)) it
      (if i = CALL \<or> i = CALLCODE then 7 else 6))
    (\<lambda>_ st. inv k (snd st)) (it, x)"
proof -
  have sched: "ext_schedule E y = s" "sch_call_stipend s < sch_call_value_transfer_gas s" if "inv k y" for y
    using that schedule schedule_ok by (simp_all add: schedule_ok_def)
  consider "i = CALL \<or> i = CALLCODE" | "i = DELEGATECALL" | "i = STATICCALL"
    using assms(3) by (auto simp: calls_def)
  then show ?thesis
  proof cases
    case 1
    then have i: "i \<noteq> DELEGATECALL" "i \<noteq> STATICCALL" by auto
    have ranges: "fits (length (it_mem it)) (operand (it_stack it) 5, operand (it_stack it) 6)"
      "fits (length (it_mem it)) (operand (it_stack it) 3, operand (it_stack it) 4)"
      using 1 assms(5) by (auto simp: mem_ranges_def is_log_def)
    show ?thesis
      by (rule wp_start)
        (use assms(1-4) 1 i ranges sched in \<open>auto simp: unfold_call split: call_splits intro!: call_rules\<close>)
  next
    case 2
    then have ranges: "fits (length (it_mem it)) (operand (it_stack it) 4, operand (it_stack it) 5)"
      "fits (length (it_mem it)) (operand (it_stack it) 2, operand (it_stack it) 3)"
      using assms(5) by (auto simp: mem_ranges_def is_log_def)
    show ?thesis
      by (rule wp_start) (use assms(1-4) 2 ranges sched in \<open>auto simp: unfold_call
        split: call_splits intro!: call_rules\<close>)
  next
    case 3
    then have ranges: "fits (length (it_mem it)) (operand (it_stack it) 4, operand (it_stack it) 5)"
      "fits (length (it_mem it)) (operand (it_stack it) 2, operand (it_stack it) 3)"
      using assms(5) by (auto simp: mem_ranges_def is_log_def)
    show ?thesis
      by (rule wp_start) (use assms(1-4) 3 ranges sched in \<open>auto simp: unfold_call
        split: call_splits intro!: call_rules\<close>)
  qed
qed

end

end
