(* ===== verification/Interpreter_Safety.thy ===== *)
theory Interpreter_Safety
  imports Interpreter_Arms
begin

text \<open>
  Every instruction: the arms put together by the dispatch of \<open>exec_instruction\<close>, with the operands,
  the results and the memory ranges that the instruction table and the gas metering announce.
\<close>

context ext_trait
begin

text \<open>Arms that need nothing but operands on the stack.\<close>

definition safe_arm :: "(usize, 'x, usize instruction_result) vm_action \<Rightarrow> nat \<Rightarrow> nat \<Rightarrow> bool" where
  "safe_arm m pops pushes \<longleftrightarrow> (\<forall>it k x. machine_ok it \<longrightarrow> inv k x \<longrightarrow> pops \<le> stack_size (it_stack it) \<longrightarrow>
     wp m (plain_post k it pops pushes) (\<lambda>_ st. inv k (snd st)) (it, x))"

lemma safe_armD:
  "safe_arm m pops pushes \<Longrightarrow> machine_ok it \<Longrightarrow> inv k x \<Longrightarrow> pops \<le> stack_size (it_stack it) \<Longrightarrow>
   wp m (plain_post k it pops pushes) (\<lambda>_ st. inv k (snd st)) (it, x)"
  by (simp add: safe_arm_def)

lemmas arm_rules = wp_unary [unfolded One_nat_def] wp_binary [unfolded One_nat_def] wp_ternary [unfolded One_nat_def] wp_push_value [unfolded One_nat_def] wp_push_env [unfolded One_nat_def] wp_exec_pop [unfolded One_nat_def] wp_exec_signextend [unfolded One_nat_def] wp_exec_push [unfolded One_nat_def] wp_exec_calldataload [unfolded One_nat_def] wp_exec_returndatasize [unfolded One_nat_def] wp_exec_sload [unfolded One_nat_def] wp_exec_balance [unfolded One_nat_def] wp_exec_extcodesize [unfolded One_nat_def] wp_exec_extcodehash [unfolded One_nat_def] wp_exec_blockhash [unfolded One_nat_def]

lemma safe_arms:
  "safe_arm (unary f) (Suc 0) (Suc 0)"
  "safe_arm (binary g) 2 (Suc 0)"
  "safe_arm (ternary h) 3 (Suc 0)"
  "safe_arm (push_value u) 0 (Suc 0)"
  "safe_arm (push_env v) 0 (Suc 0)"
  "safe_arm exec_pop (Suc 0) 0"
  "safe_arm exec_signextend 2 (Suc 0)"
  "safe_arm (exec_push (PUSH j)) 0 (Suc 0)"
  "safe_arm exec_calldataload (Suc 0) (Suc 0)"
  "safe_arm exec_returndatasize 0 (Suc 0)"
  "safe_arm (exec_sload E) (Suc 0) (Suc 0)"
  "safe_arm (exec_balance E) (Suc 0) (Suc 0)"
  "safe_arm (exec_extcodesize E) (Suc 0) (Suc 0)"
  "safe_arm (exec_extcodehash E) (Suc 0) (Suc 0)"
  "safe_arm (exec_blockhash E) (Suc 0) (Suc 0)"
  unfolding safe_arm_def
  by (intro allI impI, rule arm_rules, assumption+)+

lemma safe_arm_dup_swap_dest:
  "safe_arm (exec_dup (DUP j)) (unat j + 1) (unat j + 2)"
  "safe_arm (exec_swap (SWAP j)) (unat j + 2) (unat j + 2)" "safe_arm (ret IR_Ok) 0 0"
  unfolding safe_arm_def using wp_exec_dup wp_exec_swap by (simp_all add: plain)

text \<open>The units of the budget of \<open>Ext\<close> that an instruction uses.\<close>

definition units :: "instruction \<Rightarrow> nat" where
  "units i = (if i = SSTORE then 2 else if creates i then 1 else 0)"

definition transfers_control :: "instruction \<Rightarrow> bool" where
  "transfers_control i \<longleftrightarrow> halts i \<or> calls i \<or> creates i \<or> i = JUMP \<or> i = JUMPI"

text \<open>The instructions that use the memory.\<close>

definition uses_memory :: "instruction \<Rightarrow> bool" where
  "uses_memory i \<longleftrightarrow> i = MLOAD \<or> i = MSTORE \<or> i = MSTORE8 \<or> i = SHA3 \<or> i = CALLDATACOPY \<or> i = CODECOPY \<or>
     i = RETURNDATACOPY \<or> i = EXTCODECOPY \<or> is_log i"

lemma safe_instruction:
  assumes "\<not> transfers_control i" "\<not> uses_memory i" "i \<noteq> SSTORE"
  shows "safe_arm (exec_instruction i keccak E gas provided)
    (info_args (the (INSTRUCTIONS i))) (info_ret (the (INSTRUCTIONS i)))"
proof -
  have "safe_arm (exec_instruction i keccak E gas provided)
      (info_args (the (INSTRUCTIONS i))) (info_ret (the (INSTRUCTIONS i))) \<or>
    transfers_control i \<or> uses_memory i \<or> i = SSTORE"
    by (cases i) (simp_all add: safe_arms safe_arm_dup_swap_dest [simplified] transfers_control_def
      halts_def calls_def creates_def uses_memory_def is_log_def)
  with assms show ?thesis by (simp only: simp_thms)
qed

lemma wp_memory_instruction:
  assumes "machine_ok it" "inv k x" "INSTRUCTIONS i = Some ii"
    and "info_args ii \<le> stack_size (it_stack it)"
    and "\<forall>r \<in> set (mem_ranges i (it_stack it)). fits (length (it_mem it)) r" "uses_memory i"
  shows "wp (exec_instruction i keccak E gas provided) (plain_post k it (info_args ii) (info_ret ii))
    (\<lambda>_ st. inv k (snd st)) (it, x)"
proof (cases "is_log i")
  case True
  have log: ?thesis if "i = l" "log_topics l = Some n" "n \<le> MAX_NO_OF_TOPICS" "info_args ii = n + 2"
      "info_ret ii = 0" "exec_instruction l keccak E gas provided = exec_log E l" for l n
  proof -
    have "mem_ranges i (it_stack it) = [(operand (it_stack it) 0, operand (it_stack it) 1)]"
      using True by (auto simp: mem_ranges_def is_log_def)
    with assms(5) have "fits (length (it_mem it)) (operand (it_stack it) 0, operand (it_stack it) 1)" by simp
    from wp_exec_log [OF assms(1,2) that(2,3,4) assms(4) this] that(1,5,6) show ?thesis by simp
  qed
  from True have "i = LOG0 \<or> i = LOG1 \<or> i = LOG2 \<or> i = LOG3 \<or> i = LOG4" by (simp only: is_log_def)
  moreover have "ii = the (INSTRUCTIONS i)" using assms(3) by simp
  ultimately show ?thesis
    using log [of LOG0 0] log [of LOG1 1] log [of LOG2 2] log [of LOG3 3] log [of LOG4 4]
    by (elim disjE) (simp_all add: MAX_NO_OF_TOPICS_def)
next
  case False
  with assms(6) have "i = MLOAD \<or> i = MSTORE \<or> i = MSTORE8 \<or> i = SHA3 \<or> i = CALLDATACOPY \<or> i = CODECOPY \<or>
     i = RETURNDATACOPY \<or> i = EXTCODECOPY" by (simp add: uses_memory_def)
  then show ?thesis
  proof (elim disjE)
    assume "i = MLOAD"
    with assms(1-5) show ?thesis by (auto simp: mem_ranges_def intro!: wp_exec_mload [unfolded One_nat_def])
  next
    assume "i = MSTORE"
    with assms(1-5) show ?thesis by (auto simp: mem_ranges_def intro!: wp_exec_mstore)
  next
    assume "i = MSTORE8"
    with assms(1-5) show ?thesis by (auto simp: mem_ranges_def intro!: wp_exec_mstore8)
  next
    assume "i = SHA3"
    with assms(1-5) show ?thesis by (auto simp: mem_ranges_def intro!: wp_exec_sha3 [unfolded One_nat_def])
  next
    assume "i = CALLDATACOPY"
    with assms(1-5) show ?thesis by (auto simp: mem_ranges_def is_log_def intro!: wp_exec_calldatacopy)
  next
    assume "i = CODECOPY"
    with assms(1-5) show ?thesis by (auto simp: mem_ranges_def is_log_def intro!: wp_exec_codecopy)
  next
    assume "i = RETURNDATACOPY"
    with assms(1-5) show ?thesis by (auto simp: mem_ranges_def is_log_def intro!: wp_exec_returndatacopy)
  next
    assume "i = EXTCODECOPY"
    with assms(1-5) show ?thesis by (auto simp: mem_ranges_def is_log_def intro!: wp_exec_extcodecopy)
  qed
qed

lemma wp_plain_instruction:
  assumes "machine_ok it" "inv (k + units i) x" "INSTRUCTIONS i = Some ii"
    and "info_args ii \<le> stack_size (it_stack it)"
    and "\<forall>r \<in> set (mem_ranges i (it_stack it)). fits (length (it_mem it)) r"
    and "\<not> transfers_control i"
  shows "wp (exec_instruction i keccak E gas provided) (plain_post k it (info_args ii) (info_ret ii))
    (\<lambda>_ st. inv k (snd st)) (it, x)"
proof (cases "i = SSTORE")
  case True
  then show ?thesis
    using assms(1-4) wp_exec_sstore [of it k x] by (auto simp: units_def)
next
  case False
  with assms(2,6) have k: "inv k x" by (simp add: units_def transfers_control_def)
  show ?thesis
  proof (cases "uses_memory i")
    case True
    with assms(1,3-5) k show ?thesis by (intro wp_memory_instruction)
  next
    case no_memory: False
    from safe_armD [OF safe_instruction [OF assms(6) no_memory False] assms(1) k] assms(3,4)
    show ?thesis by simp
  qed
qed

end

end
