(* ===== verification/Interpreter_Step.thy ===== *)
theory Interpreter_Step
  imports Interpreter_Safety
begin

text \<open>
  The invariant of the interpreter state, ready for a step or suspended by a trap, and the execution
  of one instruction: from a charged state every instruction runs without a panic, changes the stack as
  the instruction table announces and returns at most the gas that was put aside for it.
\<close>

section \<open>The invariant of the interpreter\<close>

definition gas_of :: "usize interpreter \<Rightarrow> nat" where
  "gas_of it = (case it_gasometer it of Some gm \<Rightarrow> unat (current_gas gm) | None \<Rightarrow> 0)"

text \<open>Gas that a finished nested execution returned and the next step will add.\<close>

definition pending_gas :: "usize interpreter \<Rightarrow> nat" where
  "pending_gas it = (case it_resume_result it of Some (IR_UnusedGas g) \<Rightarrow> unat g | _ \<Rightarrow> 0)"

definition vm_ok :: "address \<Rightarrow> schedule \<Rightarrow> usize interpreter \<Rightarrow> bool" where
  "vm_ok own s it \<longleftrightarrow> ip_address (it_params it) = own \<and>
     vec_stack_ok (it_stack it) \<and> stack_size (it_stack it) \<le> unat (sch_stack_limit s) \<and>
     data_ok (it_return_data it) \<and> length (rdr_code (it_reader it)) < 2 ^ 64 \<and>
     (\<forall>d. ip_data (it_params it) = Some d \<longrightarrow> length d < 2 ^ 64) \<and> \<not> it_done it \<and>
     (\<exists>gm. it_gasometer it = Some gm \<and> memory_paid s (length (it_mem it)) gm)"

text \<open>Ready for a step: at an instruction, or with the result of a nested execution to take in.\<close>

definition vm_ready :: "address \<Rightarrow> schedule \<Rightarrow> usize interpreter \<Rightarrow> bool" where
  "vm_ready own s it \<longleftrightarrow> vm_ok own s it \<and> gas_of it + pending_gas it < 2 ^ 64 \<and>
     (case it_resume_result it of
        None \<Rightarrow> reader_len (it_reader it) = 0 \<or> rdr_position (it_reader it) < reader_len (it_reader it)
      | Some r \<Rightarrow> it_last_stack_ret_len it \<le> stack_size (it_stack it) \<and>
          (r = IR_Ok \<or> (\<exists>g. r = IR_UnusedGas g)))"

primrec trap_gas :: "trap_kind \<Rightarrow> nat" where
  "trap_gas (Trap_Call p) = unat (ap_gas p)"
| "trap_gas (Trap_Create p a) = unat (ap_gas p)"

text \<open>Suspended by a trap: room for the result on the stack and for its output in the memory.\<close>

definition vm_suspended :: "address \<Rightarrow> schedule \<Rightarrow> trap_kind \<Rightarrow> usize interpreter \<Rightarrow> bool" where
  "vm_suspended own s trap it \<longleftrightarrow> vm_ok own s it \<and> it_resume_result it = None \<and> it_last_stack_ret_len it = 1 \<and>
     stack_size (it_stack it) < unat (sch_stack_limit s) \<and> gas_of it + trap_gas trap < 2 ^ 64 \<and>
     (case trap of
        Trap_Call p \<Rightarrow> \<exists>range. it_resume_output_range it = Some range \<and> fits (length (it_mem it)) range
      | Trap_Create p a \<Rightarrow> True)"

section \<open>Tracing\<close>

lemma INSTRUCTIONS_total: "\<exists>ii. INSTRUCTIONS i = Some ii"
  by (cases i) simp_all

lemma if_Ok: "(if b then Ok u else Ok v) = Ok (if b then u else v)"
  by simp

lemma mem_written_Ok:
  assumes "INSTRUCTIONS i = Some ii" "info_args ii \<le> length (vs_stack stk)"
  shows "\<exists>w. mem_written i stk = Ok w"
proof -
  have "ii = the (INSTRUCTIONS i)" using assms(1) by simp
  then show ?thesis
    using assms(2) by (cases i) (simp_all add: mem_written_def Let_def peek_operand if_Ok)
qed

lemma store_written_Ok:
  assumes "INSTRUCTIONS i = Some ii" "info_args ii \<le> length (vs_stack stk)"
  shows "\<exists>w. store_written i stk = Ok w"
  using assms by (cases "i = SSTORE") (auto simp: store_written_def peek_operand)

section \<open>Executing an instruction\<close>

context ext_trait
begin

text \<open>What every instruction leaves, by its result.\<close>

definition exec_post ::
  "nat \<Rightarrow> usize \<Rightarrow> nat \<Rightarrow> instruction \<Rightarrow> instruction_info \<Rightarrow> usize interpreter \<Rightarrow>
   usize instruction_result \<Rightarrow> usize interpreter \<times> 'x \<Rightarrow> bool" where
  "exec_post k gas cap i ii it r st \<longleftrightarrow> inv k (snd st) \<and>
     arm_post it (info_args ii) (case r of IR_Trap _ \<Rightarrow> 0 | _ \<Rightarrow> info_ret ii) (fst st) \<and>
     (case r of
        IR_Ok \<Rightarrow> \<not> halts i
      | IR_JumpToPosition _ \<Rightarrow> \<not> halts i
      | IR_UnusedGas g \<Rightarrow> (calls i \<or> creates i) \<and> unat g \<le> cap
      | IR_StopExecutionNeedsReturn g off n a \<Rightarrow> g = gas \<and> fits (length (it_mem it)) (off, n)
      | IR_StopExecution \<Rightarrow> True
      | IR_Trap (Trap_Call p) \<Rightarrow> calls i \<and> unat (ap_gas p) \<le> cap \<and> trap_ok (bal (snd st)) (Trap_Call p) \<and>
          (\<exists>range. it_resume_output_range (fst st) = Some range \<and> fits (length (it_mem it)) range)
      | IR_Trap (Trap_Create p a) \<Rightarrow> creates i \<and> unat (ap_gas p) \<le> cap \<and> trap_ok (bal (snd st)) (Trap_Create p a))"

lemma calls_creates_continue: "calls i \<or> creates i \<Longrightarrow> \<not> halts i"
  by (auto simp: calls_def creates_def halts_def)

lemma nested_exec_post:
  assumes "nested_post is_call k cap it (info_args ii) r st" "info_ret ii = 1"
    and "if is_call then calls i else creates i"
  shows "exec_post k gas cap i ii it r st"
  using assms calls_creates_continue [of i]
  by (auto simp: nested_post_def exec_post_def split: instruction_result.splits trap_kind.splits if_splits)

lemma wp_exec_instruction:
  assumes "machine_ok it" "inv (k + units i) x" "INSTRUCTIONS i = Some ii"
    and "info_args ii \<le> stack_size (it_stack it)"
    and "\<forall>r \<in> set (mem_ranges i (it_stack it)). fits (length (it_mem it)) r"
    and "calls i \<or> creates i \<Longrightarrow> provided = Some p"
    and "cap = unat (if calls i then with_stipend s (call_value i (it_stack it)) p else p)" "ip_address (it_params it) = own"
  shows "wp (exec_instruction i keccak E gas provided) (exec_post k gas cap i ii it) (\<lambda>_ st. inv k (snd st)) (it, x)"
proof -
  consider (plain) "\<not> transfers_control i" | (call) "calls i" | (create) "creates i"
    | (return) "i = RETURN \<or> i = REVERT" | (stop) "i = STOP" | (suicide) "i = SUICIDE"
    | (jump) "i = JUMP" | (jumpi) "i = JUMPI"
    by (auto simp: transfers_control_def halts_def)
  then show ?thesis
  proof cases
    case plain
    show ?thesis
      by (rule wp_mono [OF wp_plain_instruction [OF assms(1-5) plain]])
        (use plain in \<open>auto simp: plain_post_def exec_post_def transfers_control_def\<close>)
  next
    case call
    then have "(if i = CALL \<or> i = CALLCODE then 7 else 6) = info_args ii" "info_ret ii = 1"
      "exec_instruction i keccak E gas provided = exec_call E i (Some p)" "inv k x"
      using assms(2,3,6) by (auto simp: calls_def creates_def units_def)
    then have "wp (exec_instruction i keccak E gas provided) (nested_post True k cap it (info_args ii))
        (\<lambda>_ st. inv k (snd st)) (it, x)"
      using wp_exec_call [OF assms(1) _ call _ assms(5), of k x p] assms(4,7) call by simp
    then show ?thesis
      by (rule wp_mono) (simp_all add: nested_exec_post [where is_call = True] call \<open>info_ret ii = 1\<close>)
  next
    case create
    then have "(if i = CREATE then 3 else 4) = info_args ii" "info_ret ii = 1"
      "exec_instruction i keccak E gas provided = exec_create E i (Some p)" "inv (Suc k) x" "\<not> calls i"
      "fits (length (it_mem it)) (operand (it_stack it) 1, operand (it_stack it) 2)"
      using assms(2,3,5,6) by (auto simp: calls_def creates_def units_def mem_ranges_def is_log_def)
    then have "wp (exec_instruction i keccak E gas provided) (nested_post False k cap it (info_args ii))
        (\<lambda>_ st. inv k (snd st)) (it, x)"
      using wp_exec_create [OF assms(1) _ create, of k x p] assms(4,7,8) by simp
    then show ?thesis
      by (rule wp_mono) (simp_all add: nested_exec_post [where is_call = False] create \<open>info_ret ii = 1\<close>)
  next
    case return
    then have "fits (length (it_mem it)) (operand (it_stack it) 0, operand (it_stack it) 1)" "inv k x"
      "2 \<le> stack_size (it_stack it)"
      using assms(2-5) by (auto simp: mem_ranges_def units_def creates_def)
    then show ?thesis
      using return assms(1,3) by (auto simp: exec_post_def intro!: wp_mono [OF wp_exec_return])
  next
    case stop
    then show ?thesis
      using assms(1-3) by (auto simp: wp_basic exec_post_def arm_simps units_def creates_def)
  next
    case suicide
    then show ?thesis
      using assms(1-4)
      by (auto simp: exec_post_def units_def creates_def intro!: wp_mono [OF wp_exec_suicide])
  next
    case jump
    then show ?thesis
      using assms(1-4) by (auto simp: exec_post_def units_def creates_def halts_def intro!: wp_mono [OF wp_exec_jump])
  next
    case jumpi
    then show ?thesis
      using assms(1-4) by (auto simp: exec_post_def units_def creates_def halts_def intro!: wp_mono [OF wp_exec_jumpi])
  qed
qed

end

end
