(* ===== verification/Interpreter_Run.thy ===== *)
theory Interpreter_Run
  imports Interpreter_Step
begin

text \<open>
  Running the interpreter: a step from a ready state never panics, every step which continues uses
  up gas and leaves a ready state, a trap leaves a suspended state that the resumption makes ready
  again, and the execution loop ends after at most one step per unit of gas.
\<close>

section \<open>What a step leaves\<close>

fun returned_gas :: "usize instruction_result \<Rightarrow> nat" where
  "returned_gas (IR_UnusedGas g) = unat g"
| "returned_gas (IR_Trap t) = trap_gas t"
| "returned_gas _ = 0"

fun ends :: "usize instruction_result \<Rightarrow> bool" where
  "ends IR_StopExecution = True"
| "ends (IR_StopExecutionNeedsReturn _ _ _ _) = True"
| "ends _ = False"

fun left_ok :: "nat \<Rightarrow> gas_left \<Rightarrow> bool" where
  "left_ok g (Known v) \<longleftrightarrow> unat v = g"
| "left_ok g (NeedsReturn v d a) \<longleftrightarrow> unat v = g \<and> data_ok d"

text \<open>A settled result accounts for all the gas there was, and for as much budget of the externalities.\<close>

fun settled_ok ::
  "address \<Rightarrow> schedule \<Rightarrow> (nat \<Rightarrow> 'x \<Rightarrow> bool) \<Rightarrow> ('x \<Rightarrow> address \<Rightarrow> u256) \<Rightarrow> nat \<Rightarrow> interpreter_result \<Rightarrow>
   usize interpreter \<times> 'x \<Rightarrow> bool" where
  "settled_ok own s I b g Stopped st \<longleftrightarrow> False"
| "settled_ok own s I b g Continue st \<longleftrightarrow>
     vm_ready own s (fst st) \<and> it_resume_result (fst st) = None \<and> gas_of (fst st) = g \<and> I (2 * g) (snd st)"
| "settled_ok own s I b g (Trapped t) st \<longleftrightarrow>
     vm_suspended own s t (fst st) \<and> gas_of (fst st) + trap_gas t = g \<and> I (2 * g) (snd st) \<and>
     trap_ok (b (snd st)) t"
| "settled_ok own s I b g (Done (Inr l)) st \<longleftrightarrow> left_ok g l \<and> I (2 * g) (snd st)"
| "settled_ok own s I b g (Done (Inl e)) st \<longleftrightarrow> I 0 (snd st)"

text \<open>A step uses up gas, unless it ends the execution or only takes in the result of a nested one.\<close>

definition step_ok ::
  "address \<Rightarrow> schedule \<Rightarrow> (nat \<Rightarrow> 'x \<Rightarrow> bool) \<Rightarrow> ('x \<Rightarrow> address \<Rightarrow> u256) \<Rightarrow> nat \<Rightarrow> bool \<Rightarrow> interpreter_result \<Rightarrow>
   usize interpreter \<times> 'x \<Rightarrow> bool" where
  "step_ok own s I b bound resumed res st \<longleftrightarrow>
     (\<exists>g. settled_ok own s I b g res st \<and>
        (if resumed \<and> res = Continue \<or> (\<exists>l. res = Done l) then g \<le> bound else g < bound))"

section \<open>Charging\<close>

definition charged ::
  "schedule \<Rightarrow> instruction \<Rightarrow> instruction_info \<Rightarrow> usize interpreter \<Rightarrow> usize instruction_requirements \<Rightarrow>
   usize interpreter \<Rightarrow> bool" where
  "charged s i ii it req it' \<longleftrightarrow>
     INSTRUCTIONS i = Some ii \<and> info_args ii \<le> stack_size (it_stack it) \<and>
     stack_size (it_stack it) - info_args ii + info_ret ii \<le> unat (sch_stack_limit s) \<and>
     (\<exists>q. request_ok s i (it_stack it) q \<and> requirements_meet s (length (it_mem it)) q req) \<and>
     (\<exists>gm gm'. it_gasometer it = Some gm \<and>
        it' = it\<lparr>it_last_stack_ret_len := info_ret ii,
          it_mem := mem_expand (it_mem it) (unat (req_memory_required_size req)), it_gasometer := Some gm'\<rparr> \<and>
        memory_paid s (length (it_mem it')) gm' \<and>
        unat (current_gas gm') + unat (req_gas_cost req) = unat (current_gas gm))"

text \<open>What a nested execution can give back was charged, and more.\<close>

definition nested_cap :: "schedule \<Rightarrow> instruction \<Rightarrow> u256 vec_stack \<Rightarrow> usize option \<Rightarrow> nat" where
  "nested_cap s i stk provided = (case provided of
      None \<Rightarrow> 0
    | Some p \<Rightarrow> unat (if calls i then with_stipend s (call_value i stk) p else p))"

lemma with_stipend_le:
  "unat (with_stipend s v p :: usize) \<le>
     unat p + (case v of None \<Rightarrow> 0 | Some v \<Rightarrow> if v = 0 then 0 else unat (sch_call_stipend s))"
  by (auto simp: with_stipend_def overflow_add_def overflowing_add_def cost_of_def unat_word_ariths split: option.splits)

lemma charged_cap:
  assumes "charged s i ii it req it'" "schedule_ok s"
  shows "calls i \<or> creates i \<longleftrightarrow> req_provide_gas req \<noteq> None"
    and "\<not> halts i \<Longrightarrow> nested_cap s i (it_stack it) (req_provide_gas req) < unat (req_gas_cost req)"
    and "halts i \<Longrightarrow> req_provide_gas req = None"
proof -
  from assms(1) obtain q where q: "request_ok s i (it_stack it) q" "requirements_meet s (length (it_mem it)) q req"
    by (auto simp: charged_def)
  then show provided: "calls i \<or> creates i \<longleftrightarrow> req_provide_gas req \<noteq> None"
    by (auto simp: request_ok_def requirements_meet_def split: option.splits)
  then show "halts i \<Longrightarrow> req_provide_gas req = None"
    by (auto simp: halts_def calls_def creates_def)
  have stipend: "unat (sch_call_stipend s) < unat (sch_call_value_transfer_gas s)"
    using assms(2) by (simp add: schedule_ok_def word_less_nat_alt)
  show "nested_cap s i (it_stack it) (req_provide_gas req) < unat (req_gas_cost req)" if "\<not> halts i"
  proof (cases "req_provide_gas req")
    case None
    with q that show ?thesis by (auto simp: nested_cap_def request_ok_def requirements_meet_def)
  next
    case (Some p)
    then have paid: "unat (request_gas q) + unat p \<le> unat (req_gas_cost req)" "0 < unat (request_gas q)"
      using q that by (auto simp: request_ok_def requirements_meet_def)
    have "unat (with_stipend s (call_value i (it_stack it)) p) < unat (request_gas q) + unat p" if "calls i"
    proof -
      have "(case call_value i (it_stack it) of None \<Rightarrow> 0 | Some v \<Rightarrow> if v = 0 then 0 else unat (sch_call_stipend s))
          < unat (request_gas q)"
        using q(1) stipend paid(2) that
        by (auto simp: request_ok_def transfers_def call_value_def calls_def)
      then show ?thesis using with_stipend_le [of s "call_value i (it_stack it)" p] by linarith
    qed
    then show ?thesis using paid Some by (auto simp: nested_cap_def)
  qed
qed

lemma charged_fits:
  assumes "charged s i ii it req it'" "r \<in> set (mem_ranges i (it_stack it))"
  shows "fits (length (it_mem it')) r"
  using assms by (fastforce simp: charged_def request_ok_def requirements_meet_def intro: fits_mono)

lemma verify_instruction_Ok:
  assumes "verify_instruction s i ii stk = Ok ()"
  shows "info_args ii \<le> stack_size stk" "stack_size stk - info_args ii + info_ret ii \<le> unat (sch_stack_limit s)"
  using assms by (auto simp: verify_instruction_def has_def stack_size_def split: if_splits)

lemma verify_instruction_no_panic:
  assumes "stack_size stk \<le> unat (sch_stack_limit s)"
  shows "verify_instruction s i ii stk \<noteq> Panic"
  using assms by (auto simp: verify_instruction_def has_def stack_size_def)

lemma unat_minus_plus: "\<not> a < b \<Longrightarrow> unat (a - b) + unat b = unat (a :: 'w::len word)"
  by (simp add: unat_sub word_le_nat_alt word_less_nat_alt)

context ext_trait
begin

lemma wp_the_gasometer: "it_gasometer (fst st) = Some gm \<Longrightarrow> wp the_gasometer Q R st = Q gm st"
  by (simp add: the_gasometer_def vm_wp)

lemma wp_set_gasometer [vm_wp]:
  "wp (set_gasometer gm) Q R st = Q () ((fst st)\<lparr>it_gasometer := Some gm\<rparr>, snd st)"
  by (simp add: set_gasometer_def vm_wp)

lemma wp_observe [vm_wp]: "wp (\<lambda>x. case f x of (b, y) \<Rightarrow> (Ok b, y)) Q R x = Q (fst (f x)) (snd (f x))"
  by (simp add: wp_def split: prod.splits)

lemma wp_case_option [vm_wp]:
  "wp (case v of None \<Rightarrow> m | Some a \<Rightarrow> f a) Q R st = (case v of None \<Rightarrow> wp m Q R st | Some a \<Rightarrow> wp (f a) Q R st)"
  by (cases v) simp_all

lemma wp_fetch:
  assumes "inv k x" "it_gasometer it = Some gm" "rdr_position (it_reader it) < length (rdr_code (it_reader it))"
  shows "wp (fetch E) (\<lambda>_ st. inv k (snd st) \<and> (\<exists>t. fst st = it\<lparr>
      it_reader := (it_reader it)\<lparr>rdr_position := rdr_position (it_reader it) + 1\<rparr>, it_do_trace := t\<rparr>))
    (\<lambda>_ st. inv k (snd st)) (it, x)"
  using assms trace_next_instruction [OF assms(1)]
  by (auto simp: fetch_def vm_wp Let_def wp_the_gasometer split: option.splits)

lemma wp_trace_prepare:
  assumes "inv k x" "INSTRUCTIONS i = Some ii" "info_args ii \<le> length (vs_stack stk)"
    and "\<And>x. inv k x \<Longrightarrow> Q () (it, x)"
  shows "wp (trace_prepare E op i stk c) Q R (it, x)"
  using mem_written_Ok [OF assms(2,3)] store_written_Ok [OF assms(2,3)] assms trace_prepare_execute [OF assms(1)]
  by (auto simp: trace_prepare_def vm_wp)

lemma wp_deduct_gas:
  assumes "\<And>gm'. gm' = \<lparr>current_gas = current_gas gm - req_gas_cost req, current_mem_gas = req_memory_total_gas req\<rparr> \<Longrightarrow>
      unat (current_gas gm') + unat (req_gas_cost req) = unat (current_gas gm) \<Longrightarrow>
      Q () ((fst st)\<lparr>it_mem := mem_expand (it_mem (fst st)) (unat (req_memory_required_size req)),
        it_gasometer := Some gm'\<rparr>, snd st)"
    and "\<And>e. R e st"
  shows "wp (deduct_gas gm req) Q R st"
  using assms by (auto simp: deduct_gas_def verify_gas_def vm_wp wp_lift checked_minus_def unat_minus_plus)

lemma wp_charge:
  assumes "inv k x" "it_gasometer it = Some gm" "memory_paid s (length (it_mem it)) gm"
    and "stack_size (it_stack it) \<le> unat (sch_stack_limit s)"
  shows "wp (charge E op i) (\<lambda>req st. inv k (snd st) \<and> (\<exists>ii. charged s i ii it req (fst st)))
    (\<lambda>_ st. inv k (snd st)) (it, x)"
proof -
  obtain ii where ii: "INSTRUCTIONS i = Some ii" using INSTRUCTIONS_total by blast
  let ?it = "it\<lparr>it_last_stack_ret_len := info_ret ii\<rparr>"
  have paid: "wp (bind (trace_prepare E op i (it_stack it) (req_gas_cost req)) (\<lambda>_. bind (deduct_gas gm req) (\<lambda>_. ret req)))
      (\<lambda>req st. inv k (snd st) \<and> (\<exists>ii. charged s i ii it req (fst st))) (\<lambda>_ st. inv k (snd st)) (?it, x')"
    if "verify_instruction s i ii (it_stack it) = Ok ()" "inv k x'"
      "request_ok s i (it_stack it) q" "requirements_meet s (length (it_mem it)) q req" for req q x'
    unfolding wp_bind
  proof (rule wp_trace_prepare [OF that(2) ii])
    note args = verify_instruction_Ok [OF that(1)]
    then show "info_args ii \<le> length (vs_stack (it_stack it))" by (simp add: stack_size_def)
    show "wp (deduct_gas gm req) (\<lambda>_. wp (ret req) (\<lambda>req st. inv k (snd st) \<and> (\<exists>ii. charged s i ii it req (fst st)))
        (\<lambda>_ st. inv k (snd st))) (\<lambda>_ st. inv k (snd st)) (?it, x'')" if "inv k x''" for x''
      by (rule wp_deduct_gas)
        (use that \<open>requirements_meet _ _ q req\<close> \<open>request_ok s i _ q\<close> ii args assms(2) in
          \<open>auto simp: vm_wp charged_def requirements_meet_def\<close>)
  qed
  have meet: "wp (with_ext (requirements gm E i ii (it_stack it) (length (it_mem it))))
      (\<lambda>req. wp (bind (trace_prepare E op i (it_stack it) (req_gas_cost req)) (\<lambda>_. bind (deduct_gas gm req) (\<lambda>_. ret req)))
        (\<lambda>req st. inv k (snd st) \<and> (\<exists>ii. charged s i ii it req (fst st))) (\<lambda>_ st. inv k (snd st)))
      (\<lambda>_ st. inv k (snd st)) (?it, x)"
    if verified: "verify_instruction s i ii (it_stack it) = Ok ()"
  proof -
    have "info_args ii \<le> length (vs_stack (it_stack it))"
      using verify_instruction_Ok(1) [OF that] by (simp add: stack_size_def)
    from wp_requirements [OF assms(1) ii this assms(3)] show ?thesis
      unfolding wp_with_ext by simp (erule wp_mono, use paid [OF that] in blast, simp)
  qed
  have "wp (lift (verify_instruction s i ii (it_stack it))) (\<lambda>_. wp (bind the_gasometer (\<lambda>gm.
      bind (vm_get (\<lambda>it. mem_size (it_mem it))) (\<lambda>cur.
      bind (with_ext (requirements gm E i ii (it_stack it) cur)) (\<lambda>req.
      bind (trace_prepare E op i (it_stack it) (req_gas_cost req)) (\<lambda>_. bind (deduct_gas gm req) (\<lambda>_. ret req))))))
      (\<lambda>req st. inv k (snd st) \<and> (\<exists>ii. charged s i ii it req (fst st))) (\<lambda>_ st. inv k (snd st)))
      (\<lambda>_ st. inv k (snd st)) (?it, x)"
    by (rule wp_liftI) (use assms meet in \<open>simp_all add: verify_instruction_no_panic
      wp_bind wp_the_gasometer wp_vm_get mem_size_def\<close>)
  then show ?thesis
    using assms(1) by (simp add: charge_def vm_wp info_INSTRUCTIONS [THEN iffD2, OF ii] schedule)
qed

text \<open>After an instruction: the gas that is still there or comes back, and the state by the result.\<close>

definition outcome_ok :: "usize instruction_result \<Rightarrow> usize interpreter \<times> 'x \<Rightarrow> bool" where
  "outcome_ok r st \<longleftrightarrow> vm_ok own s (fst st) \<and> it_resume_result (fst st) = None \<and>
     gas_of (fst st) + returned_gas r < 2 ^ 64 \<and> inv (2 * (gas_of (fst st) + returned_gas r)) (snd st) \<and>
     (case r of
        IR_Trap t \<Rightarrow> vm_suspended own s t (fst st) \<and> trap_ok (bal (snd st)) t
      | IR_StopExecutionNeedsReturn g off n a \<Rightarrow> unat g = gas_of (fst st) \<and> fits (length (it_mem (fst st))) (off, n) \<and>
          it_last_stack_ret_len (fst st) \<le> stack_size (it_stack (fst st))
      | _ \<Rightarrow> it_last_stack_ret_len (fst st) \<le> stack_size (it_stack (fst st)))"

lemma charged_gas: "charged s i ii it req it' \<Longrightarrow> gas_of it' + unat (req_gas_cost req) = gas_of it"
  by (auto simp: charged_def gas_of_def)

lemma gas_of_below: "gas_of it < 2 ^ 64"
  using unat_below [where 'w = 64] by (auto simp: gas_of_def split: option.splits)

lemma charged_machine_ok:
  assumes "vm_ok own s it" "rdr_position (it_reader it) \<le> length (rdr_code (it_reader it))" "charged s i ii it req it'"
  shows "machine_ok it'"
  using assms by (auto simp: vm_ok_def machine_ok_def charged_def memory_paid_def)

lemma executed_vm_ok:
  assumes "vm_ok own s it" "charged s i ii it req it'" "arm_post it' (info_args ii) n (fst st)" "n \<le> info_ret ii"
  shows "vm_ok own s (fst st)" "gas_of (fst st) = gas_of it'" "length (it_mem (fst st)) = length (it_mem it')"
    "it_resume_result (fst st) = it_resume_result it" "it_last_stack_ret_len (fst st) = info_ret ii"
    "info_ret ii \<le> n \<Longrightarrow> info_ret ii \<le> stack_size (it_stack (fst st))"
    "n < info_ret ii \<Longrightarrow> stack_size (it_stack (fst st)) < unat (sch_stack_limit s)"
  using assms by (auto simp: vm_ok_def charged_def arm_post_def same_frame_def gas_of_def)

lemma nested_ret: "INSTRUCTIONS i = Some ii \<Longrightarrow> calls i \<or> creates i \<Longrightarrow> info_ret ii = 1"
  by (auto simp: calls_def creates_def)

lemma executed_outcome_ok:
  assumes "vm_ok own s it" "it_resume_result it = None" "charged s i ii it req it'"
    and "nested_cap s i (it_stack it) (req_provide_gas req) = cap"
    and "exec_post (2 * (gas_of it' + cap)) g cap i ii it' r st" "unat g = gas_of it'"
  shows "outcome_ok r st \<and> gas_of (fst st) + returned_gas r + (if ends r then 0 else 1) \<le> gas_of it"
proof -
  let ?n = "case r of IR_Trap _ \<Rightarrow> 0 | _ \<Rightarrow> info_ret ii"
  have n: "?n \<le> info_ret ii" by (simp split: instruction_result.splits)
  from assms(5) have post: "arm_post it' (info_args ii) ?n (fst st)" "inv (2 * (gas_of it' + cap)) (snd st)"
    by (simp_all add: exec_post_def)
  note keeps = executed_vm_ok [OF assms(1,3) post(1) n]
  have ii: "INSTRUCTIONS i = Some ii" using assms(3) by (simp add: charged_def)
  have cap: "returned_gas r \<le> cap"
    using assms(5) by (auto simp: exec_post_def split: instruction_result.splits trap_kind.splits)
  have cost: "gas_of it' + unat (req_gas_cost req) = gas_of it" using charged_gas [OF assms(3)] .
  have small: "gas_of it' + returned_gas r + (if ends r then 0 else 1) \<le> gas_of it"
  proof (cases "halts i")
    case True
    then have "cap = 0" using charged_cap(3) [OF assms(3) schedule_ok] assms(4) by (simp add: nested_cap_def)
    moreover have "ends r"
      using True assms(5) calls_creates_continue [of i]
      by (cases r rule: ends.cases) (auto simp: exec_post_def split: trap_kind.splits)
    ultimately show ?thesis using cap cost by simp
  next
    case False
    then show ?thesis using charged_cap(2) [OF assms(3) schedule_ok] assms(4) cap cost by simp
  qed
  have "outcome_ok r st"
    using keeps assms(2,5,6) small gas_of_below [of it] nested_ret [OF ii] inv_mono [OF post(2), of "2 * (gas_of it' + returned_gas r)"] cap
    by (auto simp: outcome_ok_def vm_suspended_def exec_post_def split: instruction_result.splits trap_kind.splits)
  with small keeps(2) show ?thesis by simp
qed

lemma wp_exec_charged:
  assumes "vm_ok own s it" "it_resume_result it = None" "rdr_position (it_reader it) \<le> length (rdr_code (it_reader it))"
    and "inv (2 * gas_of it) x" "charged s i ii it req it'" "it_gasometer it' = Some gm"
  shows "wp (exec_instruction i keccak E (current_gas gm) (req_provide_gas req))
    (\<lambda>r st. outcome_ok r st \<and> gas_of (fst st) + returned_gas r + (if ends r then 0 else 1) \<le> gas_of it)
    (\<lambda>_ st. inv 0 (snd st)) (it', x)"
proof -
  define cap where "cap = nested_cap s i (it_stack it) (req_provide_gas req)"
  have same: "INSTRUCTIONS i = Some ii" "info_args ii \<le> stack_size (it_stack it')" "it_stack it' = it_stack it"
    "ip_address (it_params it') = own"
    using assms(1,5) by (auto simp: charged_def vm_ok_def)
  have provided: "calls i \<or> creates i \<longleftrightarrow> req_provide_gas req \<noteq> None"
    using charged_cap(1) [OF assms(5) schedule_ok] .
  have cost: "gas_of it' + unat (req_gas_cost req) = gas_of it" using charged_gas [OF assms(5)] .
  have "2 * (gas_of it' + cap) + units i \<le> 2 * gas_of it"
  proof (cases "halts i")
    case True
    then have "cap = 0" "units i = 0"
      using charged_cap(3) [OF assms(5) schedule_ok]
      by (auto simp: cap_def nested_cap_def units_def halts_def creates_def)
    then show ?thesis using cost by simp
  next
    case False
    then have "cap < unat (req_gas_cost req)" "units i \<le> 2"
      using charged_cap(2) [OF assms(5) schedule_ok] by (simp_all add: cap_def units_def)
    then have "2 * cap + units i \<le> 2 * unat (req_gas_cost req)" by simp
    then show ?thesis using cost by simp
  qed
  then have inv: "inv (2 * (gas_of it' + cap) + units i) x" using inv_mono assms(4) by blast
  have "wp (exec_instruction i keccak E (current_gas gm) (req_provide_gas req))
      (exec_post (2 * (gas_of it' + cap)) (current_gas gm) cap i ii it')
      (\<lambda>_ st. inv (2 * (gas_of it' + cap)) (snd st)) (it', x)"
    by (rule wp_exec_instruction [OF charged_machine_ok [OF assms(1,3,5)] inv same(1,2), 
        where p = "case req_provide_gas req of Some p \<Rightarrow> p | None \<Rightarrow> 0"])
      (use provided charged_fits [OF assms(5)] same(3,4) in \<open>auto simp: cap_def nested_cap_def\<close>)
  then show ?thesis
    by (rule wp_mono) (use executed_outcome_ok [OF assms(1,2,5) cap_def [symmetric]] assms(6) in
      \<open>auto simp: gas_of_def intro: inv_mono\<close>)
qed

lemma wp_execute_next:
  assumes "vm_ok own s it" "it_resume_result it = None" "rdr_position (it_reader it) < length (rdr_code (it_reader it))"
    and "inv (2 * gas_of it) x"
  shows "wp (execute_next keccak E)
    (\<lambda>r st. outcome_ok r st \<and> gas_of (fst st) + returned_gas r + (if ends r then 0 else 1) \<le> gas_of it)
    (\<lambda>_ st. inv 0 (snd st)) (it, x)" (is "wp _ ?post ?err _")
proof -
  from assms(1) obtain gm where gm: "it_gasometer it = Some gm" by (auto simp: vm_ok_def)
  have run: "wp (charge E op i) (\<lambda>req. wp (bind the_gasometer (\<lambda>gm.
      exec_instruction i keccak E (current_gas gm) (req_provide_gas req))) ?post ?err) ?err (it1, x1)"
    if it1: "it1 = it\<lparr>it_reader := (it_reader it)\<lparr>rdr_position := rdr_position (it_reader it) + 1\<rparr>, it_do_trace := t\<rparr>"
      and x1: "inv (2 * gas_of it) x1" for it1 x1 t op i
  proof -
    have same: "vm_ok own s it1" "it_resume_result it1 = None" "gas_of it1 = gas_of it" "it_gasometer it1 = Some gm"
      "rdr_position (it_reader it1) \<le> length (rdr_code (it_reader it1))"
      using assms gm by (simp_all add: it1 vm_ok_def gas_of_def)
    then have "memory_paid s (length (it_mem it1)) gm" "stack_size (it_stack it1) \<le> unat (sch_stack_limit s)"
      by (auto simp: vm_ok_def)
    note charge = wp_charge [OF x1 same(4) this]
    show ?thesis
    proof (rule wp_mono [OF charge])
      show "wp (bind the_gasometer (\<lambda>gm. exec_instruction i keccak E (current_gas gm) (req_provide_gas req))) ?post ?err st"
        if "inv (2 * gas_of it) (snd st) \<and> (\<exists>ii. charged s i ii it1 req (fst st))" for req st
      proof -
        from that obtain ii where charged: "charged s i ii it1 req (fst st)" by blast
        then obtain gm' where "it_gasometer (fst st) = Some gm'" by (auto simp: charged_def)
        with charged show ?thesis
          using wp_exec_charged [OF same(1,2,5), unfolded same(3)] that
          by (cases st) (simp add: wp_bind wp_the_gasometer)
      qed
    qed (auto intro: inv_mono)
  qed
  show ?thesis
    unfolding execute_next_def wp_bind
    by (rule wp_mono [OF wp_fetch [OF assms(4) gm assms(3)]])
      (auto simp del: One_nat_def add_Suc_right simp: wp_bind [of "charge _ _ _"] intro: run [OF refl] inv_mono)
qed

end

end
