(* ===== verification/Interpreter_Exec.thy ===== *)
theory Interpreter_Exec
  imports Interpreter_Run
begin

text \<open>
  The execution loop: a step from a ready state never panics and uses up gas or ends the execution, so
  that the loop returns after at most one step per unit of gas, with a final result or a trap; the
  resumption with the result of the nested execution makes a suspended state ready again.
\<close>

definition exec_ok ::
  "address \<Rightarrow> schedule \<Rightarrow> (nat \<Rightarrow> 'x \<Rightarrow> bool) \<Rightarrow> ('x \<Rightarrow> address \<Rightarrow> u256) \<Rightarrow> nat \<Rightarrow> exec_result \<Rightarrow>
   usize interpreter \<times> 'x \<Rightarrow> bool" where
  "exec_ok own s I b bound r st \<longleftrightarrow> (\<exists>g \<le> bound. case r of
      Exec_Done l \<Rightarrow> settled_ok own s I b g (Done l) st
    | Exec_Trap t \<Rightarrow> g < bound \<and> settled_ok own s I b g (Trapped t) st)"

lemma exec_ok_mono: "exec_ok own s I b g r st \<Longrightarrow> g \<le> h \<Longrightarrow> exec_ok own s I b h r st"
  by (cases r) (auto simp: exec_ok_def dest: order_trans dest!: less_le_trans)

lemma into_return_data_ok:
  assumes "fits (length m) (off, n)" "length m < 2 ^ 64"
  shows "\<exists>d. into_return_data m off n = (Ok d :: return_data vm_result) \<and> data_ok d"
proof -
  obtain bs where "read_slice m off n = (Ok bs :: bytes vm_result)" using read_slice_fits [OF assms] by blast
  from into_return_data_read_slice [OF this] obtain d
    where d: "into_return_data m off n = (Ok d :: return_data vm_result)" "return_data_ok d" by blast
  from d(1) have "length (rd_mem d) \<le> length m"
    by (auto simp: into_return_data_def Let_def new_return_data_def empty_return_data_def sub_range_def split: if_splits)
  with d assms(2) show ?thesis by (auto simp: data_ok_def)
qed

lemma settle_ends:
  assumes "settle keccak E r st = (Ok res, st')" "ends r"
  shows "\<exists>l. res = Done l"
  using assms
  by (cases r)
    (auto simp: settle_def advance_def action_simps split: outcome.splits prod.splits)

lemma settle_no_trap:
  assumes "settle keccak E r st = (Ok (Trapped t), st')"
  shows "r = IR_Trap t"
  using assms
  by (cases r)
    (auto simp: settle_def advance_def action_simps split: outcome.splits prod.splits option.splits if_splits)

lemma wp_total: "wp m Q (\<lambda>_ _. False) st \<Longrightarrow> \<exists>v st'. m st = (Ok v, st') \<and> Q v st'"
  by (cases "m st"; cases "fst (m st)") (auto simp: wp_def)

lemma wp_recover: "wp (recover m f) Q R st = wp m Q (\<lambda>e. Q (f e)) st"
  by (simp add: recover_def wp_def split: outcome.splits prod.splits)

lemma settled_step_ok:
  assumes "settled_ok own s I b g res st" "g \<le> bound" "g < bound \<or> resumed \<and> res = Continue \<or> (\<exists>l. res = Done l)"
  shows "step_ok own s I b bound resumed res st"
  using assms by (auto simp: step_ok_def)

lemma resumed_step_ok:
  assumes "settle keccak E r st = (Ok res, st')" "r = IR_Ok \<or> (\<exists>g. r = IR_UnusedGas g)" "settled_ok own s I b g res st'"
  shows "step_ok own s I b g True res st'"
proof -
  have "res \<noteq> Trapped t" for t using settle_no_trap [of keccak E r st t st'] assms(1,2) by auto
  then show ?thesis using assms(3) by (cases res) (auto intro: settled_step_ok)
qed

context ext_trait
begin

lemma wp_advance:
  assumes "vm_ok own s it" "it_resume_result it = None" "inv (2 * gas_of it) x" "\<And>t. r \<noteq> IR_Trap t"
    and "\<And>g off n a. r = IR_StopExecutionNeedsReturn g off n a \<Longrightarrow> unat g = gas_of it \<and> fits (length (it_mem it)) (off, n)"
  shows "wp (advance keccak r) (settled_ok own s inv bal (gas_of it)) (\<lambda>_ st. inv 0 (snd st)) (it, x)"
proof -
  obtain gm where gm: "it_gasometer it = Some gm" "memory_paid s (length (it_mem it)) gm" using assms(1) by (auto simp: vm_ok_def)
  have zero: "inv 0 x" using assms(3) inv_mono by blast
  have continue: "wp (bind (vm_get it_reader) (\<lambda>r. if reader_len r \<le> rdr_position r
        then bind the_gasometer (\<lambda>gm. ret (Done (Inr (Known (as_u256 (current_gas gm)))))) else ret Continue))
      (settled_ok own s inv bal (gas_of it)) (\<lambda>_ st. inv 0 (snd st)) (it', x)"
    if "vm_ok own s it'" "it_resume_result it' = None" "it_gasometer it' = Some gm" for it'
    using that assms(3) gm gas_of_below [of it]
    by (auto simp: vm_wp wp_the_gasometer unat_as_u256 gas_of_def vm_ready_def pending_gas_def)
  show ?thesis
  proof (cases r)
    case (IR_JumpToPosition p)
    have jump: "wp (bind (lift (verify_jump p dests)) (\<lambda>pos.
        bind (vm_set (\<lambda>it. it\<lparr>it_reader := (it_reader it)\<lparr>rdr_position := pos\<rparr>\<rparr>)) (\<lambda>_.
        bind (vm_get it_reader) (\<lambda>r. if reader_len r \<le> rdr_position r
          then bind the_gasometer (\<lambda>gm. ret (Done (Inr (Known (as_u256 (current_gas gm)))))) else ret Continue))))
      (settled_ok own s inv bal (gas_of it)) (\<lambda>_ st. inv 0 (snd st)) (it', x)"
      if "vm_ok own s it'" "it_resume_result it' = None" "it_gasometer it' = Some gm" for it' dests
      unfolding wp_bind [of "lift _"] wp_bind [of "vm_set _"] wp_vm_set
      by (rule wp_liftI)
        (use that zero continue in \<open>auto simp: verify_jump_def Let_def vm_ok_def split: if_splits\<close>)
    show ?thesis
      using jump assms(1,2) gm
      by (auto simp: IR_JumpToPosition advance_def Let_def wp_bind [of "vm_get _"] wp_bind [of "case_option _ _ _"]
          vm_ok_def wp_vm_get wp_case_option wp_bind wp_vm_set wp_basic split: option.splits prod.splits)
  next
    case (IR_StopExecutionNeedsReturn g off n a)
    then show ?thesis
      using assms(3,5) into_return_data_ok [of "it_mem it" off n] gm(2)
      by (auto simp: advance_def vm_wp unat_as_u256 memory_paid_def)
  next
    case IR_StopExecution
    then show ?thesis
      using assms(3) gm by (simp add: advance_def vm_wp wp_the_gasometer unat_as_u256 gas_of_def)
  qed (use assms continue gm in \<open>simp_all add: advance_def Let_def\<close>)
qed

lemma wp_trace_executed:
  assumes "inv k x" "it_gasometer it = Some gm" "it_last_stack_ret_len it \<le> stack_size (it_stack it)"
    and "\<And>x. inv k x \<Longrightarrow> Q () (it, x)"
  shows "wp (trace_executed E) Q R (it, x)"
  using assms trace_executed [OF assms(1)]
  by (simp add: trace_executed_def vm_wp wp_the_gasometer peek_top_def stack_size_def)

lemma wp_trace_advance:
  assumes "vm_ok own s it" "it_resume_result it = None" "inv (2 * gas_of it) x" "\<And>t. r \<noteq> IR_Trap t"
    and "\<And>g off n a. r = IR_StopExecutionNeedsReturn g off n a \<Longrightarrow> unat g = gas_of it \<and> fits (length (it_mem it)) (off, n)"
    and "it_last_stack_ret_len it \<le> stack_size (it_stack it)"
  shows "wp (bind (trace_executed E) (\<lambda>_. advance keccak r)) (settled_ok own s inv bal (gas_of it)) (\<lambda>_ st. inv 0 (snd st)) (it, x)"
proof -
  obtain gm where "it_gasometer it = Some gm" using assms(1) by (auto simp: vm_ok_def)
  then show ?thesis
    unfolding wp_bind
    by (rule wp_trace_executed [OF assms(3) _ assms(6)]) (rule wp_advance [OF assms(1,2) _ assms(4,5)])
qed

lemma wp_settle:
  assumes "outcome_ok r (it, x)"
  shows "wp (settle keccak E r) (settled_ok own s inv bal (gas_of it + returned_gas r)) (\<lambda>_ st. inv 0 (snd st)) (it, x)"
proof (cases r)
  case (IR_UnusedGas g)
  obtain gm where gm: "it_gasometer it = Some gm" "memory_paid s (length (it_mem it)) gm"
    using assms by (auto simp: outcome_ok_def vm_ok_def)
  let ?it = "it\<lparr>it_gasometer := Some (gm\<lparr>current_gas := current_gas gm + g\<rparr>)\<rparr>"
  have room: "unat (current_gas gm) + unat g < 2 ^ LENGTH(64)"
    using assms gm(1) by (simp add: outcome_ok_def IR_UnusedGas gas_of_def)
  then have total: "gas_of ?it = gas_of it + unat g"
    using gm(1) by (simp add: gas_of_def unat_plus_exact)
  have ok: "vm_ok own s ?it" using assms gm by (auto simp: outcome_ok_def vm_ok_def memory_paid_def)
  have "wp (bind (trace_executed E) (\<lambda>_. advance keccak r)) (settled_ok own s inv bal (gas_of ?it)) (\<lambda>_ st. inv 0 (snd st)) (?it, x)"
    by (rule wp_trace_advance [OF ok]) (use assms total in \<open>auto simp: outcome_ok_def IR_UnusedGas\<close>)
  then show ?thesis
    using room gm total by (simp add: settle_def IR_UnusedGas wp_bind wp_the_gasometer wp_lift checked_plus_def wp_set_gasometer)
next
  case (IR_Trap t)
  with assms show ?thesis by (simp add: settle_def vm_wp outcome_ok_def)
qed (use wp_trace_advance [of it x r] assms in \<open>simp_all add: outcome_ok_def settle_def wp_bind wp_basic\<close>)

lemma wp_step_inner:
  assumes "vm_ready own s it" "inv (2 * (gas_of it + pending_gas it)) x" "reader_len (it_reader it) \<noteq> 0"
  shows "wp (step_inner keccak E) (step_ok own s inv bal (gas_of it + pending_gas it) (it_resume_result it \<noteq> None))
    (\<lambda>_ st. inv 0 (snd st)) (it, x)"
proof (cases "it_resume_result it")
  case None
  have run: "wp (execute_next keccak E)
    (\<lambda>r st. outcome_ok r st \<and> gas_of (fst st) + returned_gas r + (if ends r then 0 else 1) \<le> gas_of it)
    (\<lambda>_ st. inv 0 (snd st)) (it, x)"
    by (rule wp_execute_next) (use assms None in \<open>auto simp: vm_ready_def pending_gas_def reader_len_def\<close>)
  have "wp (execute_next keccak E) (\<lambda>r. wp (settle keccak E r) (step_ok own s inv bal (gas_of it) False) (\<lambda>_ st. inv 0 (snd st)))
    (\<lambda>_ st. inv 0 (snd st)) (it, x)"
  proof (rule wp_mono [OF run])
    show "wp (settle keccak E r) (step_ok own s inv bal (gas_of it) False) (\<lambda>_ st. inv 0 (snd st)) st"
      if "outcome_ok r st \<and> gas_of (fst st) + returned_gas r + (if ends r then 0 else 1) \<le> gas_of it" for r st
      by (rule wp_mono [OF wp_settle [of r "fst st" "snd st" keccak, simplified]])
        (use that in \<open>auto intro: settled_step_ok dest: settle_ends split: if_splits\<close>)
  qed simp
  moreover have same: "it\<lparr>it_resume_result := None\<rparr> = it"
    using None by (cases it) simp
  ultimately show ?thesis
    using None by (simp add: step_inner_def vm_wp pending_gas_def same)
next
  case (Some r)
  then have "outcome_ok r (it\<lparr>it_resume_result := None\<rparr>, x)" 
    "gas_of (it\<lparr>it_resume_result := None\<rparr>) + returned_gas r = gas_of it + pending_gas it"
    using assms by (auto simp: vm_ready_def outcome_ok_def vm_ok_def gas_of_def pending_gas_def)
  from wp_settle [OF this(1), of keccak, unfolded this(2)] show ?thesis
    using Some by (simp add: step_inner_def wp_bind wp_vm_get wp_vm_set wp_basic) 
      (erule wp_mono, use assms(1) Some in \<open>auto simp: vm_ready_def intro: resumed_step_ok\<close>)
qed

lemma wp_step:
  assumes "vm_ready own s it" "inv (2 * (gas_of it + pending_gas it)) x"
  shows "wp (step keccak E) (step_ok own s inv bal (gas_of it + pending_gas it) (it_resume_result it \<noteq> None)) (\<lambda>_ _. False) (it, x)"
proof -
  let ?ok = "step_ok own s inv bal (gas_of it + pending_gas it) (it_resume_result it \<noteq> None)"
  from assms(1) obtain gm where gm: "it_gasometer it = Some gm" "\<not> it_done it" by (auto simp: vm_ready_def vm_ok_def)
  have finish: "?ok res ((fst st)\<lparr>it_done := True\<rparr>, snd st)" if "?ok res st" "res = Done l" for res l st
    using that by (cases l) (auto simp: step_ok_def)
  show ?thesis
  proof (cases "reader_len (it_reader it) = 0")
    case True
    have "inv (2 * gas_of it) x" using assms(2) inv_mono by simp
    with True show ?thesis
      using gm by (simp add: step_def vm_wp step_ok_def unat_as_u256 gas_of_def)
  next
    case False
    have finished: "wp (bind (case res of Done _ \<Rightarrow> vm_set (\<lambda>it. it\<lparr>it_done := True\<rparr>) | _ \<Rightarrow> ret ()) (\<lambda>_. ret res))
        ?ok (\<lambda>_ _. False) st" if "?ok res st" for res st
      using that finish [OF that] by (cases res) (simp_all add: vm_wp)
    have failed: "?ok (Done (Inl e)) st" if "inv 0 (snd st)" for e st
      using that by (auto simp: step_ok_def)
    have "wp (step_inner keccak E)
        (\<lambda>res. wp (bind (case res of Done _ \<Rightarrow> vm_set (\<lambda>it. it\<lparr>it_done := True\<rparr>) | _ \<Rightarrow> ret ()) (\<lambda>_. ret res)) ?ok (\<lambda>_ _. False))
        (\<lambda>e. wp (bind (vm_set (\<lambda>it. it\<lparr>it_done := True\<rparr>)) (\<lambda>_. ret (Done (Inl e)))) ?ok (\<lambda>_ _. False)) (it, x)"
      by (rule wp_mono [OF wp_step_inner [OF assms False]])
        (rule finished, simp, use finished [OF failed] in simp)
    then show ?thesis
      using gm False by (simp add: step_def wp_bind [of "vm_get _"] wp_vm_get wp_bind [of "recover _ _"] wp_recover)
  qed
qed

lemma exec_returns_ready:
  assumes "vm_ready own s it" "it_resume_result it = None" "inv (2 * gas_of it) x" "gas_of it < n"
  shows "\<exists>r st. exec n keccak E (it, x) = Some (Ok r, st) \<and> exec_ok own s inv bal (gas_of it) r st"
  using assms
proof (induction n arbitrary: it x)
  case (Suc n)
  have "wp (step keccak E) (step_ok own s inv bal (gas_of it) False) (\<lambda>_ _. False) (it, x)"
    using wp_step [OF Suc.prems(1), of x keccak] Suc.prems(2,3) by (simp add: pending_gas_def)
  then obtain res it' x' where step: "step keccak E (it, x) = (Ok res, (it', x'))"
    and ok: "step_ok own s inv bal (gas_of it) False res (it', x')"
    by (metis wp_total prod.exhaust)
  show ?case
  proof (cases res)
    case Continue
    with ok have next_step: "vm_ready own s it'" "it_resume_result it' = None" "inv (2 * gas_of it') x'" "gas_of it' < gas_of it"
      by (auto simp: step_ok_def)
    then obtain r st where "exec n keccak E (it', x') = Some (Ok r, st)" "exec_ok own s inv bal (gas_of it') r st"
      using Suc.IH [OF next_step(1-3)] Suc.prems(4) by auto
    moreover from this(2) have "exec_ok own s inv bal (gas_of it) r st"
      by (rule exec_ok_mono) (use next_step(4) in simp)
    ultimately show ?thesis using step Continue by simp
  qed (use ok step in \<open>auto simp: step_ok_def exec_ok_def intro: less_imp_le\<close>)
qed simp

lemma exec_returns:
  assumes "vm_ready own s it" "inv (2 * (gas_of it + pending_gas it)) x" "gas_of it + pending_gas it + 1 < n"
  shows "\<exists>r st. exec n keccak E (it, x) = Some (Ok r, st) \<and> exec_ok own s inv bal (gas_of it + pending_gas it) r st"
proof -
  obtain m where n: "n = Suc m" using assms(3) by (cases n) simp_all
  let ?g = "gas_of it + pending_gas it"
  obtain res it' x' where step: "step keccak E (it, x) = (Ok res, (it', x'))"
    and ok: "step_ok own s inv bal ?g (it_resume_result it \<noteq> None) res (it', x')"
    using wp_step [OF assms(1,2), of keccak] by (metis wp_total prod.exhaust)
  show ?thesis
  proof (cases res)
    case Continue
    with ok have next_step: "vm_ready own s it'" "it_resume_result it' = None" "inv (2 * gas_of it') x'" "gas_of it' \<le> ?g"
      by (auto simp: step_ok_def split: if_splits)
    then obtain r st where "exec m keccak E (it', x') = Some (Ok r, st)" "exec_ok own s inv bal (gas_of it') r st"
      using exec_returns_ready [OF next_step(1-3), of m keccak] assms(3) n by auto
    moreover from this(2) have "exec_ok own s inv bal ?g r st"
      using next_step(4) by (rule exec_ok_mono)
    ultimately show ?thesis using step Continue n by simp
  qed (use ok step n in \<open>auto simp: step_ok_def exec_ok_def intro: less_imp_le split: if_splits\<close>)
qed

end

section \<open>Resumption\<close>

lemma resume_output_ok:
  assumes "vm_ok own s it" "it_last_stack_ret_len it = 1" "stack_size (it_stack it) < unat (sch_stack_limit s)"
    and "gas_of it + cap < 2 ^ 64" "unat gas_left \<le> cap" "data_ok data" "fits (length (it_mem it)) (off, n)"
  shows "\<exists>it'. resume_output flag off n gas_left data it = Ok it' \<and> vm_ready own s it' \<and>
    gas_of it' = gas_of it \<and> pending_gas it' \<le> cap"
proof -
  have len: "length (it_mem it) < 2 ^ 64" using assms(1) by (auto simp: vm_ok_def memory_paid_def)
  obtain m where m: "write_output (it_mem it) off n data = (Ok m :: bytes vm_result)" "length m = length (it_mem it)"
    using write_output_Ok [OF _ len, of n off data] assms(6,7) by (auto simp: fits_def data_ok_def)
  have gas: "unat gas_left < 2 ^ 64" using assms(4,5) by simp
  then have "unat (ucast gas_left :: usize) = unat gas_left" by (simp add: unat_ucast_exact)
  moreover have "resume_output flag off n gas_left data it = Ok (it\<lparr>it_mem := m, it_return_data := data,
      it_stack := push (it_stack it) flag, it_resume_result := Some (IR_UnusedGas (ucast gas_left))\<rparr>)"
    using m from_u256_small [OF gas] by (simp add: resume_output_def)
  ultimately show ?thesis
    using m(2) assms(1-6)
    by (auto simp: vm_ready_def vm_ok_def gas_of_def pending_gas_def push_def stack_size_def vec_stack_ok_def)
qed

lemma resume_call_ok:
  assumes "vm_suspended own s (Trap_Call p) it" "call_result_ok (ap_gas p) (Inr result)"
  shows "\<exists>it'. resume_call result it = Ok it' \<and> vm_ready own s it' \<and>
    gas_of it' = gas_of it \<and> pending_gas it' \<le> unat (ap_gas p)"
proof -
  from assms(1) obtain off n where range: "it_resume_output_range it = Some (off, n)"
    "fits (length (it_mem it)) (off, n)" by (auto simp: vm_suspended_def)
  let ?it = "it\<lparr>it_resume_output_range := None\<rparr>"
  have it: "vm_ok own s ?it" "it_last_stack_ret_len ?it = 1" "stack_size (it_stack ?it) < unat (sch_stack_limit s)"
    "gas_of ?it + unat (ap_gas p) < 2 ^ 64" "gas_of ?it = gas_of it"
    using assms(1) by (auto simp: vm_suspended_def vm_ok_def gas_of_def)
  show ?thesis
  proof (cases result)
    case Call_Failed
    then show ?thesis
      using it range
      by (auto simp: resume_call_def Let_def vm_ready_def vm_ok_def gas_of_def pending_gas_def push_def stack_size_def vec_stack_ok_def)
  qed (use resume_output_ok [OF it(1-4)] range it(5) assms(2) in
    \<open>auto simp: resume_call_def Let_def call_result_ok_def word_le_nat_alt\<close>)
qed

lemma resume_create_ok:
  assumes "vm_suspended own s (Trap_Create p a) it" "create_result_ok (ap_gas p) (Inr result)"
  shows "\<exists>it'. resume_create result it = Ok it' \<and> vm_ready own s it' \<and>
    gas_of it' = gas_of it \<and> pending_gas it' \<le> unat (ap_gas p)"
proof -
  have gas: "from_u256 g = Ok (ucast g :: usize)" "unat (ucast g :: usize) = unat g" if "g \<le> ap_gas p" for g
  proof -
    have "unat g < 2 ^ 64" using assms(1) that by (simp add: vm_suspended_def word_le_nat_alt)
    then show "from_u256 g = Ok (ucast g :: usize)" "unat (ucast g :: usize) = unat g"
      by (simp_all add: from_u256_small unat_ucast_exact)
  qed
  then show ?thesis
    using assms
    by (cases result) (auto simp: resume_create_def create_result_ok_def word_le_nat_alt vm_suspended_def vm_ready_def
      vm_ok_def gas_of_def pending_gas_def push_def stack_size_def vec_stack_ok_def)
qed

section \<open>A new interpreter\<close>

lemma new_interpreter_ready:
  assumes "ap_code p = Some code" "length code < 2 ^ 64" "\<forall>d. ap_data p = Some d \<longrightarrow> length d < 2 ^ 64" "unat (ap_gas p) < 2 ^ 64"
  shows "\<exists>it. new_interpreter p cache s = Ok it \<and> vm_ready (ap_address p) s it \<and> gas_of it = unat (ap_gas p) \<and> pending_gas it = 0"
proof -
  have "from_u256 (ap_gas p) = Ok (ucast (ap_gas p) :: usize)" "unat (ucast (ap_gas p) :: usize) = unat (ap_gas p)"
    using assms(4) by (simp_all add: from_u256_small unat_ucast_exact)
  then show ?thesis
    using assms
    by (auto simp: new_interpreter_def vm_ready_def vm_ok_def gas_of_def pending_gas_def new_gasometer_def memory_paid_def
        memory_cost_def vec_stack_ok_def stack_size_def with_capacity_def new_reader_def reader_len_def
        interpreter_params_from_def data_ok_def return_data_ok_def empty_return_data_def)
qed

end
