(* ===== verification/Account.thy ===== *)
theory Account
  imports Vm_Types "HOL-Library.AList"
begin

text \<open>
  A single account of the state: src/ethcore/src/state/account.rs.

  A \<open>HashMap\<close> is an association list with distinct keys, in the order its iterators take. The
  methods that borrow a \<open>RefCell\<close> or a \<open>Cell\<close> return the account they leave. What the module takes
  from other crates is the record \<open>crates\<close>: the Keccak hash with its two precomputed values, and the
  \<open>LruCache\<close> over an abstract type \<open>'l\<close>, the text of a trie error, and the RLP list of a sender and a nonce. A read-only account database, the \<open>HashDB\<close> that holds the
  storage trie and the code of one account, is the record \<open>account_db\<close>: \<open>adb_storage root key\<close> opens the
  trie with that root and decodes the value at the key.
\<close>

section \<open>The crates behind an account\<close>

datatype trie_error =
    InvalidStateRoot h256
  | IncompleteDatabase h256
  | DecoderError h256 string

record 'l crates =
  cr_keccak :: "bytes \<Rightarrow> h256"
  cr_KECCAK_EMPTY :: h256
  cr_KECCAK_NULL_RLP :: h256
  cr_lru_new :: "nat \<Rightarrow> 'l"
  cr_lru_get_mut :: "h256 \<Rightarrow> 'l \<Rightarrow> h256 option \<times> 'l"
  cr_lru_insert :: "h256 \<Rightarrow> h256 \<Rightarrow> 'l \<Rightarrow> 'l"
  cr_lru_into_iter :: "'l \<Rightarrow> (h256 \<times> h256) list"
  cr_trie_error_text :: "trie_error \<Rightarrow> string"
  cr_rlp_sender_nonce :: "address \<Rightarrow> u256 \<Rightarrow> bytes"

record account_db =
  adb_storage :: "h256 \<Rightarrow> h256 \<Rightarrow> (trie_error, u256 option) outcome"
  adb_code :: "h256 \<Rightarrow> bytes option"

text \<open>The bytes of an address, as \<open>keccak(address)\<close> reads them.\<close>

definition address_bytes :: "address \<Rightarrow> bytes" where
  "address_bytes a = map (\<lambda>i. ucast (drop_bit (8 * i) a)) (rev [0..<20])"

section \<open>The account\<close>

definition STORAGE_CACHE_ITEMS :: nat where
  "STORAGE_CACHE_ITEMS = 8192"

datatype filth = Clean | Dirty

record 'l account =
  ac_balance :: u256
  ac_nonce :: u256
  ac_storage_root :: h256
  ac_storage_cache :: 'l
  ac_original_storage_cache :: "(h256 \<times> 'l) option"
  ac_storage_changes :: "(h256 \<times> h256) list"
  ac_code_hash :: h256
  ac_code_size :: "nat option"
  ac_code_cache :: bytes
  ac_code_filth :: filth
  ac_address_hash :: "h256 option"

record basic_account =
  ba_nonce :: u256
  ba_balance :: u256
  ba_storage_root :: h256
  ba_code_hash :: h256

definition empty_storage_cache :: "'l crates \<Rightarrow> 'l" where
  "empty_storage_cache C = cr_lru_new C STORAGE_CACHE_ITEMS"

definition account_from :: "'l crates \<Rightarrow> basic_account \<Rightarrow> 'l account" where
  "account_from C basic =
    \<lparr>ac_balance = ba_balance basic, ac_nonce = ba_nonce basic, ac_storage_root = ba_storage_root basic,
     ac_storage_cache = empty_storage_cache C, ac_original_storage_cache = None, ac_storage_changes = [],
     ac_code_hash = ba_code_hash basic, ac_code_size = None, ac_code_cache = [], ac_code_filth = Clean,
     ac_address_hash = None\<rparr>"

definition new_basic :: "'l crates \<Rightarrow> u256 \<Rightarrow> u256 \<Rightarrow> 'l account" where
  "new_basic C balance nonce =
    \<lparr>ac_balance = balance, ac_nonce = nonce, ac_storage_root = cr_KECCAK_NULL_RLP C,
     ac_storage_cache = empty_storage_cache C, ac_original_storage_cache = None, ac_storage_changes = [],
     ac_code_hash = cr_KECCAK_EMPTY C, ac_code_size = Some 0, ac_code_cache = [], ac_code_filth = Clean,
     ac_address_hash = None\<rparr>"

definition new_contract :: "'l crates \<Rightarrow> u256 \<Rightarrow> u256 \<Rightarrow> h256 \<Rightarrow> 'l account" where
  "new_contract C balance nonce original_storage_root =
    \<lparr>ac_balance = balance, ac_nonce = nonce, ac_storage_root = cr_KECCAK_NULL_RLP C,
     ac_storage_cache = empty_storage_cache C,
     ac_original_storage_cache =
       (if original_storage_root = cr_KECCAK_NULL_RLP C then None
        else Some (original_storage_root, empty_storage_cache C)),
     ac_storage_changes = [],
     ac_code_hash = cr_KECCAK_EMPTY C, ac_code_size = None, ac_code_cache = [], ac_code_filth = Clean,
     ac_address_hash = None\<rparr>"

section \<open>Code\<close>

definition init_code :: "'l crates \<Rightarrow> bytes \<Rightarrow> 'l account \<Rightarrow> 'l account" where
  "init_code C code ac = ac\<lparr>ac_code_hash := cr_keccak C code, ac_code_cache := code,
     ac_code_size := Some (length code), ac_code_filth := Dirty\<rparr>"

definition reset_code :: "'l crates \<Rightarrow> bytes \<Rightarrow> 'l account \<Rightarrow> 'l account" where
  "reset_code C code ac = init_code C code ac"

definition reset_code_and_storage :: "'l crates \<Rightarrow> bytes \<Rightarrow> (h256 \<times> h256) list \<Rightarrow> 'l account \<Rightarrow> 'l account" where
  "reset_code_and_storage C code storage ac =
    ac\<lparr>ac_code_hash := cr_keccak C code, ac_code_cache := code, ac_code_size := Some (length code),
       ac_code_filth := Dirty, ac_storage_cache := empty_storage_cache C, ac_storage_changes := storage,
       ac_original_storage_cache :=
         (if ac_storage_root ac \<noteq> cr_KECCAK_NULL_RLP C then Some (ac_storage_root ac, empty_storage_cache C)
          else ac_original_storage_cache ac),
       ac_storage_root := cr_KECCAK_NULL_RLP C\<rparr>"

definition account_code :: "'l crates \<Rightarrow> 'l account \<Rightarrow> bytes option" where
  "account_code C ac =
    (if ac_code_hash ac \<noteq> cr_KECCAK_EMPTY C \<and> ac_code_cache ac = [] then None else Some (ac_code_cache ac))"

definition is_cached :: "'l crates \<Rightarrow> 'l account \<Rightarrow> bool" where
  "is_cached C ac \<longleftrightarrow> ac_code_cache ac \<noteq> [] \<or> (ac_code_cache ac = [] \<and> ac_code_hash ac = cr_KECCAK_EMPTY C)"

definition cache_code :: "'l crates \<Rightarrow> account_db \<Rightarrow> 'l account \<Rightarrow> bytes option \<times> 'l account" where
  "cache_code C db ac =
    (if is_cached C ac then (Some (ac_code_cache ac), ac)
     else case adb_code db (ac_code_hash ac) of
       Some x \<Rightarrow> (Some x, ac\<lparr>ac_code_size := Some (length x), ac_code_cache := x\<rparr>)
     | None \<Rightarrow> (None, ac))"

definition cache_given_code :: "bytes \<Rightarrow> 'l account \<Rightarrow> 'l account" where
  "cache_given_code code ac = ac\<lparr>ac_code_size := Some (length code), ac_code_cache := code\<rparr>"

definition cache_code_size :: "'l crates \<Rightarrow> account_db \<Rightarrow> 'l account \<Rightarrow> bool \<times> 'l account" where
  "cache_code_size C db ac =
    (if ac_code_size ac \<noteq> None then (True, ac)
     else if ac_code_hash ac \<noteq> cr_KECCAK_EMPTY C then
       (case adb_code db (ac_code_hash ac) of
          Some x \<Rightarrow> (True, ac\<lparr>ac_code_size := Some (length x)\<rparr>)
        | None \<Rightarrow> (False, ac))
     else (True, ac\<lparr>ac_code_size := Some 0\<rparr>))"

section \<open>Storage\<close>

definition account_set_storage :: "h256 \<Rightarrow> h256 \<Rightarrow> 'l account \<Rightarrow> 'l account" where
  "account_set_storage key v ac = ac\<lparr>ac_storage_changes := AList.update key v (ac_storage_changes ac)\<rparr>"

definition get_and_cache_storage ::
  "'l crates \<Rightarrow> h256 \<Rightarrow> account_db \<Rightarrow> h256 \<Rightarrow> ('l, trie_error, h256) action" where
  "get_and_cache_storage C storage_root db key =
    bind (lift (adb_storage db storage_root key)) (\<lambda>item.
    let v = (case item of Some v \<Rightarrow> v | None \<Rightarrow> 0) in
    bind (modify (cr_lru_insert C key v)) (\<lambda>_. ret v))"

definition cached_moved_original_storage_at :: "'l crates \<Rightarrow> h256 \<Rightarrow> 'l account \<Rightarrow> h256 option \<times> 'l account" where
  "cached_moved_original_storage_at C key ac =
    (if ac_storage_root ac = cr_KECCAK_NULL_RLP C then (Some 0, ac)
     else let (v, cache) = cr_lru_get_mut C key (ac_storage_cache ac) in (v, ac\<lparr>ac_storage_cache := cache\<rparr>))"

definition cached_storage_at :: "'l crates \<Rightarrow> h256 \<Rightarrow> 'l account \<Rightarrow> h256 option \<times> 'l account" where
  "cached_storage_at C key ac = (case map_of (ac_storage_changes ac) key of
      Some v \<Rightarrow> (Some v, ac)
    | None \<Rightarrow> cached_moved_original_storage_at C key ac)"

definition cached_original_storage_at :: "'l crates \<Rightarrow> h256 \<Rightarrow> 'l account \<Rightarrow> h256 option \<times> 'l account" where
  "cached_original_storage_at C key ac = (case ac_original_storage_cache ac of
      Some (root, cache) \<Rightarrow>
        let (v, cache') = cr_lru_get_mut C key cache in
        (v, ac\<lparr>ac_original_storage_cache := Some (root, cache')\<rparr>)
    | None \<Rightarrow> cached_moved_original_storage_at C key ac)"

text \<open>Running an action of a storage cache inside the account.\<close>

definition in_storage_cache :: "('l, 'e, 'a) action \<Rightarrow> ('l account, 'e, 'a) action" where
  "in_storage_cache m ac =
    (let (r, cache) = m (ac_storage_cache ac) in (r, ac\<lparr>ac_storage_cache := cache\<rparr>))"

definition account_storage_at :: "'l crates \<Rightarrow> account_db \<Rightarrow> h256 \<Rightarrow> ('l account, trie_error, h256) action" where
  "account_storage_at C db key ac = (case cached_storage_at C key ac of
      (Some v, ac') \<Rightarrow> (Ok v, ac')
    | (None, ac') \<Rightarrow> in_storage_cache (get_and_cache_storage C (ac_storage_root ac') db key) ac')"

definition account_original_storage_at ::
  "'l crates \<Rightarrow> account_db \<Rightarrow> h256 \<Rightarrow> ('l account, trie_error, h256) action" where
  "account_original_storage_at C db key ac = (case cached_original_storage_at C key ac of
      (Some v, ac') \<Rightarrow> (Ok v, ac')
    | (None, ac') \<Rightarrow> (case ac_original_storage_cache ac' of
        Some (root, cache) \<Rightarrow>
          let (r, cache') = get_and_cache_storage C root db key cache in
          (r, ac'\<lparr>ac_original_storage_cache := Some (root, cache')\<rparr>)
      | None \<Rightarrow> in_storage_cache (get_and_cache_storage C (ac_storage_root ac') db key) ac'))"

definition storage_is_clean :: "'l account \<Rightarrow> bool" where
  "storage_is_clean ac \<longleftrightarrow> ac_storage_changes ac = []"

definition account_storage_root :: "'l account \<Rightarrow> h256 option" where
  "account_storage_root ac = (if storage_is_clean ac then Some (ac_storage_root ac) else None)"

definition account_original_storage_root :: "'l account \<Rightarrow> h256" where
  "account_original_storage_root ac = (case ac_original_storage_cache ac of
      Some (root, _) \<Rightarrow> root | None \<Rightarrow> ac_storage_root ac)"

definition account_is_base_storage_root_unchanged :: "'l account \<Rightarrow> bool" where
  "account_is_base_storage_root_unchanged ac \<longleftrightarrow> ac_original_storage_cache ac = None"

definition base_storage_root :: "'l account \<Rightarrow> h256" where
  "base_storage_root ac = ac_storage_root ac"

section \<open>Balance, nonce, emptiness\<close>

definition address_hash :: "'l crates \<Rightarrow> address \<Rightarrow> 'l account \<Rightarrow> h256 \<times> 'l account" where
  "address_hash C a ac = (case ac_address_hash ac of
      Some h \<Rightarrow> (h, ac)
    | None \<Rightarrow> let h = cr_keccak C (address_bytes a) in (h, ac\<lparr>ac_address_hash := Some h\<rparr>))"

definition is_null :: "'l crates \<Rightarrow> 'l account \<Rightarrow> bool" where
  "is_null C ac \<longleftrightarrow> ac_balance ac = 0 \<and> ac_nonce ac = 0 \<and> ac_code_hash ac = cr_KECCAK_EMPTY C"

definition is_empty :: "'l crates \<Rightarrow> 'l account \<Rightarrow> ('e, bool) outcome" where
  "is_empty C ac = and_then (assert_that (storage_is_clean ac)) (\<lambda>_.
     Ok (is_null C ac \<and> ac_storage_root ac = cr_KECCAK_NULL_RLP C))"

definition is_basic :: "'l crates \<Rightarrow> 'l account \<Rightarrow> bool" where
  "is_basic C ac \<longleftrightarrow> ac_code_hash ac = cr_KECCAK_EMPTY C"

definition account_inc_nonce :: "'l account \<Rightarrow> 'l account" where
  "account_inc_nonce ac = ac\<lparr>ac_nonce := saturating_add (ac_nonce ac) 1\<rparr>"

definition account_add_balance :: "u256 \<Rightarrow> 'l account \<Rightarrow> 'l account" where
  "account_add_balance x ac = ac\<lparr>ac_balance := saturating_add (ac_balance ac) x\<rparr>"

definition account_sub_balance :: "u256 \<Rightarrow> 'l account \<Rightarrow> ('e, 'l account) outcome" where
  "account_sub_balance x ac = and_then (assert_that (x \<le> ac_balance ac)) (\<lambda>_.
     Ok (ac\<lparr>ac_balance := ac_balance ac - x\<rparr>))"

section \<open>Copies\<close>

definition clone_basic :: "'l crates \<Rightarrow> 'l account \<Rightarrow> 'l account" where
  "clone_basic C ac = ac\<lparr>ac_storage_cache := empty_storage_cache C,
     ac_original_storage_cache := map_option (\<lambda>(r, _). (r, empty_storage_cache C)) (ac_original_storage_cache ac),
     ac_storage_changes := []\<rparr>"

definition clone_dirty :: "'l crates \<Rightarrow> 'l account \<Rightarrow> 'l account" where
  "clone_dirty C ac = (clone_basic C ac)\<lparr>ac_storage_changes := ac_storage_changes ac\<rparr>"

definition clone_all :: "'l crates \<Rightarrow> 'l account \<Rightarrow> 'l account" where
  "clone_all C ac = (clone_dirty C ac)\<lparr>ac_storage_cache := ac_storage_cache ac,
     ac_original_storage_cache := ac_original_storage_cache ac\<rparr>"

definition account_overwrite_with :: "'l crates \<Rightarrow> 'l account \<Rightarrow> 'l account \<Rightarrow> 'l account" where
  "account_overwrite_with C other ac =
    ac\<lparr>ac_balance := ac_balance other, ac_nonce := ac_nonce other, ac_code_hash := ac_code_hash other,
       ac_code_filth := ac_code_filth other, ac_code_cache := ac_code_cache other,
       ac_code_size := ac_code_size other, ac_address_hash := ac_address_hash other,
       ac_storage_cache :=
         (if ac_storage_root ac = ac_storage_root other
          then fold (\<lambda>(k, v). cr_lru_insert C k v) (cr_lru_into_iter C (ac_storage_cache other)) (ac_storage_cache ac)
          else ac_storage_cache other),
       ac_original_storage_cache := ac_original_storage_cache other,
       ac_storage_root := ac_storage_root other,
       ac_storage_changes := ac_storage_changes other\<rparr>"

end
