(* ===== verification/State.thy ===== *)
theory State
  imports Account
begin

text \<open>
  The state of all accounts: src/ethcore/src/state/mod.rs, over a backend (the trait \<open>Backend\<close> of
  src/ethcore/src/state/backend.rs) and the databases and tries behind it.

  \<open>State\<close> keeps a cache of account entries and a stack of checkpoints; both are behind \<open>RefCell\<close>s
  and change in queries too, so every method is an action on the record \<open>state\<close>. \<open>get_cached\<close>, which runs
  a closure on the account inside the shared cache, is the pair \<open>be_get_cached\<close>, the account handed
  to the closure, and \<open>be_set_cached\<close>, the account it leaves. Opening the state trie and reading an
  account from it are \<open>be_open_trie\<close> and \<open>be_get_account\<close>, which panics on a value that is not an
  account. The set of touched addresses that \<open>CleanupMode::TrackTouched\<close> borrows is threaded next to the
  state.
\<close>

section \<open>Backend\<close>

record ('b, 'l) backend =
  be_get_cached :: "address \<Rightarrow> 'b \<Rightarrow> 'l account option option \<times> 'b"
  be_set_cached :: "address \<Rightarrow> 'l account \<Rightarrow> 'b \<Rightarrow> 'b"
  be_get_cached_account :: "address \<Rightarrow> 'b \<Rightarrow> 'l account option option \<times> 'b"
  be_get_cached_code :: "h256 \<Rightarrow> 'b \<Rightarrow> bytes option \<times> 'b"
  be_cache_code :: "h256 \<Rightarrow> bytes \<Rightarrow> 'b \<Rightarrow> 'b"
  be_add_to_account_cache :: "address \<Rightarrow> 'l account option \<Rightarrow> bool \<Rightarrow> 'b \<Rightarrow> 'b"
  be_is_known_null :: "address \<Rightarrow> 'b \<Rightarrow> bool"
  be_account_db :: "h256 \<Rightarrow> 'b \<Rightarrow> account_db"
  be_contains :: "h256 \<Rightarrow> 'b \<Rightarrow> bool"
  be_open_trie :: "h256 \<Rightarrow> 'b \<Rightarrow> (trie_error, unit) outcome"
  be_get_account :: "h256 \<Rightarrow> address \<Rightarrow> 'b \<Rightarrow> (trie_error, basic_account option) outcome"

section \<open>Entries\<close>

datatype account_state = CleanFresh | CleanCached | Entry_Dirty | Committed

record 'l account_entry =
  en_account :: "'l account option"
  en_old_balance :: "u256 option"
  en_state :: account_state

definition is_dirty :: "'l account_entry \<Rightarrow> bool" where
  "is_dirty e \<longleftrightarrow> en_state e = Entry_Dirty"

definition exists_and_is_null :: "'l crates \<Rightarrow> 'l account_entry \<Rightarrow> bool" where
  "exists_and_is_null C e = (case en_account e of Some ac \<Rightarrow> is_null C ac | None \<Rightarrow> False)"

definition entry_clone_dirty :: "'l crates \<Rightarrow> 'l account_entry \<Rightarrow> 'l account_entry" where
  "entry_clone_dirty C e = e\<lparr>en_account := map_option (clone_dirty C) (en_account e)\<rparr>"

definition clone_if_dirty :: "'l crates \<Rightarrow> 'l account_entry \<Rightarrow> 'l account_entry option" where
  "clone_if_dirty C e = (if is_dirty e then Some (entry_clone_dirty C e) else None)"

definition new_dirty :: "'l account option \<Rightarrow> 'l account_entry" where
  "new_dirty ac = \<lparr>en_account = ac, en_old_balance = map_option ac_balance ac, en_state = Entry_Dirty\<rparr>"

definition new_clean :: "'l account option \<Rightarrow> 'l account_entry" where
  "new_clean ac = \<lparr>en_account = ac, en_old_balance = map_option ac_balance ac, en_state = CleanFresh\<rparr>"

definition new_clean_cached :: "'l account option \<Rightarrow> 'l account_entry" where
  "new_clean_cached ac = \<lparr>en_account = ac, en_old_balance = map_option ac_balance ac, en_state = CleanCached\<rparr>"

definition entry_overwrite_with :: "'l crates \<Rightarrow> 'l account_entry \<Rightarrow> 'l account_entry \<Rightarrow> 'l account_entry" where
  "entry_overwrite_with C other e = e\<lparr>en_state := en_state other,
     en_account := (case en_account other of
        Some ac \<Rightarrow> Some (case en_account e of Some ours \<Rightarrow> account_overwrite_with C ac ours | None \<Rightarrow> ac)
      | None \<Rightarrow> None)\<rparr>"

section \<open>The state\<close>

record ('b, 'l) state =
  st_db :: 'b
  st_root :: h256
  st_cache :: "(address \<times> 'l account_entry) list"
  st_checkpoints :: "(address \<times> 'l account_entry option) list list"
  st_account_start_nonce :: u256

type_synonym ('b, 'l, 'a) state_action = "(('b, 'l) state, trie_error, 'a) action"

datatype require_cache = Require_None | Require_CodeSize | Require_Code

datatype cleanup_mode = ForceCreate | NoEmpty | TrackTouched

definition address_to_h256 :: "address \<Rightarrow> h256" where
  "address_to_h256 a = ucast a"

definition from_existing :: "('b, 'l) backend \<Rightarrow> 'b \<Rightarrow> h256 \<Rightarrow> u256 \<Rightarrow> (trie_error, ('b, 'l) state) outcome" where
  "from_existing B db root account_start_nonce =
    (if \<not> be_contains B root db then Err (InvalidStateRoot root)
     else Ok \<lparr>st_db = db, st_root = root, st_cache = [], st_checkpoints = [],
              st_account_start_nonce = account_start_nonce\<rparr>)"

section \<open>Checkpoints\<close>

definition or_insert :: "'k \<Rightarrow> 'v \<Rightarrow> ('k \<times> 'v) list \<Rightarrow> ('k \<times> 'v) list" where
  "or_insert k v m = (if map_of m k = None then AList.update k v m else m)"

definition checkpoint :: "('b, 'l) state \<Rightarrow> nat \<times> ('b, 'l) state" where
  "checkpoint st = (length (st_checkpoints st), st\<lparr>st_checkpoints := st_checkpoints st @ [[]]\<rparr>)"

definition discard_checkpoint :: "('b, 'l) state \<Rightarrow> ('b, 'l) state" where
  "discard_checkpoint st =
    (if st_checkpoints st = [] then st
     else let last_checkpoint = last (st_checkpoints st); rest = butlast (st_checkpoints st) in
       if rest = [] then st\<lparr>st_checkpoints := []\<rparr>
       else let prev = last rest;
           merged = (if prev = [] then last_checkpoint else fold (\<lambda>(k, v). or_insert k v) last_checkpoint prev)
         in st\<lparr>st_checkpoints := butlast rest @ [merged]\<rparr>)"

definition revert_entry ::
  "'l crates \<Rightarrow> address \<times> 'l account_entry option \<Rightarrow> (address \<times> 'l account_entry) list \<Rightarrow>
   (address \<times> 'l account_entry) list" where
  "revert_entry C kv cache = (case kv of
      (k, Some v) \<Rightarrow> (case map_of cache k of
          Some e \<Rightarrow> AList.update k (entry_overwrite_with C v e) cache
        | None \<Rightarrow> AList.update k v cache)
    | (k, None) \<Rightarrow> (case map_of cache k of
          Some e \<Rightarrow> if is_dirty e then AList.delete k cache else cache
        | None \<Rightarrow> cache))"

definition revert_to_checkpoint :: "'l crates \<Rightarrow> ('b, 'l) state \<Rightarrow> ('b, 'l) state" where
  "revert_to_checkpoint C st =
    (if st_checkpoints st = [] then st
     else st\<lparr>st_checkpoints := butlast (st_checkpoints st),
             st_cache := fold (revert_entry C) (last (st_checkpoints st)) (st_cache st)\<rparr>)"

text \<open>\<open>if let Some(checkpoint) = checkpoints.last_mut()\<close>.\<close>

definition on_last_checkpoint ::
  "((address \<times> 'l account_entry option) list \<Rightarrow> (address \<times> 'l account_entry option) list) \<Rightarrow>
   ('b, 'l) state \<Rightarrow> ('b, 'l) state" where
  "on_last_checkpoint f st =
    (if st_checkpoints st = [] then st
     else st\<lparr>st_checkpoints := butlast (st_checkpoints st) @ [f (last (st_checkpoints st))]\<rparr>)"

definition insert_cache :: "address \<Rightarrow> 'l account_entry \<Rightarrow> ('b, 'l) state \<Rightarrow> ('b, 'l) state" where
  "insert_cache a e st =
    (let old_value = map_of (st_cache st) a;
         st' = st\<lparr>st_cache := AList.update a e (st_cache st)\<rparr>
     in if is_dirty e then on_last_checkpoint (or_insert a old_value) st' else st')"

definition note_cache :: "'l crates \<Rightarrow> address \<Rightarrow> ('b, 'l) state \<Rightarrow> ('b, 'l) state" where
  "note_cache C a st =
    on_last_checkpoint (or_insert a (map_option (entry_clone_dirty C) (map_of (st_cache st) a))) st"

section \<open>Loading accounts\<close>

definition update_account_cache ::
  "'l crates \<Rightarrow> ('b, 'l) backend \<Rightarrow> require_cache \<Rightarrow> account_db \<Rightarrow> 'l account \<Rightarrow> 'b \<Rightarrow> bool \<times> 'l account \<times> 'b" where
  "update_account_cache C B req db ac b =
    (if req = Require_None then (True, ac, b)
     else if is_cached C ac then (True, ac, b)
     else let h = ac_code_hash ac in
       case be_get_cached_code B h b of
         (Some code, b') \<Rightarrow> (True, cache_given_code code ac, b')
       | (None, b') \<Rightarrow> (case req of
           Require_None \<Rightarrow> (True, ac, b')
         | Require_Code \<Rightarrow> (case cache_code C db ac of
             (Some code, ac') \<Rightarrow> (True, ac', be_cache_code B h code b')
           | (None, ac') \<Rightarrow> (False, ac', b'))
         | Require_CodeSize \<Rightarrow> (let (ok, ac') = cache_code_size C db ac in (ok, ac', b'))))"

text \<open>The shared start of all three places that load code: the account database is found by the address hash.\<close>

definition load_code ::
  "'l crates \<Rightarrow> ('b, 'l) backend \<Rightarrow> address \<Rightarrow> require_cache \<Rightarrow> 'l account \<Rightarrow> 'b \<Rightarrow> bool \<times> 'l account \<times> 'b" where
  "load_code C B a req ac b =
    (let (h, ac') = address_hash C a ac in update_account_cache C B req (be_account_db B h b) ac' b)"

definition put_account :: "address \<Rightarrow> 'l account \<Rightarrow> ('b, 'l) state \<Rightarrow> ('b, 'l) state" where
  "put_account a ac st = (case map_of (st_cache st) a of
      Some e \<Rightarrow> st\<lparr>st_cache := AList.update a (e\<lparr>en_account := Some ac\<rparr>) (st_cache st)\<rparr>
    | None \<Rightarrow> st)"

definition set_db :: "'b \<Rightarrow> ('b, 'l) state \<Rightarrow> ('b, 'l) state" where
  "set_db b st = st\<lparr>st_db := b\<rparr>"

definition ensure_cached ::
  "'l crates \<Rightarrow> ('b, 'l) backend \<Rightarrow> address \<Rightarrow> require_cache \<Rightarrow> bool \<Rightarrow> ('l account option \<Rightarrow> 'u) \<Rightarrow>
   ('b, 'l, 'u) state_action" where
  "ensure_cached C B a req check_null f st =
    (let incomplete = Err (IncompleteDatabase (address_to_h256 a)) in
     case map_of (st_cache st) a of
       Some e \<Rightarrow> (case en_account e of
           Some ac \<Rightarrow>
             (case load_code C B a req ac (st_db st) of (ok, ac', b) \<Rightarrow>
                (if ok then Ok (f (Some ac')) else incomplete, put_account a ac' (set_db b st)))
         | None \<Rightarrow> (Ok (f None), st))
     | None \<Rightarrow> (case be_get_cached B a (st_db st) of
         (Some (Some ac), b) \<Rightarrow>
           (case load_code C B a req ac b of (ok, ac', b') \<Rightarrow>
              (if ok then Ok (f (Some ac')) else incomplete, set_db (be_set_cached B a ac' b') st))
       | (Some None, b) \<Rightarrow> (Ok (f None), set_db b st)
       | (None, b) \<Rightarrow>
           if check_null \<and> be_is_known_null B a b then (Ok (f None), set_db b st)
           else
             bind (lift (be_open_trie B (st_root st) b)) (\<lambda>_.
             bind (lift (be_get_account B (st_root st) a b)) (\<lambda>maybe_acc.
             case maybe_acc of
               Some basic \<Rightarrow> (\<lambda>st.
                 case load_code C B a req (account_from C basic) b of (ok, ac', b') \<Rightarrow>
                   if ok then (Ok (f (Some ac')), insert_cache a (new_clean (Some ac')) (set_db b' st))
                   else (incomplete, set_db b' st))
             | None \<Rightarrow> (\<lambda>st. (Ok (f None), insert_cache a (new_clean None) st)))) (set_db b st)))"

text \<open>
  \<open>require_or_from\<close> returns a mutable reference to the cached account; its callers' changes through that
  reference are \<open>modify (on_account a f)\<close>.
\<close>

definition on_account :: "address \<Rightarrow> ('l account \<Rightarrow> 'l account) \<Rightarrow> ('b, 'l) state \<Rightarrow> ('b, 'l) state" where
  "on_account a f st = (case map_of (st_cache st) a of
      Some e \<Rightarrow> st\<lparr>st_cache := AList.update a (e\<lparr>en_account := map_option f (en_account e)\<rparr>) (st_cache st)\<rparr>
    | None \<Rightarrow> st)"

definition fetch_entry :: "'l crates \<Rightarrow> ('b, 'l) backend \<Rightarrow> address \<Rightarrow> ('b, 'l, unit) state_action" where
  "fetch_entry C B a st =
    (if map_of (st_cache st) a \<noteq> None then (Ok (), st)
     else case be_get_cached_account B a (st_db st) of
       (Some acc, b) \<Rightarrow> (Ok (), insert_cache a (new_clean_cached acc) (set_db b st))
     | (None, b) \<Rightarrow>
         bind (if \<not> be_is_known_null B a b then
                 bind (lift (be_open_trie B (st_root st) b)) (\<lambda>_.
                 bind (lift (be_get_account B (st_root st) a b)) (\<lambda>basic.
                 ret (new_clean (map_option (account_from C) basic))))
               else ret (new_clean None)) (\<lambda>e.
         modify (insert_cache a e)) (set_db b st))"

definition require_or_from ::
  "'l crates \<Rightarrow> ('b, 'l) backend \<Rightarrow> address \<Rightarrow> bool \<Rightarrow> (('b, 'l) state \<Rightarrow> 'l account) \<Rightarrow> ('l account \<Rightarrow> 'l account) \<Rightarrow>
   ('b, 'l, unit) state_action" where
  "require_or_from C B a require_code mk_default not_default =
    bind (fetch_entry C B a) (\<lambda>_.
    bind (modify (note_cache C a)) (\<lambda>_.
    bind (gets (\<lambda>st. map_of (st_cache st) a)) (\<lambda>found.
    bind (lift (expect found)) (\<lambda>e.
    bind (modify (\<lambda>st. st\<lparr>st_cache := AList.update a (e\<lparr>en_state := Entry_Dirty,
        en_account := Some (case en_account e of Some ac \<Rightarrow> not_default ac | None \<Rightarrow> mk_default st)\<rparr>) (st_cache st)\<rparr>)) (\<lambda>_.
    if require_code then (\<lambda>st.
      case Option.bind (map_of (st_cache st) a) en_account of
        Some ac \<Rightarrow>
          (case load_code C B a Require_Code ac (st_db st) of (ok, ac', b) \<Rightarrow>
            (if ok then Ok () else Err (IncompleteDatabase (address_to_h256 a)), put_account a ac' (set_db b st)))
      | None \<Rightarrow> (Panic, st))
    else ret ())))))"

definition require :: "'l crates \<Rightarrow> ('b, 'l) backend \<Rightarrow> address \<Rightarrow> bool \<Rightarrow> ('b, 'l, unit) state_action" where
  "require C B a require_code =
    require_or_from C B a require_code (\<lambda>st. new_basic C 0 (st_account_start_nonce st)) (\<lambda>ac. ac)"

section \<open>Queries\<close>

definition state_exists :: "'l crates \<Rightarrow> ('b, 'l) backend \<Rightarrow> address \<Rightarrow> ('b, 'l, bool) state_action" where
  "state_exists C B a = ensure_cached C B a Require_None False (\<lambda>ac. ac \<noteq> None)"

definition state_exists_and_not_null :: "'l crates \<Rightarrow> ('b, 'l) backend \<Rightarrow> address \<Rightarrow> ('b, 'l, bool) state_action" where
  "state_exists_and_not_null C B a = ensure_cached C B a Require_None False
     (\<lambda>ac. case ac of Some ac \<Rightarrow> \<not> is_null C ac | None \<Rightarrow> False)"

definition exists_and_has_code_or_nonce ::
  "'l crates \<Rightarrow> ('b, 'l) backend \<Rightarrow> address \<Rightarrow> ('b, 'l, bool) state_action" where
  "exists_and_has_code_or_nonce C B a =
    bind (gets st_account_start_nonce) (\<lambda>start.
    ensure_cached C B a Require_CodeSize False
      (\<lambda>ac. case ac of Some ac \<Rightarrow> ac_code_hash ac \<noteq> cr_KECCAK_EMPTY C \<or> ac_nonce ac \<noteq> start | None \<Rightarrow> False))"

definition state_balance :: "'l crates \<Rightarrow> ('b, 'l) backend \<Rightarrow> address \<Rightarrow> ('b, 'l, u256) state_action" where
  "state_balance C B a = ensure_cached C B a Require_None True
     (\<lambda>ac. case ac of Some ac \<Rightarrow> ac_balance ac | None \<Rightarrow> 0)"

definition state_nonce :: "'l crates \<Rightarrow> ('b, 'l) backend \<Rightarrow> address \<Rightarrow> ('b, 'l, u256) state_action" where
  "state_nonce C B a =
    bind (gets st_account_start_nonce) (\<lambda>start.
    ensure_cached C B a Require_None True (\<lambda>ac. case ac of Some ac \<Rightarrow> ac_nonce ac | None \<Rightarrow> start))"

definition is_base_storage_root_unchanged ::
  "'l crates \<Rightarrow> ('b, 'l) backend \<Rightarrow> address \<Rightarrow> ('b, 'l, bool) state_action" where
  "is_base_storage_root_unchanged C B a =
    bind (ensure_cached C B a Require_None True (map_option account_is_base_storage_root_unchanged)) (\<lambda>r.
    ret (case r of Some v \<Rightarrow> v | None \<Rightarrow> True))"

definition state_storage_root :: "'l crates \<Rightarrow> ('b, 'l) backend \<Rightarrow> address \<Rightarrow> ('b, 'l, h256 option) state_action" where
  "state_storage_root C B a = ensure_cached C B a Require_None True (\<lambda>ac. Option.bind ac account_storage_root)"

definition original_storage_root :: "'l crates \<Rightarrow> ('b, 'l) backend \<Rightarrow> address \<Rightarrow> ('b, 'l, h256) state_action" where
  "original_storage_root C B a =
    bind (ensure_cached C B a Require_None True (map_option account_original_storage_root)) (\<lambda>r.
    ret (case r of Some v \<Rightarrow> v | None \<Rightarrow> cr_KECCAK_NULL_RLP C))"

definition state_code :: "'l crates \<Rightarrow> ('b, 'l) backend \<Rightarrow> address \<Rightarrow> ('b, 'l, bytes option) state_action" where
  "state_code C B a = ensure_cached C B a Require_Code True (\<lambda>ac. Option.bind ac (account_code C))"

definition state_code_hash :: "'l crates \<Rightarrow> ('b, 'l) backend \<Rightarrow> address \<Rightarrow> ('b, 'l, h256 option) state_action" where
  "state_code_hash C B a = ensure_cached C B a Require_None True (map_option ac_code_hash)"

definition state_code_size :: "'l crates \<Rightarrow> ('b, 'l) backend \<Rightarrow> address \<Rightarrow> ('b, 'l, nat option) state_action" where
  "state_code_size C B a = ensure_cached C B a Require_CodeSize True (\<lambda>ac. Option.bind ac ac_code_size)"

section \<open>Storage\<close>

definition read_storage ::
  "'l crates \<Rightarrow> ('b, 'l) backend \<Rightarrow> address \<Rightarrow> h256 \<Rightarrow> (account_db \<Rightarrow> h256 \<Rightarrow> ('l account, trie_error, h256) action) \<Rightarrow>
   'b \<Rightarrow> ('l account, trie_error, h256) action" where
  "read_storage C B a key f_at b ac =
    (let (h, ac') = address_hash C a ac in f_at (be_account_db B h b) key ac')"

definition storage_at_global ::
  "'l crates \<Rightarrow> ('b, 'l) backend \<Rightarrow> address \<Rightarrow> h256 \<Rightarrow> (account_db \<Rightarrow> h256 \<Rightarrow> ('l account, trie_error, h256) action) \<Rightarrow>
   'l account option \<Rightarrow> ('b, 'l, h256) state_action" where
  "storage_at_global C B a key f_at local_account st = (case be_get_cached B a (st_db st) of
      (Some None, b) \<Rightarrow> (Ok 0, set_db b st)
    | (Some (Some ac), b) \<Rightarrow>
        (case read_storage C B a key f_at b ac of (r, ac') \<Rightarrow> (r, set_db (be_set_cached B a ac' b) st))
    | (None, b) \<Rightarrow> (case local_account of
        Some ac \<Rightarrow>
          (case read_storage C B a key f_at b ac of (r, ac') \<Rightarrow> (r, put_account a ac' (set_db b st)))
      | None \<Rightarrow>
          if be_is_known_null B a b then (Ok 0, set_db b st)
          else
            bind (\<lambda>st. case be_open_trie B (st_root st) b of Ok _ \<Rightarrow> (Ok (), st) | _ \<Rightarrow> (Panic, st)) (\<lambda>_.
            bind (lift (be_get_account B (st_root st) a b)) (\<lambda>maybe_acc. (\<lambda>st.
            case maybe_acc of
              Some basic \<Rightarrow>
                (case read_storage C B a key f_at b (account_from C basic) of (r, ac') \<Rightarrow>
                  (r, if r = Panic then st else insert_cache a (new_clean (Some ac')) st))
            | None \<Rightarrow> (Ok 0, insert_cache a (new_clean None) st)))) (set_db b st)))"

definition storage_at_inner ::
  "'l crates \<Rightarrow> ('b, 'l) backend \<Rightarrow> address \<Rightarrow> h256 \<Rightarrow> (h256 \<Rightarrow> 'l account \<Rightarrow> h256 option \<times> 'l account) \<Rightarrow>
   (account_db \<Rightarrow> h256 \<Rightarrow> ('l account, trie_error, h256) action) \<Rightarrow> ('b, 'l, h256) state_action" where
  "storage_at_inner C B a key f_cached_at f_at st = (case map_of (st_cache st) a of
      Some e \<Rightarrow> (case en_account e of
          Some ac \<Rightarrow> (case f_cached_at key ac of
              (Some v, ac') \<Rightarrow> (Ok v, put_account a ac' st)
            | (None, ac') \<Rightarrow> storage_at_global C B a key f_at (Some ac') (put_account a ac' st))
        | None \<Rightarrow> (Ok 0, st))
    | None \<Rightarrow> storage_at_global C B a key f_at None st)"

definition state_storage_at :: "'l crates \<Rightarrow> ('b, 'l) backend \<Rightarrow> address \<Rightarrow> h256 \<Rightarrow> ('b, 'l, h256) state_action" where
  "state_storage_at C B a key = storage_at_inner C B a key (cached_storage_at C) (account_storage_at C)"

definition original_storage_at :: "'l crates \<Rightarrow> ('b, 'l) backend \<Rightarrow> address \<Rightarrow> h256 \<Rightarrow> ('b, 'l, h256) state_action" where
  "original_storage_at C B a key = storage_at_inner C B a key (cached_original_storage_at C) (account_original_storage_at C)"

datatype return_kind = OriginalAt | SameAsNext

definition put_checkpoint_account :: "nat \<Rightarrow> address \<Rightarrow> 'l account_entry \<Rightarrow> ('b, 'l) state \<Rightarrow> ('b, 'l) state" where
  "put_checkpoint_account i a e st =
    st\<lparr>st_checkpoints := (st_checkpoints st)[i := AList.update a (Some e) (st_checkpoints st ! i)]\<rparr>"

primrec scan_checkpoints ::
  "'l crates \<Rightarrow> ('b, 'l) backend \<Rightarrow> address \<Rightarrow> h256 \<Rightarrow> return_kind option \<Rightarrow> nat list \<Rightarrow>
   ('b, 'l, h256 + return_kind option) state_action" where
  "scan_checkpoints C B a key kind [] = ret (Inr kind)"
| "scan_checkpoints C B a key kind (i # is) =
    bind (gets (\<lambda>st. map_of (st_checkpoints st ! i) a)) (\<lambda>found. case found of
      Some (Some e) \<Rightarrow> (case en_account e of
          Some ac \<Rightarrow>
            (let (cached, ac') = cached_storage_at C key ac in
             bind (modify (put_checkpoint_account i a (e\<lparr>en_account := Some ac'\<rparr>))) (\<lambda>_. case cached of
               Some v \<Rightarrow> ret (Inl v)
             | None \<Rightarrow>
                 bind (original_storage_root C B a) (\<lambda>root.
                 if base_storage_root ac' = root then ret (Inr (Some OriginalAt)) else ret (Inl 0))))
        | None \<Rightarrow> ret (Inl 0))
    | Some None \<Rightarrow> ret (Inr (Some OriginalAt))
    | None \<Rightarrow> scan_checkpoints C B a key (Some SameAsNext) is)"

definition checkpoint_storage_at ::
  "'l crates \<Rightarrow> ('b, 'l) backend \<Rightarrow> nat \<Rightarrow> address \<Rightarrow> h256 \<Rightarrow> ('b, 'l, h256 option) state_action" where
  "checkpoint_storage_at C B start_checkpoint_index a key =
    bind (gets (\<lambda>st. length (st_checkpoints st))) (\<lambda>n.
    if n \<le> start_checkpoint_index then ret None else
    bind (scan_checkpoints C B a key None [start_checkpoint_index..<n]) (\<lambda>r. case r of
      Inl v \<Rightarrow> ret (Some v)
    | Inr kind \<Rightarrow>
        bind (lift (expect kind)) (\<lambda>kind. case kind of
          SameAsNext \<Rightarrow> bind (state_storage_at C B a key) (\<lambda>v. ret (Some v))
        | OriginalAt \<Rightarrow> bind (original_storage_at C B a key) (\<lambda>v. ret (Some v)))))"

definition state_set_storage ::
  "'l crates \<Rightarrow> ('b, 'l) backend \<Rightarrow> address \<Rightarrow> h256 \<Rightarrow> h256 \<Rightarrow> ('b, 'l, unit) state_action" where
  "state_set_storage C B a key v =
    bind (state_storage_at C B a key) (\<lambda>current.
    if current \<noteq> v then
      bind (require C B a False) (\<lambda>_. modify (on_account a (account_set_storage key v)))
    else ret ())"

section \<open>Contracts\<close>

definition state_new_contract ::
  "'l crates \<Rightarrow> ('b, 'l) backend \<Rightarrow> address \<Rightarrow> u256 \<Rightarrow> u256 \<Rightarrow> ('b, 'l, unit) state_action" where
  "state_new_contract C B contract balance nonce_offset =
    bind (original_storage_root C B contract) (\<lambda>root.
    bind (gets (\<lambda>st. overflowing_add (st_account_start_nonce st) nonce_offset)) (\<lambda>(nonce, overflow).
    if overflow then fail (DecoderError (address_to_h256 contract) ''Nonce overflow'')
    else modify (insert_cache contract (new_dirty (Some (new_contract C balance nonce root))))))"

definition kill_account :: "address \<Rightarrow> ('b, 'l) state \<Rightarrow> ('b, 'l) state" where
  "kill_account a = insert_cache a (new_dirty None)"

definition state_init_code :: "'l crates \<Rightarrow> ('b, 'l) backend \<Rightarrow> address \<Rightarrow> bytes \<Rightarrow> ('b, 'l, unit) state_action" where
  "state_init_code C B a code =
    bind (require_or_from C B a True (\<lambda>st. new_contract C 0 (st_account_start_nonce st) (cr_KECCAK_NULL_RLP C)) (\<lambda>ac. ac)) (\<lambda>_.
    modify (on_account a (init_code C code)))"

definition state_reset_code :: "'l crates \<Rightarrow> ('b, 'l) backend \<Rightarrow> address \<Rightarrow> bytes \<Rightarrow> ('b, 'l, unit) state_action" where
  "state_reset_code C B a code =
    bind (require_or_from C B a True (\<lambda>st. new_contract C 0 (st_account_start_nonce st) (cr_KECCAK_NULL_RLP C)) (\<lambda>ac. ac)) (\<lambda>_.
    modify (on_account a (reset_code C code)))"

definition patch_account ::
  "'l crates \<Rightarrow> ('b, 'l) backend \<Rightarrow> address \<Rightarrow> bytes \<Rightarrow> (h256 \<times> h256) list \<Rightarrow> ('b, 'l, unit) state_action" where
  "patch_account C B a code storage =
    bind (require C B a False) (\<lambda>_. modify (on_account a (reset_code_and_storage C code storage)))"

section \<open>Balances and nonces\<close>

type_synonym ('b, 'l, 'a) touch_action = "(('b, 'l) state \<times> address set, trie_error, 'a) action"

definition on_state :: "('s, 'e, 'a) action \<Rightarrow> ('s \<times> 't, 'e, 'a) action" where
  "on_state m st = (let (r, s') = m (fst st) in (r, s', snd st))"

definition mark_touched :: "address \<Rightarrow> ('s \<times> address set, 'e, unit) action" where
  "mark_touched a = modify (\<lambda>(s, touched). (s, insert a touched))"

definition touch :: "'l crates \<Rightarrow> ('b, 'l) backend \<Rightarrow> address \<Rightarrow> ('b, 'l, unit) state_action" where
  "touch C B a = require C B a False"

text \<open>The change of the required account: \<open>self.require(a, false)?.add_balance(incr)\<close> and its counterpart.\<close>

definition add_account_balance :: "'l crates \<Rightarrow> ('b, 'l) backend \<Rightarrow> address \<Rightarrow> u256 \<Rightarrow> ('b, 'l, unit) state_action" where
  "add_account_balance C B a incr = bind (require C B a False) (\<lambda>_. modify (on_account a (account_add_balance incr)))"

definition sub_account_balance :: "'l crates \<Rightarrow> ('b, 'l) backend \<Rightarrow> address \<Rightarrow> u256 \<Rightarrow> ('b, 'l, unit) state_action" where
  "sub_account_balance C B a decr = bind (require C B a False) (\<lambda>_ st.
    case Option.bind (map_of (st_cache st) a) en_account of
      Some ac \<Rightarrow> (case account_sub_balance decr ac of
          Ok ac' \<Rightarrow> (Ok (), on_account a (\<lambda>_. ac') st)
        | Err e \<Rightarrow> (Err e, st)
        | Panic \<Rightarrow> (Panic, st))
    | None \<Rightarrow> (Panic, st))"

definition add_balance ::
  "'l crates \<Rightarrow> ('b, 'l) backend \<Rightarrow> address \<Rightarrow> u256 \<Rightarrow> cleanup_mode \<Rightarrow> ('b, 'l, unit) touch_action" where
  "add_balance C B a incr mode =
    (let is_value_transfer = incr \<noteq> 0 in
     bind (if is_value_transfer then ret True
           else if mode = ForceCreate then bind (on_state (state_exists C B a)) (\<lambda>x. ret (\<not> x))
           else ret False) (\<lambda>change.
     if change then on_state (add_account_balance C B a incr)
     else if mode = TrackTouched then
       bind (on_state (state_exists C B a)) (\<lambda>x.
       if x then bind (mark_touched a) (\<lambda>_. on_state (touch C B a)) else ret ())
     else ret ()))"

definition sub_balance ::
  "'l crates \<Rightarrow> ('b, 'l) backend \<Rightarrow> address \<Rightarrow> u256 \<Rightarrow> cleanup_mode \<Rightarrow> ('b, 'l, unit) touch_action" where
  "sub_balance C B a decr mode =
    bind (if decr \<noteq> 0 then ret True else bind (on_state (state_exists C B a)) (\<lambda>x. ret (\<not> x))) (\<lambda>change.
    bind (if change then on_state (sub_account_balance C B a decr) else ret ()) (\<lambda>_.
    if mode = TrackTouched then mark_touched a else ret ()))"

definition transfer_balance ::
  "'l crates \<Rightarrow> ('b, 'l) backend \<Rightarrow> address \<Rightarrow> address \<Rightarrow> u256 \<Rightarrow> cleanup_mode \<Rightarrow> ('b, 'l, unit) touch_action" where
  "transfer_balance C B from to by_amount mode =
    bind (sub_balance C B from by_amount mode) (\<lambda>_. add_balance C B to by_amount mode)"

definition transfer_balance_from_public_to_private ::
  "'l crates \<Rightarrow> ('b, 'l) backend \<Rightarrow> address \<Rightarrow> address \<Rightarrow> u256 \<Rightarrow> cleanup_mode \<Rightarrow> ('b, 'l, unit) touch_action" where
  "transfer_balance_from_public_to_private C B from to by_amount mode = sub_balance C B from by_amount mode"

definition transfer_balance_from_private_to_public ::
  "'l crates \<Rightarrow> ('b, 'l) backend \<Rightarrow> address \<Rightarrow> address \<Rightarrow> u256 \<Rightarrow> cleanup_mode \<Rightarrow> ('b, 'l, unit) touch_action" where
  "transfer_balance_from_private_to_public C B from to by_amount mode = add_balance C B to by_amount mode"

definition state_inc_nonce :: "'l crates \<Rightarrow> ('b, 'l) backend \<Rightarrow> address \<Rightarrow> ('b, 'l, unit) state_action" where
  "state_inc_nonce C B a = bind (require C B a False) (\<lambda>_. modify (on_account a account_inc_nonce))"

section \<open>Housekeeping\<close>

definition clear :: "('b, 'l, unit) state_action" where
  "clear st = (if st_checkpoints st = [] then (Ok (), st\<lparr>st_cache := []\<rparr>) else (Panic, st))"

definition garbage ::
  "'l crates \<Rightarrow> address set \<Rightarrow> bool \<Rightarrow> u256 option \<Rightarrow> bool \<Rightarrow> address \<times> 'l account_entry \<Rightarrow> bool" where
  "garbage C touched remove_empty_touched min_balance kill_contracts = (\<lambda>(a, e).
     a \<in> touched \<and>
     ((remove_empty_touched \<and> exists_and_is_null C e) \<or>
      (case min_balance of None \<Rightarrow> False | Some balance \<Rightarrow>
       (case en_account e of None \<Rightarrow> False | Some ac \<Rightarrow>
         (is_basic C ac \<or> kill_contracts) \<and> ac_balance ac < balance \<and>
         (case en_old_balance e of Some b \<Rightarrow> ac_balance ac < b | None \<Rightarrow> False)))))"

definition kill_garbage ::
  "'l crates \<Rightarrow> address set \<Rightarrow> bool \<Rightarrow> u256 option \<Rightarrow> bool \<Rightarrow> ('b, 'l) state \<Rightarrow> ('b, 'l) state" where
  "kill_garbage C touched remove_empty_touched min_balance kill_contracts st =
    (let to_kill = map fst (filter (garbage C touched remove_empty_touched min_balance kill_contracts) (st_cache st))
     in fold kill_account to_kill st)"

definition propagate_to_global_cache :: "('b, 'l) backend \<Rightarrow> ('b, 'l) state \<Rightarrow> ('b, 'l) state" where
  "propagate_to_global_cache B st =
    st\<lparr>st_cache := [],
       st_db := fold (\<lambda>(a, e). be_add_to_account_cache B a (en_account e) (en_state e = Committed))
         (filter (\<lambda>(a, e). en_state e = Committed \<or> en_state e = CleanFresh) (st_cache st)) (st_db st)\<rparr>"

definition state_drop :: "('b, 'l) backend \<Rightarrow> ('b, 'l) state \<Rightarrow> h256 \<times> 'b" where
  "state_drop B st = (let st' = propagate_to_global_cache B st in (st_root st', st_db st'))"

end
