(* ===== verification/Substate.thy ===== *)
theory Substate
  imports State
begin

text \<open>
  The changes of a transaction that are applied when it is finalized: src/ethcore/src/state/substate.rs,
  with the log entries of src/ethcore/types/src/log_entry.rs. The refund counter is an \<open>i128\<close>: an
  operation that leaves its range panics.
\<close>

record log_entry =
  log_address :: address
  log_topics :: "h256 list"
  log_data :: bytes

record substate =
  sub_suicides :: "address set"
  sub_touched :: "address set"
  sub_logs :: "log_entry list"
  sub_sstore_clears_refund :: int
  sub_contracts_created :: "address list"

definition new_substate :: substate where
  "new_substate = \<lparr>sub_suicides = {}, sub_touched = {}, sub_logs = [], sub_sstore_clears_refund = 0,
     sub_contracts_created = []\<rparr>"

definition i128_range :: "int \<Rightarrow> bool" where
  "i128_range x \<longleftrightarrow> - (2 ^ 127) \<le> x \<and> x < 2 ^ 127"

definition add_refund :: "int \<Rightarrow> substate \<Rightarrow> ('e, substate) outcome" where
  "add_refund v sub =
    (if i128_range (sub_sstore_clears_refund sub + v)
     then Ok (sub\<lparr>sub_sstore_clears_refund := sub_sstore_clears_refund sub + v\<rparr>) else Panic)"

definition accrue :: "substate \<Rightarrow> substate \<Rightarrow> ('e, substate) outcome" where
  "accrue s self =
    and_then (add_refund (sub_sstore_clears_refund s) self) (\<lambda>self.
    Ok (self\<lparr>sub_suicides := sub_suicides self \<union> sub_suicides s, sub_touched := sub_touched self \<union> sub_touched s,
      sub_logs := sub_logs self @ sub_logs s,
      sub_contracts_created := sub_contracts_created self @ sub_contracts_created s\<rparr>))"

definition to_cleanup_mode :: "schedule \<Rightarrow> cleanup_mode" where
  "to_cleanup_mode s =
    (if sch_kill_dust s \<noteq> Off then TrackTouched
     else if \<not> sch_no_empty s then ForceCreate
     else if \<not> sch_kill_empty s then NoEmpty
     else TrackTouched)"

end
