(* ===== verification/Externalities.thy ===== *)
theory Externalities
  imports Substate
begin

text \<open>
  The implementation of \<open>Ext\<close> over the state: src/ethcore/src/externalities.rs, with the three helpers it
  takes from src/ethcore/src/executive.rs.

  The executive that \<open>call\<close> and \<open>create\<close> start when they may not trap, and \<open>blockhash\<close> after EIP-210, is a
  parameter: the record \<open>executive_ops\<close>, given the fields of the constructor and run on what it borrows
  mutably (state, substate, tracers). The tracers are the generic parameters \<open>T\<close> and \<open>V\<close> of the source.
\<close>

section \<open>Addresses and results of nested executions\<close>

definition UNSIGNED_SENDER :: address where
  "UNSIGNED_SENDER = - 1"

definition hash_to_address :: "h256 \<Rightarrow> address" where
  "hash_to_address h = ucast h"

definition contract_address ::
  "'l crates \<Rightarrow> create_contract_address \<Rightarrow> address \<Rightarrow> u256 \<Rightarrow> bytes \<Rightarrow> address \<times> h256 option" where
  "contract_address C scheme sender nonce code = (case scheme of
      FromSenderAndNonce \<Rightarrow> (hash_to_address (cr_keccak C (cr_rlp_sender_nonce C sender nonce)), None)
    | FromSenderSaltAndCodeHash salt \<Rightarrow>
        let code_hash = cr_keccak C code;
            buffer = [255] @ address_bytes sender @ to_big_endian salt @ to_big_endian code_hash
        in (hash_to_address (cr_keccak C buffer), Some code_hash)
    | FromSenderAndCodeHash \<Rightarrow>
        let code_hash = cr_keccak C code;
            buffer = address_bytes sender @ to_big_endian code_hash
        in (hash_to_address (cr_keccak C buffer), Some code_hash))"

text \<open>The results come as values: \<open>Inl\<close> an error.\<close>

definition into_message_call_result :: "vm_error + finalization_result \<Rightarrow> message_call_result" where
  "into_message_call_result r = (case r of
      Inr fin \<Rightarrow>
        if fin_apply_state fin then Call_Success (fin_gas_left fin) (fin_return_data fin)
        else Call_Reverted (fin_gas_left fin) (fin_return_data fin)
    | Inl _ \<Rightarrow> Call_Failed)"

definition into_contract_create_result ::
  "vm_error + finalization_result \<Rightarrow> address \<Rightarrow> substate \<Rightarrow> contract_create_result \<times> substate" where
  "into_contract_create_result r a sub = (case r of
      Inr fin \<Rightarrow>
        if fin_apply_state fin
        then (Created a (fin_gas_left fin), sub\<lparr>sub_contracts_created := sub_contracts_created sub @ [a]\<rparr>)
        else (Create_Reverted (fin_gas_left fin) (fin_return_data fin), sub)
    | Inl _ \<Rightarrow> (Create_Failed, sub))"

section \<open>The externalities\<close>

datatype output_policy = Return | InitContract

record origin_info =
  oi_address :: address
  oi_origin :: address
  oi_gas_price :: u256
  oi_value :: u256

definition origin_info_from :: "action_params \<Rightarrow> origin_info" where
  "origin_info_from p = \<lparr>oi_address = ap_address p, oi_origin = ap_origin p, oi_gas_price = ap_gas_price p,
     oi_value = value_of (ap_value p)\<rparr>"

text \<open>The parameters of the machine that the externalities read.\<close>

record machine_params =
  mp_eip210_transition :: u64
  mp_eip210_contract_address :: address
  mp_eip210_contract_gas :: u256

text \<open>
  The tracers: \<open>Tracer\<close> over a state \<open>'t\<close> and \<open>VMTracer\<close> over \<open>'v\<close>. Finishing a trace panics where it does not
  match a trace that was prepared.
\<close>

record ('t, 'v) tracer_ops =
  tr_prepare_trace_call :: "action_params \<Rightarrow> nat \<Rightarrow> bool \<Rightarrow> 't \<Rightarrow> 't"
  tr_prepare_trace_create :: "action_params \<Rightarrow> 't \<Rightarrow> 't"
  tr_done_trace_call :: "u256 \<Rightarrow> bytes \<Rightarrow> ('t, vm_error, unit) action"
  tr_done_trace_create :: "u256 \<Rightarrow> bytes \<Rightarrow> address \<Rightarrow> ('t, vm_error, unit) action"
  tr_done_trace_failed :: "vm_error \<Rightarrow> ('t, vm_error, unit) action"
  tr_trace_suicide :: "address \<Rightarrow> u256 \<Rightarrow> address \<Rightarrow> 't \<Rightarrow> 't"
  vt_trace_next_instruction :: "nat \<Rightarrow> u8 \<Rightarrow> u256 \<Rightarrow> 'v \<Rightarrow> bool \<times> 'v"
  vt_trace_prepare_execute ::
    "nat \<Rightarrow> u8 \<Rightarrow> u256 \<Rightarrow> (nat \<times> nat) option \<Rightarrow> (u256 \<times> u256) option \<Rightarrow> 'v \<Rightarrow> 'v"
  vt_trace_executed :: "u256 \<Rightarrow> u256 list \<Rightarrow> bytes \<Rightarrow> 'v \<Rightarrow> 'v"
  vt_prepare_subtrace :: "bytes \<Rightarrow> 'v \<Rightarrow> 'v"
  vt_done_subtrace :: "'v \<Rightarrow> 'v"

definition noop_tracer_ops :: "(unit, unit) tracer_ops" where
  "noop_tracer_ops =
    \<lparr>tr_prepare_trace_call = (\<lambda>_ _ _ t. t), tr_prepare_trace_create = (\<lambda>_ t. t),
     tr_done_trace_call = (\<lambda>_ _. ret ()), tr_done_trace_create = (\<lambda>_ _ _. ret ()),
     tr_done_trace_failed = (\<lambda>_. ret ()), tr_trace_suicide = (\<lambda>_ _ _ t. t),
     vt_trace_next_instruction = (\<lambda>_ _ _ v. (False, v)), vt_trace_prepare_execute = (\<lambda>_ _ _ _ _ v. v),
     vt_trace_executed = (\<lambda>_ _ _ v. v), vt_prepare_subtrace = (\<lambda>_ v. v), vt_done_subtrace = (\<lambda>v. v)\<rparr>"

record ('b, 'l, 't, 'v) externalities =
  ex_state :: "('b, 'l) state"
  ex_env_info :: env_info
  ex_depth :: nat
  ex_stack_depth :: nat
  ex_origin_info :: origin_info
  ex_substate :: substate
  ex_machine :: machine_params
  ex_schedule :: schedule
  ex_output :: output_policy
  ex_tracer :: 't
  ex_vm_tracer :: 'v
  ex_static_flag :: bool

definition new_externalities ::
  "('b, 'l) state \<Rightarrow> env_info \<Rightarrow> machine_params \<Rightarrow> schedule \<Rightarrow> nat \<Rightarrow> nat \<Rightarrow> origin_info \<Rightarrow> substate \<Rightarrow>
   output_policy \<Rightarrow> 't \<Rightarrow> 'v \<Rightarrow> bool \<Rightarrow> ('b, 'l, 't, 'v) externalities" where
  "new_externalities st env machine s depth stack_depth origin sub output tracer vm_tracer static_flag =
    \<lparr>ex_state = st, ex_env_info = env, ex_depth = depth, ex_stack_depth = stack_depth, ex_origin_info = origin,
     ex_substate = sub, ex_machine = machine, ex_schedule = s, ex_output = output, ex_tracer = tracer,
     ex_vm_tracer = vm_tracer, ex_static_flag = static_flag\<rparr>"

type_synonym ('b, 'l, 't, 'v) borrowed = "('b, 'l) state \<times> substate \<times> 't \<times> 'v"

text \<open>\<open>xv_call env machine schedule depth static_flag params stack_depth\<close>, and \<open>xv_create\<close> alike.\<close>

record ('b, 'l, 't, 'v) executive_ops =
  xv_call :: "env_info \<Rightarrow> machine_params \<Rightarrow> schedule \<Rightarrow> nat \<Rightarrow> bool \<Rightarrow> action_params \<Rightarrow> nat \<Rightarrow>
    (('b, 'l, 't, 'v) borrowed, vm_error, finalization_result) action"
  xv_create :: "env_info \<Rightarrow> machine_params \<Rightarrow> schedule \<Rightarrow> nat \<Rightarrow> bool \<Rightarrow> action_params \<Rightarrow> nat \<Rightarrow>
    (('b, 'l, 't, 'v) borrowed, vm_error, finalization_result) action"

type_synonym ('b, 'l, 't, 'v, 'a) ext_action = "(('b, 'l, 't, 'v) externalities, vm_error, 'a) action"

section \<open>Running actions of the state\<close>

definition trie_to_vm :: "'l crates \<Rightarrow> trie_error \<Rightarrow> vm_error" where
  "trie_to_vm C e = Internal (''Internal error: '' @ cr_trie_error_text C e)"

text \<open>\<open>attempt\<close> gives the \<open>Result\<close> of a state action as a value, \<open>in_state\<close> propagates its error with \<open>?\<close>.\<close>

definition attempt :: "('b, 'l, 'a) state_action \<Rightarrow> ('b, 'l, 't, 'v, trie_error + 'a) ext_action" where
  "attempt m x = (case m (ex_state x) of
      (Ok v, st) \<Rightarrow> (Ok (Inr v), x\<lparr>ex_state := st\<rparr>)
    | (Err e, st) \<Rightarrow> (Ok (Inl e), x\<lparr>ex_state := st\<rparr>)
    | (Panic, st) \<Rightarrow> (Panic, x\<lparr>ex_state := st\<rparr>))"

definition in_state :: "'l crates \<Rightarrow> ('b, 'l, 'a) state_action \<Rightarrow> ('b, 'l, 't, 'v, 'a) ext_action" where
  "in_state C m = bind (attempt m) (\<lambda>r. case r of Inr v \<Rightarrow> ret v | Inl e \<Rightarrow> fail (trie_to_vm C e))"

text \<open>The balance operations also mark addresses in the substate's set.\<close>

definition in_touched :: "'l crates \<Rightarrow> ('b, 'l, 'a) touch_action \<Rightarrow> ('b, 'l, 't, 'v, 'a) ext_action" where
  "in_touched C m x = (case m (ex_state x, sub_touched (ex_substate x)) of (r, st, touched) \<Rightarrow>
    ((case r of Ok v \<Rightarrow> Ok v | Err e \<Rightarrow> Err (trie_to_vm C e) | Panic \<Rightarrow> Panic),
     x\<lparr>ex_state := st, ex_substate := (ex_substate x)\<lparr>sub_touched := touched\<rparr>\<rparr>))"

definition run_executive ::
  "(('b, 'l, 't, 'v) borrowed, vm_error, finalization_result) action \<Rightarrow>
   ('b, 'l, 't, 'v, vm_error + finalization_result) ext_action" where
  "run_executive m x = (case m (ex_state x, ex_substate x, ex_tracer x, ex_vm_tracer x) of
     (r, st, sub, t, v) \<Rightarrow>
       ((case r of Ok fin \<Rightarrow> Ok (Inr fin) | Err e \<Rightarrow> Ok (Inl e) | Panic \<Rightarrow> Panic),
        x\<lparr>ex_state := st, ex_substate := sub, ex_tracer := t, ex_vm_tracer := v\<rparr>))"

definition own_address :: "('b, 'l, 't, 'v) externalities \<Rightarrow> address" where
  "own_address x = oi_address (ex_origin_info x)"

section \<open>Storage and accounts\<close>

definition x_initial_storage_at ::
  "'l crates \<Rightarrow> ('b, 'l) backend \<Rightarrow> h256 \<Rightarrow> ('b, 'l, 't, 'v, h256) ext_action" where
  "x_initial_storage_at C B key =
    bind (gets own_address) (\<lambda>a.
    bind (in_state C (is_base_storage_root_unchanged C B a)) (\<lambda>unchanged.
    if unchanged then
      bind (in_state C (checkpoint_storage_at C B 0 a key)) (\<lambda>v. ret (case v of Some v \<Rightarrow> v | None \<Rightarrow> 0))
    else ret 0))"

definition x_storage_at :: "'l crates \<Rightarrow> ('b, 'l) backend \<Rightarrow> h256 \<Rightarrow> ('b, 'l, 't, 'v, h256) ext_action" where
  "x_storage_at C B key = bind (gets own_address) (\<lambda>a. in_state C (state_storage_at C B a key))"

definition x_set_storage :: "'l crates \<Rightarrow> ('b, 'l) backend \<Rightarrow> h256 \<Rightarrow> h256 \<Rightarrow> ('b, 'l, 't, 'v, unit) ext_action" where
  "x_set_storage C B key v =
    bind (gets ex_static_flag) (\<lambda>static_flag.
    if static_flag then fail MutableCallInStaticContext
    else bind (gets own_address) (\<lambda>a. in_state C (state_set_storage C B a key v)))"

definition x_exists :: "'l crates \<Rightarrow> ('b, 'l) backend \<Rightarrow> address \<Rightarrow> ('b, 'l, 't, 'v, bool) ext_action" where
  "x_exists C B a = in_state C (state_exists C B a)"

definition x_exists_and_not_null :: "'l crates \<Rightarrow> ('b, 'l) backend \<Rightarrow> address \<Rightarrow> ('b, 'l, 't, 'v, bool) ext_action" where
  "x_exists_and_not_null C B a = in_state C (state_exists_and_not_null C B a)"

definition x_balance :: "'l crates \<Rightarrow> ('b, 'l) backend \<Rightarrow> address \<Rightarrow> ('b, 'l, 't, 'v, u256) ext_action" where
  "x_balance C B a = in_state C (state_balance C B a)"

definition x_origin_balance :: "'l crates \<Rightarrow> ('b, 'l) backend \<Rightarrow> ('b, 'l, 't, 'v, u256) ext_action" where
  "x_origin_balance C B = bind (gets own_address) (\<lambda>a. x_balance C B a)"

definition x_extcode :: "'l crates \<Rightarrow> ('b, 'l) backend \<Rightarrow> address \<Rightarrow> ('b, 'l, 't, 'v, bytes option) ext_action" where
  "x_extcode C B a = in_state C (state_code C B a)"

definition x_extcodehash :: "'l crates \<Rightarrow> ('b, 'l) backend \<Rightarrow> address \<Rightarrow> ('b, 'l, 't, 'v, h256 option) ext_action" where
  "x_extcodehash C B a = in_state C (state_code_hash C B a)"

definition x_extcodesize :: "'l crates \<Rightarrow> ('b, 'l) backend \<Rightarrow> address \<Rightarrow> ('b, 'l, 't, 'v, nat option) ext_action" where
  "x_extcodesize C B a = in_state C (state_code_size C B a)"

section \<open>Block hashes\<close>

definition code_and_hash ::
  "'l crates \<Rightarrow> ('b, 'l) backend \<Rightarrow> address \<Rightarrow> ('b, 'l, bytes option \<times> h256 option) state_action" where
  "code_and_hash C B a =
    bind (state_code C B a) (\<lambda>code. bind (state_code_hash C B a) (\<lambda>h. ret (code, h)))"

definition blockhash_contract ::
  "'l crates \<Rightarrow> ('b, 'l) backend \<Rightarrow> ('b, 'l, 't, 'v) executive_ops \<Rightarrow> u256 \<Rightarrow> ('b, 'l, 't, 'v, h256) ext_action" where
  "blockhash_contract C B X number =
    bind (gets (\<lambda>x. x)) (\<lambda>x.
    let contract = mp_eip210_contract_address (ex_machine x) in
    bind (attempt (code_and_hash C B contract)) (\<lambda>code_res. case code_res of
      Inl _ \<Rightarrow> ret 0
    | Inr (code, code_hash) \<Rightarrow>
        let params = \<lparr>ap_code_address = contract, ap_code_hash = code_hash, ap_address = contract,
              ap_sender = own_address x, ap_origin = oi_origin (ex_origin_info x),
              ap_gas = mp_eip210_contract_gas (ex_machine x), ap_gas_price = 0,
              ap_value = Apparent (oi_value (ex_origin_info x)), ap_code = code,
              ap_data = Some (to_big_endian number), ap_call_type = CT_Call, ap_params_type = Separate,
              ap_is_input_private = False, ap_is_output_private = False\<rparr>
        in bind (run_executive (xv_call X (ex_env_info x) (ex_machine x) (ex_schedule x) 0 False params
             (ex_stack_depth x + 1))) (\<lambda>r. case r of
          Inr fin \<Rightarrow>
            bind (lift (return_data_deref (fin_return_data fin))) (\<lambda>bytes.
            if 32 \<le> length bytes then ret (be_word (take 32 bytes)) else panic)
        | Inl _ \<Rightarrow> ret 0)))"

definition recent_blockhash :: "env_info \<Rightarrow> u256 \<Rightarrow> ('e, h256) outcome" where
  "recent_blockhash env number =
    (let low = ucast number :: u64 in
     if number < ucast (env_number env) \<and> max 256 (env_number env) - 256 \<le> low then
       let index = unat (env_number env - low - 1) in
       and_then (assert_that (index < length (env_last_hashes env))) (\<lambda>_. Ok (env_last_hashes env ! index))
     else Ok 0)"

definition x_blockhash ::
  "'l crates \<Rightarrow> ('b, 'l) backend \<Rightarrow> ('b, 'l, 't, 'v) executive_ops \<Rightarrow> u256 \<Rightarrow> ('b, 'l, 't, 'v, h256) ext_action" where
  "x_blockhash C B X number =
    bind (gets (\<lambda>x. x)) (\<lambda>x.
    bind (lift (checked_plus (env_number (ex_env_info x)) 256)) (\<lambda>n.
    if mp_eip210_transition (ex_machine x) \<le> n then blockhash_contract C B X number
    else lift (recent_blockhash (ex_env_info x) number)))"

section \<open>Nested executions\<close>

definition create_params ::
  "('b, 'l, 't, 'v) externalities \<Rightarrow> address \<Rightarrow> h256 option \<Rightarrow> u256 \<Rightarrow> u256 \<Rightarrow> bytes \<Rightarrow> action_params" where
  "create_params x a code_hash gas v code =
    \<lparr>ap_code_address = a, ap_code_hash = code_hash, ap_address = a, ap_sender = own_address x,
     ap_origin = oi_origin (ex_origin_info x), ap_gas = gas, ap_gas_price = oi_gas_price (ex_origin_info x),
     ap_value = Transfer v, ap_code = Some code, ap_data = None, ap_call_type = CT_None,
     ap_params_type = Embedded, ap_is_input_private = False, ap_is_output_private = False\<rparr>"

definition x_create ::
  "'l crates \<Rightarrow> ('b, 'l) backend \<Rightarrow> ('b, 'l, 't, 'v) executive_ops \<Rightarrow> u256 \<Rightarrow> u256 \<Rightarrow> bytes \<Rightarrow> create_contract_address \<Rightarrow>
   bool \<Rightarrow> ('b, 'l, 't, 'v, trap_kind + contract_create_result) ext_action" where
  "x_create C B X gas v code scheme trap =
    bind (gets (\<lambda>x. x)) (\<lambda>x.
    bind (attempt (state_nonce C B (own_address x))) (\<lambda>nonce_res. case nonce_res of
      Inl _ \<Rightarrow> ret (Inr Create_Failed)
    | Inr nonce \<Rightarrow>
        let (a, code_hash) = contract_address C scheme (own_address x) nonce code;
            params = create_params x a code_hash gas v code
        in bind (if \<not> ex_static_flag x \<and> (\<not> sch_keep_unsigned_nonce (ex_schedule x) \<or> ap_sender params \<noteq> UNSIGNED_SENDER)
                 then attempt (state_inc_nonce C B (own_address x)) else ret (Inr ())) (\<lambda>inc. case inc of
          Inl _ \<Rightarrow> ret (Inr Create_Failed)
        | Inr _ \<Rightarrow>
            if trap then ret (Inl (Trap_Create params a)) else
            bind (run_executive (xv_create X (ex_env_info x) (ex_machine x) (ex_schedule x) (ex_depth x + 1)
              (ex_static_flag x) params (ex_stack_depth x + 1))) (\<lambda>out.
            bind (gets ex_substate) (\<lambda>sub.
            let (r, sub') = into_contract_create_result out a sub in
            bind (modify (\<lambda>x. x\<lparr>ex_substate := sub'\<rparr>)) (\<lambda>_. ret (Inr r)))))))"

definition call_params ::
  "('b, 'l, 't, 'v) externalities \<Rightarrow> bytes option \<Rightarrow> h256 option \<Rightarrow> u256 \<Rightarrow> address \<Rightarrow> address \<Rightarrow> u256 option \<Rightarrow> bytes \<Rightarrow>
   address \<Rightarrow> call_type \<Rightarrow> action_params" where
  "call_params x code code_hash gas sender_address receive_address val_opt input code_adr ct =
    \<lparr>ap_code_address = code_adr, ap_code_hash = code_hash, ap_address = receive_address,
     ap_sender = sender_address, ap_origin = oi_origin (ex_origin_info x), ap_gas = gas,
     ap_gas_price = oi_gas_price (ex_origin_info x),
     ap_value = (case val_opt of Some v \<Rightarrow> Transfer v | None \<Rightarrow> Apparent (oi_value (ex_origin_info x))),
     ap_code = code, ap_data = Some input, ap_call_type = ct, ap_params_type = Separate,
     ap_is_input_private = False, ap_is_output_private = False\<rparr>"

definition x_call ::
  "'l crates \<Rightarrow> ('b, 'l) backend \<Rightarrow> ('b, 'l, 't, 'v) executive_ops \<Rightarrow> u256 \<Rightarrow> address \<Rightarrow> address \<Rightarrow> u256 option \<Rightarrow> bytes \<Rightarrow>
   address \<Rightarrow> call_type \<Rightarrow> bool \<Rightarrow> ('b, 'l, 't, 'v, trap_kind + message_call_result) ext_action" where
  "x_call C B X gas sender_address receive_address val_opt input code_adr ct trap =
    bind (attempt (code_and_hash C B code_adr)) (\<lambda>code_res. case code_res of
      Inl _ \<Rightarrow> ret (Inr Call_Failed)
    | Inr (code, code_hash) \<Rightarrow>
        bind (gets (\<lambda>x. x)) (\<lambda>x.
        let params = call_params x code code_hash gas sender_address receive_address val_opt input code_adr ct in
        if trap then ret (Inl (Trap_Call params)) else
        bind (run_executive (xv_call X (ex_env_info x) (ex_machine x) (ex_schedule x) (ex_depth x + 1)
          (ex_static_flag x) params (ex_stack_depth x + 1))) (\<lambda>out.
        ret (Inr (into_message_call_result out)))))"

section \<open>Output, logs, refunds\<close>

definition x_ret ::
  "'l crates \<Rightarrow> ('b, 'l) backend \<Rightarrow> u256 \<Rightarrow> return_data \<Rightarrow> bool \<Rightarrow> ('b, 'l, 't, 'v, u256) ext_action" where
  "x_ret C B gas data apply_state =
    bind (gets (\<lambda>x. x)) (\<lambda>x. case ex_output x of
      Return \<Rightarrow> ret gas
    | InitContract \<Rightarrow>
        if apply_state then
          bind (lift (return_data_deref data)) (\<lambda>bytes.
          bind (lift (checked_times (word_of_nat (length bytes)) (ucast (sch_create_data_gas (ex_schedule x))))) (\<lambda>return_cost.
          if gas < return_cost \<or> unat (sch_create_data_limit (ex_schedule x)) < length bytes then
            (if sch_exceptional_failed_code_deposit (ex_schedule x) then fail OutOfGas else ret gas)
          else
            bind (in_state C (state_init_code C B (own_address x) bytes)) (\<lambda>_.
            ret (gas - return_cost))))
        else ret gas)"

definition x_log :: "h256 list \<Rightarrow> bytes \<Rightarrow> ('b, 'l, 't, 'v, unit) ext_action" where
  "x_log topics data =
    bind (gets ex_static_flag) (\<lambda>static_flag.
    if static_flag then fail MutableCallInStaticContext
    else modify (\<lambda>x. x\<lparr>ex_substate := (ex_substate x)\<lparr>sub_logs := sub_logs (ex_substate x) @
      [\<lparr>log_address = own_address x, log_topics = topics, log_data = data\<rparr>]\<rparr>\<rparr>))"

definition x_suicide ::
  "'l crates \<Rightarrow> ('b, 'l) backend \<Rightarrow> ('t, 'v) tracer_ops \<Rightarrow> address \<Rightarrow> ('b, 'l, 't, 'v, unit) ext_action" where
  "x_suicide C B T refund_address =
    bind (gets (\<lambda>x. x)) (\<lambda>x.
    if ex_static_flag x then fail MutableCallInStaticContext else
    let a = own_address x in
    bind (x_balance C B a) (\<lambda>balance.
    bind (if a = refund_address then in_touched C (sub_balance C B a balance NoEmpty)
          else in_touched C (transfer_balance C B a refund_address balance (to_cleanup_mode (ex_schedule x)))) (\<lambda>_.
    modify (\<lambda>x. x\<lparr>ex_tracer := tr_trace_suicide T a balance refund_address (ex_tracer x),
      ex_substate := (ex_substate x)\<lparr>sub_suicides := insert a (sub_suicides (ex_substate x))\<rparr>\<rparr>))))"

definition change_refund :: "int \<Rightarrow> ('b, 'l, 't, 'v, unit) ext_action" where
  "change_refund v =
    bind (gets ex_substate) (\<lambda>sub.
    bind (lift (add_refund v sub)) (\<lambda>sub'.
    modify (\<lambda>x. x\<lparr>ex_substate := sub'\<rparr>)))"

definition x_add_sstore_refund :: "usize \<Rightarrow> ('b, 'l, 't, 'v, unit) ext_action" where
  "x_add_sstore_refund v = change_refund (uint v)"

definition x_sub_sstore_refund :: "usize \<Rightarrow> ('b, 'l, 't, 'v, unit) ext_action" where
  "x_sub_sstore_refund v = change_refund (- uint v)"

section \<open>Tracing\<close>

definition x_trace_next_instruction ::
  "('t, 'v) tracer_ops \<Rightarrow> nat \<Rightarrow> u8 \<Rightarrow> u256 \<Rightarrow> ('b, 'l, 't, 'v) externalities \<Rightarrow> bool \<times> ('b, 'l, 't, 'v) externalities" where
  "x_trace_next_instruction T pc i gas x =
    (let (b, v) = vt_trace_next_instruction T pc i gas (ex_vm_tracer x) in (b, x\<lparr>ex_vm_tracer := v\<rparr>))"

definition x_trace_prepare_execute ::
  "('t, 'v) tracer_ops \<Rightarrow> nat \<Rightarrow> u8 \<Rightarrow> u256 \<Rightarrow> (nat \<times> nat) option \<Rightarrow> (u256 \<times> u256) option \<Rightarrow>
   ('b, 'l, 't, 'v) externalities \<Rightarrow> ('b, 'l, 't, 'v) externalities" where
  "x_trace_prepare_execute T pc i gas_cost mw sw x =
    x\<lparr>ex_vm_tracer := vt_trace_prepare_execute T pc i gas_cost mw sw (ex_vm_tracer x)\<rparr>"

definition x_trace_executed ::
  "('t, 'v) tracer_ops \<Rightarrow> u256 \<Rightarrow> u256 list \<Rightarrow> bytes \<Rightarrow> ('b, 'l, 't, 'v) externalities \<Rightarrow> ('b, 'l, 't, 'v) externalities" where
  "x_trace_executed T gas_used pushed m x = x\<lparr>ex_vm_tracer := vt_trace_executed T gas_used pushed m (ex_vm_tracer x)\<rparr>"

section \<open>The implementation of the interface\<close>

definition externalities_ops ::
  "'l crates \<Rightarrow> ('b, 'l) backend \<Rightarrow> ('b, 'l, 't, 'v) executive_ops \<Rightarrow> ('t, 'v) tracer_ops \<Rightarrow>
   ('b, 'l, 't, 'v) externalities ext_ops" where
  "externalities_ops C B X T =
    \<lparr>ext_initial_storage_at = x_initial_storage_at C B, ext_storage_at = x_storage_at C B,
     ext_set_storage = x_set_storage C B, ext_exists = x_exists C B,
     ext_exists_and_not_null = x_exists_and_not_null C B, ext_origin_balance = x_origin_balance C B,
     ext_balance = x_balance C B, ext_blockhash = x_blockhash C B X, ext_create = x_create C B X,
     ext_call = x_call C B X, ext_extcode = x_extcode C B, ext_extcodehash = x_extcodehash C B,
     ext_extcodesize = x_extcodesize C B, ext_log = x_log, ext_ret = x_ret C B, ext_suicide = x_suicide C B T,
     ext_schedule = ex_schedule, ext_env_info = ex_env_info, ext_depth = ex_depth,
     ext_add_sstore_refund = x_add_sstore_refund, ext_sub_sstore_refund = x_sub_sstore_refund,
     ext_trace_next_instruction = x_trace_next_instruction T,
     ext_trace_prepare_execute = x_trace_prepare_execute T, ext_trace_executed = x_trace_executed T,
     ext_is_static = ex_static_flag\<rparr>"

end
