(* ===== verification/State_Spec.thy ===== *)
theory State_Spec
  imports State
begin

text \<open>
  What \<open>State\<close> promises. The caches, the copies in the checkpoints and the lazily loaded accounts are an
  implementation of a simple specification: a \<open>view\<close>, the account at every address with its storage as a
  function, and a \<open>history\<close>, the views at the open checkpoints, the latest first. Queries read the view and
  change neither; every other operation changes the view at one address and leaves the history; \<open>checkpoint\<close>
  pushes the view on the history, \<open>discard_checkpoint\<close> drops its head and \<open>revert_to_checkpoint\<close> makes that
  head the view again.

  The locale \<open>state_backend\<close> is the contract of the backend and the crates: the shared cache and the trie
  agree on a base, storage tries and code are read faithfully, and an LRU cache returns what was put in.
\<close>

section \<open>Association lists\<close>

lemma map_of_or_insert:
  "map_of (or_insert k v m) = (if map_of m k = None then (map_of m)(k \<mapsto> v) else map_of m)"
  by (simp add: or_insert_def update_conv')

lemma distinct_or_insert: "distinct (map fst m) \<Longrightarrow> distinct (map fst (or_insert k v m))"
  by (simp add: or_insert_def distinct_update)

section \<open>The specification\<close>

record account_view =
  av_balance :: u256
  av_nonce :: u256
  av_code_hash :: h256
  av_code :: bytes
  av_storage :: "h256 \<Rightarrow> h256"

type_synonym world = "address \<Rightarrow> account_view option"

text \<open>
  The ground truth behind the caches: the accounts of the state trie, the cells of the storage tries by
  address hash and root, the code by its hash, and the content of an LRU cache.
\<close>

record 'l ground =
  gr_base :: "address \<Rightarrow> basic_account option"
  gr_cell :: "h256 \<Rightarrow> h256 \<Rightarrow> h256 \<Rightarrow> h256"
  gr_code :: "h256 \<Rightarrow> bytes"
  gr_content :: "'l \<Rightarrow> h256 \<Rightarrow> h256 option"

definition akey :: "'l crates \<Rightarrow> address \<Rightarrow> h256" where
  "akey C a = cr_keccak C (address_bytes a)"

definition base_root :: "'l crates \<Rightarrow> 'l ground \<Rightarrow> address \<Rightarrow> h256" where
  "base_root C G a = (case gr_base G a of Some basic \<Rightarrow> ba_storage_root basic | None \<Rightarrow> cr_KECCAK_NULL_RLP C)"

text \<open>The account that a base entry, and that a cached account, stands for.\<close>

definition base_view :: "'l crates \<Rightarrow> 'l ground \<Rightarrow> world" where
  "base_view C G a = map_option (\<lambda>basic. \<lparr>av_balance = ba_balance basic, av_nonce = ba_nonce basic,
     av_code_hash = ba_code_hash basic,
     av_code = (if ba_code_hash basic = cr_KECCAK_EMPTY C then [] else gr_code G (ba_code_hash basic)),
     av_storage = gr_cell G (akey C a) (ba_storage_root basic)\<rparr>) (gr_base G a)"

definition code_view :: "'l crates \<Rightarrow> 'l ground \<Rightarrow> 'l account \<Rightarrow> bytes" where
  "code_view C G ac = (if is_cached C ac then ac_code_cache ac else gr_code G (ac_code_hash ac))"

definition storage_view :: "'l crates \<Rightarrow> 'l ground \<Rightarrow> address \<Rightarrow> 'l account \<Rightarrow> h256 \<Rightarrow> h256" where
  "storage_view C G a ac = (\<lambda>key. case map_of (ac_storage_changes ac) key of
      Some v \<Rightarrow> v | None \<Rightarrow> gr_cell G (akey C a) (ac_storage_root ac) key)"

lemma storage_view_updates [simp]:
  "storage_view C G a (ac\<lparr>ac_balance := x_balance\<rparr>) = storage_view C G a ac"
  "storage_view C G a (ac\<lparr>ac_nonce := x_nonce\<rparr>) = storage_view C G a ac"
  "storage_view C G a (ac\<lparr>ac_storage_cache := x_storage_cache\<rparr>) = storage_view C G a ac"
  "storage_view C G a (ac\<lparr>ac_original_storage_cache := x_original_storage_cache\<rparr>) = storage_view C G a ac"
  "storage_view C G a (ac\<lparr>ac_code_hash := x_code_hash\<rparr>) = storage_view C G a ac"
  "storage_view C G a (ac\<lparr>ac_code_size := x_code_size\<rparr>) = storage_view C G a ac"
  "storage_view C G a (ac\<lparr>ac_code_cache := x_code_cache\<rparr>) = storage_view C G a ac"
  "storage_view C G a (ac\<lparr>ac_code_filth := x_code_filth\<rparr>) = storage_view C G a ac"
  "storage_view C G a (ac\<lparr>ac_address_hash := x_address_hash\<rparr>) = storage_view C G a ac"
  by (simp_all add: storage_view_def cong: option.case_cong)

lemma code_view_updates [simp]:
  "code_view C G (ac\<lparr>ac_balance := x_balance\<rparr>) = code_view C G ac"
  "code_view C G (ac\<lparr>ac_nonce := x_nonce\<rparr>) = code_view C G ac"
  "code_view C G (ac\<lparr>ac_storage_root := x_storage_root\<rparr>) = code_view C G ac"
  "code_view C G (ac\<lparr>ac_storage_cache := x_storage_cache\<rparr>) = code_view C G ac"
  "code_view C G (ac\<lparr>ac_original_storage_cache := x_original_storage_cache\<rparr>) = code_view C G ac"
  "code_view C G (ac\<lparr>ac_storage_changes := x_storage_changes\<rparr>) = code_view C G ac"
  "code_view C G (ac\<lparr>ac_code_size := x_code_size\<rparr>) = code_view C G ac"
  "code_view C G (ac\<lparr>ac_code_filth := x_code_filth\<rparr>) = code_view C G ac"
  "code_view C G (ac\<lparr>ac_address_hash := x_address_hash\<rparr>) = code_view C G ac"
  by (simp_all add: code_view_def is_cached_def)

definition acc_view :: "'l crates \<Rightarrow> 'l ground \<Rightarrow> address \<Rightarrow> 'l account \<Rightarrow> account_view" where
  "acc_view C G a ac = \<lparr>av_balance = ac_balance ac, av_nonce = ac_nonce ac, av_code_hash = ac_code_hash ac,
     av_code = code_view C G ac, av_storage = storage_view C G a ac\<rparr>"

definition entry_view :: "'l crates \<Rightarrow> 'l ground \<Rightarrow> address \<Rightarrow> 'l account_entry option \<Rightarrow> account_view option" where
  "entry_view C G a e = (case e of
      Some e \<Rightarrow> map_option (acc_view C G a) (en_account e) | None \<Rightarrow> base_view C G a)"

definition view :: "'l crates \<Rightarrow> 'l ground \<Rightarrow> ('b, 'l) state \<Rightarrow> world" where
  "view C G st a = entry_view C G a (map_of (st_cache st) a)"

text \<open>What reverting a checkpoint does to a view, and the views at the open checkpoints.\<close>

definition undo :: "'l crates \<Rightarrow> 'l ground \<Rightarrow> (address \<times> 'l account_entry option) list \<Rightarrow> world \<Rightarrow> world" where
  "undo C G ckp V a = (case map_of ckp a of Some e \<Rightarrow> entry_view C G a e | None \<Rightarrow> V a)"

primrec past :: "'l crates \<Rightarrow> 'l ground \<Rightarrow> (address \<times> 'l account_entry option) list list \<Rightarrow> world \<Rightarrow> world list" where
  "past C G [] V = []"
| "past C G (c # cs) V = undo C G c V # past C G cs (undo C G c V)"

definition history :: "'l crates \<Rightarrow> 'l ground \<Rightarrow> ('b, 'l) state \<Rightarrow> world list" where
  "history C G st = past C G (rev (st_checkpoints st)) (view C G st)"

section \<open>Well-formed states\<close>

definition cache_ok :: "'l crates \<Rightarrow> 'l ground \<Rightarrow> address \<Rightarrow> h256 \<Rightarrow> 'l \<Rightarrow> bool" where
  "cache_ok C G a root cache \<longleftrightarrow>
     (\<forall>key v. gr_content G cache key = Some v \<longrightarrow> v = gr_cell G (akey C a) root key)"

definition account_ok :: "'l crates \<Rightarrow> 'l ground \<Rightarrow> address \<Rightarrow> 'l account \<Rightarrow> bool" where
  "account_ok C G a ac \<longleftrightarrow>
     (ac_address_hash ac = None \<or> ac_address_hash ac = Some (akey C a)) \<and>
     (ac_storage_root ac = cr_KECCAK_NULL_RLP C \<or> ac_storage_root ac = base_root C G a) \<and>
     cache_ok C G a (ac_storage_root ac) (ac_storage_cache ac) \<and>
     (\<forall>root cache. ac_original_storage_cache ac = Some (root, cache) \<longrightarrow> cache_ok C G a root cache) \<and>
     length (ac_code_cache ac) < 2 ^ 64 \<and>
     (\<forall>n. ac_code_size ac = Some n \<longrightarrow> n = length (code_view C G ac))"

definition entry_ok :: "'l crates \<Rightarrow> 'l ground \<Rightarrow> address \<Rightarrow> 'l account_entry \<Rightarrow> bool" where
  "entry_ok C G a e \<longleftrightarrow> (\<forall>ac. en_account e = Some ac \<longrightarrow> account_ok C G a ac) \<and>
     (\<not> is_dirty e \<longrightarrow> entry_view C G a (Some e) = base_view C G a)"

definition state_ok :: "'l crates \<Rightarrow> 'l ground \<Rightarrow> (h256 \<Rightarrow> 'b \<Rightarrow> bool) \<Rightarrow> ('b, 'l) state \<Rightarrow> bool" where
  "state_ok C G bi st \<longleftrightarrow> bi (st_root st) (st_db st) \<and>
     (\<forall>a e. map_of (st_cache st) a = Some e \<longrightarrow> entry_ok C G a e) \<and>
     (\<forall>c \<in> set (st_checkpoints st). distinct (map fst c) \<and>
        (\<forall>a e. map_of c a = Some (Some e) \<longrightarrow> entry_ok C G a e))"

text \<open>An account of the shared cache: an unmodified copy of the base.\<close>

definition shared_ok :: "'l crates \<Rightarrow> 'l ground \<Rightarrow> address \<Rightarrow> 'l account option \<Rightarrow> bool" where
  "shared_ok C G a ac \<longleftrightarrow> (case ac of
      None \<Rightarrow> gr_base G a = None
    | Some ac \<Rightarrow> account_ok C G a ac \<and> ac_storage_changes ac = [] \<and> ac_original_storage_cache ac = None \<and>
        ac_storage_root ac = base_root C G a \<and> Some (acc_view C G a ac) = base_view C G a)"

section \<open>The contract of the backend\<close>

locale state_backend =
  fixes C :: "'l crates" and B :: "('b, 'l) backend" and G :: "'l ground" and bi :: "h256 \<Rightarrow> 'b \<Rightarrow> bool"
  assumes lru_new: "gr_content G (cr_lru_new C n) = Map.empty"
    and lru_get: "cr_lru_get_mut C key lru = (val, lru') \<Longrightarrow> val = gr_content G lru key \<and> gr_content G lru' = gr_content G lru"
    and lru_insert: "gr_content G (cr_lru_insert C key v lru) key' = Some w \<Longrightarrow>
      key' = key \<and> w = v \<or> gr_content G lru key' = Some w"
    and lru_iter: "(key, v) \<in> set (cr_lru_into_iter C lru) \<Longrightarrow> gr_content G lru key = Some v"
    and keccak_empty: "cr_keccak C [] = cr_KECCAK_EMPTY C"
    and empty_trie: "gr_cell G h (cr_KECCAK_NULL_RLP C) key = 0"
    and code_small: "length (gr_code G h) < 2 ^ 64"
    and open_trie: "bi rt b \<Longrightarrow> be_open_trie B rt b = Ok ()"
    and get_account: "bi rt b \<Longrightarrow> be_get_account B rt a b \<noteq> Panic \<and>
      (\<forall>basic. be_get_account B rt a b = Ok basic \<longrightarrow> basic = gr_base G a)"
    and storage: "bi rt b \<Longrightarrow> adb_storage (be_account_db B h b) root key \<noteq> Panic \<and>
      (\<forall>v. adb_storage (be_account_db B h b) root key = Ok v \<longrightarrow>
        (case v of Some v \<Rightarrow> v | None \<Rightarrow> 0) = gr_cell G h root key)"
    and code: "bi rt b \<Longrightarrow> adb_code (be_account_db B h b) ch = Some bs \<Longrightarrow> bs = gr_code G ch"
    and known_null: "bi rt b \<Longrightarrow> be_is_known_null B a b \<Longrightarrow> gr_base G a = None"
    and get_cached: "bi rt b \<Longrightarrow> be_get_cached B a b = (res, b') \<Longrightarrow>
      bi rt b' \<and> (\<forall>ac. res = Some ac \<longrightarrow> shared_ok C G a ac)"
    and set_cached: "bi rt b \<Longrightarrow> shared_ok C G a (Some ac) \<Longrightarrow> bi rt (be_set_cached B a ac b)"
    and get_cached_account: "bi rt b \<Longrightarrow> be_get_cached_account B a b = (res, b') \<Longrightarrow>
      bi rt b' \<and> (\<forall>ac. res = Some ac \<longrightarrow> shared_ok C G a ac)"
    and get_cached_code: "bi rt b \<Longrightarrow> be_get_cached_code B ch b = (bytes_opt, b') \<Longrightarrow>
      bi rt b' \<and> (\<forall>bs. bytes_opt = Some bs \<longrightarrow> bs = gr_code G ch)"
    and put_code: "bi rt b \<Longrightarrow> bi rt (be_cache_code B ch (gr_code G ch) b)"
begin

abbreviation "V \<equiv> view C G"
abbreviation "ok \<equiv> state_ok C G bi"

text \<open>Two representations of an account, before and after a query.\<close>

definition similar :: "address \<Rightarrow> 'l account \<Rightarrow> 'l account \<Rightarrow> bool" where
  "similar a ac ac' \<longleftrightarrow> account_ok C G a ac' \<and> acc_view C G a ac' = acc_view C G a ac \<and>
     ac_storage_changes ac' = ac_storage_changes ac \<and> ac_storage_root ac' = ac_storage_root ac \<and>
     map_option fst (ac_original_storage_cache ac') = map_option fst (ac_original_storage_cache ac)"

lemma similar_refl: "account_ok C G a ac \<Longrightarrow> similar a ac ac"
  by (simp add: similar_def)

lemma similar_trans: "similar a ac ac' \<Longrightarrow> similar a ac' ac'' \<Longrightarrow> similar a ac ac''"
  by (simp add: similar_def)

lemma similar_ok: "similar a ac ac' \<Longrightarrow> account_ok C G a ac'"
  by (simp add: similar_def)

lemma shared_similar: "shared_ok C G a (Some ac) \<Longrightarrow> similar a ac ac' \<Longrightarrow> shared_ok C G a (Some ac')"
  by (auto simp: shared_ok_def similar_def)

lemmas view_simps = acc_view_def code_view_def is_cached_def

lemma address_hash_similar:
  assumes "account_ok C G a ac" "address_hash C a ac = (h, ac')"
  shows "h = akey C a" "similar a ac ac'"
proof -
  have memo: "similar a ac (ac\<lparr>ac_address_hash := Some (akey C a)\<rparr>)"
    using assms(1) by (simp add: similar_def account_ok_def acc_view_def)
  have "h = akey C a \<and> similar a ac ac'"
  proof (cases "ac_address_hash ac")
    case None
    then show ?thesis using assms(2) memo by (auto simp: address_hash_def akey_def [symmetric] Let_def)
  next
    case (Some h')
    then show ?thesis using assms similar_refl [OF assms(1)] by (auto simp: address_hash_def account_ok_def)
  qed
  then show "h = akey C a" "similar a ac ac'" by simp_all
qed

lemma update_account_cache_similar:
  assumes "account_ok C G a ac" "bi rt b" "update_account_cache C B req (be_account_db B h b) ac b = (fine, ac', b')"
  shows "similar a ac ac'" "bi rt b'"
proof -
  have "similar a ac ac' \<and> bi rt b'"
  proof (cases "req = Require_None \<or> is_cached C ac")
    case True
    with assms show ?thesis by (auto simp: update_account_cache_def similar_refl split: if_splits)
  next
    case False
    obtain found b1 where cached: "be_get_cached_code B (ac_code_hash ac) b = (found, b1)" by fastforce
    note found = get_cached_code [OF assms(2) cached]
    have given: "similar a ac (ac\<lparr>ac_code_size := Some (length bs), ac_code_cache := bs\<rparr>)"
      "similar a ac (ac\<lparr>ac_code_size := Some (length bs)\<rparr>)"
      if "bs = gr_code G (ac_code_hash ac)" for bs
      using that False assms(1) code_small by (auto simp: similar_def account_ok_def view_simps)
    have stored: "bi rt (be_cache_code B ch bs b1)" if "adb_code (be_account_db B h b) ch = Some bs" for ch bs
      using code [OF assms(2) that] put_code found by blast
    show ?thesis
    proof (cases found)
      case (Some bs)
      then show ?thesis
        using False assms(3) cached found given(1) by (auto simp: update_account_cache_def cache_given_code_def Let_def)
    next
      case None
      have not_cached: "\<not> is_cached C ac" using False by simp
      note run = assms(3) [unfolded update_account_cache_def Let_def, simplified False not_cached cached None, simplified]
      show ?thesis
      proof (cases req)
        case Require_CodeSize
        then show ?thesis
          using run False cached None found given(2) code [OF assms(2)] similar_refl [OF assms(1)] not_cached
          by (auto simp: cache_code_size_def is_cached_def split: option.splits if_splits)
      next
        case Require_Code
        then show ?thesis
          using run False cached None found given(1) code [OF assms(2)] stored similar_refl [OF assms(1)] not_cached
          by (auto simp: cache_code_def split: option.splits)
      qed (use False in simp)
    qed
  qed
  then show "similar a ac ac'" "bi rt b'" by simp_all
qed

lemma load_code_similar:
  assumes "account_ok C G a ac" "bi rt b" "load_code C B a req ac b = (fine, ac', b')"
  shows "similar a ac ac'" "bi rt b'"
proof -
  obtain h ac1 where hash: "address_hash C a ac = (h, ac1)" by fastforce
  note ac1 = address_hash_similar(2) [OF assms(1) hash]
  have "update_account_cache C B req (be_account_db B h b) ac1 b = (fine, ac', b')"
    using assms(3) hash by (simp add: load_code_def)
  from update_account_cache_similar [OF similar_ok [OF ac1] assms(2) this] ac1
  show "similar a ac ac'" "bi rt b'" by (auto intro: similar_trans)
qed

lemma account_from_ok:
  assumes "gr_base G a = Some basic"
  shows "account_ok C G a (account_from C basic)" "Some (acc_view C G a (account_from C basic)) = base_view C G a"
  using assms
  by (auto simp: account_ok_def account_from_def base_root_def cache_ok_def empty_storage_cache_def lru_new
      base_view_def view_simps storage_view_def)

section \<open>Changes of representation\<close>

text \<open>A step of the state that the specification does not see.\<close>

definition same :: "('b, 'l) state \<Rightarrow> ('b, 'l) state \<Rightarrow> bool" where
  "same st st' \<longleftrightarrow> ok st' \<and> V st' = V st \<and> history C G st' = history C G st \<and>
     st_root st' = st_root st \<and> st_account_start_nonce st' = st_account_start_nonce st \<and>
     length (st_checkpoints st') = length (st_checkpoints st)"

lemma same_refl: "ok st \<Longrightarrow> same st st"
  by (simp add: same_def)

lemma same_trans: "same st st' \<Longrightarrow> same st' st'' \<Longrightarrow> same st st''"
  by (simp add: same_def)

lemma same_ok: "same st st' \<Longrightarrow> ok st'"
  by (simp add: same_def)

lemma view_cong: "st_cache st' = st_cache st \<Longrightarrow> V st' = V st"
  by (simp add: view_def fun_eq_iff)

lemma view_set_db [simp]: "V (set_db b st) = V st"
  by (rule view_cong) (simp add: set_db_def)

lemma same_set_db: "ok st \<Longrightarrow> bi (st_root st) b \<Longrightarrow> same st (set_db b st)"
  using view_set_db [of b st] by (auto simp: same_def set_db_def state_ok_def history_def)

text \<open>Replacing an entry by one with the same view, dirty where it was.\<close>

lemma same_update:
  assumes "ok st" "entry_ok C G a e'" "entry_view C G a (Some e') = V st a"
  shows "same st (st\<lparr>st_cache := AList.update a e' (st_cache st)\<rparr>)"
proof -
  have "V (st\<lparr>st_cache := AList.update a e' (st_cache st)\<rparr>) = V st"
    using assms(3) by (auto simp: view_def update_conv' fun_eq_iff)
  then show ?thesis
    using assms(1,2) by (auto simp: same_def state_ok_def history_def update_conv' split: if_splits)
qed

lemma same_put_account:
  assumes "ok st" "map_of (st_cache st) a = Some e" "en_account e = Some ac" "similar a ac ac'"
  shows "same st (put_account a ac' st)"
proof -
  have "entry_ok C G a (e\<lparr>en_account := Some ac'\<rparr>)" "entry_view C G a (Some (e\<lparr>en_account := Some ac'\<rparr>)) = V st a"
    using assms by (fastforce simp: state_ok_def entry_ok_def similar_def entry_view_def is_dirty_def view_def)+
  from same_update [OF assms(1) this] show ?thesis using assms(2) by (simp add: put_account_def)
qed

lemma same_insert_clean:
  assumes "ok st" "map_of (st_cache st) a = None" "entry_ok C G a e" "\<not> is_dirty e"
  shows "same st (insert_cache a e st)"
proof -
  have "entry_view C G a (Some e) = V st a"
    using assms by (simp add: entry_ok_def view_def entry_view_def)
  from same_update [OF assms(1,3) this] show ?thesis using assms(4) by (simp add: insert_cache_def Let_def)
qed

lemma new_clean_ok:
  "shared_ok C G a ac \<Longrightarrow> entry_ok C G a (new_clean ac)" "shared_ok C G a ac \<Longrightarrow> entry_ok C G a (new_clean_cached ac)"
  "\<not> is_dirty (new_clean ac)" "\<not> is_dirty (new_clean_cached ac)"
  by (auto simp: new_clean_def new_clean_cached_def entry_ok_def is_dirty_def shared_ok_def entry_view_def base_view_def
      split: option.splits)

lemma shared_from_base:
  "gr_base G a = Some basic \<Longrightarrow> similar a (account_from C basic) ac \<Longrightarrow> shared_ok C G a (Some ac)"
  using account_from_ok [of a basic]
  by (auto simp: shared_ok_def similar_def account_from_def base_root_def)

section \<open>Queries\<close>

text \<open>\<open>ensure_cached\<close> hands its closure the account of the view and changes only the representation.\<close>

definition reads :: "address \<Rightarrow> ('b, 'l) state \<Rightarrow> 'l account option \<Rightarrow> bool" where
  "reads a st ac \<longleftrightarrow> map_option (acc_view C G a) ac = V st a \<and> (\<forall>x. ac = Some x \<longrightarrow> account_ok C G a x)"

lemma wp_ensure_cached:
  assumes "ok st"
  shows "wp (ensure_cached C B a req cn f) (\<lambda>r st'. same st st' \<and> (\<exists>ac. r = f ac \<and> reads a st ac)) (\<lambda>_. same st) st"
proof (cases "map_of (st_cache st) a")
  case (Some e)
  show ?thesis
  proof (cases "en_account e")
    case None
    with Some show ?thesis
      using assms by (auto simp: ensure_cached_def wp_def Let_def same_refl reads_def view_def entry_view_def)
  next
    case (Some ac)
    have ac: "account_ok C G a ac" "bi (st_root st) (st_db st)"
      using assms \<open>map_of _ a = Some e\<close> Some by (auto simp: state_ok_def entry_ok_def)
    obtain fine ac' b where load: "load_code C B a req ac (st_db st) = (fine, ac', b)" by (metis prod.exhaust)
    note load' = load_code_similar [OF ac load]
    have "same st (put_account a ac' (set_db b st))"
      using same_trans [OF same_set_db [OF assms load'(2)] same_put_account [OF same_ok [OF same_set_db [OF assms load'(2)]] _ Some load'(1)]]
        \<open>map_of _ a = Some e\<close> by (simp add: set_db_def)
    moreover have "reads a st (Some ac')"
      using load'(1) Some \<open>map_of _ a = Some e\<close> by (simp add: reads_def similar_def view_def entry_view_def)
    ultimately show ?thesis
      using \<open>map_of _ a = Some e\<close> Some load by (auto simp: ensure_cached_def wp_def Let_def)
  qed
next
  case not_local: None
  then have base: "V st a = base_view C G a" by (simp add: view_def entry_view_def)
  have bi: "bi (st_root st) (st_db st)" using assms by (simp add: state_ok_def)
  obtain found b where cached: "be_get_cached B a (st_db st) = (found, b)" by fastforce
  note shared = get_cached [OF bi cached]
  note set_b = same_set_db [OF assms, of b]
  show ?thesis
  proof (cases found)
    case (Some x)
    show ?thesis
    proof (cases x)
      case None
      then show ?thesis
        using Some cached shared set_b base not_local
        by (auto simp: ensure_cached_def wp_def Let_def reads_def shared_ok_def base_view_def)
    next
      case ac: (Some ac)
      then have ac_ok: "shared_ok C G a (Some ac)" "account_ok C G a ac" using shared Some by (auto simp: shared_ok_def)
      obtain fine ac' b' where load: "load_code C B a req ac b = (fine, ac', b')" by (metis prod.exhaust)
      note load' = load_code_similar [OF ac_ok(2) _ load]
      have ac'_ok: "shared_ok C G a (Some ac')" using shared_similar [OF ac_ok(1) load'(1)] shared by blast
      then have "same st (set_db (be_set_cached B a ac' b') st)"
        using same_set_db [OF assms] set_cached load'(2) shared by blast
      moreover have "reads a st (Some ac')"
        using ac'_ok base by (simp add: reads_def shared_ok_def)
      ultimately show ?thesis
        using Some ac cached load not_local by (auto simp: ensure_cached_def wp_def Let_def)
    qed
  next
    case found_None: None
    have b: "bi (st_root st) b" "same st (set_db b st)" using shared set_b by simp_all
    show ?thesis
    proof (cases "cn \<and> be_is_known_null B a b")
      case True
      with known_null [OF b(1)] have "reads a st None" using base by (simp add: reads_def base_view_def)
      with True show ?thesis
        using cached found_None not_local b(2) by (auto simp: ensure_cached_def wp_def Let_def)
    next
      case False
      have db: "be_get_account B (st_root st) a b \<noteq> Panic"
        "be_get_account B (st_root st) a b = Ok basic \<Longrightarrow> basic = gr_base G a" for basic
        using get_account [OF b(1)] by simp_all
      have absent: "map_of (st_cache (set_db b' st)) a = None" for b' using not_local by (simp add: set_db_def)
      show ?thesis
      proof (cases "be_get_account B (st_root st) a b")
        case (Ok basic)
        note basic = db(2) [OF Ok]
        show ?thesis
        proof (cases basic)
          case None
          then have "shared_ok C G a None" "reads a st None"
            using basic base by (simp_all add: shared_ok_def reads_def base_view_def)
          moreover have "same st (insert_cache a (new_clean None) (set_db b st))"
            using same_trans [OF b(2) same_insert_clean [OF same_ok [OF b(2)] absent new_clean_ok(1) [OF calculation(1)] new_clean_ok(3)]] .
          ultimately show ?thesis
            using False Ok None cached found_None not_local open_trie [OF b(1)]
            by (auto simp: ensure_cached_def wp_def Let_def action_simps)
        next
          case (Some bas)
          then have bas: "gr_base G a = Some bas" using basic by simp
          obtain fine ac' b' where load: "load_code C B a req (account_from C bas) b = (fine, ac', b')" by (metis prod.exhaust)
          note load' = load_code_similar [OF account_from_ok(1) [OF bas] b(1) load]
          have shared': "shared_ok C G a (Some ac')" using shared_from_base [OF bas load'(1)] .
          note b' = same_set_db [OF assms load'(2)]
          have "same st (insert_cache a (new_clean (Some ac')) (set_db b' st))"
            using same_trans [OF b' same_insert_clean [OF same_ok [OF b'] absent new_clean_ok(1) [OF shared'] new_clean_ok(3)]] .
          moreover have "set_db b' (set_db b st) = set_db b' st" by (simp add: set_db_def)
          moreover have "reads a st (Some ac')" using shared' base by (simp add: reads_def shared_ok_def)
          ultimately show ?thesis
            using False Ok Some cached found_None not_local open_trie [OF b(1)] load b'
            by (auto simp: ensure_cached_def wp_def Let_def action_simps)
        qed
      next
        case (Err e)
        then show ?thesis
          using False cached found_None not_local open_trie [OF b(1)] b(2)
          by (auto simp: ensure_cached_def wp_def Let_def action_simps)
      next
        case Panic
        then show ?thesis using db by simp
      qed
    qed
  qed
qed

section \<open>Changes of one account\<close>

text \<open>A step that changes the view at one address and keeps the history.\<close>

definition changed :: "address \<Rightarrow> account_view option \<Rightarrow> ('b, 'l) state \<Rightarrow> ('b, 'l) state \<Rightarrow> bool" where
  "changed a v st st' \<longleftrightarrow> ok st' \<and> V st' = (V st)(a := v) \<and> history C G st' = history C G st \<and>
     st_root st' = st_root st \<and> st_account_start_nonce st' = st_account_start_nonce st \<and>
     length (st_checkpoints st') = length (st_checkpoints st)"

lemma changed_ok: "changed a v st st' \<Longrightarrow> ok st'"
  by (simp add: changed_def)

lemma same_changed: "same st st' \<Longrightarrow> changed a v st' st'' \<Longrightarrow> changed a v st st''"
  by (simp add: same_def changed_def)

lemma changed_same: "changed a v st st' \<Longrightarrow> same st' st'' \<Longrightarrow> changed a v st st''"
  by (simp add: same_def changed_def)

lemma changed_changed: "changed a v st st' \<Longrightarrow> changed a w st' st'' \<Longrightarrow> changed a w st st''"
  by (simp add: changed_def)

lemma same_is_changed: "same st st' \<Longrightarrow> changed a (V st a) st st'"
  by (simp add: same_def changed_def)

text \<open>An address whose entry the last checkpoint already holds.\<close>

definition recorded :: "address \<Rightarrow> ('b, 'l) state \<Rightarrow> bool" where
  "recorded a st \<longleftrightarrow> st_checkpoints st = [] \<or> map_of (last (st_checkpoints st)) a \<noteq> None"

lemma history_cong:
  assumes "recorded a st" "st_checkpoints st' = st_checkpoints st" "V st' = (V st)(a := v)"
  shows "history C G st' = history C G st"
proof (cases "st_checkpoints st" rule: rev_cases)
  case Nil
  then show ?thesis using assms by (simp add: history_def)
next
  case (snoc cs c)
  then have "undo C G c (V st') = undo C G c (V st)"
    using assms by (auto simp: recorded_def undo_def fun_eq_iff split: option.splits)
  then show ?thesis using assms snoc by (simp add: history_def)
qed

lemma changed_update:
  assumes "ok st" "recorded a st" "entry_ok C G a e"
  shows "changed a (entry_view C G a (Some e)) st (st\<lparr>st_cache := AList.update a e (st_cache st)\<rparr>)"
    (is "changed a ?v st ?st")
proof -
  have view: "V ?st = (V st)(a := ?v)"
    by (auto simp: view_def update_conv' fun_eq_iff)
  then have "history C G ?st = history C G st"
    by (rule history_cong [OF assms(2), rotated]) simp
  then show ?thesis
    using assms(1,3) view by (auto simp: changed_def state_ok_def update_conv' split: if_splits)
qed

text \<open>Recording the current entry, or none, in the last checkpoint.\<close>

lemma same_record:
  assumes "ok st" "entry_view C G a oe = V st a" "\<And>e. oe = Some e \<Longrightarrow> entry_ok C G a e"
  shows "same st (on_last_checkpoint (or_insert a oe) st)" "recorded a (on_last_checkpoint (or_insert a oe) st)"
proof -
  let ?st = "on_last_checkpoint (or_insert a oe) st"
  have view: "V ?st = V st" by (rule view_cong) (simp add: on_last_checkpoint_def)
  have undo: "undo C G (or_insert a oe c) (V st) = undo C G c (V st)" for c
    using assms(2) by (auto simp: undo_def map_of_or_insert fun_eq_iff)
  have "history C G ?st = history C G st"
    using view undo by (cases "st_checkpoints st" rule: rev_cases) (auto simp: history_def on_last_checkpoint_def)
  moreover have "ok ?st"
    using assms(1,3)
    by (cases "st_checkpoints st" rule: rev_cases)
      (auto simp: state_ok_def on_last_checkpoint_def distinct_or_insert map_of_or_insert split: if_splits)
  ultimately show "same st ?st" using view by (auto simp: same_def on_last_checkpoint_def)
  show "recorded a ?st" by (auto simp: recorded_def on_last_checkpoint_def map_of_or_insert)
qed

lemma clone_dirty_ok:
  assumes "account_ok C G a ac"
  shows "account_ok C G a (clone_dirty C ac)" "acc_view C G a (clone_dirty C ac) = acc_view C G a ac"
proof -
  have code: "code_view C G (clone_dirty C ac) = code_view C G ac"
    by (simp add: clone_dirty_def clone_basic_def)
  have "storage_view C G a (clone_dirty C ac) = storage_view C G a ac"
    by (simp add: clone_dirty_def clone_basic_def storage_view_def cong: option.case_cong)
  with code show "acc_view C G a (clone_dirty C ac) = acc_view C G a ac"
    by (simp add: acc_view_def clone_dirty_def clone_basic_def)
  show "account_ok C G a (clone_dirty C ac)"
    using assms code
    by (auto simp: account_ok_def clone_dirty_def clone_basic_def cache_ok_def empty_storage_cache_def lru_new)
qed

lemma entry_clone_dirty_ok:
  assumes "entry_ok C G a e"
  shows "entry_ok C G a (entry_clone_dirty C e)"
    "entry_view C G a (Some (entry_clone_dirty C e)) = entry_view C G a (Some e)"
proof -
  show view: "entry_view C G a (Some (entry_clone_dirty C e)) = entry_view C G a (Some e)"
    using assms clone_dirty_ok(2)
    by (cases "en_account e") (auto simp: entry_view_def entry_clone_dirty_def entry_ok_def)
  show "entry_ok C G a (entry_clone_dirty C e)"
    using assms clone_dirty_ok(1) view by (auto simp: entry_ok_def entry_clone_dirty_def is_dirty_def)
qed

lemma same_note_cache:
  assumes "ok st" "map_of (st_cache st) a = Some e"
  shows "same st (note_cache C a st)" "recorded a (note_cache C a st)"
proof -
  have e: "entry_ok C G a e" using assms by (simp add: state_ok_def)
  note clone = entry_clone_dirty_ok [OF e]
  from same_record [OF assms(1), of a "Some (entry_clone_dirty C e)"] clone assms(2)
  show "same st (note_cache C a st)" "recorded a (note_cache C a st)"
    by (simp_all add: note_cache_def view_def)
qed

lemma changed_insert:
  assumes "ok st" "entry_ok C G a e" "is_dirty e"
  shows "changed a (entry_view C G a (Some e)) st (insert_cache a e st)"
proof -
  let ?oe = "map_of (st_cache st) a"
  have rec: "same st (on_last_checkpoint (or_insert a ?oe) st)" "recorded a (on_last_checkpoint (or_insert a ?oe) st)"
    using assms(1) by (auto intro!: same_record simp: view_def state_ok_def)
  have "insert_cache a e st = (on_last_checkpoint (or_insert a ?oe) st)\<lparr>st_cache := AList.update a e (st_cache st)\<rparr>"
    using assms(3) by (simp add: insert_cache_def Let_def on_last_checkpoint_def)
  then show ?thesis
    using same_changed [OF rec(1) changed_update [OF same_ok [OF rec(1)] rec(2) assms(2)]]
    by (simp add: on_last_checkpoint_def split: if_splits)
qed

end

end
