(* ===== verification/State_Checkpoints.thy ===== *)
theory State_Checkpoints
  imports State_Spec
begin

text \<open>
  Checkpoints refine the history of the specification: taking one pushes the view, discarding one drops
  the head, reverting to one restores it, and the caches that reverting merges stay consistent.
\<close>

context state_backend
begin

lemma state_okI:
  assumes "bi (st_root st) (st_db st)" "\<And>a e. map_of (st_cache st) a = Some e \<Longrightarrow> entry_ok C G a e"
    and "\<And>c. c \<in> set (st_checkpoints st) \<Longrightarrow> distinct (map fst c)"
    and "\<And>c a e. c \<in> set (st_checkpoints st) \<Longrightarrow> map_of c a = Some (Some e) \<Longrightarrow> entry_ok C G a e"
  shows "ok st"
  using assms by (simp add: state_ok_def)

lemma state_okD:
  assumes "ok st"
  shows "bi (st_root st) (st_db st)" "map_of (st_cache st) a = Some e \<Longrightarrow> entry_ok C G a e"
    "c \<in> set (st_checkpoints st) \<Longrightarrow> distinct (map fst c)"
    "c \<in> set (st_checkpoints st) \<Longrightarrow> map_of c a = Some (Some e) \<Longrightarrow> entry_ok C G a e"
  using assms by (simp_all add: state_ok_def)

lemma lru_insert_all:
  assumes "gr_content G (fold (\<lambda>(k, v). cr_lru_insert C k v) kvs lru) key = Some v"
  shows "(key, v) \<in> set kvs \<or> gr_content G lru key = Some v"
  using assms by (induction kvs arbitrary: lru) (auto dest: lru_insert)

lemma account_overwrite_with_ok:
  assumes "account_ok C G a other" "account_ok C G a ours"
  shows "account_ok C G a (account_overwrite_with C other ours)"
    "acc_view C G a (account_overwrite_with C other ours) = acc_view C G a other"
proof -
  let ?new = "account_overwrite_with C other ours"
  have code: "code_view C G ?new = code_view C G other"
    by (simp add: code_view_def is_cached_def account_overwrite_with_def)
  have "storage_view C G a ?new = storage_view C G a other"
    by (simp add: storage_view_def account_overwrite_with_def cong: option.case_cong)
  with code show "acc_view C G a ?new = acc_view C G a other"
    by (simp add: acc_view_def account_overwrite_with_def)
  have "cache_ok C G a (ac_storage_root other) (ac_storage_cache ?new)"
  proof (cases "ac_storage_root ours = ac_storage_root other")
    case True
    have "cache_ok C G a (ac_storage_root other) (ac_storage_cache ours)"
      "cache_ok C G a (ac_storage_root other) (ac_storage_cache other)"
      using assms True by (simp_all add: account_ok_def)
    with True show ?thesis
      by (auto simp: cache_ok_def account_overwrite_with_def dest!: lru_insert_all lru_iter)
  next
    case False
    then show ?thesis using assms(1) by (simp add: account_ok_def account_overwrite_with_def)
  qed
  with assms(1) code show "account_ok C G a ?new"
    by (simp add: account_ok_def account_overwrite_with_def)
qed

lemma entry_overwrite_with_ok:
  assumes "entry_ok C G a other" "entry_ok C G a e"
  shows "entry_ok C G a (entry_overwrite_with C other e)"
    "entry_view C G a (Some (entry_overwrite_with C other e)) = entry_view C G a (Some other)"
proof -
  show view: "entry_view C G a (Some (entry_overwrite_with C other e)) = entry_view C G a (Some other)"
    using assms account_overwrite_with_ok(2)
    by (auto simp: entry_view_def entry_overwrite_with_def entry_ok_def split: option.splits)
  show "entry_ok C G a (entry_overwrite_with C other e)"
    using assms account_overwrite_with_ok(1) view
    by (auto simp: entry_ok_def entry_overwrite_with_def is_dirty_def split: option.splits)
qed

text \<open>What reverting does to the entry of one address.\<close>

definition reverted :: "'l account_entry option \<Rightarrow> 'l account_entry option \<Rightarrow> 'l account_entry option" where
  "reverted old cur = (case (old, cur) of
      (Some v, Some e) \<Rightarrow> Some (entry_overwrite_with C v e)
    | (Some v, None) \<Rightarrow> Some v
    | (None, Some e) \<Rightarrow> if is_dirty e then None else Some e
    | (None, None) \<Rightarrow> None)"

lemma map_of_revert_entry:
  "map_of (revert_entry C (k, old) cache) a = (if a = k then reverted old (map_of cache k) else map_of cache a)"
  by (auto simp: revert_entry_def reverted_def update_conv' delete_conv' split: option.splits)

lemma map_of_revert_all:
  assumes "distinct (map fst ckp)"
  shows "map_of (fold (revert_entry C) ckp cache) a =
    (case map_of ckp a of Some old \<Rightarrow> reverted old (map_of cache a) | None \<Rightarrow> map_of cache a)"
  using assms
proof (induction ckp arbitrary: cache)
  case (Cons kv ckp)
  obtain k old where kv: "kv = (k, old)" by fastforce
  have "map_of ckp k = None" using Cons.prems kv by (simp add: map_of_eq_None_iff)
  then show ?case
    using Cons kv by (auto simp: map_of_revert_entry split: option.splits)
qed simp

lemma reverted_ok:
  assumes "\<And>e. old = Some e \<Longrightarrow> entry_ok C G a e" "\<And>e. cur = Some e \<Longrightarrow> entry_ok C G a e"
  shows "reverted old cur = Some e \<Longrightarrow> entry_ok C G a e" "entry_view C G a (reverted old cur) = entry_view C G a old"
proof -
  show "entry_ok C G a e" if "reverted old cur = Some e"
    using that assms entry_overwrite_with_ok(1) [of a]
    by (cases old; cases cur) (auto simp: reverted_def split: if_splits)
  show "entry_view C G a (reverted old cur) = entry_view C G a old"
  proof (cases old; cases cur)
    fix e assume "old = None" "cur = Some e"
    then show ?thesis using assms(2) [of e] by (simp add: reverted_def entry_ok_def) (simp add: entry_view_def)
  qed (use assms entry_overwrite_with_ok(2) [of a] in \<open>simp_all add: reverted_def\<close>)
qed

theorem revert_to_checkpoint_refines:
  assumes "ok st" "st_checkpoints st \<noteq> []"
  shows "ok (revert_to_checkpoint C st)" "V (revert_to_checkpoint C st) = hd (history C G st)"
    "history C G (revert_to_checkpoint C st) = tl (history C G st)"
proof -
  obtain cs c where cs: "st_checkpoints st = cs @ [c]" using assms(2) by (cases "st_checkpoints st" rule: rev_cases) auto
  let ?st = "revert_to_checkpoint C st"
  have c: "distinct (map fst c)" "\<And>a e. map_of c a = Some (Some e) \<Longrightarrow> entry_ok C G a e"
    using assms(1) cs by (auto simp: state_ok_def)
  have cache: "map_of (st_cache ?st) a =
      (case map_of c a of Some old \<Rightarrow> reverted old (map_of (st_cache st) a) | None \<Rightarrow> map_of (st_cache st) a)" for a
    using cs by (simp add: revert_to_checkpoint_def map_of_revert_all [OF c(1)])
  have entries: "\<And>a e. map_of (st_cache st) a = Some e \<Longrightarrow> entry_ok C G a e" using assms(1) by (simp add: state_ok_def)
  have view: "V ?st = undo C G c (V st)"
  proof
    fix a
    show "V ?st a = undo C G c (V st) a"
    proof (cases "map_of c a")
      case None
      then show ?thesis by (simp add: view_def cache undo_def)
    next
      case (Some old)
      have "entry_view C G a (reverted old (map_of (st_cache st) a)) = entry_view C G a old"
        by (rule reverted_ok(2)) (use Some c(2) entries in blast)+
      with Some show ?thesis by (simp add: view_def cache undo_def)
    qed
  qed
  with cs show "V ?st = hd (history C G st)" by (simp add: history_def)
  show "history C G ?st = tl (history C G st)"
    using view cs by (simp add: history_def) (simp add: revert_to_checkpoint_def)
  have entries': "entry_ok C G a e" if "map_of (st_cache ?st) a = Some e" for a e
  proof (cases "map_of c a")
    case None
    then show ?thesis using that entries by (simp add: cache)
  next
    case (Some old)
    then have "reverted old (map_of (st_cache st) a) = Some e" using that by (simp add: cache)
    then show ?thesis
      by (rule reverted_ok(1) [rotated 2]) (use Some c(2) entries in blast)+
  qed
  show "ok ?st"
    by (rule state_okI [OF _ entries'])
      (use state_okD(1,3,4) [OF assms(1)] cs in \<open>(auto simp: revert_to_checkpoint_def; blast)\<close>)+
qed

theorem checkpoint_refines:
  assumes "ok st"
  shows "ok (snd (checkpoint st))" "V (snd (checkpoint st)) = V st"
    "history C G (snd (checkpoint st)) = V st # history C G st"
proof -
  have view: "V (snd (checkpoint st)) = V st" by (rule view_cong) (simp add: checkpoint_def)
  then show "V (snd (checkpoint st)) = V st" .
  have "undo C G [] (V st) = V st" by (simp add: undo_def fun_eq_iff)
  then show "history C G (snd (checkpoint st)) = V st # history C G st"
    using view by (simp add: history_def) (simp add: checkpoint_def)
  show "ok (snd (checkpoint st))" using assms by (auto simp: state_ok_def checkpoint_def)
qed

lemma map_of_merge:
  assumes "distinct (map fst ckp)"
  shows "map_of (fold (\<lambda>(k, v). or_insert k v) ckp prev) a =
    (case map_of prev a of Some v \<Rightarrow> Some v | None \<Rightarrow> map_of ckp a)"
  using assms
proof (induction ckp arbitrary: prev)
  case (Cons kv ckp)
  obtain k v where kv: "kv = (k, v)" by fastforce
  have "map_of ckp k = None" using Cons.prems kv by (simp add: map_of_eq_None_iff)
  then show ?case using Cons kv by (auto simp: map_of_or_insert split: option.splits)
qed (simp split: option.splits)

lemma distinct_merge:
  "distinct (map fst prev) \<Longrightarrow> distinct (map fst (fold (\<lambda>(k, v). or_insert k v) ckp prev))"
  by (induction ckp arbitrary: prev) (auto simp: distinct_or_insert)

theorem discard_checkpoint_refines:
  assumes "ok st" "st_checkpoints st \<noteq> []"
  shows "ok (discard_checkpoint st)" "V (discard_checkpoint st) = V st"
    "history C G (discard_checkpoint st) = tl (history C G st)"
proof -
  obtain cs c where cs: "st_checkpoints st = cs @ [c]" using assms(2) by (cases "st_checkpoints st" rule: rev_cases) auto
  have view: "V (discard_checkpoint st) = V st" by (rule view_cong) (simp add: discard_checkpoint_def Let_def)
  then show "V (discard_checkpoint st) = V st" .
  have "history C G (discard_checkpoint st) = tl (history C G st) \<and> ok (discard_checkpoint st)"
  proof (cases cs rule: rev_cases)
    case Nil
    then show ?thesis
      using assms(1) cs by (simp add: history_def discard_checkpoint_def state_ok_def)
  next
    case (snoc ds d)
    define merged where "merged = (if d = [] then c else fold (\<lambda>(k, v). or_insert k v) c d)"
    have st: "discard_checkpoint st = st\<lparr>st_checkpoints := ds @ [merged]\<rparr>"
      using cs snoc by (simp add: discard_checkpoint_def Let_def merged_def butlast_append)
    have cd: "distinct (map fst c)" "distinct (map fst d)" using assms(1) cs snoc by (simp_all add: state_ok_def)
    have merged: "map_of merged a = (case map_of d a of Some v \<Rightarrow> Some v | None \<Rightarrow> map_of c a)" for a
      using cd by (auto simp: merged_def map_of_merge split: option.splits)
    have "undo C G merged (V st) = undo C G d (undo C G c (V st))"
      by (auto simp: undo_def merged fun_eq_iff split: option.splits)
    then have "history C G (discard_checkpoint st) = tl (history C G st)"
      using view cs snoc by (simp add: history_def) (simp add: st)
    moreover have "ok (discard_checkpoint st)"
    proof -
      have "distinct (map fst merged)" using cd by (simp add: merged_def distinct_merge)
      moreover have "entry_ok C G a e" if "map_of merged a = Some (Some e)" for a e
        using that state_okD(4) [OF assms(1), of d a e] state_okD(4) [OF assms(1), of c a e] cs snoc
        by (simp add: merged split: option.splits)
      ultimately show ?thesis
        by (intro state_okI) (use state_okD [OF assms(1)] cs snoc in \<open>(auto simp: st; blast)\<close>)+
    qed
    ultimately show ?thesis by simp
  qed
  then show "history C G (discard_checkpoint st) = tl (history C G st)" "ok (discard_checkpoint st)" by simp_all
qed

end

end
