(* ===== verification/State_Ops.thy ===== *)
theory State_Ops
  imports State_Checkpoints
begin

text \<open>
  The operations of \<open>State\<close> against the specification: storage queries read the view, and every operation
  that changes an account changes the view at its address only, keeps the history, and does not panic.
\<close>

lemma past_cong: "map (undo C G) cs = map (undo C G) cs' \<Longrightarrow> past C G cs W = past C G cs' W"
proof (induction cs arbitrary: cs' W)
  case (Cons c cs)
  then obtain c' ds where "cs' = c' # ds" "undo C G c = undo C G c'" "map (undo C G) cs = map (undo C G) ds" by auto
  with Cons.IH show ?case by auto
qed simp

text \<open>The account that the operations create where there is none.\<close>

definition fresh_view :: "'l crates \<Rightarrow> u256 \<Rightarrow> account_view" where
  "fresh_view C nonce = \<lparr>av_balance = 0, av_nonce = nonce, av_code_hash = cr_KECCAK_EMPTY C, av_code = [],
     av_storage = (\<lambda>_. 0)\<rparr>"

definition account_or_fresh :: "'l crates \<Rightarrow> 'l ground \<Rightarrow> ('b, 'l) state \<Rightarrow> address \<Rightarrow> account_view" where
  "account_or_fresh C G st a = (case view C G st a of
      Some v \<Rightarrow> v | None \<Rightarrow> fresh_view C (st_account_start_nonce st))"

context state_backend
begin

section \<open>Taking an account for a change\<close>

lemma new_accounts_ok:
  "account_ok C G a (new_basic C 0 nonce)" "acc_view C G a (new_basic C 0 nonce) = fresh_view C nonce"
  "account_ok C G a (new_contract C v nonce root)"
  "acc_view C G a (new_contract C v nonce root) = (fresh_view C nonce)\<lparr>av_balance := v\<rparr>"
  by (auto simp: account_ok_def new_basic_def new_contract_def cache_ok_def empty_storage_cache_def lru_new
      acc_view_def code_view_def is_cached_def storage_view_def fresh_view_def empty_trie)

lemma wp_fetch_entry:
  assumes "ok st"
  shows "wp (fetch_entry C B a) (\<lambda>_ st'. same st st' \<and> map_of (st_cache st') a \<noteq> None) (\<lambda>_. same st) st"
proof (cases "map_of (st_cache st) a")
  case (Some e)
  then show ?thesis using assms by (simp add: fetch_entry_def wp_def same_refl)
next
  case None
  have bi: "bi (st_root st) (st_db st)" using assms by (simp add: state_ok_def)
  obtain found b where cached: "be_get_cached_account B a (st_db st) = (found, b)" by fastforce
  note shared = get_cached_account [OF bi cached]
  have b: "bi (st_root st) b" "same st (set_db b st)" using shared same_set_db [OF assms, of b] by simp_all
  have absent: "map_of (st_cache (set_db b st)) a = None" using None by (simp add: set_db_def)
  have insert: "same st (insert_cache a e (set_db b st)) \<and> map_of (st_cache (insert_cache a e (set_db b st))) a \<noteq> None"
    if "entry_ok C G a e" "\<not> is_dirty e" for e
    using same_trans [OF b(2) same_insert_clean [OF same_ok [OF b(2)] absent that]] that(2)
    by (simp add: insert_cache_def Let_def update_conv')
  have loaded: "shared_ok C G a (map_option (account_from C) (gr_base G a))"
    using shared_from_base [of a] similar_refl [OF account_from_ok(1)]
    by (cases "gr_base G a") (simp_all add: shared_ok_def)
  have base: "be_get_account B (st_root st) a b \<noteq> Panic"
    "be_get_account B (st_root st) a b = Ok basic \<Longrightarrow> basic = gr_base G a" for basic
    using get_account [OF b(1)] by simp_all
  show ?thesis
  proof (cases found)
    case (Some ac)
    then show ?thesis
      using insert [OF new_clean_ok(2,4)] None cached shared by (simp add: fetch_entry_def wp_def)
  next
    case found_None: None
    have "wp (bind (if \<not> be_is_known_null B a b then
                 bind (lift (be_open_trie B (st_root st) b)) (\<lambda>_.
                 bind (lift (be_get_account B (st_root st) a b)) (\<lambda>basic.
                 ret (new_clean (map_option (account_from C) basic))))
               else ret (new_clean None)) (\<lambda>e. modify (insert_cache a e)))
        (\<lambda>_ st'. same st st' \<and> map_of (st_cache st') a \<noteq> None) (\<lambda>_. same st) (set_db b st)"
    proof (cases "be_is_known_null B a b")
      case True
      then have "shared_ok C G a None" using known_null [OF b(1)] by (simp add: shared_ok_def)
      then show ?thesis using True insert [OF new_clean_ok(1,3)] by (simp add: wp_simps)
    next
      case False
      then show ?thesis
        using insert [OF new_clean_ok(1) [OF loaded] new_clean_ok(3)] open_trie [OF b(1)] base b(2)
        by (auto simp: wp_simps split: outcome.splits)
    qed
    then show ?thesis using None found_None cached by (simp add: fetch_entry_def wp_def)
  qed
qed

text \<open>The entry of an address that has been taken for a change.\<close>

definition taken :: "address \<Rightarrow> ('b, 'l) state \<Rightarrow> 'l account \<Rightarrow> bool" where
  "taken a st ac \<longleftrightarrow> recorded a st \<and> account_ok C G a ac \<and>
     (\<exists>e. map_of (st_cache st) a = Some e \<and> is_dirty e \<and> en_account e = Some ac)"

lemma taken_view: "taken a st ac \<Longrightarrow> V st a = Some (acc_view C G a ac)"
  by (auto simp: taken_def view_def entry_view_def)

lemma dirty_entry_ok:
  "account_ok C G a ac \<Longrightarrow> is_dirty e \<Longrightarrow> entry_ok C G a (e\<lparr>en_account := Some ac\<rparr>)"
  by (simp add: entry_ok_def is_dirty_def)

lemma changed_on_account:
  assumes "ok st" "taken a st ac" "account_ok C G a (f ac)"
  shows "changed a (Some (acc_view C G a (f ac))) st (on_account a f st)" "taken a (on_account a f st) (f ac)"
proof -
  from assms(2) obtain e where e: "map_of (st_cache st) a = Some e" "is_dirty e" "en_account e = Some ac" "recorded a st"
    by (auto simp: taken_def)
  have st: "on_account a f st = st\<lparr>st_cache := AList.update a (e\<lparr>en_account := Some (f ac)\<rparr>) (st_cache st)\<rparr>"
    using e by (simp add: on_account_def)
  show "changed a (Some (acc_view C G a (f ac))) st (on_account a f st)"
    using changed_update [OF assms(1) e(4) dirty_entry_ok [OF assms(3) e(2)]] st by (simp add: entry_view_def)
  show "taken a (on_account a f st) (f ac)"
    using e assms(3) st by (simp add: taken_def recorded_def update_conv' is_dirty_def)
qed

lemma load_code_taken:
  assumes "ok st" "taken a st ac" "load_code C B a req ac (st_db st) = (fine, ac', b)"
  shows "same st (put_account a ac' (set_db b st))" "taken a (put_account a ac' (set_db b st)) ac'"
proof -
  from assms(2) obtain e where e: "map_of (st_cache st) a = Some e" "is_dirty e" "en_account e = Some ac" "recorded a st"
    and ac: "account_ok C G a ac" by (auto simp: taken_def)
  have "bi (st_root st) (st_db st)" using assms(1) by (simp add: state_ok_def)
  note load = load_code_similar [OF ac this assms(3)]
  note b = same_set_db [OF assms(1) load(2)]
  have found: "map_of (st_cache (set_db b st)) a = Some e" using e(1) by (simp add: set_db_def)
  show "same st (put_account a ac' (set_db b st))"
    using same_trans [OF b same_put_account [OF same_ok [OF b] found e(3) load(1)]] .
  show "taken a (put_account a ac' (set_db b st)) ac'"
    using e similar_ok [OF load(1)] by (simp add: taken_def put_account_def set_db_def recorded_def update_conv' is_dirty_def)
qed

text \<open>Recording the entry and marking it dirty, with a new account where there is none.\<close>

definition mark_dirty :: "address \<Rightarrow> 'l account \<Rightarrow> ('b, 'l) state \<Rightarrow> 'l account_entry \<Rightarrow> ('b, 'l) state" where
  "mark_dirty a new st e = st\<lparr>st_cache := AList.update a (e\<lparr>en_state := Entry_Dirty,
     en_account := Some (case en_account e of Some ac \<Rightarrow> ac | None \<Rightarrow> new)\<rparr>) (st_cache st)\<rparr>"

lemma mark_dirty_taken:
  assumes "ok st" "recorded a st" "map_of (st_cache st) a = Some e" "account_ok C G a new"
    and "acc_view C G a new = fresh_view C (st_account_start_nonce st)"
  shows "changed a (Some (account_or_fresh C G st a)) st (mark_dirty a new st e)" "\<exists>ac. taken a (mark_dirty a new st e) ac"
proof -
  define ac where "ac = (case en_account e of Some ac \<Rightarrow> ac | None \<Rightarrow> new)"
  have "entry_ok C G a e" using assms(1,3) by (simp add: state_ok_def)
  then have ac: "account_ok C G a ac" using assms(4) by (auto simp: ac_def entry_ok_def split: option.splits)
  have "acc_view C G a ac = account_or_fresh C G st a"
    using assms(3,5) by (simp add: ac_def account_or_fresh_def view_def entry_view_def split: option.splits)
  moreover have "entry_ok C G a (e\<lparr>en_state := Entry_Dirty, en_account := Some ac\<rparr>)"
    using ac by (simp add: entry_ok_def is_dirty_def)
  from changed_update [OF assms(1,2) this]
  have "changed a (Some (acc_view C G a ac)) st (mark_dirty a new st e)"
    by (simp add: entry_view_def ac_def mark_dirty_def)
  ultimately show "changed a (Some (account_or_fresh C G st a)) st (mark_dirty a new st e)" by simp
  have "taken a (mark_dirty a new st e) ac"
    using ac assms(2) by (simp add: taken_def recorded_def update_conv' is_dirty_def ac_def mark_dirty_def)
  then show "\<exists>ac. taken a (mark_dirty a new st e) ac" ..
qed

lemma account_or_fresh_same: "same st st' \<Longrightarrow> account_or_fresh C G st' a = account_or_fresh C G st a"
  by (simp add: same_def account_or_fresh_def cong: option.case_cong)

lemma wp_require_or_from:
  assumes "ok st" "\<And>st. account_ok C G a (mk st)" "\<And>st. acc_view C G a (mk st) = fresh_view C (st_account_start_nonce st)"
  shows "wp (require_or_from C B a code mk (\<lambda>ac. ac))
    (\<lambda>_ st'. changed a (Some (account_or_fresh C G st a)) st st' \<and> (\<exists>ac. taken a st' ac))
    (\<lambda>_ st'. \<exists>v. changed a v st st') st"
    (is "wp _ ?Q ?E st")
proof -
  have load: "wp (if code then (\<lambda>st. case Option.bind (map_of (st_cache st) a) en_account of
        Some ac \<Rightarrow> (case load_code C B a Require_Code ac (st_db st) of (fine, ac', b) \<Rightarrow>
            (if fine then Ok () else Err (IncompleteDatabase (address_to_h256 a)), put_account a ac' (set_db b st)))
      | None \<Rightarrow> (Panic, st)) else ret ()) ?Q ?E st'" if "?Q () st'" for st'
  proof -
    from that obtain ac where ac: "taken a st' ac" and changed: "changed a (Some (account_or_fresh C G st a)) st st'" by auto
    obtain fine ac' b where load: "load_code C B a Require_Code ac (st_db st') = (fine, ac', b)" by (metis prod.exhaust)
    note loaded = load_code_taken [OF changed_ok [OF changed] ac load]
    have "Option.bind (map_of (st_cache st') a) en_account = Some ac" using ac by (auto simp: taken_def)
    with load that loaded(2) changed_same [OF changed loaded(1)] show ?thesis by (auto simp: wp_def action_simps)
  qed
  have step: "?Q () (mark_dirty a (mk (note_cache C a st1)) (note_cache C a st1) e)"
    if "same st st1" "map_of (st_cache st1) a = Some e" for st1 e
  proof -
    note noted = same_note_cache [OF same_ok [OF that(1)] that(2)]
    have "map_of (st_cache (note_cache C a st1)) a = Some e"
      using that(2) by (simp add: note_cache_def on_last_checkpoint_def)
    note mark = mark_dirty_taken [OF same_ok [OF noted(1)] noted(2) this assms(2,3)]
    have all: "same st (note_cache C a st1)" using same_trans [OF that(1) noted(1)] .
    show ?thesis using same_changed [OF all mark(1)] mark(2) by (simp add: account_or_fresh_same [OF all])
  qed
  have cache: "st_cache (note_cache C a st1) = st_cache st1" for st1 :: "('b, 'l) state"
    by (simp add: note_cache_def on_last_checkpoint_def)
  show ?thesis
    unfolding require_or_from_def wp_bind
    by (rule wp_mono [OF wp_fetch_entry [OF assms(1), of a]])
      (use load step in \<open>auto simp: wp_basic wp_lift cache mark_dirty_def dest: same_is_changed\<close>)
qed

lemma wp_require_then:
  assumes "ok st" "\<And>ac. account_ok C G a ac \<Longrightarrow> account_ok C G a (f ac) \<and> acc_view C G a (f ac) = g (acc_view C G a ac)"
  shows "wp (bind (require C B a code) (\<lambda>_. modify (on_account a f)))
    (\<lambda>_. changed a (Some (g (account_or_fresh C G st a))) st) (\<lambda>_ st'. \<exists>v. changed a v st st') st"
proof -
  have update: "changed a (Some (g (account_or_fresh C G st a))) st (on_account a f st')"
    if "changed a (Some (account_or_fresh C G st a)) st st'" "taken a st' ac" for st' ac
  proof -
    have ac: "account_ok C G a ac" using that(2) by (simp add: taken_def)
    have "acc_view C G a ac = account_or_fresh C G st a" using that taken_view [OF that(2)] by (simp add: changed_def)
    then show ?thesis
      using changed_changed [OF that(1) changed_on_account(1) [OF changed_ok [OF that(1)] that(2)], of f] assms(2) [OF ac] by simp
  qed
  have "wp (require C B a code)
    (\<lambda>_ st'. changed a (Some (account_or_fresh C G st a)) st st' \<and> (\<exists>ac. taken a st' ac)) (\<lambda>_ st'. \<exists>v. changed a v st st') st"
    unfolding require_def by (rule wp_require_or_from [OF assms(1)]) (simp_all add: new_accounts_ok)
  then show ?thesis
    unfolding wp_bind by (rule wp_mono) (use update in \<open>auto simp: wp_basic\<close>)
qed

section \<open>Storage queries\<close>

lemma cache_ok_get:
  assumes "cache_ok C G a root cache" "cr_lru_get_mut C key cache = (v, cache')"
  shows "cache_ok C G a root cache'" "v = Some x \<Longrightarrow> x = gr_cell G (akey C a) root key"
  using lru_get [OF assms(2)] assms(1) by (auto simp: cache_ok_def)

lemma cache_ok_insert:
  "cache_ok C G a root cache \<Longrightarrow> cache_ok C G a root (cr_lru_insert C key (gr_cell G (akey C a) root key) cache)"
  unfolding cache_ok_def by (auto dest: lru_insert)

lemma cached_storage_at_similar:
  assumes "account_ok C G a ac" "cached_storage_at C key ac = (v, ac')"
  shows "similar a ac ac'" "v = Some x \<Longrightarrow> x = storage_view C G a ac key"
    "v = None \<Longrightarrow> map_of (ac_storage_changes ac) key = None \<and> ac_storage_root ac = base_root C G a \<and>
      ac_storage_root ac \<noteq> cr_KECCAK_NULL_RLP C"
proof -
  have get: "similar a ac (ac\<lparr>ac_storage_cache := cache'\<rparr>)"
    "w = Some x \<Longrightarrow> x = gr_cell G (akey C a) (ac_storage_root ac) key"
    if "cr_lru_get_mut C key (ac_storage_cache ac) = (w, cache')" for w x cache'
    using cache_ok_get [OF _ that] assms(1) by (auto simp: similar_def account_ok_def acc_view_def)
  have "similar a ac ac' \<and> (v = Some x \<longrightarrow> x = storage_view C G a ac key) \<and>
    (v = None \<longrightarrow> map_of (ac_storage_changes ac) key = None \<and> ac_storage_root ac = base_root C G a \<and>
      ac_storage_root ac \<noteq> cr_KECCAK_NULL_RLP C)"
  proof (cases "map_of (ac_storage_changes ac) key")
    case (Some w)
    then show ?thesis
      using assms similar_refl by (auto simp: cached_storage_at_def storage_view_def)
  next
    case None
    show ?thesis
    proof (cases "ac_storage_root ac = cr_KECCAK_NULL_RLP C")
      case True
      then show ?thesis
        using None assms similar_refl [OF assms(1)]
        by (auto simp: cached_storage_at_def cached_moved_original_storage_at_def storage_view_def empty_trie)
    next
      case False
      obtain w cache' where "cr_lru_get_mut C key (ac_storage_cache ac) = (w, cache')" by fastforce
      with get [OF this] show ?thesis
        using None False assms
        by (auto simp: cached_storage_at_def cached_moved_original_storage_at_def storage_view_def account_ok_def)
    qed
  qed
  then show "similar a ac ac'" "v = Some x \<Longrightarrow> x = storage_view C G a ac key"
    "v = None \<Longrightarrow> map_of (ac_storage_changes ac) key = None \<and> ac_storage_root ac = base_root C G a \<and>
      ac_storage_root ac \<noteq> cr_KECCAK_NULL_RLP C" by auto
qed

lemma get_and_cache_storage_ok:
  assumes "bi rt b" "cache_ok C G a root cache"
    and "get_and_cache_storage C root (be_account_db B (akey C a) b) key cache = (r, cache')"
  shows "cache_ok C G a root cache'" "r \<noteq> Panic" "r = Ok x \<Longrightarrow> x = gr_cell G (akey C a) root key"
  using storage [OF assms(1), of "akey C a" root key] assms(2,3) cache_ok_insert [OF assms(2), of key]
  by (auto simp: get_and_cache_storage_def action_simps Let_def split: outcome.splits)

lemma account_storage_at_similar:
  assumes "account_ok C G a ac" "bi rt b" "account_storage_at C (be_account_db B (akey C a) b) key ac = (r, ac')"
  shows "similar a ac ac'" "r \<noteq> Panic" "r = Ok x \<Longrightarrow> x = storage_view C G a ac key"
proof -
  obtain v ac1 where cached: "cached_storage_at C key ac = (v, ac1)" by fastforce
  note ac1 = cached_storage_at_similar [OF assms(1) cached]
  have "similar a ac ac' \<and> r \<noteq> Panic \<and> (\<forall>x. r = Ok x \<longrightarrow> x = storage_view C G a ac key)"
  proof (cases v)
    case None
    obtain r' cache' where get: "get_and_cache_storage C (ac_storage_root ac1) (be_account_db B (akey C a) b) key
        (ac_storage_cache ac1) = (r', cache')" by fastforce
    have "cache_ok C G a (ac_storage_root ac1) (ac_storage_cache ac1)"
      using similar_ok [OF ac1(1)] by (simp add: account_ok_def)
    note got = get_and_cache_storage_ok [OF assms(2) this get]
    have ac': "ac' = ac1\<lparr>ac_storage_cache := cache'\<rparr>" "r = r'"
      using assms(3) cached None get by (auto simp: account_storage_at_def in_storage_cache_def)
    have "similar a ac1 ac'"
      using got(1) similar_ok [OF ac1(1)] ac' by (simp add: similar_def account_ok_def acc_view_def)
    moreover have "storage_view C G a ac key = gr_cell G (akey C a) (ac_storage_root ac1) key"
      using ac1(1,3) None by (simp add: storage_view_def similar_def)
    ultimately show ?thesis using similar_trans [OF ac1(1)] got(2,3) ac' by simp
  next
    case (Some w)
    then show ?thesis using ac1 assms(3) cached by (auto simp: account_storage_at_def)
  qed
  then show "similar a ac ac'" "r \<noteq> Panic" "r = Ok x \<Longrightarrow> x = storage_view C G a ac key" by simp_all
qed

lemma cached_original_similar:
  assumes "account_ok C G a ac" "cached_original_storage_at C key ac = (v, ac')"
  shows "similar a ac ac'"
proof (cases "ac_original_storage_cache ac")
  case None
  obtain w cache' where get: "cr_lru_get_mut C key (ac_storage_cache ac) = (w, cache')" by fastforce
  then have "similar a ac (ac\<lparr>ac_storage_cache := cache'\<rparr>)"
    using cache_ok_get(1) [OF _ get] assms(1) by (auto simp: similar_def account_ok_def acc_view_def)
  then show ?thesis
    using None get assms similar_refl [OF assms(1)]
    by (auto simp: cached_original_storage_at_def cached_moved_original_storage_at_def split: if_splits)
next
  case (Some rc)
  obtain root cache where rc: "rc = (root, cache)" by fastforce
  obtain w cache' where get: "cr_lru_get_mut C key cache = (w, cache')" by fastforce
  have "cache_ok C G a root cache'" using cache_ok_get(1) [OF _ get] assms(1) Some rc by (simp add: account_ok_def)
  then show ?thesis
    using Some rc get assms by (auto simp: cached_original_storage_at_def similar_def account_ok_def acc_view_def)
qed

lemma account_original_similar:
  assumes "account_ok C G a ac" "bi rt b" "account_original_storage_at C (be_account_db B (akey C a) b) key ac = (r, ac')"
  shows "similar a ac ac'" "r \<noteq> Panic"
proof -
  obtain v ac1 where cached: "cached_original_storage_at C key ac = (v, ac1)" by fastforce
  note ac1 = cached_original_similar [OF assms(1) cached]
  have "similar a ac ac' \<and> r \<noteq> Panic"
  proof (cases v)
    case (Some w)
    then show ?thesis using ac1 assms(3) cached by (auto simp: account_original_storage_at_def)
  next
    case None
    define root where "root = (case ac_original_storage_cache ac1 of Some (root, _) \<Rightarrow> root | None \<Rightarrow> ac_storage_root ac1)"
    define cache where "cache = (case ac_original_storage_cache ac1 of Some (_, cache) \<Rightarrow> cache | None \<Rightarrow> ac_storage_cache ac1)"
    obtain r' cache' where get: "get_and_cache_storage C root (be_account_db B (akey C a) b) key cache = (r', cache')" by fastforce
    have "cache_ok C G a root cache"
      using similar_ok [OF ac1] by (auto simp: account_ok_def root_def cache_def split: option.splits)
    note got = get_and_cache_storage_ok [OF assms(2) this get]
    have "similar a ac1 ac' \<and> r \<noteq> Panic"
      using assms(3) cached None get got(1,2) similar_ok [OF ac1]
      by (auto simp: account_original_storage_at_def in_storage_cache_def root_def cache_def similar_def account_ok_def
          acc_view_def split: option.splits)
    then show ?thesis using similar_trans [OF ac1] by simp
  qed
  then show "similar a ac ac'" "r \<noteq> Panic" by simp_all
qed

end

end
