(* ===== verification/State_Storage.thy ===== *)
theory State_Storage
  imports State_Ops
begin

text \<open>
  Storage against the specification: \<open>storage_at\<close> reads the cell of the view through three caches,
  \<open>checkpoint_storage_at\<close> never panics, and \<open>set_storage\<close> changes one cell.
\<close>

definition view_storage :: "'l crates \<Rightarrow> 'l ground \<Rightarrow> ('b, 'l) state \<Rightarrow> address \<Rightarrow> h256 \<Rightarrow> h256" where
  "view_storage C G st a key = (case view C G st a of Some v \<Rightarrow> av_storage v key | None \<Rightarrow> 0)"

definition set_cell :: "h256 \<Rightarrow> h256 \<Rightarrow> account_view \<Rightarrow> account_view" where
  "set_cell key x v = v\<lparr>av_storage := (av_storage v)(key := x)\<rparr>"

context state_backend
begin

text \<open>A read of an account that gives values related to its view by \<open>P\<close>.\<close>

definition faithful ::
  "address \<Rightarrow> h256 \<Rightarrow> (account_db \<Rightarrow> h256 \<Rightarrow> ('l account, trie_error, h256) action) \<Rightarrow> (account_view \<Rightarrow> h256 \<Rightarrow> bool) \<Rightarrow> bool" where
  "faithful a key f_at P \<longleftrightarrow> (\<forall>rt b ac r ac'. bi rt b \<longrightarrow> account_ok C G a ac \<longrightarrow>
     f_at (be_account_db B (akey C a) b) key ac = (r, ac') \<longrightarrow>
     similar a ac ac' \<and> r \<noteq> Panic \<and> (\<forall>x. r = Ok x \<longrightarrow> P (acc_view C G a ac) x))"

lemma read_storage_similar:
  assumes "faithful a key f_at P" "account_ok C G a ac" "bi rt b" "read_storage C B a key f_at b ac = (r, ac')"
  shows "similar a ac ac'" "r \<noteq> Panic" "r = Ok x \<Longrightarrow> P (acc_view C G a ac) x"
proof -
  obtain h ac1 where hash: "address_hash C a ac = (h, ac1)" by fastforce
  note ac1 = address_hash_similar [OF assms(2) hash]
  have "f_at (be_account_db B (akey C a) b) key ac1 = (r, ac')"
    using assms(4) hash ac1(1) by (simp add: read_storage_def)
  then have res: "similar a ac1 ac' \<and> r \<noteq> Panic \<and> (\<forall>x. r = Ok x \<longrightarrow> P (acc_view C G a ac1) x)"
    using assms(1,3) similar_ok [OF ac1(2)] by (simp add: faithful_def)
  have "acc_view C G a ac1 = acc_view C G a ac" using ac1(2) by (simp add: similar_def)
  with res similar_trans [OF ac1(2), of ac']
  show "similar a ac ac'" "r \<noteq> Panic" "r = Ok x \<Longrightarrow> P (acc_view C G a ac) x" by simp_all
qed

text \<open>The account a value was read from: the shared or stored one, or the local one.\<close>

definition read_from :: "address \<Rightarrow> 'l account option \<Rightarrow> (account_view \<Rightarrow> h256 \<Rightarrow> bool) \<Rightarrow> h256 \<Rightarrow> bool" where
  "read_from a loc P r \<longleftrightarrow>
     (\<exists>s. shared_ok C G a s \<and> (case s of None \<Rightarrow> r = 0 | Some ac \<Rightarrow> P (acc_view C G a ac) r)) \<or>
     (\<exists>ac. loc = Some ac \<and> P (acc_view C G a ac) r)"

lemma wp_storage_at_shared:
  assumes "ok st" "faithful a key f_at P" "be_get_cached B a (st_db st) = (Some s, b)"
  shows "wp (storage_at_global C B a key f_at loc) (\<lambda>r st'. same st st' \<and> read_from a loc P r) (\<lambda>_. same st) st"
proof -
  have "bi (st_root st) (st_db st)" using assms(1) by (simp add: state_ok_def)
  then have b: "bi (st_root st) b" and s: "shared_ok C G a s" using get_cached [OF _ assms(3)] by blast+
  show ?thesis
  proof (cases s)
    case None
    then show ?thesis
      using assms(3) same_set_db [OF assms(1) b] s by (auto simp: storage_at_global_def wp_def read_from_def)
  next
    case (Some sh)
    obtain r ac' where read: "read_storage C B a key f_at b sh = (r, ac')" by fastforce
    have "account_ok C G a sh" using s Some by (simp add: shared_ok_def)
    note read' = read_storage_similar [OF assms(2) this b read]
    have "shared_ok C G a (Some ac')" using shared_similar [OF _ read'(1)] s Some by simp
    from same_set_db [OF assms(1) set_cached [OF b this]]
    have "same st (set_db (be_set_cached B a ac' b) st)" .
    moreover have "read_from a loc P x" if "r = Ok x" for x
      using read'(3) [OF that] s Some by (auto simp: read_from_def)
    ultimately show ?thesis
      using assms(3) Some read read'(2) by (cases r) (simp_all add: storage_at_global_def wp_def)
  qed
qed

lemma wp_storage_at_local:
  assumes "ok st" "faithful a key f_at P" "be_get_cached B a (st_db st) = (None, b)"
    and "map_of (st_cache st) a = Some e" "en_account e = Some ac"
  shows "wp (storage_at_global C B a key f_at (Some ac)) (\<lambda>r st'. same st st' \<and> read_from a (Some ac) P r) (\<lambda>_. same st) st"
proof -
  have "bi (st_root st) (st_db st)" using assms(1) by (simp add: state_ok_def)
  then have b: "bi (st_root st) b" using get_cached [OF _ assms(3)] by blast
  obtain r ac' where read: "read_storage C B a key f_at b ac = (r, ac')" by fastforce
  have "account_ok C G a ac" using assms(1,4,5) by (auto simp: state_ok_def entry_ok_def)
  note read' = read_storage_similar [OF assms(2) this b read]
  note set_b = same_set_db [OF assms(1) b]
  have "map_of (st_cache (set_db b st)) a = Some e" using assms(4) by (simp add: set_db_def)
  note put = same_trans [OF set_b same_put_account [OF same_ok [OF set_b] this assms(5) read'(1)]]
  have "read_from a (Some ac) P x" if "r = Ok x" for x
    using read'(3) [OF that] by (simp add: read_from_def)
  then show ?thesis
    using assms(3) read read'(2) put by (cases r) (simp_all add: storage_at_global_def wp_def)
qed

lemma wp_storage_at_trie:
  assumes "ok st" "faithful a key f_at P" "be_get_cached B a (st_db st) = (None, b)" "map_of (st_cache st) a = None"
  shows "wp (storage_at_global C B a key f_at None) (\<lambda>r st'. same st st' \<and> read_from a None P r) (\<lambda>_. same st) st"
proof -
  have "bi (st_root st) (st_db st)" using assms(1) by (simp add: state_ok_def)
  then have b: "bi (st_root st) b" "same st (set_db b st)" using get_cached [OF _ assms(3)] same_set_db [OF assms(1)] by blast+
  have db: "be_get_account B (st_root st) a b \<noteq> Panic"
    "be_get_account B (st_root st) a b = Ok basic \<Longrightarrow> basic = gr_base G a" for basic
    using get_account [OF b(1)] by simp_all
  have absent: "map_of (st_cache (set_db b st)) a = None" using assms(4) by (simp add: set_db_def)
  have insert: "same st (insert_cache a (new_clean ac) (set_db b st))" if "shared_ok C G a ac" for ac
    using same_trans [OF b(2) same_insert_clean [OF same_ok [OF b(2)] absent new_clean_ok(1) [OF that] new_clean_ok(3)]] .
  have none: "shared_ok C G a None" "read_from a None P 0" if "gr_base G a = None"
  proof -
    show "shared_ok C G a None" using that by (simp add: shared_ok_def)
    then show "read_from a None P 0" by (auto simp: read_from_def)
  qed
  show ?thesis
  proof (cases "be_is_known_null B a b")
    case True
    then show ?thesis
      using none(2) known_null [OF b(1)] assms(3) b(2) by (simp add: storage_at_global_def wp_def)
  next
    case False
    note run = assms(3) False open_trie [OF b(1)]
    show ?thesis
    proof (cases "be_get_account B (st_root st) a b")
      case (Ok basic)
      show ?thesis
      proof (cases basic)
        case None
        with db(2) [OF Ok] none insert [of None] show ?thesis
          using run Ok None by (simp add: storage_at_global_def wp_def action_simps set_db_def)
      next
        case (Some bas)
        then have bas: "gr_base G a = Some bas" using db(2) [OF Ok] by simp
        note stored = account_from_ok [OF bas]
        obtain r ac' where read: "read_storage C B a key f_at b (account_from C bas) = (r, ac')" by fastforce
        note read' = read_storage_similar [OF assms(2) stored(1) b(1) read]
        have "shared_ok C G a (Some (account_from C bas))" using shared_from_base [OF bas similar_refl [OF stored(1)]] .
        then have "read_from a None P x" if "r = Ok x" for x using read'(3) [OF that] by (auto simp: read_from_def)
        then show ?thesis
          using run Ok Some read read'(2) insert [OF shared_from_base [OF bas read'(1)]]
          by (cases r) (simp_all add: storage_at_global_def wp_def action_simps set_db_def)
      qed
    next
      case (Err e)
      then show ?thesis using run b(2) by (simp add: storage_at_global_def wp_def action_simps set_db_def)
    qed (use db in simp)
  qed
qed

lemma wp_storage_at_global:
  assumes "ok st" "faithful a key f_at P" "Option.bind (map_of (st_cache st) a) en_account = loc"
    and "loc = None \<Longrightarrow> map_of (st_cache st) a = None"
  shows "wp (storage_at_global C B a key f_at loc) (\<lambda>r st'. same st st' \<and> read_from a loc P r) (\<lambda>_. same st) st"
proof -
  obtain found b where get: "be_get_cached B a (st_db st) = (found, b)" by fastforce
  show ?thesis
  proof (cases found)
    case (Some s)
    with get show ?thesis using wp_storage_at_shared [OF assms(1,2)] by simp
  next
    case None
    show ?thesis
    proof (cases loc)
      case None
      then show ?thesis using wp_storage_at_trie [OF assms(1,2)] assms(4) get \<open>found = None\<close> by simp
    next
      case (Some ac)
      then show ?thesis
        using wp_storage_at_local [OF assms(1,2)] assms(3) get \<open>found = None\<close> by (auto simp: Option.bind_eq_Some_conv)
    qed
  qed
qed

text \<open>A miss of the local caches happens only where the shared account gives the same value.\<close>

lemma wp_storage_at_inner:
  assumes "ok st" "faithful a key f_at P"
    and cached: "\<And>ac v ac'. account_ok C G a ac \<Longrightarrow> f_cached_at key ac = (v, ac') \<Longrightarrow>
      similar a ac ac' \<and> (\<forall>x. v = Some x \<longrightarrow> P (acc_view C G a ac) x)"
    and miss: "\<And>ac ac' s x. account_ok C G a ac \<Longrightarrow> f_cached_at key ac = (None, ac') \<Longrightarrow>
      shared_ok C G a s \<Longrightarrow> (case s of None \<Rightarrow> x = 0 | Some ac \<Rightarrow> P (acc_view C G a ac) x) \<Longrightarrow> P (acc_view C G a ac) x"
  shows "wp (storage_at_inner C B a key f_cached_at f_at)
    (\<lambda>r st'. same st st' \<and> (case V st a of Some v \<Rightarrow> P v r | None \<Rightarrow> r = 0)) (\<lambda>_. same st) st"
proof (cases "map_of (st_cache st) a")
  case None
  have "case V st a of Some v \<Rightarrow> P v r | None \<Rightarrow> r = 0" if "read_from a None P r" for r
    using that None by (auto simp: read_from_def view_def entry_view_def shared_ok_def base_view_def split: option.splits)
  then have "wp (storage_at_global C B a key f_at None)
      (\<lambda>r st'. same st st' \<and> (case V st a of Some v \<Rightarrow> P v r | None \<Rightarrow> r = 0)) (\<lambda>_. same st) st"
    using wp_storage_at_global [OF assms(1,2), of None] None by (auto elim: wp_mono)
  with None show ?thesis by (simp add: storage_at_inner_def wp_def)
next
  case (Some e)
  show ?thesis
  proof (cases "en_account e")
    case None
    with Some show ?thesis
      using assms(1) by (simp add: storage_at_inner_def wp_def same_refl view_def entry_view_def)
  next
    case ac: (Some ac)
    have ac_ok: "account_ok C G a ac" using assms(1) Some ac by (auto simp: state_ok_def entry_ok_def)
    have view: "V st a = Some (acc_view C G a ac)" using Some ac by (simp add: view_def entry_view_def)
    obtain v ac' where at: "f_cached_at key ac = (v, ac')" by fastforce
    note at' = cached [OF ac_ok at]
    then have put: "same st (put_account a ac' st)" using same_put_account [OF assms(1) Some ac] by blast
    show ?thesis
    proof (cases v)
      case None
      have "P (acc_view C G a ac) r" if "read_from a (Some ac') P r" for r
        using that miss [OF ac_ok at [unfolded None]] at' by (auto simp: read_from_def similar_def)
      moreover have "Option.bind (map_of (st_cache (put_account a ac' st)) a) en_account = Some ac'"
        using Some by (simp add: put_account_def update_conv')
      ultimately have "wp (storage_at_global C B a key f_at (Some ac'))
          (\<lambda>r st'. same st st' \<and> P (acc_view C G a ac) r) (\<lambda>_. same st) (put_account a ac' st)"
        using wp_storage_at_global [OF same_ok [OF put] assms(2)] same_trans [OF put] by (auto elim: wp_mono)
      with None Some ac at view show ?thesis by (simp add: storage_at_inner_def wp_def)
    qed (use Some ac at at' put view in \<open>simp add: storage_at_inner_def wp_def\<close>)
  qed
qed

lemma wp_state_storage_at:
  assumes "ok st"
  shows "wp (state_storage_at C B a key) (\<lambda>r st'. same st st' \<and> r = view_storage C G st a key) (\<lambda>_. same st) st"
proof -
  let ?P = "\<lambda>v x. x = av_storage v key"
  have "faithful a key (account_storage_at C) ?P"
    using account_storage_at_similar by (simp add: faithful_def acc_view_def)
  moreover have "?P (acc_view C G a ac) x"
    if "account_ok C G a ac" "cached_storage_at C key ac = (None, ac')" and shared: "shared_ok C G a s"
      "case s of None \<Rightarrow> x = 0 | Some ac \<Rightarrow> ?P (acc_view C G a ac) x" for ac ac' s x
  proof -
    have ac: "map_of (ac_storage_changes ac) key = None" "ac_storage_root ac = base_root C G a"
      "ac_storage_root ac \<noteq> cr_KECCAK_NULL_RLP C" using cached_storage_at_similar(3) [OF that(1,2)] by auto
    then obtain sh where "s = Some sh" using shared(1) by (cases s) (auto simp: shared_ok_def base_root_def)
    with shared ac show ?thesis by (simp add: shared_ok_def acc_view_def storage_view_def)
  qed
  moreover have "similar a ac ac' \<and> (\<forall>x. v = Some x \<longrightarrow> ?P (acc_view C G a ac) x)"
    if "account_ok C G a ac" "cached_storage_at C key ac = (v, ac')" for ac v ac'
    using cached_storage_at_similar(1,2) [OF that] by (simp add: acc_view_def)
  ultimately have "wp (state_storage_at C B a key)
      (\<lambda>r st'. same st st' \<and> (case V st a of Some v \<Rightarrow> ?P v r | None \<Rightarrow> r = 0)) (\<lambda>_. same st) st"
    unfolding state_storage_at_def by (intro wp_storage_at_inner [OF assms]) blast+
  then show ?thesis by (rule wp_mono) (auto simp: view_storage_def split: option.splits)
qed

lemma wp_original_storage_at:
  assumes "ok st"
  shows "wp (original_storage_at C B a key) (\<lambda>_. same st) (\<lambda>_. same st) st"
proof -
  have "faithful a key (account_original_storage_at C) (\<lambda>_ _. True)"
    using account_original_similar by (simp add: faithful_def)
  then have "wp (original_storage_at C B a key)
      (\<lambda>r st'. same st st' \<and> (case V st a of Some v \<Rightarrow> True | None \<Rightarrow> r = 0)) (\<lambda>_. same st) st"
    unfolding original_storage_at_def by (rule wp_storage_at_inner [OF assms]) (simp_all add: cached_original_similar)
  then show ?thesis by (rule wp_mono) simp_all
qed

section \<open>Values at a checkpoint\<close>

lemma same_put_checkpoint:
  assumes "ok st" "i < length (st_checkpoints st)" "map_of (st_checkpoints st ! i) a = Some (Some e)"
    and "en_account e = Some ac" "similar a ac ac'"
  shows "same st (put_checkpoint_account i a (e\<lparr>en_account := Some ac'\<rparr>) st)" (is "same st ?st")
proof -
  let ?e = "e\<lparr>en_account := Some ac'\<rparr>" and ?c = "st_checkpoints st ! i"
  have in_set: "?c \<in> set (st_checkpoints st)" using assms(2) by simp
  have e: "entry_ok C G a e" using state_okD(4) [OF assms(1) in_set assms(3)] .
  have view: "entry_view C G a (Some ?e) = entry_view C G a (Some e)"
    using assms(4,5) by (simp add: entry_view_def similar_def)
  then have e': "entry_ok C G a ?e" using e similar_ok [OF assms(5)] by (simp add: entry_ok_def is_dirty_def)
  have "undo C G (AList.update a (Some ?e) ?c) = undo C G ?c"
    using assms(3) view by (auto simp: undo_def update_conv' fun_eq_iff split: option.splits)
  then have "map (undo C G) (st_checkpoints ?st) = map (undo C G) (st_checkpoints st)"
    using assms(2) by (simp add: put_checkpoint_account_def map_update list_update_same_conv)
  then have "map (undo C G) (rev (st_checkpoints ?st)) = map (undo C G) (rev (st_checkpoints st))"
    by (simp add: rev_map [symmetric])
  moreover have same_view: "V ?st = V st" by (rule view_cong) (simp add: put_checkpoint_account_def)
  ultimately have "history C G ?st = history C G st"
    unfolding history_def same_view by (intro past_cong)
  moreover have "ok ?st"
  proof (rule state_okI)
    have cs: "c = AList.update a (Some ?e) ?c \<or> c \<in> set (st_checkpoints st)" if "c \<in> set (st_checkpoints ?st)" for c
      using that set_update_subset_insert by (fastforce simp: put_checkpoint_account_def)
    show "distinct (map fst c)" if "c \<in> set (st_checkpoints ?st)" for c
      using cs [OF that] state_okD(3) [OF assms(1)] in_set distinct_update by metis
    show "entry_ok C G x d" if "c \<in> set (st_checkpoints ?st)" "map_of c x = Some (Some d)" for c x d
      using cs [OF that(1)] that(2) state_okD(4) [OF assms(1)] in_set e'
      by (auto simp: update_conv' split: if_splits)
  qed (use state_okD(1,2) [OF assms(1)] in \<open>simp_all add: put_checkpoint_account_def\<close>)
  ultimately show ?thesis
    using same_view by (simp add: same_def) (simp add: put_checkpoint_account_def)
qed

lemma wp_query:
  assumes "ok st"
  shows "wp (ensure_cached C B a req cn f) (\<lambda>_. same st) (\<lambda>_. same st) st"
  using wp_ensure_cached [OF assms] by (rule wp_mono) simp_all

lemma wp_original_storage_root:
  assumes "ok st"
  shows "wp (original_storage_root C B a) (\<lambda>_. same st) (\<lambda>_. same st) st"
  unfolding original_storage_root_def wp_bind by (rule wp_mono [OF wp_query [OF assms]]) (simp_all add: wp_basic)

lemma wp_scan_checkpoints:
  assumes "ok st" "\<forall>i \<in> set is. i < length (st_checkpoints st)"
  shows "wp (scan_checkpoints C B a key kind is)
    (\<lambda>r st'. same st st' \<and> (r = Inr None \<longrightarrow> is = [] \<and> kind = None)) (\<lambda>_. same st) st"
  using assms
proof (induction "is" arbitrary: kind)
  case Nil
  then show ?case by (simp add: wp_basic same_refl)
next
  case (Cons i "is")
  show ?case
  proof (cases "map_of (st_checkpoints st ! i) a")
    case None
    have "wp (scan_checkpoints C B a key (Some SameAsNext) is)
      (\<lambda>r st'. same st st' \<and> (r = Inr None \<longrightarrow> i # is = [] \<and> kind = None)) (\<lambda>_. same st) st"
      using Cons.IH [of "Some SameAsNext"] Cons.prems by (auto elim: wp_mono)
    with None show ?thesis by (simp add: wp_bind wp_basic)
  next
    case (Some oe)
    show ?thesis
    proof (cases "Option.bind oe en_account")
      case None
      with Some Cons.prems(1) show ?thesis
        by (cases oe) (simp_all add: wp_bind wp_basic same_refl split: option.splits)
    next
      case ac: (Some ac)
      then obtain e where e: "oe = Some e" "en_account e = Some ac" by (auto simp: Option.bind_eq_Some_conv)
      obtain v ac' where at: "cached_storage_at C key ac = (v, ac')" by fastforce
      have i: "i < length (st_checkpoints st)" using Cons.prems(2) by simp
      have "entry_ok C G a e" using state_okD(4) [OF Cons.prems(1), of "st_checkpoints st ! i"] i Some e(1) by simp
      then have "account_ok C G a ac" using e(2) by (simp add: entry_ok_def)
      from cached_storage_at_similar(1) [OF this at]
      have put: "same st (put_checkpoint_account i a (e\<lparr>en_account := Some ac'\<rparr>) st)"
        using same_put_checkpoint [OF Cons.prems(1) i] Some e by simp
      note root = wp_original_storage_root [OF same_ok [OF put], of a]
      show ?thesis
        using Some e at put
        by (auto simp: wp_bind wp_basic intro!: wp_mono [OF root] dest: same_trans [OF put] split: option.splits)
    qed
  qed
qed

lemma wp_checkpoint_storage_at:
  assumes "ok st"
  shows "wp (checkpoint_storage_at C B n a key) (\<lambda>_. same st) (\<lambda>_. same st) st"
proof -
  have rest: "wp (case r of Inl v \<Rightarrow> ret (Some v)
    | Inr kind \<Rightarrow>
        bind (lift (expect kind)) (\<lambda>kind. case kind of
          SameAsNext \<Rightarrow> bind (state_storage_at C B a key) (\<lambda>v. ret (Some v))
        | OriginalAt \<Rightarrow> bind (original_storage_at C B a key) (\<lambda>v. ret (Some v)))) (\<lambda>_. same st) (\<lambda>_. same st) st'"
    if "same st st'" "r \<noteq> Inr None" for r st'
  proof -
    have "wp (bind (state_storage_at C B a key) (\<lambda>v. ret (Some v))) (\<lambda>_. same st) (\<lambda>_. same st) st'"
      unfolding wp_bind wp_basic
      by (rule wp_mono [OF wp_state_storage_at [OF same_ok [OF that(1)]]]) (use same_trans [OF that(1)] in auto)
    moreover have "wp (bind (original_storage_at C B a key) (\<lambda>v. ret (Some v))) (\<lambda>_. same st) (\<lambda>_. same st) st'"
      unfolding wp_bind wp_basic
      by (rule wp_mono [OF wp_original_storage_at [OF same_ok [OF that(1)]]]) (use same_trans [OF that(1)] in auto)
    ultimately show ?thesis
      using that by (cases r) (auto simp: wp_basic wp_bind wp_lift split: sum.splits return_kind.splits)
  qed
  have "wp (scan_checkpoints C B a key None [n..<length (st_checkpoints st)])
      (\<lambda>r st'. same st st' \<and> (r = Inr None \<longrightarrow> [n..<length (st_checkpoints st)] = [] \<and> None = None)) (\<lambda>_. same st) st"
    by (rule wp_mono [OF wp_scan_checkpoints [OF assms]]) auto
  then have "wp (scan_checkpoints C B a key None [n..<length (st_checkpoints st)])
      (\<lambda>r. wp (case r of Inl v \<Rightarrow> ret (Some v)
      | Inr kind \<Rightarrow>
        bind (lift (expect kind)) (\<lambda>kind. case kind of
          SameAsNext \<Rightarrow> bind (state_storage_at C B a key) (\<lambda>v. ret (Some v))
        | OriginalAt \<Rightarrow> bind (original_storage_at C B a key) (\<lambda>v. ret (Some v)))) (\<lambda>_. same st) (\<lambda>_. same st))
      (\<lambda>_. same st) st" if "n < length (st_checkpoints st)"
    by (rule wp_mono) (use that rest in auto)
  then show ?thesis
    using assms by (auto simp: checkpoint_storage_at_def wp_bind wp_basic same_refl)
qed

text \<open>Setting a cell.\<close>

lemma account_set_storage_ok:
  assumes "account_ok C G a ac"
  shows "account_ok C G a (account_set_storage key v ac)"
    "acc_view C G a (account_set_storage key v ac) =
      set_cell key v (acc_view C G a ac)"
  using assms
  by (auto simp: set_cell_def account_ok_def account_set_storage_def acc_view_def storage_view_def update_conv' fun_eq_iff split: option.splits)

lemma wp_state_set_storage:
  assumes "ok st"
  shows "wp (state_set_storage C B a key x)
    (\<lambda>_ st'. if view_storage C G st a key = x then same st st'
       else changed a (Some (set_cell key x (account_or_fresh C G st a))) st st')
    (\<lambda>_ st'. \<exists>v. changed a v st st') st"
proof -
  have set: "wp (bind (require C B a False) (\<lambda>_. modify (on_account a (account_set_storage key x))))
      (\<lambda>_ st'. changed a (Some (set_cell key x (account_or_fresh C G st a))) st st')
      (\<lambda>_ st'. \<exists>v. changed a v st st') st'" if "same st st'" for st'
    by (rule wp_mono [OF wp_require_then [OF same_ok [OF that], where g = "set_cell key x"]])
      (use account_set_storage_ok in \<open>auto simp: account_or_fresh_same [OF that] dest: same_changed [OF that]\<close>)
  show ?thesis
    unfolding state_set_storage_def wp_bind [of "state_storage_at C B a key"]
    by (rule wp_mono [OF wp_state_storage_at [OF assms(1)]]) (use set in \<open>auto simp: wp_basic dest: same_is_changed\<close>)
qed

end

end
