(* ===== verification/State_Accounts.thy ===== *)
theory State_Accounts
  imports State_Storage
begin

text \<open>
  Balances, nonces, code and the life of accounts against the specification: what each query returns, and
  what each operation makes of the view.
\<close>

definition view_balance :: "world \<Rightarrow> address \<Rightarrow> u256" where
  "view_balance W a = (case W a of Some v \<Rightarrow> av_balance v | None \<Rightarrow> 0)"

definition credit :: "u256 \<Rightarrow> account_view \<Rightarrow> account_view" where
  "credit x v = v\<lparr>av_balance := saturating_add (av_balance v) x\<rparr>"

definition debit :: "u256 \<Rightarrow> account_view \<Rightarrow> account_view" where
  "debit x v = v\<lparr>av_balance := av_balance v - x\<rparr>"

definition bump :: "account_view \<Rightarrow> account_view" where
  "bump v = v\<lparr>av_nonce := saturating_add (av_nonce v) 1\<rparr>"

definition install :: "'l crates \<Rightarrow> bytes \<Rightarrow> account_view \<Rightarrow> account_view" where
  "install C code v = v\<lparr>av_code_hash := cr_keccak C code, av_code := code\<rparr>"

definition replace_code :: "'l crates \<Rightarrow> bytes \<Rightarrow> (h256 \<times> h256) list \<Rightarrow> account_view \<Rightarrow> account_view" where
  "replace_code C code cells v = (install C code v)\<lparr>av_storage :=
     (\<lambda>key. case map_of cells key of Some x \<Rightarrow> x | None \<Rightarrow> 0)\<rparr>"

lemma credit_0 [simp]: "credit 0 v = v"
  using unat_below [of "av_balance v"] by (simp add: credit_def saturating_add_def)

lemma debit_0 [simp]: "debit 0 v = v"
  by (simp add: debit_def)

lemma wp_on_state: "wp (on_state m) Q E st = wp m (\<lambda>r s. Q r (s, snd st)) (\<lambda>e s. E e (s, snd st)) (fst st)"
  by (auto simp: wp_def on_state_def split: prod.splits outcome.splits)

context state_backend
begin

text \<open>A step that may change accounts and keeps the history.\<close>

definition advances :: "('b, 'l) state \<Rightarrow> ('b, 'l) state \<Rightarrow> bool" where
  "advances st st' \<longleftrightarrow> ok st' \<and> history C G st' = history C G st \<and> st_root st' = st_root st \<and>
     st_account_start_nonce st' = st_account_start_nonce st \<and> length (st_checkpoints st') = length (st_checkpoints st)"

lemma advances_intros:
  "same st st' \<Longrightarrow> advances st st'" "changed a v st st' \<Longrightarrow> advances st st'"
  by (simp_all add: advances_def same_def changed_def)

lemma advances_trans: "advances st st' \<Longrightarrow> advances st' st'' \<Longrightarrow> advances st st''"
  by (simp add: advances_def)

lemma advances_ok: "advances st st' \<Longrightarrow> ok st'"
  by (simp add: advances_def)

section \<open>Queries\<close>

text \<open>Queries whose answer is a function of the view.\<close>

lemma wp_ensure_cached_view:
  assumes "ok st" "\<And>ac. reads a st ac \<Longrightarrow> f ac = g (V st a)"
  shows "wp (ensure_cached C B a req cn f) (\<lambda>r st'. same st st' \<and> r = g (V st a)) (\<lambda>_. same st) st"
  by (rule wp_mono [OF wp_ensure_cached [OF assms(1)]]) (use assms(2) in auto)

lemma reads_cases:
  assumes "reads a st ac"
  obtains "ac = None" "V st a = None"
  | x where "ac = Some x" "V st a = Some (acc_view C G a x)" "account_ok C G a x"
  using assms by (cases ac) (auto simp: reads_def)

lemma wp_state_exists:
  assumes "ok st"
  shows "wp (state_exists C B a) (\<lambda>r st'. same st st' \<and> r = (V st a \<noteq> None)) (\<lambda>_. same st) st"
  unfolding state_exists_def
  by (rule wp_ensure_cached_view [OF assms, where g = "\<lambda>v. v \<noteq> None"]) (auto elim: reads_cases)

lemma wp_state_balance:
  assumes "ok st"
  shows "wp (state_balance C B a) (\<lambda>r st'. same st st' \<and> r = view_balance (V st) a) (\<lambda>_. same st) st"
  unfolding state_balance_def view_balance_def
  by (rule wp_ensure_cached_view [OF assms, where g = "case_option 0 av_balance"]) (auto elim!: reads_cases simp: acc_view_def)

lemma wp_state_nonce:
  assumes "ok st"
  shows "wp (state_nonce C B a)
    (\<lambda>r st'. same st st' \<and> r = (case V st a of Some v \<Rightarrow> av_nonce v | None \<Rightarrow> st_account_start_nonce st)) (\<lambda>_. same st) st"
  unfolding state_nonce_def wp_bind wp_basic
  by (rule wp_ensure_cached_view [OF assms, where g = "case_option (st_account_start_nonce st) av_nonce"])
    (auto elim!: reads_cases simp: acc_view_def)

lemma wp_state_code_hash:
  assumes "ok st"
  shows "wp (state_code_hash C B a) (\<lambda>r st'. same st st' \<and> r = map_option av_code_hash (V st a)) (\<lambda>_. same st) st"
  unfolding state_code_hash_def
  by (rule wp_ensure_cached_view [OF assms]) (auto elim!: reads_cases simp: acc_view_def)

text \<open>Code: an account's code is small, and where the query returns code it is the code of the view.\<close>

lemma wp_state_code:
  assumes "ok st"
  shows "wp (state_code C B a) (\<lambda>r st'. same st st' \<and>
      (\<forall>bs. r = Some bs \<longrightarrow> length bs < 2 ^ 64 \<and> (\<exists>v. V st a = Some v \<and> bs = av_code v))) (\<lambda>_. same st) st"
proof -
  have "length bs < 2 ^ 64 \<and> (\<exists>v. V st a = Some v \<and> bs = av_code v)"
    if "reads a st ac" "Option.bind ac (account_code C) = Some bs" for ac bs
    using that by (cases rule: reads_cases [OF that(1)])
      (auto simp: account_code_def account_ok_def acc_view_def code_view_def is_cached_def split: if_splits)
  then show ?thesis
    unfolding state_code_def by (intro wp_mono [OF wp_ensure_cached [OF assms]]) auto
qed

lemma wp_state_code_size:
  assumes "ok st"
  shows "wp (state_code_size C B a) (\<lambda>r st'. same st st' \<and>
      (\<forall>n. r = Some n \<longrightarrow> (\<exists>v. V st a = Some v \<and> n = length (av_code v)))) (\<lambda>_. same st) st"
proof -
  have "\<exists>v. V st a = Some v \<and> n = length (av_code v)"
    if "reads a st ac" "Option.bind ac ac_code_size = Some n" for ac n
    using that by (cases rule: reads_cases [OF that(1)]) (auto simp: account_ok_def acc_view_def)
  then show ?thesis
    unfolding state_code_size_def by (intro wp_mono [OF wp_ensure_cached [OF assms]]) auto
qed

lemma wp_is_base_storage_root_unchanged:
  assumes "ok st"
  shows "wp (is_base_storage_root_unchanged C B a) (\<lambda>_. same st) (\<lambda>_. same st) st"
  unfolding is_base_storage_root_unchanged_def wp_bind by (rule wp_mono [OF wp_query [OF assms]]) (simp_all add: wp_basic)

section \<open>Nonces and code\<close>

lemma wp_state_inc_nonce:
  assumes "ok st"
  shows "wp (state_inc_nonce C B a) (\<lambda>_. changed a (Some (bump (account_or_fresh C G st a))) st)
    (\<lambda>_ st'. \<exists>v. changed a v st st') st"
  unfolding state_inc_nonce_def
  by (rule wp_require_then [OF assms]) (simp add: account_inc_nonce_def bump_def account_ok_def acc_view_def)

lemma init_code_ok:
  assumes "account_ok C G a ac" "length code < 2 ^ 64"
  shows "account_ok C G a (init_code C code ac)" "acc_view C G a (init_code C code ac) = install C code (acc_view C G a ac)"
proof -
  have code: "code_view C G (init_code C code ac) = code"
    by (auto simp: code_view_def is_cached_def init_code_def keccak_empty)
  have "storage_view C G a (init_code C code ac) = storage_view C G a ac" by (simp add: init_code_def)
  with code show "acc_view C G a (init_code C code ac) = install C code (acc_view C G a ac)"
    by (simp add: acc_view_def install_def init_code_def)
  show "account_ok C G a (init_code C code ac)"
    using assms(1,2) code by (auto simp: account_ok_def init_code_def)
qed

lemma wp_state_init_code:
  assumes "ok st" "length code < 2 ^ 64"
  shows "wp (state_init_code C B a code) (\<lambda>_. changed a (Some (install C code (account_or_fresh C G st a))) st)
    (\<lambda>_ st'. \<exists>v. changed a v st st') st"
proof -
  have update: "changed a (Some (install C code (account_or_fresh C G st a))) st (on_account a (init_code C code) st')"
    if "changed a (Some (account_or_fresh C G st a)) st st'" "taken a st' ac" for st' ac
  proof -
    have ac: "account_ok C G a ac" using that(2) by (simp add: taken_def)
    have "acc_view C G a ac = account_or_fresh C G st a" using that taken_view [OF that(2)] by (simp add: changed_def)
    then show ?thesis
      using changed_changed [OF that(1) changed_on_account(1) [OF changed_ok [OF that(1)] that(2)], of "init_code C code"]
        init_code_ok [OF ac assms(2)] by simp
  qed
  have "account_ok C G a (new_contract C 0 nonce root)"
    "acc_view C G a (new_contract C 0 nonce root) = fresh_view C nonce" for nonce root
    using new_accounts_ok(3,4) [of a 0 nonce root] by (simp_all add: fresh_view_def)
  then have "wp (require_or_from C B a True (\<lambda>st. new_contract C 0 (st_account_start_nonce st) (cr_KECCAK_NULL_RLP C)) (\<lambda>ac. ac))
    (\<lambda>_ st'. changed a (Some (account_or_fresh C G st a)) st st' \<and> (\<exists>ac. taken a st' ac)) (\<lambda>_ st'. \<exists>v. changed a v st st') st"
    by (intro wp_require_or_from [OF assms(1)]) simp_all
  then show ?thesis
    unfolding state_init_code_def wp_bind by (rule wp_mono) (use update in \<open>auto simp: wp_basic\<close>)
qed

section \<open>Balances\<close>

lemma account_add_balance_ok:
  assumes "account_ok C G a ac"
  shows "account_ok C G a (account_add_balance x ac) \<and> acc_view C G a (account_add_balance x ac) = credit x (acc_view C G a ac)"
  using assms by (simp add: account_add_balance_def credit_def account_ok_def acc_view_def)

lemma wp_touch:
  assumes "ok st"
  shows "wp (touch C B a) (\<lambda>_ st'. changed a (Some (account_or_fresh C G st a)) st st' \<and> (\<exists>ac. taken a st' ac))
    (\<lambda>_ st'. \<exists>v. changed a v st st') st"
  unfolding touch_def require_def
  by (rule wp_require_or_from [OF assms]) (simp_all add: new_accounts_ok)

definition added :: "('b, 'l) state \<Rightarrow> address \<Rightarrow> u256 \<Rightarrow> cleanup_mode \<Rightarrow> account_view option" where
  "added st a incr mode =
    (if incr \<noteq> 0 \<or> mode = ForceCreate then Some (credit incr (account_or_fresh C G st a)) else V st a)"

lemma wp_add_account_balance:
  assumes "ok st"
  shows "wp (add_account_balance C B a incr) (\<lambda>_. changed a (Some (credit incr (account_or_fresh C G st a))) st)
    (\<lambda>_. advances st) st"
proof -
  have "wp (add_account_balance C B a incr) (\<lambda>_. changed a (Some (credit incr (account_or_fresh C G st a))) st)
    (\<lambda>_ st'. \<exists>v. changed a v st st') st"
    unfolding add_account_balance_def by (rule wp_require_then [OF assms]) (rule account_add_balance_ok)
  then show ?thesis by (rule wp_mono) (auto intro: advances_intros)
qed

lemma account_or_fresh_Some: "V st a \<noteq> None \<Longrightarrow> Some (account_or_fresh C G st a) = V st a"
  by (auto simp: account_or_fresh_def)

lemma same_added:
  assumes "same st st'" "mode = ForceCreate \<Longrightarrow> V st a \<noteq> None"
  shows "changed a (added st a 0 mode) st st'"
  using same_is_changed [OF assms(1), of a] assms(2) account_or_fresh_Some [of st a] by (auto simp: added_def)

lemma wp_add_balance_force:
  assumes "ok st"
  shows "wp (add_balance C B a 0 ForceCreate) (\<lambda>_ (st', t'). changed a (added st a 0 ForceCreate) st st')
    (\<lambda>_ (st', t'). advances st st') (st, t)"
proof -
  let ?changed = "changed a (added st a 0 ForceCreate) st"
  have "wp (add_account_balance C B a 0) (\<lambda>_. ?changed) (\<lambda>_. advances st) st'" if "same st st'" for st'
    by (rule wp_mono [OF wp_add_account_balance [OF same_ok [OF that]]])
      (use same_changed [OF that, of a] advances_intros(1) [OF that] in
        \<open>auto simp: added_def account_or_fresh_same [OF that] intro: advances_trans\<close>)
  then have "wp (state_exists C B a)
      (\<lambda>x st'. if \<not> x then wp (add_account_balance C B a 0) (\<lambda>_. ?changed) (\<lambda>_. advances st) st' else ?changed st') (\<lambda>_. advances st) st"
    by (intro wp_mono [OF wp_state_exists [OF assms]]) (auto intro: advances_intros same_added)
  then show ?thesis
    by (simp add: add_balance_def wp_bind wp_basic wp_on_state wp_if cong: if_cong)
qed

lemma wp_add_balance_track:
  assumes "ok st"
  shows "wp (add_balance C B a 0 TrackTouched) (\<lambda>_ (st', t'). changed a (added st a 0 TrackTouched) st st')
    (\<lambda>_ (st', t'). advances st st') (st, t)"
proof -
  let ?changed = "changed a (added st a 0 TrackTouched) st"
  have "wp (touch C B a) (\<lambda>_. ?changed) (\<lambda>_. advances st) st'" if "same st st'" "V st a \<noteq> None" for st'
    by (rule wp_mono [OF wp_touch [OF same_ok [OF that(1)]]])
      (use same_changed [OF that(1), of a] advances_intros(1) [OF that(1)] account_or_fresh_Some [OF that(2)] in
        \<open>auto simp: added_def account_or_fresh_same [OF that(1)] intro: advances_trans advances_intros\<close>)
  then have "wp (state_exists C B a) (\<lambda>x st'. if x then wp (touch C B a) (\<lambda>_. ?changed) (\<lambda>_. advances st) st' else ?changed st')
      (\<lambda>_. advances st) st"
    by (intro wp_mono [OF wp_state_exists [OF assms]]) (auto intro: advances_intros same_added)
  then show ?thesis
    by (simp add: add_balance_def wp_bind wp_basic wp_on_state wp_if mark_touched_def cong: if_cong)
qed

lemma wp_add_balance:
  assumes "ok st"
  shows "wp (add_balance C B a incr mode) (\<lambda>_ (st', t'). changed a (added st a incr mode) st st')
    (\<lambda>_ (st', t'). advances st st') (st, t)"
proof (cases "incr = 0")
  case True
  show ?thesis
  proof (cases mode)
    case NoEmpty
    then show ?thesis
      using True same_added [OF same_refl [OF assms], of mode] by (simp add: add_balance_def wp_bind wp_basic)
  qed (use True wp_add_balance_force [OF assms] wp_add_balance_track [OF assms] in simp_all)
next
  case False
  then show ?thesis
    using wp_add_account_balance [OF assms, of a incr] by (simp add: add_balance_def wp_bind wp_basic wp_on_state added_def)
qed

text \<open>\<open>sub_balance\<close> panics where the balance does not cover the amount, and only there.\<close>

lemma wp_sub_account_balance:
  assumes "ok st" "decr \<le> av_balance (account_or_fresh C G st a)"
  shows "wp (sub_account_balance C B a decr) (\<lambda>_. changed a (Some (debit decr (account_or_fresh C G st a))) st)
    (\<lambda>_. advances st) st"
proof -
  have take: "wp (require C B a False)
    (\<lambda>_ st'. changed a (Some (account_or_fresh C G st a)) st st' \<and> (\<exists>ac. taken a st' ac)) (\<lambda>_ st'. \<exists>v. changed a v st st') st"
    using wp_touch [OF assms(1)] by (simp add: touch_def)
  have step: "\<exists>ac. Option.bind (map_of (st_cache st') a) en_account = Some ac \<and>
      account_sub_balance decr ac = (Ok (ac\<lparr>ac_balance := ac_balance ac - decr\<rparr>) :: (trie_error, 'l account) outcome) \<and>
      changed a (Some (debit decr (account_or_fresh C G st a))) st (on_account a (\<lambda>_. ac\<lparr>ac_balance := ac_balance ac - decr\<rparr>) st')"
    if "changed a (Some (account_or_fresh C G st a)) st st'" "taken a st' ac" for st' ac
  proof -
    let ?ac = "ac\<lparr>ac_balance := ac_balance ac - decr\<rparr>"
    have found: "Option.bind (map_of (st_cache st') a) en_account = Some ac" "account_ok C G a ac"
      using that(2) by (auto simp: taken_def)
    have view: "acc_view C G a ac = account_or_fresh C G st a" using that taken_view [OF that(2)] by (simp add: changed_def)
    then have "decr \<le> ac_balance ac" using assms(2) by (metis acc_view_def account_view.select_convs(1))
    moreover have "account_ok C G a ?ac" "acc_view C G a ?ac = debit decr (acc_view C G a ac)"
      using found(2) by (simp_all add: account_ok_def acc_view_def debit_def)
    ultimately show ?thesis
      using changed_changed [OF that(1) changed_on_account(1) [OF changed_ok [OF that(1)] that(2)], of "\<lambda>_. ?ac"] found view
      by (simp add: account_sub_balance_def)
  qed
  show ?thesis
    unfolding sub_account_balance_def wp_bind
    by (rule wp_mono [OF take]) (use step in \<open>fastforce simp: wp_def intro: advances_intros\<close>)+
qed

lemma wp_sub_balance:
  assumes "ok st" "decr \<le> av_balance (account_or_fresh C G st a)"
  shows "wp (sub_balance C B a decr mode)
    (\<lambda>_ (st', t'). changed a (Some (debit decr (account_or_fresh C G st a))) st st') (\<lambda>_ (st', t'). advances st st') (st, t)"
proof -
  let ?changed = "changed a (Some (debit decr (account_or_fresh C G st a))) st"
  have change: "wp (sub_account_balance C B a decr) (\<lambda>_. ?changed) (\<lambda>_. advances st) st'" if "same st st'" for st'
    by (rule wp_mono [OF wp_sub_account_balance [OF same_ok [OF that]]])
      (use assms(2) same_changed [OF that, of a] advances_intros(1) [OF that] in
        \<open>auto simp: account_or_fresh_same [OF that] intro: advances_trans\<close>)
  show ?thesis
  proof (cases "decr = 0")
    case False
    then show ?thesis
      using change [OF same_refl [OF assms(1)]]
      by (simp add: sub_balance_def wp_bind wp_basic wp_on_state mark_touched_def wp_if cong: if_cong)
  next
    case True
    have "?changed st'" if "same st st'" "V st a \<noteq> None" for st'
      using same_is_changed [OF that(1), of a] account_or_fresh_Some [OF that(2)] True by simp
    then have "wp (state_exists C B a)
        (\<lambda>x st'. if \<not> x then wp (sub_account_balance C B a decr) (\<lambda>_. ?changed) (\<lambda>_. advances st) st' else ?changed st') (\<lambda>_. advances st) st"
      by (intro wp_mono [OF wp_state_exists [OF assms(1)]]) (use change in \<open>auto intro: advances_intros\<close>)
    with True show ?thesis
      by (simp add: sub_balance_def wp_bind wp_basic wp_on_state mark_touched_def wp_if cong: if_cong)
  qed
qed

lemma wp_transfer_balance:
  assumes "ok st" "amount \<le> av_balance (account_or_fresh C G st from)"
  shows "wp (transfer_balance C B from to amount mode)
    (\<lambda>_ (st', t'). \<exists>st1. changed from (Some (debit amount (account_or_fresh C G st from))) st st1 \<and>
       changed to (added st1 to amount mode) st1 st') (\<lambda>_ (st', t'). advances st st') (st, t)"
  unfolding transfer_balance_def wp_bind
  by (rule wp_mono [OF wp_sub_balance [OF assms]])
    (auto intro!: wp_mono [OF wp_add_balance [OF changed_ok]] intro: advances_trans advances_intros)

section \<open>The life of accounts\<close>

lemma kill_account_refines:
  assumes "ok st"
  shows "changed a None st (kill_account a st)"
  using changed_insert [OF assms, of a "new_dirty None"]
  by (simp add: kill_account_def entry_ok_def new_dirty_def is_dirty_def entry_view_def)

lemma wp_state_new_contract:
  assumes "ok st"
  shows "wp (state_new_contract C B a balance offset)
    (\<lambda>_. changed a (Some (credit balance (fresh_view C (st_account_start_nonce st + offset)))) st) (\<lambda>_. same st) st"
proof -
  have "changed a (Some (credit balance (fresh_view C nonce))) st
      (insert_cache a (new_dirty (Some (new_contract C balance nonce root))) st')" if "same st st'" for st' nonce root
  proof -
    have "credit balance (fresh_view C nonce) = (fresh_view C nonce)\<lparr>av_balance := balance\<rparr>"
      using unat_below [of balance] by (simp add: credit_def saturating_add_def fresh_view_def)
    then show ?thesis
      using same_changed [OF that changed_insert [OF same_ok [OF that], of a "new_dirty (Some (new_contract C balance nonce root))"]]
        new_accounts_ok(3,4) by (simp add: entry_ok_def new_dirty_def is_dirty_def entry_view_def)
  qed
  then show ?thesis
    unfolding state_new_contract_def wp_bind
    by (intro wp_mono [OF wp_original_storage_root [OF assms]]) (auto simp: wp_basic overflowing_add_def same_def)
qed

lemma reset_code_and_storage_ok:
  assumes "account_ok C G a ac" "length code < 2 ^ 64"
  shows "account_ok C G a (reset_code_and_storage C code cells ac) \<and>
    acc_view C G a (reset_code_and_storage C code cells ac) = replace_code C code cells (acc_view C G a ac)"
proof -
  let ?ac = "reset_code_and_storage C code cells ac"
  have code: "code_view C G ?ac = code"
    by (auto simp: code_view_def is_cached_def reset_code_and_storage_def keccak_empty)
  moreover have "storage_view C G a ?ac = (\<lambda>key. case map_of cells key of Some v \<Rightarrow> v | None \<Rightarrow> 0)"
    by (simp add: storage_view_def reset_code_and_storage_def empty_trie fun_eq_iff split: option.splits)
  ultimately have "acc_view C G a ?ac = replace_code C code cells (acc_view C G a ac)"
    by (simp add: acc_view_def replace_code_def install_def reset_code_and_storage_def)
  moreover have "account_ok C G a ?ac"
    using assms code by (auto simp: account_ok_def reset_code_and_storage_def cache_ok_def empty_storage_cache_def lru_new)
  ultimately show ?thesis by simp
qed

lemma wp_patch_account:
  assumes "ok st" "length code < 2 ^ 64"
  shows "wp (patch_account C B a code cells) (\<lambda>_. changed a (Some (replace_code C code cells (account_or_fresh C G st a))) st)
    (\<lambda>_ st'. \<exists>v. changed a v st st') st"
  unfolding patch_account_def
  by (rule wp_require_then [OF assms(1)]) (rule reset_code_and_storage_ok [OF _ assms(2)])

text \<open>Killing the accounts of a list.\<close>

lemma kill_all_refines:
  assumes "ok st"
  shows "advances st (fold kill_account as st)"
    "V (fold kill_account as st) = (\<lambda>a. if a \<in> set as then None else V st a)"
proof -
  have "advances st (fold kill_account as st) \<and> V (fold kill_account as st) = (\<lambda>a. if a \<in> set as then None else V st a)"
    using assms
  proof (induction as arbitrary: st)
    case Nil
    then show ?case using advances_intros(1) same_refl by auto
  next
    case (Cons a as)
    note kill = kill_account_refines [OF Cons.prems, of a]
    note rest = Cons.IH [OF changed_ok [OF kill]]
    have "V (kill_account a st) = (V st)(a := None)" using kill by (simp add: changed_def)
    with rest show ?case using advances_trans [OF advances_intros(2) [OF kill]] by (auto simp: fun_eq_iff)
  qed
  then show "advances st (fold kill_account as st)"
    "V (fold kill_account as st) = (\<lambda>a. if a \<in> set as then None else V st a)" by simp_all
qed

lemma kill_garbage_advances: "ok st \<Longrightarrow> advances st (kill_garbage C touched remove_empty dust contracts st)"
  by (simp add: kill_garbage_def Let_def kill_all_refines(1))

text \<open>Only touched accounts are collected, and an account that is kept by both rules stays.\<close>

lemma kill_garbage_view:
  assumes "ok st" "a \<notin> touched \<or> (\<forall>e. map_of (st_cache st) a = Some e \<longrightarrow> \<not> garbage C touched remove_empty dust contracts (a, e))"
    and "distinct (map fst (st_cache st))"
  shows "V (kill_garbage C touched remove_empty dust contracts st) a = V st a"
proof -
  have "a \<notin> set (map fst (filter (garbage C touched remove_empty dust contracts) (st_cache st)))"
    using assms(2,3) by (auto simp: garbage_def)
  then show ?thesis by (simp add: kill_garbage_def Let_def kill_all_refines(2) [OF assms(1)])
qed

text \<open>A debit that the balance does not cover panics, unless the account cannot be loaded.\<close>

lemma sub_account_balance_uncovered:
  assumes "ok st" "av_balance (account_or_fresh C G st a) < decr" "sub_account_balance C B a decr st = (r, st')"
  shows "r = Panic \<or> (\<exists>e. r = Err e) \<and> advances st st'"
proof -
  have take: "wp (require C B a False)
    (\<lambda>_ st'. changed a (Some (account_or_fresh C G st a)) st st' \<and> (\<exists>ac. taken a st' ac)) (\<lambda>_ st'. \<exists>v. changed a v st st') st"
    using wp_touch [OF assms(1)] by (simp add: touch_def)
  have "fst (sub_account_balance C B a decr st) = Panic" if req: "require C B a False st = (Ok u, st1)" for u st1
  proof -
    obtain ac where ac: "taken a st1 ac" "changed a (Some (account_or_fresh C G st a)) st st1"
      using wp_OkD [OF take req] by auto
    have "acc_view C G a ac = account_or_fresh C G st a" using ac taken_view [OF ac(1)] by (simp add: changed_def)
    then have "\<not> decr \<le> ac_balance ac" using assms(2) by (metis acc_view_def account_view.select_convs(1) not_le)
    then show ?thesis
      using ac(1) req by (auto simp: sub_account_balance_def action_simps account_sub_balance_def taken_def)
  qed
  moreover have "\<exists>v. changed a v st st1" if "require C B a False st = (Err e, st1)" for e st1
    using wp_ErrD [OF take that] .
  ultimately show ?thesis
    using assms(3) by (cases "require C B a False st"; cases "fst (require C B a False st)")
      (auto simp: sub_account_balance_def action_simps intro: advances_intros)
qed

end

end
