(* ===== verification/Externalities_Safety.thy ===== *)
theory Externalities_Safety
  imports Externalities State_Accounts Ext_Trait
begin

text \<open>
  The externalities honour the contract \<open>ext_trait\<close> of the interface that the interpreter runs over: no
  method panics, the state stays well-formed and the refund counter stays in range. The invariant has
  the address of the running contract, the history of the state and its start nonce fixed, and an
  optional frozen part: in a static context the view of the state, the logs and the suicides do not change.
\<close>

section \<open>The invariant\<close>

text \<open>Block hashes come from the environment: EIP-210 is not active, and enough recent hashes are known.\<close>

definition env_ok :: "machine_params \<Rightarrow> env_info \<Rightarrow> bool" where
  "env_ok machine env \<longleftrightarrow> unat (env_number env) + 256 < 2 ^ 64 \<and>
     unat (env_number env) + 256 < unat (mp_eip210_transition machine) \<and>
     min 256 (unat (env_number env)) \<le> length (env_last_hashes env)"

type_synonym frozen_part = "world \<times> log_entry list \<times> address set"

definition frozen_part :: "'l crates \<Rightarrow> 'l ground \<Rightarrow> ('b, 'l, 't, 'v) externalities \<Rightarrow> frozen_part" where
  "frozen_part C G x = (view C G (ex_state x), sub_logs (ex_substate x), sub_suicides (ex_substate x))"

text \<open>What no operation of the externalities changes in the state.\<close>

datatype fixed_part = Fixed (fx_history: "world list") (fx_start_nonce: u256)

definition ext_inv ::
  "'l crates \<Rightarrow> 'l ground \<Rightarrow> (h256 \<Rightarrow> 'b \<Rightarrow> bool) \<Rightarrow> schedule \<Rightarrow> address \<Rightarrow> fixed_part \<Rightarrow> frozen_part option \<Rightarrow> nat \<Rightarrow>
   ('b, 'l, 't, 'v) externalities \<Rightarrow> bool" where
  "ext_inv C G bi s own H F k x \<longleftrightarrow> state_ok C G bi (ex_state x) \<and> ex_schedule x = s \<and> oi_address (ex_origin_info x) = own \<and>
     history C G (ex_state x) = fx_history H \<and> st_account_start_nonce (ex_state x) = fx_start_nonce H \<and>
     env_ok (ex_machine x) (ex_env_info x) \<and>
     \<bar>sub_sstore_clears_refund (ex_substate x)\<bar> + int k * 2 ^ 32 < 2 ^ 127 \<and>
     (\<forall>W. F = Some W \<longrightarrow> ex_static_flag x \<and> frozen_part C G x = W)"

section \<open>Running actions of the state\<close>

lemma wp_attempt:
  "wp (attempt m) Q E x = wp m (\<lambda>v st. Q (Inr v) (x\<lparr>ex_state := st\<rparr>)) (\<lambda>e st. Q (Inl e) (x\<lparr>ex_state := st\<rparr>)) (ex_state x)"
  by (auto simp: wp_def attempt_def split: prod.splits outcome.splits)

lemma wp_in_state:
  "wp (in_state C m) Q E x =
    wp m (\<lambda>v st. Q v (x\<lparr>ex_state := st\<rparr>)) (\<lambda>e st. E (trie_to_vm C e) (x\<lparr>ex_state := st\<rparr>)) (ex_state x)"
  by (simp add: in_state_def wp_bind wp_attempt wp_basic)

lemma wp_in_touched:
  "wp (in_touched C m) Q E x =
    wp m (\<lambda>v (st, t). Q v (x\<lparr>ex_state := st, ex_substate := (ex_substate x)\<lparr>sub_touched := t\<rparr>\<rparr>))
      (\<lambda>e (st, t). E (trie_to_vm C e) (x\<lparr>ex_state := st, ex_substate := (ex_substate x)\<lparr>sub_touched := t\<rparr>\<rparr>))
      (ex_state x, sub_touched (ex_substate x))"
  by (auto simp: wp_def in_touched_def split: prod.splits outcome.splits)

lemma ext_inv_static: "ext_inv C G bi s own H F k x \<Longrightarrow> \<not> ex_static_flag x \<Longrightarrow> F = None"
  by (cases F) (auto simp: ext_inv_def)

lemma ext_inv_mono: "ext_inv C G bi s own H F (Suc k) x \<Longrightarrow> ext_inv C G bi s own H F k x"
  by (auto simp: ext_inv_def)

lemma ext_inv_tracers:
  "ext_inv C G bi s own H F k (x\<lparr>ex_vm_tracer := v\<rparr>) = ext_inv C G bi s own H F k x"
  "ext_inv C G bi s own H F k (x\<lparr>ex_tracer := t\<rparr>) = ext_inv C G bi s own H F k x"
  by (simp_all add: ext_inv_def frozen_part_def)

lemma recent_blockhash_no_panic:
  assumes "env_ok machine env"
  shows "recent_blockhash env n \<noteq> Panic" "recent_blockhash env n \<noteq> Err e"
proof -
  have "unat (env_number env - ucast n - 1) < length (env_last_hashes env)"
    if "n < ucast (env_number env)" "max 256 (env_number env) - 256 \<le> (ucast n :: u64)"
  proof -
    let ?low = "ucast n :: u64" and ?num = "env_number env"
    have n: "unat n < unat ?num" using that(1) by (simp add: word_less_nat_alt unat_ucast_up)
    have low: "unat ?low = unat n" using n unat_below [of ?num] by (intro unat_ucast_exact) simp
    have "unat (max 256 ?num - 256) = max 256 (unat ?num) - 256"
      by (simp add: unat_minus_exact max_def word_le_nat_alt)
    then have near: "max 256 (unat ?num) - 256 \<le> unat n" using that(2) low by (simp add: word_le_nat_alt)
    have less: "?low < ?num" using n low by (simp add: word_less_nat_alt)
    have "unat (?num - ?low - 1) = unat ?num - unat n - 1"
    proof -
      have diff: "unat (?num - ?low) = unat ?num - unat n" using less low by (simp add: unat_minus_exact)
      then have "1 \<le> ?num - ?low" using n by (simp add: word_le_nat_alt)
      then show ?thesis using diff by (simp add: unat_minus_exact)
    qed
    then show ?thesis using near n assms by (auto simp: env_ok_def)
  qed
  then show "recent_blockhash env n \<noteq> Panic" "recent_blockhash env n \<noteq> Err e"
    by (auto simp: recent_blockhash_def Let_def)
qed

context state_backend
begin

abbreviation "xinv \<equiv> ext_inv C G bi"

lemma xinv_ok: "xinv s own H F k x \<Longrightarrow> ok (ex_state x)"
  by (simp add: ext_inv_def)

lemma xinv_schedule: "xinv s own H F k x \<Longrightarrow> ex_schedule x = s"
  by (simp add: ext_inv_def)

lemma xinv_same: "xinv s own H F k x \<Longrightarrow> same (ex_state x) st \<Longrightarrow> xinv s own H F k (x\<lparr>ex_state := st\<rparr>)"
  by (simp add: ext_inv_def same_def frozen_part_def)

lemma xinv_advances: "xinv s own H None k x \<Longrightarrow> advances (ex_state x) st \<Longrightarrow> xinv s own H None k (x\<lparr>ex_state := st\<rparr>)"
  by (simp add: ext_inv_def advances_def)

lemma query_keeps:
  assumes "\<And>st. ok st \<Longrightarrow> wp m (\<lambda>_. same st) (\<lambda>_. same st) st"
  shows "keeps (in_state C m) (xinv s own H F k)"
  unfolding keeps_def wp_in_state
  by (intro allI impI wp_mono [OF assms [OF xinv_ok]]) (auto intro: xinv_same)

lemma wp_code_and_hash:
  assumes "ok st"
  shows "wp (code_and_hash C B a) (\<lambda>(code, h) st'. same st st' \<and> (\<forall>bs. code = Some bs \<longrightarrow> length bs < 2 ^ 64)) (\<lambda>_. same st) st"
proof -
  have "wp (bind (state_code_hash C B a) (\<lambda>h. ret (code, h)))
      (\<lambda>(code, h) st'. same st st' \<and> (\<forall>bs. code = Some bs \<longrightarrow> length bs < 2 ^ 64)) (\<lambda>_. same st) st'"
    if "same st st'" "\<forall>bs. code = Some bs \<longrightarrow> length bs < 2 ^ 64" for code st'
    unfolding wp_bind wp_basic
    by (rule wp_mono [OF wp_state_code_hash [OF same_ok [OF that(1)]]]) (use same_trans [OF that(1)] that(2) in auto)
  then show ?thesis
    unfolding code_and_hash_def wp_bind [of "state_code C B a"] by (intro wp_mono [OF wp_state_code [OF assms]]) auto
qed

lemma x_initial_storage_at_keeps: "keeps (x_initial_storage_at C B key) (xinv s own H F k)"
  unfolding keeps_def
proof (intro allI impI)
  fix x :: "('b, 'l, 't, 'v) externalities"
  assume x: "xinv s own H F k x"
  have read: "wp (checkpoint_storage_at C B 0 a key) (\<lambda>_ st. xinv s own H F k (x\<lparr>ex_state := st\<rparr>))
      (\<lambda>_ st. xinv s own H F k (x\<lparr>ex_state := st\<rparr>)) st'" if "same (ex_state x) st'" for a st'
    by (rule wp_mono [OF wp_checkpoint_storage_at [OF same_ok [OF that]]]) (use same_trans [OF that] xinv_same [OF x] in auto)
  show "wp (x_initial_storage_at C B key) (\<lambda>_. xinv s own H F k) (\<lambda>_. xinv s own H F k) x"
    unfolding x_initial_storage_at_def wp_bind wp_basic wp_in_state
    by (rule wp_mono [OF wp_is_base_storage_root_unchanged [OF xinv_ok [OF x]]])
      (use read xinv_same [OF x] in \<open>auto simp: wp_bind wp_basic wp_in_state\<close>)
qed

lemma x_set_storage_keeps: "keeps (x_set_storage C B key v) (xinv s own H F k)"
  unfolding keeps_def
proof (intro allI impI)
  fix x :: "('b, 'l, 't, 'v) externalities"
  assume x: "xinv s own H F k x"
  show "wp (x_set_storage C B key v) (\<lambda>_. xinv s own H F k) (\<lambda>_. xinv s own H F k) x"
  proof (cases "ex_static_flag x")
    case False
    then have F: "F = None" using ext_inv_static x by blast
    have "wp (state_set_storage C B (own_address x) key v) (\<lambda>_ st. advances (ex_state x) st) (\<lambda>_ st. advances (ex_state x) st) (ex_state x)"
      by (rule wp_mono [OF wp_state_set_storage [OF xinv_ok [OF x]]]) (auto intro: advances_intros split: if_splits)
    then have "wp (state_set_storage C B (own_address x) key v) (\<lambda>_ st. xinv s own H F k (x\<lparr>ex_state := st\<rparr>))
        (\<lambda>_ st. xinv s own H F k (x\<lparr>ex_state := st\<rparr>)) (ex_state x)"
      by (rule wp_mono) (use xinv_advances x F in auto)
    with False show ?thesis by (simp add: x_set_storage_def wp_bind wp_basic wp_in_state)
  qed (use x in \<open>simp add: x_set_storage_def wp_bind wp_basic\<close>)
qed

lemma x_queries_keep:
  "keeps (x_exists C B a) (xinv s own H F k)" "keeps (x_exists_and_not_null C B a) (xinv s own H F k)"
  "keeps (x_balance C B a) (xinv s own H F k)" "keeps (x_extcodehash C B a) (xinv s own H F k)"
  "keeps (x_extcodesize C B a) (xinv s own H F k)"
  unfolding x_exists_def x_exists_and_not_null_def x_balance_def x_extcodehash_def x_extcodesize_def
    state_exists_def state_exists_and_not_null_def state_balance_def state_code_hash_def state_code_size_def
  by (rule query_keeps, rule wp_query, assumption)+

text \<open>The balances, as the contract of the interface has them.\<close>

abbreviation xbal :: "('b, 'l, 't, 'v) externalities \<Rightarrow> address \<Rightarrow> u256" where
  "xbal x \<equiv> view_balance (V (ex_state x))"

lemma x_balance_reads:
  assumes "xinv s own H F k x"
  shows "wp (x_balance C B a) (\<lambda>b x'. xinv s own H F k x' \<and> b = xbal x' a) (\<lambda>_. xinv s own H F k) x"
  unfolding x_balance_def wp_in_state
  by (rule wp_mono [OF wp_state_balance [OF xinv_ok [OF assms]]]) (use xinv_same [OF assms] in \<open>auto simp: same_def\<close>)

lemma x_storage_at_keeps: "keeps (x_storage_at C B key) (xinv s own H F k)"
  unfolding keeps_def x_storage_at_def wp_bind wp_basic
  by (intro allI impI keepsD [OF query_keeps]) (rule wp_mono [OF wp_state_storage_at], auto)

lemma x_origin_balance_keeps: "keeps (x_origin_balance C B) (xinv s own H F k)"
  unfolding keeps_def x_origin_balance_def wp_bind wp_basic
  by (intro allI impI keepsD [OF x_queries_keep(3)])

lemma x_blockhash_keeps:
  fixes X :: "('b, 'l, 't, 'v) executive_ops"
  shows "keeps (x_blockhash C B X n) (xinv s own H F k)"
  unfolding keeps_def
proof (intro allI impI)
  fix x :: "('b, 'l, 't, 'v) externalities"
  assume x: "xinv s own H F k x"
  then have env: "env_ok (ex_machine x) (ex_env_info x)" by (simp add: ext_inv_def)
  have "unat (env_number (ex_env_info x) + 256) = unat (env_number (ex_env_info x)) + 256"
    using env by (subst unat_plus_exact) (simp_all add: env_ok_def)
  then have "\<not> mp_eip210_transition (ex_machine x) \<le> env_number (ex_env_info x) + 256"
    using env by (simp add: env_ok_def word_le_nat_alt)
  then show "wp (x_blockhash C B X n) (\<lambda>_. xinv s own H F k) (\<lambda>_. xinv s own H F k) x"
    using env x recent_blockhash_no_panic [OF env, of n]
    by (simp add: x_blockhash_def wp_bind wp_basic wp_lift checked_plus_def env_ok_def split: outcome.splits)
qed

lemma x_extcode_keeps:
  assumes "xinv s own H F k x"
  shows "wp (x_extcode C B a) (\<lambda>c x'. xinv s own H F k x' \<and> (\<forall>bs. c = Some bs \<longrightarrow> length bs < 2 ^ 64)) (\<lambda>_. xinv s own H F k) x"
  unfolding x_extcode_def wp_in_state
  by (rule wp_mono [OF wp_state_code [OF xinv_ok [OF assms]]]) (use xinv_same [OF assms] in auto)

lemma x_call_keeps:
  assumes "xinv s own H F k x" "length input < 2 ^ 64" "\<And>v. val_opt = Some v \<Longrightarrow> v \<le> xbal x sender_address"
  shows "wp (x_call C B X gas sender_address receive_address val_opt input code_adr ct True)
    (\<lambda>r x'. xinv s own H F k x' \<and> call_result_ok gas r \<and> (\<forall>t. r = Inl t \<longrightarrow> trap_ok (xbal x') t)) (\<lambda>_. xinv s own H F k) x"
  unfolding x_call_def wp_bind [of "attempt _"] wp_attempt
  by (rule wp_mono [OF wp_code_and_hash [OF xinv_ok [OF assms(1)]]])
    (use xinv_same [OF assms(1)] assms(2,3) in
      \<open>auto simp: wp_basic wp_bind call_result_ok_def call_params_def Let_def params_ok_def same_def split: prod.splits option.splits\<close>)

lemma wp_own_inc_nonce:
  assumes "xinv s own H F k x" "same (ex_state x) st" "\<not> ex_static_flag x"
  shows "wp (state_inc_nonce C B a) (\<lambda>_ st'. xinv s own H F k (x\<lparr>ex_state := st'\<rparr>) \<and> view_balance (V st') = xbal x)
    (\<lambda>_ st'. xinv s own H F k (x\<lparr>ex_state := st'\<rparr>)) st"
proof -
  have F: "F = None" using ext_inv_static assms(1,3) by blast
  have keep: "xinv s own H F k (x\<lparr>ex_state := st'\<rparr>)" if "changed a w st st'" for w st'
    using xinv_advances [OF assms(1) [unfolded F] advances_trans [OF advances_intros(1) [OF assms(2)] advances_intros(2) [OF that]]] F
    by simp
  have "view_balance (V st') = xbal x" if "changed a (Some (bump (account_or_fresh C G st a))) st st'" for st'
    using that assms(2)
    by (auto simp: changed_def same_def view_balance_def account_or_fresh_def bump_def fresh_view_def fun_eq_iff split: option.splits)
  then show ?thesis
    by (intro wp_mono [OF wp_state_inc_nonce [OF same_ok [OF assms(2)]]]) (use keep in blast)+
qed

lemma x_create_keeps:
  assumes "xinv s own H F k x" "length code < 2 ^ 64" "v \<le> xbal x own"
  shows "wp (x_create C B X gas v code scheme True)
    (\<lambda>r x'. xinv s own H F k x' \<and> create_result_ok gas r \<and> (\<forall>t. r = Inl t \<longrightarrow> trap_ok (xbal x') t)) (\<lambda>_. xinv s own H F k) x"
    (is "wp _ ?post _ _")
proof -
  let ?bump = "\<not> ex_static_flag x \<and> (\<not> sch_keep_unsigned_nonce (ex_schedule x) \<or> own_address x \<noteq> UNSIGNED_SENDER)"
  have trap: "?post (Inl (Trap_Create (create_params x a h gas v code) a)) (x\<lparr>ex_state := st'\<rparr>)"
    if "xinv s own H F k (x\<lparr>ex_state := st'\<rparr>)" "view_balance (V st') = xbal x" for a h st'
    using that assms(1-3) by (simp add: create_result_ok_def create_params_def params_ok_def ext_inv_def own_address_def)
  have "wp (bind (if ?bump then attempt (state_inc_nonce C B (own_address x)) else ret (Inr ())) (\<lambda>i. case i of
          Inl _ \<Rightarrow> ret (Inr Create_Failed) | Inr _ \<Rightarrow> ret (Inl (Trap_Create (create_params x a h gas v code) a))))
      ?post (\<lambda>_. xinv s own H F k) (x\<lparr>ex_state := st'\<rparr>)"
    if "same (ex_state x) st'" for a h st'
  proof (cases ?bump)
    case True
    then show ?thesis
      by (simp add: wp_bind wp_attempt, intro wp_mono [OF wp_own_inc_nonce [OF assms(1) that]])
        (use trap in \<open>auto simp: wp_basic create_result_ok_def\<close>)
  next
    case False
    have "view_balance (V st') = xbal x" using that by (simp add: same_def)
    then show ?thesis using trap xinv_same [OF assms(1) that] unfolding if_not_P [OF False] by (simp add: wp_bind wp_basic)
  qed
  then show ?thesis
    unfolding x_create_def
    by (simp add: wp_bind [of "gets _"] wp_bind [of "attempt (state_nonce _ _ _)"] wp_basic wp_attempt)
      (rule wp_mono [OF wp_state_nonce [OF xinv_ok [OF assms(1)]]],
        auto simp: wp_basic xinv_same [OF assms(1)] create_result_ok_def create_params_def Let_def split: prod.splits)
qed

lemma x_suicide_keeps:
  fixes T :: "('t, 'v) tracer_ops"
  shows "keeps (x_suicide C B T a) (xinv s own H F k)"
  unfolding keeps_def
proof (intro allI impI)
  fix x :: "('b, 'l, 't, 'v) externalities"
  assume x: "xinv s own H F k x"
  show "wp (x_suicide C B T a) (\<lambda>_. xinv s own H F k) (\<lambda>_. xinv s own H F k) x"
  proof (cases "ex_static_flag x")
    case False
    then have F: "F = None" using ext_inv_static x by blast
    let ?a = "own_address x" and ?Q = "\<lambda>_ (st, t). xinv s own H None k (x\<lparr>ex_state := st, ex_substate := (ex_substate x)\<lparr>sub_touched := t\<rparr>\<rparr>)"
    have fin: "xinv s own H None k (x\<lparr>ex_state := st, ex_substate := (ex_substate x)\<lparr>sub_touched := t\<rparr>\<rparr>)" if "advances (ex_state x) st" for st t
      using x F that by (simp add: ext_inv_def advances_def)
    have covered: "view_balance (V (ex_state x)) ?a \<le> av_balance (account_or_fresh C G st ?a)" if "same (ex_state x) st" for st
      using that by (auto simp: same_def view_balance_def account_or_fresh_def fresh_view_def split: option.splits)
    have sub: "wp (sub_balance C B ?a (view_balance (V (ex_state x)) ?a) mode) ?Q ?Q (st, t)"
      and transfer: "wp (transfer_balance C B ?a a (view_balance (V (ex_state x)) ?a) mode) ?Q ?Q (st, t)"
      if "same (ex_state x) st" for st t mode
    proof -
      have step: "advances (ex_state x) st'" if "advances st st'" for st'
        using advances_trans [OF advances_intros(1) [OF \<open>same (ex_state x) st\<close>] that] .
      show "wp (sub_balance C B ?a (view_balance (V (ex_state x)) ?a) mode) ?Q ?Q (st, t)"
        by (rule wp_mono [OF wp_sub_balance [OF same_ok [OF that] covered [OF that]]])
          (auto intro!: fin step intro: advances_intros)
      show "wp (transfer_balance C B ?a a (view_balance (V (ex_state x)) ?a) mode) ?Q ?Q (st, t)"
        by (rule wp_mono [OF wp_transfer_balance [OF same_ok [OF that] covered [OF that]]])
          (auto intro!: fin step intro: advances_intros advances_trans)
    qed
    have move: "wp (if ?a = a then in_touched C (sub_balance C B ?a (view_balance (V (ex_state x)) ?a) NoEmpty)
          else in_touched C (transfer_balance C B ?a a (view_balance (V (ex_state x)) ?a) (to_cleanup_mode (ex_schedule x))))
        (\<lambda>_. xinv s own H None k) (\<lambda>_. xinv s own H None k) (x\<lparr>ex_state := st\<rparr>)" if "same (ex_state x) st" for st
      unfolding wp_if wp_in_touched using sub [OF that] transfer [OF that] by (simp cong del: if_weak_cong)
    have "wp (state_balance C B ?a) (\<lambda>balance st. wp (if ?a = a then in_touched C (sub_balance C B ?a balance NoEmpty)
          else in_touched C (transfer_balance C B ?a a balance (to_cleanup_mode (ex_schedule x))))
        (\<lambda>_. xinv s own H None k) (\<lambda>_. xinv s own H None k) (x\<lparr>ex_state := st\<rparr>)) (\<lambda>_ st. xinv s own H None k (x\<lparr>ex_state := st\<rparr>)) (ex_state x)"
      by (rule wp_mono [OF wp_state_balance [OF xinv_ok [OF x]]]) (use move xinv_same x F in auto)
    with False F show ?thesis
      unfolding x_suicide_def x_balance_def
      by (simp add: wp_bind wp_basic wp_in_state Let_def) (erule wp_mono, auto elim!: wp_mono simp: wp_basic ext_inv_def)
  qed (use x in \<open>simp add: x_suicide_def wp_bind wp_basic\<close>)
qed

lemma change_refund_keeps:
  assumes "xinv s own H F (Suc k) x" "\<bar>v\<bar> < 2 ^ 32"
  shows "wp (change_refund v) (\<lambda>_. xinv s own H F k) (\<lambda>_. xinv s own H F k) x"
proof -
  let ?r = "sub_sstore_clears_refund (ex_substate x)"
  have "\<bar>?r\<bar> + int k * 2 ^ 32 + 2 ^ 32 < 2 ^ 127" using assms(1) by (simp add: ext_inv_def algebra_simps)
  moreover have "\<bar>?r + v\<bar> \<le> \<bar>?r\<bar> + \<bar>v\<bar>" by (rule abs_triangle_ineq)
  ultimately have room: "\<bar>?r + v\<bar> + int k * 2 ^ 32 < 2 ^ 127" using assms(2) by linarith
  moreover have "0 \<le> int k * 2 ^ 32" by simp
  ultimately have "\<bar>?r + v\<bar> < 2 ^ 127" by linarith
  then have "i128_range (?r + v)" by (simp add: i128_range_def abs_less_iff)
  with room assms(1) show ?thesis
    by (simp add: change_refund_def add_refund_def wp_bind wp_basic wp_lift ext_inv_def frozen_part_def)
qed

section \<open>The contract\<close>

lemma x_refunds_keep:
  assumes "xinv s own H F (Suc k) x" "amount < (2 ^ 32 :: usize)"
  shows "wp (x_add_sstore_refund amount) (\<lambda>_. xinv s own H F k) (\<lambda>_. xinv s own H F k) x"
    "wp (x_sub_sstore_refund amount) (\<lambda>_. xinv s own H F k) (\<lambda>_. xinv s own H F k) x"
proof -
  have "uint amount < uint (2 ^ 32 :: usize)" using assms(2) by (simp only: word_less_def)
  then have "\<bar>uint amount\<bar> < 2 ^ 32" by simp
  then show "wp (x_add_sstore_refund amount) (\<lambda>_. xinv s own H F k) (\<lambda>_. xinv s own H F k) x"
    "wp (x_sub_sstore_refund amount) (\<lambda>_. xinv s own H F k) (\<lambda>_. xinv s own H F k) x"
    using change_refund_keeps [OF assms(1)] by (simp_all add: x_add_sstore_refund_def x_sub_sstore_refund_def)
qed

lemma x_log_keeps: "keeps (x_log topics data) (xinv s own H F k)"
  using ext_inv_static by (fastforce simp: keeps_def x_log_def wp_bind wp_basic ext_inv_def frozen_part_def)

theorem externalities_ext_trait:
  assumes "schedule_ok s" "schedule_priced s"
  shows "ext_trait (externalities_ops C B X T) (xinv s own H F) s own xbal"
  by unfold_locales
    (simp_all add: externalities_ops_def assms ext_inv_mono x_balance_reads [simplified] xinv_schedule x_initial_storage_at_keeps x_storage_at_keeps
      x_set_storage_keeps x_queries_keep x_origin_balance_keeps x_blockhash_keeps x_log_keeps x_suicide_keeps
      x_extcode_keeps [simplified]
      x_call_keeps [simplified] x_create_keeps [simplified] x_refunds_keep x_trace_next_instruction_def x_trace_prepare_execute_def
      x_trace_executed_def ext_inv_tracers split: prod.splits)

end

end
