(* ===== verification/State_Runs.thy ===== *)
theory State_Runs
  imports State_Accounts
begin

text \<open>
  Sequences of operations of \<open>State\<close> with nested checkpoints, as a relation: what a transaction can do to
  the state between a checkpoint and its end. The relation refines the specification, so that reverting to a
  checkpoint undoes everything that happened since it was taken.
\<close>

inductive run :: "'l crates \<Rightarrow> ('b, 'l) backend \<Rightarrow> ('b, 'l) state \<Rightarrow> ('b, 'l) state \<Rightarrow> bool" for C B where
  run_refl: "run C B st st"
| run_trans: "run C B st st' \<Longrightarrow> run C B st' st'' \<Longrightarrow> run C B st st''"
| run_query: "ensure_cached C B a req cn (\<lambda>_. ()) st = (r, st') \<Longrightarrow> run C B st st'"
| run_storage_at: "state_storage_at C B a key st = (r, st') \<Longrightarrow> run C B st st'"
| run_checkpoint_storage_at: "checkpoint_storage_at C B n a key st = (r', st') \<Longrightarrow> run C B st st'"
| run_set_storage: "state_set_storage C B a key x st = (u, st') \<Longrightarrow> run C B st st'"
| run_inc_nonce: "state_inc_nonce C B a st = (u, st') \<Longrightarrow> run C B st st'"
| run_add_balance: "add_balance C B a amount mode (st, t) = (u, st', t') \<Longrightarrow> run C B st st'"
| run_sub_balance: "sub_balance C B a amount mode (st, t) = (u, st', t') \<Longrightarrow> u \<noteq> Panic \<Longrightarrow> run C B st st'"
| run_new_contract: "state_new_contract C B a balance offset st = (u, st') \<Longrightarrow> run C B st st'"
| run_init_code: "length code < 2 ^ 64 \<Longrightarrow> state_init_code C B a code st = (u, st') \<Longrightarrow> run C B st st'"
| run_patch_account: "length code < 2 ^ 64 \<Longrightarrow> patch_account C B a code cells st = (u, st') \<Longrightarrow> run C B st st'"
| run_kill_account: "run C B st (kill_account a st)"
| run_kill_garbage: "run C B st (kill_garbage C touched remove_empty dust contracts st)"
| run_reverted: "run C B (snd (checkpoint st)) st' \<Longrightarrow> run C B st (revert_to_checkpoint C st')"
| run_discarded: "run C B (snd (checkpoint st)) st' \<Longrightarrow> run C B st (discard_checkpoint st')"

lemma wp_run:
  assumes "wp m Q R s" "m s = (r, s')" "\<And>x. Q x s' \<Longrightarrow> P" "\<And>e. R e s' \<Longrightarrow> P"
  shows P
  using assms by (cases r) (auto simp: wp_def)

lemma discard_fields:
  "st_root (discard_checkpoint st) = st_root st" "st_account_start_nonce (discard_checkpoint st) = st_account_start_nonce st"
  "length (st_checkpoints (discard_checkpoint st)) = length (st_checkpoints st) - 1"
proof -
  show "st_root (discard_checkpoint st) = st_root st" "st_account_start_nonce (discard_checkpoint st) = st_account_start_nonce st"
    by (simp_all add: discard_checkpoint_def Let_def)
  show "length (st_checkpoints (discard_checkpoint st)) = length (st_checkpoints st) - 1"
  proof (cases "st_checkpoints st" rule: rev_cases)
    case (snoc cs c)
    then show ?thesis by (cases cs rule: rev_cases) (simp_all add: discard_checkpoint_def Let_def butlast_append)
  qed (simp add: discard_checkpoint_def)
qed

context state_backend
begin

lemma sub_balance_advances:
  assumes "ok st" "sub_balance C B a decr mode (st, t) = (r, st', t')" "r \<noteq> Panic"
  shows "advances st st'"
proof (cases "decr \<le> av_balance (account_or_fresh C G st a)")
  case True
  show ?thesis
    using wp_sub_balance [OF assms(1) True] assms(2) by (rule wp_run) (auto intro: advances_intros)
next
  case False
  then have "decr \<noteq> 0" by auto
  obtain r1 st1 where sub: "sub_account_balance C B a decr st = (r1, st1)" by fastforce
  have "r1 = Panic \<or> (\<exists>e. r1 = Err e) \<and> advances st st1"
    using sub_account_balance_uncovered [OF assms(1) _ sub] False by (simp add: not_le)
  with assms(2,3) sub \<open>decr \<noteq> 0\<close> show ?thesis
    by (auto simp: sub_balance_def action_simps on_state_def)
qed

lemma checkpointed_advances:
  assumes "ok st" "advances (snd (checkpoint st)) st'"
  shows "advances st (revert_to_checkpoint C st')" "V (revert_to_checkpoint C st') = V st"
    "advances st (discard_checkpoint st')" "V (discard_checkpoint st') = V st'"
proof -
  note taken = checkpoint_refines [OF assms(1)]
  have st': "ok st'" "history C G st' = V st # history C G st" "length (st_checkpoints st') = Suc (length (st_checkpoints st))"
    "st_root st' = st_root st" "st_account_start_nonce st' = st_account_start_nonce st"
    using assms(2) taken(3) by (simp_all add: advances_def) (simp_all add: checkpoint_def)
  then have nonempty: "st_checkpoints st' \<noteq> []" by auto
  note revert = revert_to_checkpoint_refines [OF st'(1) nonempty] and discard = discard_checkpoint_refines [OF st'(1) nonempty]
  have "length (st_checkpoints (revert_to_checkpoint C st')) = length (st_checkpoints st)"
    "st_root (revert_to_checkpoint C st') = st_root st" "st_account_start_nonce (revert_to_checkpoint C st') = st_account_start_nonce st"
    using st' nonempty by (simp_all add: revert_to_checkpoint_def)
  with revert st' show "advances st (revert_to_checkpoint C st')" "V (revert_to_checkpoint C st') = V st"
    by (simp_all add: advances_def)
  have "length (st_checkpoints (discard_checkpoint st')) = length (st_checkpoints st)"
    "st_root (discard_checkpoint st') = st_root st" "st_account_start_nonce (discard_checkpoint st') = st_account_start_nonce st"
    using st' by (simp_all add: discard_fields)
  with discard st' show "advances st (discard_checkpoint st')" "V (discard_checkpoint st') = V st'"
    by (simp_all add: advances_def)
qed

theorem run_advances: "run C B st st' \<Longrightarrow> ok st \<Longrightarrow> advances st st'"
proof (induction rule: run.induct)
  case (run_refl st)
  then show ?case using advances_intros(1) same_refl by blast
next
  case (run_trans st st' st'')
  then show ?case using advances_trans advances_ok by blast
next
  case (run_query a req cn st r st')
  show ?case
    using wp_query [OF run_query(2)] run_query(1) by (rule wp_run) (auto intro: advances_intros)
next
  case (run_storage_at a key st r st')
  show ?case
    using wp_state_storage_at [OF run_storage_at(2)] run_storage_at(1) by (rule wp_run) (auto intro: advances_intros)
next
  case (run_checkpoint_storage_at n a key st r st')
  show ?case
    using wp_checkpoint_storage_at [OF run_checkpoint_storage_at(2)] run_checkpoint_storage_at(1) by (rule wp_run) (auto intro: advances_intros)
next
  case (run_set_storage a key x st u st')
  show ?case
    using wp_state_set_storage [OF run_set_storage(2)] run_set_storage(1) by (rule wp_run) (auto intro: advances_intros split: if_splits)
next
  case (run_inc_nonce a st u st')
  show ?case
    using wp_state_inc_nonce [OF run_inc_nonce(2)] run_inc_nonce(1) by (rule wp_run) (auto intro: advances_intros)
next
  case (run_add_balance a amount mode st t u st' t')
  show ?case
    using wp_add_balance [OF run_add_balance(2)] run_add_balance(1) by (rule wp_run) (auto intro: advances_intros)
next
  case (run_sub_balance a amount mode st t u st' t')
  then show ?case using sub_balance_advances by blast
next
  case (run_new_contract a balance offset st u st')
  show ?case
    using wp_state_new_contract [OF run_new_contract(2)] run_new_contract(1) by (rule wp_run) (auto intro: advances_intros)
next
  case (run_init_code code a st u st')
  show ?case
    using wp_state_init_code [OF run_init_code(3,1)] run_init_code(2) by (rule wp_run) (auto intro: advances_intros)
next
  case (run_patch_account code a cells st u st')
  show ?case
    using wp_patch_account [OF run_patch_account(3,1)] run_patch_account(2) by (rule wp_run) (auto intro: advances_intros)
next
  case (run_kill_account st a)
  then show ?case using kill_account_refines advances_intros(2) by blast
next
  case (run_kill_garbage st touched remove_empty dust contracts)
  then show ?case using kill_garbage_advances by blast
next
  case (run_reverted st st')
  then show ?case using checkpointed_advances(1) checkpoint_refines(1) by blast
next
  case (run_discarded st st')
  then show ?case using checkpointed_advances(3) checkpoint_refines(1) by blast
qed

end

end
