(* ===== verification/Backends.thy ===== *)
theory Backends
  imports Externalities_Safety State_Runs
begin

text \<open>
  The backend without caches, \<open>Basic\<close> of src/ethcore/src/state/backend.rs, over a hash database, and a
  reference implementation of the crates below it: an LRU cache as a list in order of use, and a database that
  keeps accounts, storage cells and code in maps. The contract \<open>state_backend\<close> is proved for \<open>Basic\<close> over
  that database with any content.
\<close>

section \<open>The basic backend\<close>

text \<open>What the state reads through \<open>as_hash_db\<close> and the factories for tries and account databases.\<close>

record 'h hash_db =
  hd_contains :: "h256 \<Rightarrow> 'h \<Rightarrow> bool"
  hd_account_db :: "h256 \<Rightarrow> 'h \<Rightarrow> account_db"
  hd_open_trie :: "h256 \<Rightarrow> 'h \<Rightarrow> (trie_error, unit) outcome"
  hd_get_account :: "h256 \<Rightarrow> address \<Rightarrow> 'h \<Rightarrow> (trie_error, basic_account option) outcome"

definition basic_backend :: "'h hash_db \<Rightarrow> ('h, 'l) backend" where
  "basic_backend H =
    \<lparr>be_get_cached = (\<lambda>_ h. (None, h)), be_set_cached = (\<lambda>_ _ h. h), be_get_cached_account = (\<lambda>_ h. (None, h)),
     be_get_cached_code = (\<lambda>_ h. (None, h)), be_cache_code = (\<lambda>_ _ h. h), be_add_to_account_cache = (\<lambda>_ _ _ h. h),
     be_is_known_null = (\<lambda>_ _. False), be_account_db = hd_account_db H, be_contains = hd_contains H,
     be_open_trie = hd_open_trie H, be_get_account = hd_get_account H\<rparr>"

section \<open>Reference crates\<close>

text \<open>An LRU cache: its capacity and its items, the most recently used first.\<close>

type_synonym ref_lru = "nat \<times> (h256 \<times> h256) list"

definition ref_lru_get :: "h256 \<Rightarrow> ref_lru \<Rightarrow> h256 option \<times> ref_lru" where
  "ref_lru_get key lru = (case map_of (snd lru) key of
      Some v \<Rightarrow> (Some v, fst lru, (key, v) # AList.delete key (snd lru))
    | None \<Rightarrow> (None, lru))"

definition ref_lru_insert :: "h256 \<Rightarrow> h256 \<Rightarrow> ref_lru \<Rightarrow> ref_lru" where
  "ref_lru_insert key v lru = (fst lru, take (fst lru) ((key, v) # AList.delete key (snd lru)))"

definition ref_lru_iter :: "ref_lru \<Rightarrow> (h256 \<times> h256) list" where
  "ref_lru_iter lru = filter (\<lambda>(key, v). map_of (snd lru) key = Some v) (snd lru)"

definition ref_crates :: "ref_lru crates" where
  "ref_crates = \<lparr>cr_keccak = be_word, cr_KECCAK_EMPTY = 0, cr_KECCAK_NULL_RLP = 1,
     cr_lru_new = (\<lambda>n. (n, [])), cr_lru_get_mut = ref_lru_get, cr_lru_insert = ref_lru_insert,
     cr_lru_into_iter = ref_lru_iter, cr_trie_error_text = (\<lambda>_. ''trie''), cr_rlp_sender_nonce = (\<lambda>a n. address_bytes a @ to_big_endian n)\<rparr>"

record ref_db =
  rdb_accounts :: "address \<Rightarrow> basic_account option"
  rdb_cells :: "h256 \<Rightarrow> h256 \<Rightarrow> h256 \<Rightarrow> u256 option"
  rdb_code :: "h256 \<Rightarrow> bytes option"

definition ref_cell :: "ref_db \<Rightarrow> h256 \<Rightarrow> h256 \<Rightarrow> h256 \<Rightarrow> u256 option" where
  "ref_cell D h root key = (if root = 1 then None else rdb_cells D h root key)"

definition ref_code :: "ref_db \<Rightarrow> h256 \<Rightarrow> bytes option" where
  "ref_code D ch = (case rdb_code D ch of Some bs \<Rightarrow> if length bs < 2 ^ 64 then Some bs else None | None \<Rightarrow> None)"

definition ref_hash_db :: "ref_db hash_db" where
  "ref_hash_db = \<lparr>hd_contains = (\<lambda>_ _. True),
     hd_account_db = (\<lambda>h D. \<lparr>adb_storage = (\<lambda>root key. Ok (ref_cell D h root key)), adb_code = ref_code D\<rparr>),
     hd_open_trie = (\<lambda>_ _. Ok ()), hd_get_account = (\<lambda>_ a D. Ok (rdb_accounts D a))\<rparr>"

definition ref_ground :: "ref_db \<Rightarrow> ref_lru ground" where
  "ref_ground D = \<lparr>gr_base = rdb_accounts D,
     gr_cell = (\<lambda>h root key. case ref_cell D h root key of Some v \<Rightarrow> v | None \<Rightarrow> 0),
     gr_code = (\<lambda>ch. case ref_code D ch of Some bs \<Rightarrow> bs | None \<Rightarrow> []),
     gr_content = (\<lambda>lru. map_of (snd lru))\<rparr>"

lemma map_of_take: "map_of (take n xs) k = Some v \<Longrightarrow> map_of xs k = Some v"
  using map_add_find_right by (metis append_take_drop_id map_of_append)

lemma ref_lru_laws:
  "ref_lru_get key lru = (val, lru') \<Longrightarrow> val = map_of (snd lru) key \<and> map_of (snd lru') = map_of (snd lru)"
  "map_of (snd (ref_lru_insert key v lru)) key' = Some w \<Longrightarrow> key' = key \<and> w = v \<or> map_of (snd lru) key' = Some w"
  "(key, v) \<in> set (ref_lru_iter lru) \<Longrightarrow> map_of (snd lru) key = Some v"
  by (auto simp: ref_lru_get_def ref_lru_insert_def ref_lru_iter_def delete_conv' fun_eq_iff
      dest!: map_of_take split: option.splits if_splits)

interpretation basic: state_backend ref_crates "basic_backend ref_hash_db" "ref_ground D" "\<lambda>_ b. b = D" for D
  by unfold_locales
    (auto simp: ref_crates_def ref_ground_def basic_backend_def ref_hash_db_def ref_cell_def ref_code_def be_word_def
      ref_lru_laws split: option.splits if_splits dest: ref_lru_laws)

text \<open>An empty state over that database.\<close>

definition ref_state :: "ref_db \<Rightarrow> (ref_db, ref_lru) state" where
  "ref_state D = \<lparr>st_db = D, st_root = 0, st_cache = [], st_checkpoints = [], st_account_start_nonce = 0\<rparr>"

lemma ref_state_ok: "state_ok ref_crates (ref_ground D) (\<lambda>_ b. b = D) (ref_state D)"
  by (simp add: state_ok_def ref_state_def)

lemma ref_state_history: "history ref_crates G (ref_state D) = []"
  by (simp add: history_def ref_state_def)

lemma ref_state_nonce: "st_account_start_nonce (ref_state D) = 0"
  by (simp add: ref_state_def)

definition empty_db :: ref_db where
  "empty_db = \<lparr>rdb_accounts = (\<lambda>_. None), rdb_cells = (\<lambda>_ _ _. None), rdb_code = (\<lambda>_. None)\<rparr>"

abbreviation "ref_backend \<equiv> basic_backend ref_hash_db :: (ref_db, ref_lru) backend"

end
