(* ===== verification/Vm_Over_State.thy ===== *)
theory Vm_Over_State
  imports Interpreter_Exec Backends
begin

text \<open>
  The interpreter over the externalities over the state: the contracts compose. \<open>vm_over_state\<close> joins the
  contract of the backend with a schedule and gives the contract of \<open>Ext\<close>, so that everything proved of the
  interpreter holds of executions that read and change accounts; the interpretation at the end is the basic
  backend under the Byzantium schedule.
\<close>

section \<open>Composition of the contracts\<close>

locale vm_over_state = state_backend C B G bi
  for C :: "'l crates" and B :: "('b, 'l) backend" and G :: "'l ground" and bi :: "h256 \<Rightarrow> 'b \<Rightarrow> bool" +
  fixes X :: "('b, 'l, 't, 'v) executive_ops" and T :: "('t, 'v) tracer_ops" and s :: schedule
    and own :: address and H :: fixed_part and F :: "frozen_part option"
  assumes prices_ok: "schedule_ok s" and all_priced: "schedule_priced s"

sublocale vm_over_state \<subseteq> vm: ext_trait "externalities_ops C B X T" "ext_inv C G bi s own H F" s own xbal
  by (rule externalities_ext_trait [OF prices_ok all_priced])

lemma byzantium_ok: "schedule_ok new_byzantium" "schedule_priced new_byzantium"
  using new_post_eip150_ok [of 24576 True True True] by (auto simp: new_byzantium_def schedule_ok_def schedule_priced_def)

interpretation basic_vm: vm_over_state ref_crates "basic_backend ref_hash_db" "ref_ground D" "\<lambda>_ b. b = D" X T new_byzantium own H F
  for D X T own H F
  by unfold_locales (simp_all add: byzantium_ok)

section \<open>Executions\<close>

text \<open>What an execution that started with \<open>bound\<close> units of gas leaves, by its result.\<close>

definition run_result_ok :: "address \<Rightarrow> schedule \<Rightarrow> nat \<Rightarrow> exec_result \<Rightarrow> usize interpreter \<Rightarrow> bool" where
  "run_result_ok own s bound r it = (case r of
      Exec_Done (Inl e) \<Rightarrow> True
    | Exec_Done (Inr (Known gas)) \<Rightarrow> unat gas \<le> bound
    | Exec_Done (Inr (NeedsReturn gas data a)) \<Rightarrow> unat gas \<le> bound \<and> return_data_ok data
    | Exec_Trap t \<Rightarrow> vm_suspended own s t it \<and> gas_of it + trap_gas t < bound)"

lemma ext_inv_0: "ext_inv C G bi s own H F k x \<Longrightarrow> ext_inv C G bi s own H F 0 x"
  by (induction k) (auto dest: ext_inv_mono)

lemma ext_inv_le: "ext_inv C G bi s own H F k x \<Longrightarrow> j \<le> k \<Longrightarrow> ext_inv C G bi s own H F j x"
  by (induction k) (auto simp: le_Suc_eq dest: ext_inv_mono)

lemma settled_inv:
  assumes "settled_ok own s I b g res (it, x)" "\<And>k y. I k y \<Longrightarrow> I 0 y"
  shows "I 0 x"
  using assms by (cases "(own, s, I, b, g, res, (it, x))" rule: settled_ok.cases) auto

lemma exec_ok_result:
  assumes "exec_ok own s I b bound r (it, x)" "\<And>k y. I k y \<Longrightarrow> I 0 y"
  shows "run_result_ok own s bound r it" "I 0 x"
proof -
  from assms(1) obtain g where g: "g \<le> bound" "case r of Exec_Done l \<Rightarrow> settled_ok own s I b g (Done l) (it, x)
      | Exec_Trap t \<Rightarrow> g < bound \<and> settled_ok own s I b g (Trapped t) (it, x)" by (auto simp: exec_ok_def)
  have left: "run_result_ok own s bound (Exec_Done (Inr l)) it" if "left_ok g l" for l
    using that g(1) by (cases l) (auto simp: run_result_ok_def data_ok_def)
  have "run_result_ok own s bound r it \<and> I 0 x"
  proof (cases r)
    case (Exec_Done l)
    then show ?thesis using g(2) left assms(2) by (cases l) (auto simp: run_result_ok_def)
  next
    case (Exec_Trap t)
    then show ?thesis using g assms(2) by (auto simp: run_result_ok_def)
  qed
  then show "run_result_ok own s bound r it" "I 0 x" by simp_all
qed

lemma run_result_mono: "run_result_ok own s g r it \<Longrightarrow> g \<le> h \<Longrightarrow> run_result_ok own s h r it"
  by (auto simp: run_result_ok_def split: exec_result.splits sum.splits gas_left.splits)

context vm_over_state
begin

lemma execution:
  assumes "vm_ready own s it" "ext_inv C G bi s own H F (2 * (gas_of it + pending_gas it)) x" "gas_of it + pending_gas it + 1 < n"
  shows "\<exists>r it' x'. exec n keccak (externalities_ops C B X T) (it, x) = Some (Ok r, it', x') \<and>
    run_result_ok own s (gas_of it + pending_gas it) r it' \<and> ext_inv C G bi s own H F 0 x'"
proof -
  obtain r it' x' where run: "exec n keccak (externalities_ops C B X T) (it, x) = Some (Ok r, it', x')"
    "exec_ok own s (ext_inv C G bi s own H F) xbal (gas_of it + pending_gas it) r (it', x')"
    using vm.exec_returns [OF assms, of keccak] by auto
  with exec_ok_result [OF run(2)] ext_inv_0 show ?thesis by blast
qed

lemma execution_within:
  assumes "vm_ready own s it" "gas_of it + pending_gas it \<le> g" "ext_inv C G bi s own H F (2 * g) x" "g + 1 < n"
  shows "\<exists>r it' x'. exec n keccak (externalities_ops C B X T) (it, x) = Some (Ok r, it', x') \<and>
    run_result_ok own s g r it' \<and> ext_inv C G bi s own H F 0 x'"
proof -
  have "ext_inv C G bi s own H F (2 * (gas_of it + pending_gas it)) x" using ext_inv_le [OF assms(3)] assms(2) by simp
  then obtain r it' x' where run: "exec n keccak (externalities_ops C B X T) (it, x) = Some (Ok r, it', x')"
    "run_result_ok own s (gas_of it + pending_gas it) r it'" "ext_inv C G bi s own H F 0 x'"
    using execution [OF assms(1), of x n keccak] assms(2,4) by auto
  then show ?thesis using run_result_mono [OF run(2) assms(2)] by blast
qed

end

section \<open>A concrete execution\<close>

text \<open>An execution over an empty database, without tracing; nested executions are never started.\<close>

definition ref_executive :: "(ref_db, ref_lru, unit, unit) executive_ops" where
  "ref_executive = \<lparr>xv_call = (\<lambda>_ _ _ _ _ _ _. fail OutOfGas), xv_create = (\<lambda>_ _ _ _ _ _ _. fail OutOfGas)\<rparr>"

definition ref_machine :: machine_params where
  "ref_machine = \<lparr>mp_eip210_transition = - 1, mp_eip210_contract_address = 0, mp_eip210_contract_gas = 0\<rparr>"

definition ref_params :: "u256 \<Rightarrow> bytes \<Rightarrow> action_params" where
  "ref_params gas code = (default_action_params 0)\<lparr>ap_gas := gas, ap_code := Some code\<rparr>"

definition ref_cache :: shared_cache where
  "ref_cache = \<lparr>sc_jump_destinations = Map.empty, sc_evict = (\<lambda>m. m)\<rparr>"

text \<open>An interpreter at the start of some code, and the same with a call in progress.\<close>

definition ref_interpreter :: "bytes \<Rightarrow> usize interpreter" where
  "ref_interpreter code = \<lparr>it_mem = [], it_cache = ref_cache, it_params = interpreter_params_from (ref_params 100 code),
     it_reader = new_reader code, it_return_data = empty_return_data, it_do_trace = True, it_done = False,
     it_valid_jump_destinations = None, it_gasometer = Some (new_gasometer 100), it_stack = with_capacity 1024 0,
     it_resume_output_range = None, it_resume_result = None, it_last_stack_ret_len = 0\<rparr>"

definition ref_suspended :: "bytes \<Rightarrow> usize interpreter" where
  "ref_suspended code = (ref_interpreter code)\<lparr>it_last_stack_ret_len := 1, it_resume_output_range := Some (0, 0)\<rparr>"

definition ref_externalities :: "bool \<Rightarrow> (ref_db, ref_lru, unit, unit) externalities" where
  "ref_externalities static = new_externalities (ref_state empty_db) default_env_info ref_machine new_byzantium 0 0
     (origin_info_from (ref_params 0 [])) new_substate Return () () static"

abbreviation "ref_inv \<equiv> ext_inv ref_crates (ref_ground empty_db) (\<lambda>_ b. b = empty_db) new_byzantium 0 (Fixed [] 0)"
abbreviation "ref_ops \<equiv> externalities_ops ref_crates ref_backend ref_executive noop_tracer_ops"

lemma ref_fields [simp]:
  "ap_gas (ref_params gas code) = gas" "ap_code (ref_params gas code) = Some code" "ap_data (ref_params gas code) = None"
  "ap_address (ref_params gas code) = 0"
  "ex_static_flag (ref_externalities static) = static"
  by (simp_all add: ref_params_def default_action_params_def ref_externalities_def new_externalities_def)

lemma ref_inv_start:
  "k < 1000000 \<Longrightarrow> ref_inv None k (ref_externalities static)"
  "k < 1000000 \<Longrightarrow> ref_inv (Some (frozen_part ref_crates (ref_ground empty_db) (ref_externalities True))) k (ref_externalities True)"
  by (simp_all add: ext_inv_def ref_externalities_def new_externalities_def ref_state_ok env_ok_def default_env_info_def
      ref_machine_def new_substate_def origin_info_from_def ref_state_history ref_state_nonce unsigned_minus_1_eq_mask mask_eq_exp_minus_1)

section \<open>Properties\<close>

lemma vm_over_stateI: "state_backend C B G bi \<Longrightarrow> schedule_ok s \<Longrightarrow> schedule_priced s \<Longrightarrow> vm_over_state C B G bi s"
  by (simp add: vm_over_state_def vm_over_state_axioms_def)

text \<open>
  C1. Every execution of a contract ends, and it does not panic: a new interpreter with fewer than 2^64 units
  of gas, run on the externalities of a well-formed state, returns a result after at most one step per unit of
  gas (and two more), whatever the code is. What is left of the gas is at most what there was, and the state is
  well-formed again.
\<close>

theorem exec_terminates:
  assumes "state_backend C B G bi" "schedule_ok s" "schedule_priced s"
    and "ap_code p = Some code" "length code < 2 ^ 64" "\<forall>d. ap_data p = Some d \<longrightarrow> length d < 2 ^ 64"
    and "unat (ap_gas p) < 2 ^ 64" "ext_inv C G bi s (ap_address p) H F (2 * unat (ap_gas p)) x" "unat (ap_gas p) + 1 < n"
  shows "\<exists>it r it' x'. new_interpreter p cache s = (Ok it :: usize interpreter vm_result) \<and>
    exec n keccak (externalities_ops C B X T) (it, x) = Some (Ok r, it', x') \<and>
    run_result_ok (ap_address p) s (unat (ap_gas p)) r it' \<and> ext_inv C G bi s (ap_address p) H F 0 x'"
proof -
  obtain it where it: "new_interpreter p cache s = (Ok it :: usize interpreter vm_result)" "vm_ready (ap_address p) s it" "gas_of it = unat (ap_gas p)" "pending_gas it = 0"
    using new_interpreter_ready [OF assms(4-7)] by blast
  show ?thesis
    using vm_over_state.execution [OF vm_over_stateI [OF assms(1-3)] it(2), of H F x n keccak X T] it assms(8,9) by auto
qed

theorem exec_terminates_witness:
  "\<exists>it r it' x'. new_interpreter (ref_params 100 [96, 1, 80, 0]) ref_cache new_byzantium = (Ok it :: usize interpreter vm_result) \<and>
    exec 102 be_word ref_ops (it, ref_externalities False) = Some (Ok r, it', x') \<and>
    run_result_ok 0 new_byzantium (unat (100 :: u256)) r it' \<and> ref_inv None 0 x'"
  using exec_terminates [OF basic.state_backend_axioms byzantium_ok, of "ref_params 100 [96, 1, 80, 0]" "[96, 1, 80, 0]"
      empty_db "Fixed [] 0" None "ref_externalities False" 102 ref_cache be_word ref_executive noop_tracer_ops] ref_inv_start(1)
  by simp

text \<open>
  C2. One step of a ready interpreter never panics and never returns \<open>Stopped\<close>. It ends the execution, suspends it
  with a trap, or leaves a ready interpreter with less gas. The value that a trap transfers is covered by the
  balance of its sender. The state behind the externalities stays well-formed,
  errors included.
\<close>

theorem step_safe:
  assumes "state_backend C B G bi" "schedule_ok s" "schedule_priced s"
    and "vm_ready own s it" "it_resume_result it = None" "ext_inv C G bi s own H F (2 * gas_of it) x"
  shows "\<exists>res it' x'. step keccak (externalities_ops C B X T) (it, x) = (Ok res, it', x') \<and>
    res \<noteq> Stopped \<and> ext_inv C G bi s own H F 0 x' \<and>
    (res = Continue \<longrightarrow> vm_ready own s it' \<and> it_resume_result it' = None \<and> gas_of it' < gas_of it) \<and>
    (\<forall>t. res = Trapped t \<longrightarrow> vm_suspended own s t it' \<and> gas_of it' + trap_gas t < gas_of it \<and>
      trap_ok (view_balance (view C G (ex_state x'))) t)"
proof -
  let ?bal = "\<lambda>x. view_balance (view C G (ex_state x))"
  have inv: "ext_inv C G bi s own H F (2 * (gas_of it + pending_gas it)) x" using assms(5,6) by (simp add: pending_gas_def)
  have "ext_trait (externalities_ops C B X T) (ext_inv C G bi s own H F) s own ?bal"
    by (rule state_backend.externalities_ext_trait [OF assms(1-3)])
  from wp_total [OF ext_trait.wp_step [OF this assms(4) inv, of keccak]] obtain res st
    where run: "step keccak (externalities_ops C B X T) (it, x) = (Ok res, st)"
      and ok: "step_ok own s (ext_inv C G bi s own H F) ?bal (gas_of it + pending_gas it) (it_resume_result it \<noteq> None) res st"
    by blast
  obtain it' x' where st: "st = (it', x')" by fastforce
  from ok obtain g where g: "settled_ok own s (ext_inv C G bi s own H F) ?bal g res (it', x')"
      "(\<forall>l. res \<noteq> Done l) \<Longrightarrow> g < gas_of it"
    using assms(5) by (auto simp: step_ok_def pending_gas_def st split: if_splits)
  have "ext_inv C G bi s own H F 0 x'" by (rule settled_inv [OF g(1)]) (rule ext_inv_0)
  with run g show ?thesis by (cases res) (auto simp: st)
qed

lemma ref_interpreter_ok:
  "length code < 2 ^ 64 \<Longrightarrow> vm_ready 0 new_byzantium (ref_interpreter code)"
  "length code < 2 ^ 64 \<Longrightarrow> vm_suspended 0 new_byzantium (Trap_Call (ref_params 50 code)) (ref_suspended code)"
  "length code < 2 ^ 64 \<Longrightarrow> vm_suspended 0 new_byzantium (Trap_Create (ref_params 50 code) 1) (ref_suspended code)"
  "gas_of (ref_interpreter code) = 100" "gas_of (ref_suspended code) = 100"
  "it_resume_result (ref_interpreter code) = None" "pending_gas (ref_interpreter code) = 0"
  by (simp_all add: ref_suspended_def ref_interpreter_def vm_ready_def vm_suspended_def vm_ok_def gas_of_def pending_gas_def
      new_gasometer_def memory_paid_def memory_cost_def vec_stack_ok_def stack_size_def with_capacity_def new_reader_def
      reader_len_def interpreter_params_from_def data_ok_def return_data_ok_def empty_return_data_def fits_def new_byzantium_def new_post_eip150_def)

theorem step_safe_witness:
  "\<exists>res it' x'. step be_word ref_ops (ref_interpreter [96, 1, 80, 0], ref_externalities False) = (Ok res, it', x') \<and>
    res \<noteq> Stopped \<and> ref_inv None 0 x' \<and>
    (res = Continue \<longrightarrow> vm_ready 0 new_byzantium it' \<and> it_resume_result it' = None \<and> gas_of it' < gas_of (ref_interpreter [96, 1, 80, 0])) \<and>
    (\<forall>t. res = Trapped t \<longrightarrow> vm_suspended 0 new_byzantium t it' \<and> gas_of it' + trap_gas t < gas_of (ref_interpreter [96, 1, 80, 0]) \<and>
      trap_ok (view_balance (view ref_crates (ref_ground empty_db) (ex_state x'))) t)"
  by (rule step_safe [OF basic.state_backend_axioms byzantium_ok]) (simp_all add: ref_interpreter_ok ref_inv_start)

text \<open>
  C4. In a static context an execution changes nothing that a transaction can observe: when it returns, every
  account with its balance, nonce, code and storage is what it was, and so are the logs and the suicides.
\<close>

theorem static_execution_frozen:
  assumes "state_backend C B G bi" "schedule_ok s" "schedule_priced s"
    and "vm_ready own s it" "ext_inv C G bi s own H None (2 * (gas_of it + pending_gas it)) x" "gas_of it + pending_gas it + 1 < n"
    and "ex_static_flag x"
  shows "\<exists>r it' x'. exec n keccak (externalities_ops C B X T) (it, x) = Some (Ok r, it', x') \<and>
    view C G (ex_state x') = view C G (ex_state x) \<and> sub_logs (ex_substate x') = sub_logs (ex_substate x) \<and>
    sub_suicides (ex_substate x') = sub_suicides (ex_substate x)"
proof -
  let ?F = "Some (frozen_part C G x)"
  have "ext_inv C G bi s own H ?F (2 * (gas_of it + pending_gas it)) x" using assms(5,7) by (simp add: ext_inv_def)
  from vm_over_state.execution [OF vm_over_stateI [OF assms(1-3)] assms(4) this assms(6), of keccak X T]
  obtain r it' x' where "exec n keccak (externalities_ops C B X T) (it, x) = Some (Ok r, it', x')" "ext_inv C G bi s own H ?F 0 x'"
    by blast
  then show ?thesis by (auto simp: ext_inv_def frozen_part_def)
qed

theorem static_execution_frozen_witness:
  "\<exists>r it' x'. exec 102 be_word ref_ops (ref_interpreter [96, 1, 96, 0, 85], ref_externalities True) = Some (Ok r, it', x') \<and>
    view ref_crates (ref_ground empty_db) (ex_state x') = view ref_crates (ref_ground empty_db) (ex_state (ref_externalities True)) \<and>
    sub_logs (ex_substate x') = sub_logs (ex_substate (ref_externalities True)) \<and>
    sub_suicides (ex_substate x') = sub_suicides (ex_substate (ref_externalities True))"
  by (rule static_execution_frozen [OF basic.state_backend_axioms byzantium_ok, where own = 0 and H = "Fixed [] 0"])
    (simp_all add: ref_interpreter_ok ref_inv_start)

text \<open>
  C5. A suspended execution goes on: given any result of the call it waits for that returns no more gas than the
  call was given, the resumption does not fail, and the execution then ends or suspends again, with the gas of
  both accounted for.
\<close>

theorem resumed_call_returns:
  assumes "state_backend C B G bi" "schedule_ok s" "schedule_priced s"
    and "vm_suspended own s (Trap_Call p) it" "call_result_ok (ap_gas p) (Inr result)"
    and "ext_inv C G bi s own H F (2 * (gas_of it + unat (ap_gas p))) x" "gas_of it + unat (ap_gas p) + 1 < n"
  shows "\<exists>it1 r it' x'. resume_call result it = Ok it1 \<and>
    exec n keccak (externalities_ops C B X T) (it1, x) = Some (Ok r, it', x') \<and>
    run_result_ok own s (gas_of it + unat (ap_gas p)) r it' \<and> ext_inv C G bi s own H F 0 x'"
proof -
  obtain it1 where it1: "resume_call result it = Ok it1" "vm_ready own s it1" "gas_of it1 = gas_of it"
      "pending_gas it1 \<le> unat (ap_gas p)"
    using resume_call_ok [OF assms(4,5)] by blast
  then have "gas_of it1 + pending_gas it1 \<le> gas_of it + unat (ap_gas p)" by simp
  from vm_over_state.execution_within [OF vm_over_stateI [OF assms(1-3)] it1(2) this assms(6,7)] it1(1) show ?thesis
    by blast
qed

theorem resumed_call_returns_witness:
  "\<exists>it1 r it' x'. resume_call (Call_Success 50 empty_return_data) (ref_suspended [96, 1, 80, 0]) = Ok it1 \<and>
    exec 152 be_word ref_ops (it1, ref_externalities False) = Some (Ok r, it', x') \<and>
    run_result_ok 0 new_byzantium (gas_of (ref_suspended [96, 1, 80, 0]) + unat (ap_gas (ref_params 50 [96, 1, 80, 0]))) r it' \<and>
    ref_inv None 0 x'"
  by (rule resumed_call_returns [OF basic.state_backend_axioms byzantium_ok])
    (simp_all add: ref_interpreter_ok ref_inv_start call_result_ok_def data_ok_def return_data_ok_def empty_return_data_def)

text \<open>
  C10. A suspended creation goes on likewise.
\<close>

theorem resumed_create_returns:
  assumes "state_backend C B G bi" "schedule_ok s" "schedule_priced s"
    and "vm_suspended own s (Trap_Create p a) it" "create_result_ok (ap_gas p) (Inr result)"
    and "ext_inv C G bi s own H F (2 * (gas_of it + unat (ap_gas p))) x" "gas_of it + unat (ap_gas p) + 1 < n"
  shows "\<exists>it1 r it' x'. resume_create result it = Ok it1 \<and>
    exec n keccak (externalities_ops C B X T) (it1, x) = Some (Ok r, it', x') \<and>
    run_result_ok own s (gas_of it + unat (ap_gas p)) r it' \<and> ext_inv C G bi s own H F 0 x'"
proof -
  obtain it1 where it1: "resume_create result it = Ok it1" "vm_ready own s it1" "gas_of it1 = gas_of it"
      "pending_gas it1 \<le> unat (ap_gas p)"
    using resume_create_ok [OF assms(4,5)] by blast
  then have "gas_of it1 + pending_gas it1 \<le> gas_of it + unat (ap_gas p)" by simp
  from vm_over_state.execution_within [OF vm_over_stateI [OF assms(1-3)] it1(2) this assms(6,7)] it1(1) show ?thesis
    by blast
qed

theorem resumed_create_returns_witness:
  "\<exists>it1 r it' x'. resume_create (Created 1 20) (ref_suspended [96, 1, 80, 0]) = Ok it1 \<and>
    exec 152 be_word ref_ops (it1, ref_externalities False) = Some (Ok r, it', x') \<and>
    run_result_ok 0 new_byzantium (gas_of (ref_suspended [96, 1, 80, 0]) + unat (ap_gas (ref_params 50 [96, 1, 80, 0]))) r it' \<and>
    ref_inv None 0 x'"
  by (rule resumed_create_returns [OF basic.state_backend_axioms byzantium_ok, where a = 1])
    (simp_all add: ref_interpreter_ok ref_inv_start create_result_ok_def)

end
