(* ===== verification/State_Properties.thy ===== *)
theory State_Properties
  imports Backends
begin

text \<open>
  The properties of the state, stated for any backend that meets its contract, with the basic backend over
  the reference database as the instance that shows the contract can be met.
\<close>

section \<open>Checkpoints\<close>

text \<open>
  C3. Reverting to a checkpoint undoes everything since it was taken: whatever operations ran in between, with
  nested checkpoints discarded or reverted, every account with its storage and code is again what it was when
  the checkpoint was taken, and so are the views that the older checkpoints hold.
\<close>

theorem revert_undoes:
  assumes "state_backend C B G bi" "state_ok C G bi st" "run C B (snd (checkpoint st)) st'"
  shows "view C G (revert_to_checkpoint C st') = view C G st \<and>
    history C G (revert_to_checkpoint C st') = history C G st \<and> state_ok C G bi (revert_to_checkpoint C st')"
proof -
  have "state_backend.advances C G bi (snd (checkpoint st)) st'"
    using state_backend.run_advances [OF assms(1,3)] state_backend.checkpoint_refines(1) [OF assms(1,2)] .
  note reverted = state_backend.checkpointed_advances(1,2) [OF assms(1,2) this]
  with state_backend.advances_def [OF assms(1)] show ?thesis by simp
qed

theorem revert_undoes_witness:
  "let st = ref_state empty_db; C = ref_crates; B = ref_backend;
       st' = snd (state_inc_nonce C B 7 (snd (state_set_storage C B 7 1 2 (snd (checkpoint st))))) in
   view C (ref_ground (st_db st)) (revert_to_checkpoint C st') = view C (ref_ground (st_db st)) st"
proof -
  have "run ref_crates ref_backend (snd (checkpoint (ref_state empty_db)))
      (snd (state_inc_nonce ref_crates ref_backend 7 (snd (state_set_storage ref_crates ref_backend 7 1 2 (snd (checkpoint (ref_state empty_db)))))))"
    by (rule run_trans [OF run_set_storage run_inc_nonce]) (rule surjective_pairing)+
  from revert_undoes [OF basic.state_backend_axioms [of empty_db] ref_state_ok this]
  show ?thesis by (simp add: Let_def ref_state_def)
qed

text \<open>
  C9. Discarding a checkpoint keeps the changes since it was taken and forgets only the checkpoint: the accounts
  stay as they are, and the views that the older checkpoints hold are those from before it was taken.
\<close>

theorem discard_keeps:
  assumes "state_backend C B G bi" "state_ok C G bi st" "run C B (snd (checkpoint st)) st'"
  shows "view C G (discard_checkpoint st') = view C G st' \<and>
    history C G (discard_checkpoint st') = history C G st \<and> state_ok C G bi (discard_checkpoint st')"
proof -
  have "state_backend.advances C G bi (snd (checkpoint st)) st'"
    using state_backend.run_advances [OF assms(1,3)] state_backend.checkpoint_refines(1) [OF assms(1,2)] .
  note discarded = state_backend.checkpointed_advances(3,4) [OF assms(1,2) this]
  with state_backend.advances_def [OF assms(1)] show ?thesis by simp
qed

theorem discard_keeps_witness:
  "let st = ref_state empty_db; C = ref_crates; B = ref_backend;
       st' = snd (state_set_storage C B 7 1 2 (snd (checkpoint st))) in
   view C (ref_ground (st_db st)) (discard_checkpoint st') = view C (ref_ground (st_db st)) st'"
proof -
  have "run ref_crates ref_backend (snd (checkpoint (ref_state empty_db)))
      (snd (state_set_storage ref_crates ref_backend 7 1 2 (snd (checkpoint (ref_state empty_db)))))"
    by (rule run_set_storage) (rule surjective_pairing)
  from discard_keeps [OF basic.state_backend_axioms [of empty_db] ref_state_ok this]
  show ?thesis by (simp add: Let_def ref_state_def)
qed

section \<open>Storage\<close>

text \<open>
  C8. Reading storage returns the cell of the account, whichever of the local cache, the shared cache and the
  trie it comes from. It does not panic, and neither the accounts nor the checkpoints change.
\<close>

theorem storage_at_reads:
  assumes "state_backend C B G bi" "state_ok C G bi st" "state_storage_at C B a key st = (r, st')"
  shows "r \<noteq> Panic \<and> (\<forall>v. r = Ok v \<longrightarrow> v = view_storage C G st a key) \<and>
    view C G st' = view C G st \<and> history C G st' = history C G st \<and> state_ok C G bi st'"
  using state_backend.wp_state_storage_at [OF assms(1,2), of a key] assms(3)
  by (cases r) (auto simp: wp_def state_backend.same_def [OF assms(1)])

theorem storage_at_reads_witness:
  "let D = empty_db\<lparr>rdb_accounts := [7 \<mapsto> \<lparr>ba_nonce = 0, ba_balance = 5, ba_storage_root = 9, ba_code_hash = 0\<rparr>],
         rdb_cells := (\<lambda>h root key. if root = 9 \<and> key = 1 then Some 3 else None)\<rparr>;
       r = fst (state_storage_at ref_crates ref_backend 7 1 (ref_state D)) in
   r \<noteq> Panic \<and> (\<forall>v. r = Ok v \<longrightarrow> v = 3)"
proof -
  let ?D = "empty_db\<lparr>rdb_accounts := [7 \<mapsto> \<lparr>ba_nonce = 0, ba_balance = 5, ba_storage_root = 9, ba_code_hash = 0\<rparr>],
         rdb_cells := (\<lambda>h root key. if root = 9 \<and> key = 1 then Some 3 else None)\<rparr>"
  have "view_storage ref_crates (ref_ground ?D) (ref_state ?D) 7 1 = 3"
    by (simp add: view_storage_def view_def ref_state_def entry_view_def base_view_def ref_ground_def ref_cell_def)
  with storage_at_reads [OF basic.state_backend_axioms [of ?D] ref_state_ok surjective_pairing, of 7 1]
  show ?thesis by (simp add: Let_def)
qed

text \<open>
  C7. Writing and then reading storage: after a write that succeeds, a read that succeeds returns the value written
  for the same cell, and the old value for every other cell of this and of every other account.
\<close>

theorem set_storage_read_back:
  assumes "state_backend C B G bi" "state_ok C G bi st"
    and "state_set_storage C B a key x st = (Ok (), st1)" "state_storage_at C B b k st1 = (Ok v, st2)"
  shows "v = (if b = a \<and> k = key then x else view_storage C G st b k)"
proof -
  note set = wp_OkD [OF state_backend.wp_state_set_storage [OF assms(1,2), of a key x] assms(3)]
  have ok: "state_ok C G bi st1"
    using set state_backend.changed_ok [OF assms(1)] state_backend.same_ok [OF assms(1)] by (auto split: if_splits)
  have "v = view_storage C G st1 b k"
    using wp_OkD [OF state_backend.wp_state_storage_at [OF assms(1) ok] assms(4)] by simp
  moreover have "view_storage C G st1 b k = (if b = a \<and> k = key then x else view_storage C G st b k)"
  proof (cases "view_storage C G st a key = x")
    case True
    then have "view C G st1 = view C G st" using set by (simp add: state_backend.same_def [OF assms(1)])
    with True show ?thesis by (auto simp: view_storage_def)
  next
    case False
    then have "view C G st1 = (view C G st)(a := Some (set_cell key x (account_or_fresh C G st a)))"
      using set by (simp add: state_backend.changed_def [OF assms(1)])
    then show ?thesis
      by (auto simp: view_storage_def set_cell_def account_or_fresh_def fresh_view_def split: option.splits)
  qed
  ultimately show ?thesis by simp
qed

lemma ref_set_storage_runs:
  "fst (state_set_storage ref_crates ref_backend 7 1 2 (ref_state empty_db)) = Ok ()"
  "fst (state_storage_at ref_crates ref_backend 7 1 (snd (state_set_storage ref_crates ref_backend 7 1 2 (ref_state empty_db)))) = Ok 2"
  by code_simp+

theorem set_storage_read_back_witness:
  "\<exists>st1 st2 v. state_set_storage ref_crates ref_backend 7 1 2 (ref_state empty_db) = (Ok (), st1) \<and>
    state_storage_at ref_crates ref_backend 7 1 st1 = (Ok v, st2) \<and> v = 2"
proof -
  obtain st1 where st1: "state_set_storage ref_crates ref_backend 7 1 2 (ref_state empty_db) = (Ok (), st1)"
    using ref_set_storage_runs(1) by (metis prod.collapse)
  moreover obtain v st2 where st2: "state_storage_at ref_crates ref_backend 7 1 st1 = (Ok v, st2)"
    using ref_set_storage_runs(2) st1 by (metis prod.collapse snd_conv)
  moreover have "v = 2"
    using set_storage_read_back [OF basic.state_backend_axioms ref_state_ok st1 st2] by simp
  ultimately show ?thesis by blast
qed

section \<open>Balances\<close>

text \<open>The balances after a debit of one account and a credit of another.\<close>

lemma moved_balances:
  fixes st st1 st' :: "('b, 'l) state" and B :: "('b, 'l) backend"
  assumes "state_backend C B G bi" "sender \<noteq> receiver" "amount \<le> view_balance (view C G st) sender"
    and "unat (view_balance (view C G st) receiver) + unat amount < 2 ^ 256"
    and "view C G st1 = (view C G st)(sender := Some (debit amount (account_or_fresh C G st sender)))"
    and "view C G st' = (view C G st1)(receiver := state_backend.added C G st1 receiver amount mode)"
  shows "unat (view_balance (view C G st') sender) + unat amount = unat (view_balance (view C G st) sender)"
    "unat (view_balance (view C G st') receiver) = unat (view_balance (view C G st) receiver) + unat amount"
proof -
  have same: "view C G st1 receiver = view C G st receiver" using assms(2,5) by simp
  have "unat (saturating_add (view_balance (view C G st) receiver) amount) = unat (view_balance (view C G st) receiver) + unat amount"
    using assms(4) by (simp add: saturating_add_unat)
  then show "unat (view_balance (view C G st') receiver) = unat (view_balance (view C G st) receiver) + unat amount"
    using assms(6) same
    by (auto simp: view_balance_def state_backend.added_def [OF assms(1)] credit_def account_or_fresh_def fresh_view_def
        split: option.splits)
  have "view_balance (view C G st') sender = view_balance (view C G st) sender - amount"
    using assms(2,3,5,6) by (auto simp: view_balance_def debit_def account_or_fresh_def fresh_view_def split: option.splits)
  then show "unat (view_balance (view C G st') sender) + unat amount = unat (view_balance (view C G st) sender)"
    using assms(3) by (auto simp: unat_minus_exact word_le_nat_alt)
qed

text \<open>
  C6. A transfer between two accounts moves exactly the amount: where the sender's balance covers it and the
  receiver's does not overflow, a transfer that returns has taken the amount from one balance and added it to the
  other, and no other account has changed. It does not panic, and the checkpoints keep their views.
\<close>

theorem transfer_moves_amount:
  fixes st st' :: "('b, 'l) state" and B :: "('b, 'l) backend"
  assumes "state_backend C B G bi" "state_ok C G bi st" "sender \<noteq> receiver"
    and "amount \<le> view_balance (view C G st) sender"
    and "unat (view_balance (view C G st) receiver) + unat amount < 2 ^ 256"
    and "transfer_balance C B sender receiver amount mode (st, t) = (r, st', t')"
  shows "r \<noteq> Panic \<and> state_ok C G bi st' \<and> history C G st' = history C G st \<and>
    (r = Ok () \<longrightarrow>
      unat (view_balance (view C G st') sender) + unat amount = unat (view_balance (view C G st) sender) \<and>
      unat (view_balance (view C G st') receiver) = unat (view_balance (view C G st) receiver) + unat amount \<and>
      (\<forall>a. a \<noteq> sender \<and> a \<noteq> receiver \<longrightarrow> view C G st' a = view C G st a))"
proof -
  have covered: "amount \<le> av_balance (account_or_fresh C G st sender)"
    using assms(4) by (auto simp: view_balance_def account_or_fresh_def fresh_view_def split: option.splits)
  note wp = state_backend.wp_transfer_balance [OF assms(1,2) covered, of receiver mode t]
  have "state_backend.advances C G bi st st'"
    using wp assms(6) by (rule wp_run)
      (auto intro: state_backend.advances_intros(2) [OF assms(1)] state_backend.advances_trans [OF assms(1)])
  moreover have "r \<noteq> Panic" using wp_no_panic [OF wp] assms(6) by simp
  moreover have "unat (view_balance (view C G st') sender) + unat amount = unat (view_balance (view C G st) sender) \<and>
      unat (view_balance (view C G st') receiver) = unat (view_balance (view C G st) receiver) + unat amount \<and>
      (\<forall>a. a \<noteq> sender \<and> a \<noteq> receiver \<longrightarrow> view C G st' a = view C G st a)" if ok: "r = Ok ()"
  proof -
    have "\<exists>st1 :: ('b, 'l) state. state_backend.changed C G bi sender (Some (debit amount (account_or_fresh C G st sender))) st st1 \<and>
        state_backend.changed C G bi receiver (state_backend.added C G st1 receiver amount mode) st1 st'"
      using wp_OkD [OF wp, of "()" "(st', t')"] assms(6) ok by simp
    then obtain st1 :: "('b, 'l) state" where view1: "view C G st1 = (view C G st)(sender := Some (debit amount (account_or_fresh C G st sender)))"
      and view': "view C G st' = (view C G st1)(receiver := state_backend.added C G st1 receiver amount mode)"
      unfolding state_backend.changed_def [OF assms(1)] by blast
    then show ?thesis using moved_balances [OF assms(1,3-5) view1 view'] by simp
  qed
  ultimately show ?thesis by (auto simp: state_backend.advances_def [OF assms(1)])
qed

definition funded_db :: ref_db where
  "funded_db = empty_db\<lparr>rdb_accounts := [7 \<mapsto> \<lparr>ba_nonce = 0, ba_balance = 5, ba_storage_root = 1, ba_code_hash = 0\<rparr>]\<rparr>"

lemma ref_transfer_runs: "fst (transfer_balance ref_crates ref_backend 7 8 3 NoEmpty (ref_state funded_db, {})) = Ok ()"
  by (simp add: transfer_balance_def sub_balance_def add_balance_def sub_account_balance_def add_account_balance_def require_def
      require_or_from_def fetch_entry_def basic_backend_def ref_state_def funded_db_def empty_db_def ref_hash_db_def action_simps
      on_state_def insert_cache_def note_cache_def on_last_checkpoint_def set_db_def new_clean_def is_dirty_def account_from_def
      account_sub_balance_def on_account_def)

lemma funded_balances:
  "view_balance (view ref_crates (ref_ground funded_db) (ref_state funded_db)) 7 = 5"
  "view_balance (view ref_crates (ref_ground funded_db) (ref_state funded_db)) 8 = 0"
  by (simp_all add: view_balance_def view_def ref_state_def entry_view_def base_view_def ref_ground_def funded_db_def empty_db_def)

theorem transfer_moves_amount_witness:
  "\<exists>st' t'. transfer_balance ref_crates ref_backend 7 8 3 NoEmpty (ref_state funded_db, {}) = (Ok (), st', t') \<and>
    unat (view_balance (view ref_crates (ref_ground funded_db) st') 7) = 2 \<and>
    unat (view_balance (view ref_crates (ref_ground funded_db) st') 8) = 3"
proof -
  obtain st' t' where run: "transfer_balance ref_crates ref_backend 7 8 3 NoEmpty (ref_state funded_db, {}) = (Ok (), st', t')"
    using ref_transfer_runs by (metis prod.collapse)
  have "unat (view_balance (view ref_crates (ref_ground funded_db) st') 7) + unat (3 :: u256) = unat (5 :: u256)"
    "unat (view_balance (view ref_crates (ref_ground funded_db) st') 8) = unat (0 :: u256) + unat (3 :: u256)"
    using transfer_moves_amount [OF basic.state_backend_axioms ref_state_ok _ _ _ run] by (simp_all add: funded_balances)
  with run show ?thesis by simp
qed

text \<open>
  C11. No account is debited by more than it has: a debit that the balance does not cover never succeeds. The
  source asserts this, so that the caller must check the balance first.
\<close>

theorem uncovered_debit_fails:
  assumes "state_backend C B G bi" "state_ok C G bi st" "view_balance (view C G st) a < amount"
    and "sub_balance C B a amount mode (st, t) = (r, st', t')"
  shows "r = Panic \<or> (\<exists>e. r = Err e) \<and> state_ok C G bi st'"
proof -
  obtain r1 st1 where sub: "sub_account_balance C B a amount st = (r1, st1)" by fastforce
  have "av_balance (account_or_fresh C G st a) < amount"
    using assms(3) by (auto simp: view_balance_def account_or_fresh_def fresh_view_def split: option.splits)
  from state_backend.sub_account_balance_uncovered [OF assms(1,2) this sub]
  have "r1 = Panic \<or> (\<exists>e. r1 = Err e) \<and> state_ok C G bi st1" using state_backend.advances_ok [OF assms(1)] by blast
  moreover have "amount \<noteq> 0" using assms(3) by auto
  ultimately show ?thesis using assms(4) sub by (auto simp: sub_balance_def action_simps on_state_def)
qed

theorem uncovered_debit_fails_witness:
  "let r = fst (sub_balance ref_crates ref_backend 7 6 NoEmpty (ref_state funded_db, {})) in r = Panic \<or> (\<exists>e. r = Err e)"
  using uncovered_debit_fails [OF basic.state_backend_axioms ref_state_ok, of funded_db 7 6 NoEmpty "{}"]
  by (simp add: funded_balances Let_def) (metis prod.collapse)

section \<open>Queries and garbage\<close>

text \<open>
  C13. The queries of balance, nonce, existence and code hash answer from the account at the address, with the
  default of an absent account, and change neither the accounts nor the checkpoints.
\<close>

theorem queries_read_view:
  assumes "state_backend C B G bi" "state_ok C G bi st"
  shows "wp (state_balance C B a) (\<lambda>r st'. r = view_balance (view C G st) a \<and> view C G st' = view C G st \<and> history C G st' = history C G st)
      (\<lambda>_ st'. view C G st' = view C G st) st \<and>
    wp (state_nonce C B a) (\<lambda>r st'. r = (case view C G st a of Some v \<Rightarrow> av_nonce v | None \<Rightarrow> st_account_start_nonce st) \<and>
      view C G st' = view C G st \<and> history C G st' = history C G st) (\<lambda>_ st'. view C G st' = view C G st) st \<and>
    wp (state_exists C B a) (\<lambda>r st'. r = (view C G st a \<noteq> None) \<and> view C G st' = view C G st \<and> history C G st' = history C G st)
      (\<lambda>_ st'. view C G st' = view C G st) st \<and>
    wp (state_code_hash C B a) (\<lambda>r st'. r = map_option av_code_hash (view C G st a) \<and> view C G st' = view C G st \<and>
      history C G st' = history C G st) (\<lambda>_ st'. view C G st' = view C G st) st"
  using state_backend.wp_state_balance [OF assms, of a] state_backend.wp_state_nonce [OF assms, of a]
    state_backend.wp_state_exists [OF assms, of a] state_backend.wp_state_code_hash [OF assms, of a]
  by (auto simp: state_backend.same_def [OF assms(1)] elim!: wp_mono)

theorem queries_read_view_witness:
  "wp (state_balance ref_crates ref_backend 7) (\<lambda>r _. r = 5) (\<lambda>_ _. True) (ref_state funded_db)"
proof -
  have "wp (state_balance ref_crates ref_backend 7) (\<lambda>r st'. r = view_balance (view ref_crates (ref_ground funded_db) (ref_state funded_db)) 7 \<and>
      view ref_crates (ref_ground funded_db) st' = view ref_crates (ref_ground funded_db) (ref_state funded_db) \<and>
      history ref_crates (ref_ground funded_db) st' = history ref_crates (ref_ground funded_db) (ref_state funded_db))
    (\<lambda>_ st'. view ref_crates (ref_ground funded_db) st' = view ref_crates (ref_ground funded_db) (ref_state funded_db)) (ref_state funded_db)"
    using queries_read_view [OF basic.state_backend_axioms [of funded_db] ref_state_ok [of funded_db], of 7] by blast
  then show ?thesis by (rule wp_mono) (simp_all add: funded_balances)
qed



end
