(* ===== verification/Transaction.thy ===== *)
theory Transaction
  imports Externalities
begin

text \<open>
  Transactions: src/ethcore/types/src/transaction/transaction.rs and src/ethcore/src/transaction_ext.rs, with
  the outcome of an execution, src/ethcore/src/executed.rs.

  Hashing and the recovery of public keys are parameters (\<open>tx_crypto\<close>): they come from the \<open>keccak-hash\<close>, \<open>rlp\<close>
  and \<open>secp256k1\<close> crates. Of the shielded part of a transaction the model has what the checks below read; the
  proofs, keys and ciphertexts are kept as bytes.
\<close>

section \<open>Actions\<close>

definition SYSTEM_ADDRESS :: address where
  "SYSTEM_ADDRESS = - 2"

definition PRIVATE_EXECUTIVE_ADDRESS :: address where
  "PRIVATE_EXECUTIVE_ADDRESS = - 3"

definition CONVERSION_FACTOR :: u256 where
  "CONVERSION_FACTOR = 0x3B9ACA00"

text \<open>The limbs of the constant, least significant first.\<close>

definition MAX_VALUE_ALLOWED :: u256 where
  "MAX_VALUE_ALLOWED = 0xFFFFFFFFC4653600 + 0x1DCD64FF * 2 ^ 64"

datatype tx_action =
    Create
  | Call address
  | PrivateToPrivate
  | PublicToPrivate
  | PrivateCall address

primrec is_input_private :: "tx_action \<Rightarrow> bool" where
  "is_input_private Create = False"
| "is_input_private (Call a) = False"
| "is_input_private PrivateToPrivate = True"
| "is_input_private PublicToPrivate = False"
| "is_input_private (PrivateCall a) = True"

text \<open>The payload of the RLP string that encodes an action, and its decoding.\<close>

datatype decoder_error = RlpInvalidIndirection | RlpInvalidLength | Custom string

primrec action_encode :: "tx_action \<Rightarrow> bytes" where
  "action_encode Create = []"
| "action_encode (Call a) = address_bytes a"
| "action_encode PrivateToPrivate = [1]"
| "action_encode PublicToPrivate = [2]"
| "action_encode (PrivateCall a) = 3 # address_bytes a"

definition address_of_bytes :: "bytes \<Rightarrow> address" where
  "address_of_bytes bs = ucast (be_word bs)"

definition action_decode :: "bytes \<Rightarrow> (decoder_error, tx_action) outcome" where
  "action_decode bs =
    (if bs = [] then Ok Create
     else if length bs = 20 then Ok (Call (address_of_bytes bs))
     else if length bs = 1 then
       (if hd bs = 0 then Err RlpInvalidIndirection
        else if hd bs = 1 then Ok PrivateToPrivate
        else if hd bs = 2 then Ok PublicToPrivate
        else Err (Custom ''Invalid action.''))
     else if length bs = 21 then
       (if hd bs = 3 then Ok (PrivateCall (address_of_bytes (tl bs))) else Err (Custom ''Invalid action.''))
     else Err RlpInvalidLength)"

section \<open>Replay protection\<close>

definition add_chain_replay_protection :: "u64 \<Rightarrow> u64 option \<Rightarrow> ('e, u64) outcome" where
  "add_chain_replay_protection v chain_id = (case chain_id of
      Some n \<Rightarrow>
        and_then (checked_times n 2) (\<lambda>m. and_then (checked_plus 35 m) (\<lambda>k. checked_plus v k))
    | None \<Rightarrow> checked_plus v 27)"

definition check_replay_protection :: "u64 \<Rightarrow> u8" where
  "check_replay_protection v =
    (if v = 27 then 0 else if v = 28 then 1 else if 35 \<le> v then ucast ((v - 1) mod 2) else 4)"

section \<open>Transactions\<close>

record spend_description =
  sd_nullifier :: bytes
  sd_anchor :: u256
  sd_rest :: bytes

record output_description =
  od_cmu :: u256
  od_rest :: bytes

text \<open>The balancing value is an \<open>i64\<close>, read with \<open>sint\<close>.\<close>

record private_transaction =
  pt_spends :: "spend_description list"
  pt_outputs :: "output_description list"
  pt_balancing_value :: u64
  pt_binding_sig :: bytes

record transaction =
  tx_nonce :: u256
  tx_gas_price :: u256
  tx_gas :: u256
  tx_action :: tx_action
  tx_value :: u256
  tx_data :: bytes
  tx_private :: "private_transaction option"

definition is_private :: "transaction \<Rightarrow> bool" where
  "is_private t = (case tx_private t of Some _ \<Rightarrow> True | None \<Rightarrow> False)"

definition is_privacy :: "transaction \<Rightarrow> bool" where
  "is_privacy t \<longleftrightarrow> tx_action t = PrivateToPrivate"

definition is_shield :: "transaction \<Rightarrow> bool" where
  "is_shield t \<longleftrightarrow> tx_action t = PublicToPrivate"

definition is_unshield :: "transaction \<Rightarrow> bool" where
  "is_unshield t = (case tx_action t of PrivateCall _ \<Rightarrow> True | _ \<Rightarrow> False)"

definition v_shielded_spend :: "transaction \<Rightarrow> spend_description list" where
  "v_shielded_spend t = (case tx_private t of Some p \<Rightarrow> pt_spends p | None \<Rightarrow> [])"

definition v_shielded_output :: "transaction \<Rightarrow> output_description list" where
  "v_shielded_output t = (case tx_private t of Some p \<Rightarrow> pt_outputs p | None \<Rightarrow> [])"

definition get_nullifier_set :: "transaction \<Rightarrow> u256 set" where
  "get_nullifier_set t = (case tx_private t of
      Some p \<Rightarrow> set (map (\<lambda>s. be_word (sd_nullifier s)) (pt_spends p)) | None \<Rightarrow> {})"

definition get_commitment_notes :: "transaction \<Rightarrow> u256 list" where
  "get_commitment_notes t = (case tx_private t of Some p \<Rightarrow> map od_cmu (pt_outputs p) | None \<Rightarrow> [])"

definition get_commitment_anchors :: "transaction \<Rightarrow> u256 list" where
  "get_commitment_anchors t = (case tx_private t of Some p \<Rightarrow> map sd_anchor (pt_spends p) | None \<Rightarrow> [])"

definition balancing_value :: "transaction \<Rightarrow> u64" where
  "balancing_value t = (case tx_private t of Some p \<Rightarrow> pt_balancing_value p | None \<Rightarrow> 0)"

record unverified_transaction =
  ut_unsigned :: transaction
  ut_v :: u64
  ut_r :: u256
  ut_s :: u256
  ut_hash :: h256

record signed_transaction =
  sgn_transaction :: unverified_transaction
  sgn_sender :: address
  sgn_public :: "bytes option"

text \<open>
  \<open>tc_hash\<close> is the Keccak hash of the RLP encoding of the signed transaction, \<open>tc_recover\<close> the recovery of the
  public key from the signature and the message hash, \<open>tc_address\<close> the address of a public key.
\<close>

record tx_crypto =
  tc_hash :: "unverified_transaction \<Rightarrow> h256"
  tc_recover :: "u256 \<Rightarrow> u256 \<Rightarrow> u8 \<Rightarrow> transaction \<Rightarrow> u64 option \<Rightarrow> (string, bytes) outcome"
  tc_address :: "bytes \<Rightarrow> address"

definition compute_hash :: "tx_crypto \<Rightarrow> unverified_transaction \<Rightarrow> unverified_transaction" where
  "compute_hash K u = u\<lparr>ut_hash := tc_hash K u\<rparr>"

definition is_unsigned :: "unverified_transaction \<Rightarrow> bool" where
  "is_unsigned u \<longleftrightarrow> ut_r u = 0 \<and> ut_s u = 0"

definition standard_v :: "unverified_transaction \<Rightarrow> u8" where
  "standard_v u = check_replay_protection (ut_v u)"

definition chain_id :: "unverified_transaction \<Rightarrow> u64 option" where
  "chain_id u =
    (if is_unsigned u then Some (ut_v u)
     else if 35 \<le> ut_v u then Some ((ut_v u - 35) div 2)
     else None)"

text \<open>A signature is given by its parts \<open>r\<close>, \<open>s\<close> and \<open>v\<close>.\<close>

definition with_signature ::
  "tx_crypto \<Rightarrow> u256 \<Rightarrow> u256 \<Rightarrow> u8 \<Rightarrow> u64 option \<Rightarrow> transaction \<Rightarrow> ('e, unverified_transaction) outcome" where
  "with_signature K r s v chain t =
    and_then (add_chain_replay_protection (ucast v) chain) (\<lambda>v'.
    Ok (compute_hash K \<lparr>ut_unsigned = t, ut_v = v', ut_r = r, ut_s = s, ut_hash = 0\<rparr>))"

definition recover_public :: "tx_crypto \<Rightarrow> unverified_transaction \<Rightarrow> (string, bytes) outcome" where
  "recover_public K u = tc_recover K (ut_r u) (ut_s u) (standard_v u) (ut_unsigned u) (chain_id u)"

definition sign_for_private :: "tx_crypto \<Rightarrow> u64 \<Rightarrow> transaction \<Rightarrow> signed_transaction" where
  "sign_for_private K chain t =
    (let u = compute_hash K \<lparr>ut_unsigned = t, ut_v = chain, ut_r = 0, ut_s = 0, ut_hash = 0\<rparr>
     in \<lparr>sgn_transaction = u, sgn_sender = ucast (ut_hash u), sgn_public = None\<rparr>)"

definition fake_sign :: "tx_crypto \<Rightarrow> address \<Rightarrow> transaction \<Rightarrow> signed_transaction" where
  "fake_sign K a t =
    \<lparr>sgn_transaction = compute_hash K \<lparr>ut_unsigned = t, ut_v = 0, ut_r = 1, ut_s = 1, ut_hash = 0\<rparr>,
     sgn_sender = a, sgn_public = None\<rparr>"

definition null_sign :: "tx_crypto \<Rightarrow> u64 \<Rightarrow> transaction \<Rightarrow> signed_transaction" where
  "null_sign K chain t =
    \<lparr>sgn_transaction = compute_hash K \<lparr>ut_unsigned = t, ut_v = chain, ut_r = 0, ut_s = 0, ut_hash = 0\<rparr>,
     sgn_sender = UNSIGNED_SENDER, sgn_public = None\<rparr>"

definition new_signed :: "tx_crypto \<Rightarrow> unverified_transaction \<Rightarrow> (string, signed_transaction) outcome" where
  "new_signed K u =
    (if is_input_private (tx_action (ut_unsigned u)) then Ok (sign_for_private K (ut_v u) (ut_unsigned u))
     else if is_unsigned u then Ok \<lparr>sgn_transaction = u, sgn_sender = UNSIGNED_SENDER, sgn_public = None\<rparr>
     else and_then (recover_public K u) (\<lambda>public.
       Ok \<lparr>sgn_transaction = u, sgn_sender = tc_address K public, sgn_public = Some public\<rparr>))"

section \<open>Verification without recovery of the sender\<close>

datatype private_tx_error =
  P_InvalidAction | P_InvalidNonce | P_InvalidValue | P_InvalidBalancingValue | P_InvalidNumberOfSpends | P_DuplicatedNullifier

datatype tx_error = InvalidSignature | InvalidChainId | InvalidPrivateTx private_tx_error

text \<open>\<open>Signature::is_low_s\<close> of src/accounts/ethkey/src/signature.rs.\<close>

definition is_low_s :: "u256 \<Rightarrow> bool" where
  "is_low_s s \<longleftrightarrow> s \<le> 0x7FFFFFFFFFFFFFFFFFFFFFFFFFFFFFFF5D576E7357A4501DDFE92F46681B20A0"

definition check_low_s :: "unverified_transaction \<Rightarrow> (tx_error, unit) outcome" where
  "check_low_s u = (if \<not> is_low_s (ut_s u) then Err InvalidSignature else Ok ())"

definition check_signature :: "bool \<Rightarrow> bool \<Rightarrow> unverified_transaction \<Rightarrow> (tx_error, unit) outcome" where
  "check_signature low_s allow_empty_signature u =
    (let t = ut_unsigned u in
     if is_input_private (tx_action t) then (if \<not> is_unsigned u then Err InvalidSignature else Ok ())
     else if allow_empty_signature \<and> is_unsigned u then
       (if \<not> (tx_gas_price t = 0 \<and> tx_value t = 0 \<and> tx_nonce t = 0) then Err InvalidSignature else Ok ())
     else
       and_then (if low_s then check_low_s u else Ok ()) (\<lambda>_.
       if is_unsigned u then Err InvalidSignature else Ok ()))"

definition verify_basic :: "bool \<Rightarrow> u64 option \<Rightarrow> bool \<Rightarrow> unverified_transaction \<Rightarrow> (tx_error, unit) outcome" where
  "verify_basic low_s chain allow_empty_signature u =
    and_then (check_signature low_s allow_empty_signature u) (\<lambda>_.
    case (chain_id u, chain) of
      (None, _) \<Rightarrow> Ok ()
    | (Some n, Some m) \<Rightarrow> if n = m then Ok () else Err InvalidChainId
    | _ \<Rightarrow> Err InvalidChainId)"

text \<open>Negation of an \<open>i64\<close> overflows at its minimum; \<open>U256::from\<close> of a negative one panics.\<close>

definition negate_i64 :: "u64 \<Rightarrow> ('e, u64) outcome" where
  "negate_i64 x = (if sint x = - (2 ^ 63) then Panic else Ok (- x))"

definition u256_from_i64 :: "u64 \<Rightarrow> ('e, u256) outcome" where
  "u256_from_i64 x = (if sint x < 0 then Panic else Ok (ucast x))"

definition verify_balancing_value :: "transaction \<Rightarrow> (tx_error, unit) outcome" where
  "verify_balancing_value t =
    (let bv = balancing_value t; bad = InvalidPrivateTx P_InvalidBalancingValue in
     if tx_action t = PublicToPrivate then
       (if MAX_VALUE_ALLOWED < tx_value t then Err (InvalidPrivateTx P_InvalidValue)
        else if 0 < sint bv then Err bad
        else
          and_then (negate_i64 bv) (\<lambda>nbv.
          and_then (u256_from_i64 nbv) (\<lambda>x.
          and_then (checked_times x CONVERSION_FACTOR) (\<lambda>y.
          if y \<noteq> tx_value t then Err bad else Ok ()))))
     else
       and_then (u256_from_i64 bv) (\<lambda>x.
       and_then (checked_times x CONVERSION_FACTOR) (\<lambda>y.
       and_then (checked_times (tx_gas_price t) (tx_gas t)) (\<lambda>fee.
       and_then (checked_plus fee (tx_value t)) (\<lambda>z.
       if y \<noteq> z then Err bad else Ok ())))))"

text \<open>The loop over the spends, with the nullifiers seen so far.\<close>

fun check_nullifiers :: "bytes set \<Rightarrow> spend_description list \<Rightarrow> (tx_error, unit) outcome" where
  "check_nullifiers seen [] = Ok ()"
| "check_nullifiers seen (s # ss) =
    (if sd_nullifier s \<in> seen then Err (InvalidPrivateTx P_DuplicatedNullifier)
     else check_nullifiers (insert (sd_nullifier s) seen) ss)"

definition verify_private_tx_basic :: "transaction \<Rightarrow> (tx_error, unit) outcome" where
  "verify_private_tx_basic t = (case tx_private t of
      None \<Rightarrow> Err (InvalidPrivateTx P_InvalidAction)
    | Some p \<Rightarrow>
        and_then (case tx_action t of
            Create \<Rightarrow> Err (InvalidPrivateTx P_InvalidAction)
          | Call _ \<Rightarrow> Err (InvalidPrivateTx P_InvalidAction)
          | _ \<Rightarrow> Ok ()) (\<lambda>_.
        and_then (if is_input_private (tx_action t) \<and> tx_nonce t \<noteq> 0
          then Err (InvalidPrivateTx P_InvalidNonce) else Ok ()) (\<lambda>_.
        and_then (if is_privacy t \<and> tx_value t \<noteq> 0
          then Err (InvalidPrivateTx P_InvalidValue) else Ok ()) (\<lambda>_.
        and_then (verify_balancing_value t) (\<lambda>_.
        and_then (if tx_action t = PublicToPrivate
          then (if pt_spends p \<noteq> [] then Err (InvalidPrivateTx P_InvalidNumberOfSpends) else Ok ())
          else (if pt_spends p = [] then Err (InvalidPrivateTx P_InvalidNumberOfSpends) else Ok ())) (\<lambda>_.
        check_nullifiers {} (pt_spends p)))))))"

section \<open>Gas of a transaction\<close>

definition gas_of_byte :: "schedule \<Rightarrow> u8 \<Rightarrow> usize" where
  "gas_of_byte s b = (if b = 0 then sch_tx_data_zero_gas s else sch_tx_data_non_zero_gas s)"

definition gas_required_for :: "bool \<Rightarrow> bytes \<Rightarrow> schedule \<Rightarrow> ('e, u64) outcome" where
  "gas_required_for is_create data s =
    fold (\<lambda>b g. and_then g (\<lambda>g. checked_plus g (gas_of_byte s b))) data
      (Ok (if is_create then sch_tx_create_gas s else sch_tx_gas s))"

definition gas_required :: "schedule \<Rightarrow> transaction \<Rightarrow> ('e, u64) outcome" where
  "gas_required s t = gas_required_for (tx_action t = Create) (tx_data t) s"

section \<open>Outcome of an execution\<close>

datatype execution_error =
    NotEnoughBaseGas u256 u256
  | BlockGasLimitReached u256 u256 u256
  | InvalidNonce u256 u256
  | NotEnoughCash u512 u512
  | EE_MutableCallInStaticContext
  | SenderMustExist
  | EE_Internal string
  | TransactionMalformed string

section \<open>Encodings and signatures\<close>

lemma address_of_address_bytes: "address_of_bytes (address_bytes a) = a"
proof -
  have bytes: "address_bytes a = map (\<lambda>i. ucast (drop_bit (8 * i) (ucast a :: u256))) (rev [0..<20])"
    unfolding address_bytes_def by (intro map_cong refl bit_word_eqI) (auto simp: bit_simps)
  have "be_word (address_bytes a) = take_bit 160 (ucast a)"
    unfolding be_word_def bytes using foldl_bytes [of 0 "ucast a" 20] by simp
  moreover have "ucast (take_bit 160 (ucast a :: u256)) = a" by (rule bit_word_eqI) (auto simp: bit_simps)
  ultimately show ?thesis by (simp add: address_of_bytes_def)
qed

lemma length_address_bytes [simp]: "length (address_bytes a) = 20"
  by (simp add: address_bytes_def)

text \<open>
  C33. Decoding an encoded action gives it back: the encodings of the five actions do not overlap.
\<close>

theorem action_roundtrip: "action_decode (action_encode a) = Ok a"
  by (cases a) (auto simp: action_decode_def address_of_address_bytes simp flip: length_0_conv)

lemma add_protection_Ok:
  assumes "add_chain_replay_protection (ucast (v :: u8)) chain = (Ok v' :: ('e, u64) outcome)" "v = 0 \<or> v = 1"
  shows "unat v' = unat v + (case chain of Some n \<Rightarrow> 35 + 2 * unat n | None \<Rightarrow> 27)"
proof -
  have "unat (ucast v :: u64) = unat v" by (rule unat_ucast_up) simp
  with assms(1) show ?thesis
    by (auto simp: add_chain_replay_protection_def checked_plus_def checked_times_def outcome_simps unat_plus_exact
        unat_times_exact split: option.splits if_splits)
qed

text \<open>
  C32. Replay protection: from a transaction that was signed for a chain (or for none), the chain and the parity
  of the signature are read back, and a verification for another chain refuses it.
\<close>

theorem replay_protection_roundtrip:
  assumes "with_signature K r s v chain t = (Ok u :: ('e, unverified_transaction) outcome)" "v = 0 \<or> v = 1" "r \<noteq> 0 \<or> s \<noteq> 0"
  shows "chain_id u = chain \<and> standard_v u = v \<and>
    (\<forall>low_s allow n m. chain = Some n \<longrightarrow> n \<noteq> m \<longrightarrow> verify_basic low_s (Some m) allow u \<noteq> Ok ())"
proof -
  from assms(1) obtain v' where v': "add_chain_replay_protection (ucast v) chain = (Ok v' :: ('e, u64) outcome)"
    and u: "ut_v u = v'" "ut_r u = r" "ut_s u = s"
    by (auto simp: with_signature_def compute_hash_def outcome_simps)
  have total: "unat v' = unat v + (case chain of Some n \<Rightarrow> 35 + 2 * unat n | None \<Rightarrow> 27)"
    by (rule add_protection_Ok [OF v' assms(2)])
  have signed: "\<not> is_unsigned u" using u assms(3) by (simp add: is_unsigned_def)
  have parts: "chain_id u = chain \<and> standard_v u = v"
  proof (cases chain)
    case None
    with total assms(2) have "v' = 27 \<and> v = 0 \<or> v' = 28 \<and> v = 1" by (auto simp: word_eq_unat)
    with None u signed show ?thesis by (auto simp: chain_id_def standard_v_def check_replay_protection_def word_le_nat_alt)
  next
    case (Some n)
    then have big: "35 \<le> unat v'" "unat v' - 35 = unat v + 2 * unat n" "unat v' - 1 = unat v + 2 * (17 + unat n)"
      using total by simp_all
    then have "unat (v' - 35) = unat v + 2 * unat n" "unat (v' - 1) = unat v + 2 * (17 + unat n)"
      by (simp_all add: unat_minus_exact word_le_nat_alt)
    then have "unat ((v' - 35) div 2) = unat n" "unat ((v' - 1) mod 2) = unat v"
      using assms(2) by (auto simp: unat_div unat_mod)
    then have "(v' - 35) div 2 = n" "ucast ((v' - 1) mod 2) = v"
      using assms(2) by (auto simp: word_eq_unat unat_ucast)
    moreover have "v' \<noteq> 27" "v' \<noteq> 28" "35 \<le> v'" using big(1) by (auto simp: word_le_nat_alt)
    ultimately show ?thesis using Some u signed by (simp add: chain_id_def standard_v_def check_replay_protection_def)
  qed
  moreover have "verify_basic low_s (Some m) allow u \<noteq> Ok ()" if "chain = Some n" "n \<noteq> m" for low_s allow n m
    using that parts by (auto simp: verify_basic_def outcome_simps)
  ultimately show ?thesis by blast
qed

text \<open>A transfer of 5 to address 7, a cryptography that hashes everything to 0, and a signature.\<close>

definition ref_transaction :: transaction where
  "ref_transaction = \<lparr>tx_nonce = 0, tx_gas_price = 1, tx_gas = 21000, tx_action = Call 7, tx_value = 5, tx_data = [],
     tx_private = None\<rparr>"

definition ref_crypto :: tx_crypto where
  "ref_crypto = \<lparr>tc_hash = (\<lambda>_. 0), tc_recover = (\<lambda>_ _ _ _ _. Ok []), tc_address = (\<lambda>_. 1)\<rparr>"

definition ref_signed :: unverified_transaction where
  "ref_signed = \<lparr>ut_unsigned = ref_transaction, ut_v = 38, ut_r = 1, ut_s = 1, ut_hash = 0\<rparr>"

theorem replay_protection_roundtrip_witness:
  "chain_id ref_signed = Some 1 \<and> standard_v ref_signed = 1 \<and> verify_basic True (Some 2) False ref_signed \<noteq> Ok ()"
proof -
  have "with_signature ref_crypto 1 1 1 (Some 1) ref_transaction = (Ok ref_signed :: (unit, unverified_transaction) outcome)"
    by (simp add: with_signature_def add_chain_replay_protection_def checked_times_def checked_plus_def compute_hash_def
        ref_crypto_def ref_signed_def)
  from replay_protection_roundtrip [OF this] show ?thesis by simp
qed

section \<open>Checks of private transactions\<close>

lemma check_nullifiers_Ok:
  "check_nullifiers seen ss = Ok () \<longleftrightarrow> distinct (map sd_nullifier ss) \<and> set (map sd_nullifier ss) \<inter> seen = {}"
  by (induction ss arbitrary: seen) auto

lemma u256_from_i64_Ok: "u256_from_i64 x = Ok y \<longleftrightarrow> 0 \<le> sint x \<and> y = ucast x"
  by (auto simp: u256_from_i64_def)

lemma uint_nonneg_i64:
  assumes "0 \<le> sint (x :: u64)"
  shows "int (unat (ucast x :: u256)) = sint x"
proof -
  have "uint x = sint x mod 2 ^ 64" using uint_word_of_int [of "sint x", where 'a = 64] by simp
  moreover have "sint x < 2 ^ 63" using sint_lt [of x] by simp
  ultimately have "uint x = sint x" using assms by simp
  then show ?thesis by (simp add: unat_ucast_up)
qed

lemma negate_i64_Ok: "negate_i64 x = Ok y \<Longrightarrow> sint y = - sint x"
proof -
  assume neg: "negate_i64 x = Ok y"
  have "- (2 ^ 63) \<le> sint x" "sint x < 2 ^ 63" using sint_ge [of x] sint_lt [of x] by simp_all
  moreover from neg have "y = - x" "sint x \<noteq> - (2 ^ 63)" by (auto simp: negate_i64_def split: if_splits)
  moreover have "sint (- x) = signed_take_bit 63 (- sint x)" using sint_word_minus [of x] by simp
  ultimately show ?thesis by (simp add: signed_take_bit_int_eq_self)
qed

text \<open>The exact amounts that an accepted private transaction balances.\<close>

definition balanced :: "transaction \<Rightarrow> bool" where
  "balanced t \<longleftrightarrow> (let bv = sint (balancing_value t) in
     if tx_action t = PublicToPrivate then int (unat (tx_value t)) = - bv * 10 ^ 9
     else bv * 10 ^ 9 = int (unat (tx_gas_price t)) * int (unat (tx_gas t)) + int (unat (tx_value t)))"


lemma checked_times_Ok: "checked_times a b = Ok c \<Longrightarrow> unat c = unat a * unat b"
  by (auto simp: checked_times_def unat_times_exact split: if_splits)

lemma checked_plus_Ok: "checked_plus a b = Ok c \<Longrightarrow> unat c = unat a + unat b"
  by (auto simp: checked_plus_def unat_plus_exact split: if_splits)

lemma conversion_factor: "unat CONVERSION_FACTOR = 10 ^ 9"
  by (simp add: CONVERSION_FACTOR_def)

lemma verify_balancing_value_Ok:
  assumes "verify_balancing_value t = Ok ()"
  shows "balanced t"
proof (cases "tx_action t = PublicToPrivate")
  case True
  with assms obtain nbv where nbv: "negate_i64 (balancing_value t) = (Ok nbv :: (tx_error, u64) outcome)" "0 \<le> sint nbv"
      "checked_times (ucast nbv) CONVERSION_FACTOR = (Ok (tx_value t) :: (tx_error, u256) outcome)"
    by (auto simp: verify_balancing_value_def Let_def outcome_simps u256_from_i64_Ok split: if_splits)
  then have "unat (tx_value t) = unat (ucast nbv :: u256) * 10 ^ 9"
    using checked_times_Ok conversion_factor by metis
  then have "int (unat (tx_value t)) = sint nbv * 10 ^ 9" using uint_nonneg_i64 [OF nbv(2)] by simp
  with True negate_i64_Ok [OF nbv(1)] show ?thesis by (simp add: balanced_def)
next
  case False
  let ?bv = "balancing_value t"
  have run: "verify_balancing_value t = and_then (u256_from_i64 ?bv) (\<lambda>x.
      and_then (checked_times x CONVERSION_FACTOR) (\<lambda>y.
      and_then (checked_times (tx_gas_price t) (tx_gas t)) (\<lambda>fee.
      and_then (checked_plus fee (tx_value t)) (\<lambda>z.
      if y \<noteq> z then Err (InvalidPrivateTx P_InvalidBalancingValue) else Ok ()))))"
    using False by (simp only: verify_balancing_value_def Let_def if_False)
  from assms obtain x y fee z where bv: "u256_from_i64 ?bv = (Ok x :: (tx_error, u256) outcome)"
      and y: "checked_times x CONVERSION_FACTOR = (Ok y :: (tx_error, u256) outcome)"
      and fee: "checked_times (tx_gas_price t) (tx_gas t) = (Ok fee :: (tx_error, u256) outcome)"
      and z: "checked_plus fee (tx_value t) = (Ok z :: (tx_error, u256) outcome)"
      and e: "(if y \<noteq> z then Err (InvalidPrivateTx P_InvalidBalancingValue) else Ok ()) = Ok ()"
    unfolding run and_then_Ok_iff by blast
  have yz: "y = z" using e by (cases "y = z") auto
  have "unat x * 10 ^ 9 = unat (tx_gas_price t) * unat (tx_gas t) + unat (tx_value t)"
    unfolding checked_plus_Ok [OF z, folded yz, unfolded checked_times_Ok [OF fee] checked_times_Ok [OF y] conversion_factor] ..
  then have "int (unat x) * 10 ^ 9 = int (unat (tx_gas_price t)) * int (unat (tx_gas t)) + int (unat (tx_value t))"
    by (metis of_nat_add of_nat_mult of_nat_numeral of_nat_power)
  moreover have "0 \<le> sint ?bv" "x = ucast ?bv" using bv unfolding u256_from_i64_Ok by simp_all
  ultimately show ?thesis using False uint_nonneg_i64 [of ?bv] by (simp only: balanced_def Let_def if_False)
qed

text \<open>
  C29. An accepted private transaction balances exactly, in unbounded integers: the value that a public sender
  puts into the pool is the negated balancing value, and the balancing value that leaves the pool pays for the
  value and the gas. No nullifier occurs twice, spends are there exactly where the input is private, and a
  transaction with private input has nonce 0.
\<close>

theorem verify_private_sound:
  assumes "verify_private_tx_basic t = Ok ()"
  shows "balanced t \<and> distinct (map sd_nullifier (v_shielded_spend t)) \<and>
    (v_shielded_spend t = [] \<longleftrightarrow> tx_action t = PublicToPrivate) \<and>
    (is_input_private (tx_action t) \<longrightarrow> tx_nonce t = 0) \<and> (tx_action t = PrivateToPrivate \<longrightarrow> tx_value t = 0)"
proof -
  obtain p where p: "tx_private t = Some p"
    using assms by (auto simp: verify_private_tx_basic_def split: option.splits)
  have "verify_balancing_value t = Ok ()" "distinct (map sd_nullifier (pt_spends p))"
    "pt_spends p = [] \<longleftrightarrow> tx_action t = PublicToPrivate" "is_input_private (tx_action t) \<longrightarrow> tx_nonce t = 0"
    "tx_action t = PrivateToPrivate \<longrightarrow> tx_value t = 0"
    using assms p by (auto simp: verify_private_tx_basic_def outcome_simps check_nullifiers_Ok is_privacy_def split: if_splits)
  with verify_balancing_value_Ok p show ?thesis by (simp add: v_shielded_spend_def)
qed

definition ref_spend :: spend_description where
  "ref_spend = \<lparr>sd_nullifier = [1], sd_anchor = 0, sd_rest = []\<rparr>"

definition ref_private :: "tx_action \<Rightarrow> u64 \<Rightarrow> transaction" where
  "ref_private a bv = \<lparr>tx_nonce = 0, tx_gas_price = 1000000000, tx_gas = 21000, tx_action = a, tx_value = 0, tx_data = [],
     tx_private = Some \<lparr>pt_spends = [ref_spend], pt_outputs = [], pt_balancing_value = bv, pt_binding_sig = []\<rparr>\<rparr>"

theorem verify_private_sound_witness:
  "verify_private_tx_basic (ref_private PrivateToPrivate 21000) = Ok () \<and> balanced (ref_private PrivateToPrivate 21000) \<and>
    v_shielded_spend (ref_private PrivateToPrivate 21000) \<noteq> []"
proof -
  have accepted: "verify_private_tx_basic (ref_private PrivateToPrivate 21000) = Ok ()"
    by (simp add: ref_private_def verify_private_tx_basic_def is_privacy_def verify_balancing_value_def balancing_value_def
        u256_from_i64_def checked_times_def checked_plus_def CONVERSION_FACTOR_def)
  with verify_private_sound [OF accepted] show ?thesis by (simp add: ref_private_def)
qed

text \<open>
  C35. The check panics, instead of refusing the transaction, where a transaction with private input has a negative
  balancing value: the conversion to \<open>U256\<close> has no room for it.
\<close>

theorem verify_private_panics:
  assumes "is_input_private (tx_action t)" "is_private t" "tx_nonce t = 0" "is_privacy t \<Longrightarrow> tx_value t = 0"
    and "sint (balancing_value t) < 0"
  shows "verify_private_tx_basic t = Panic"
proof -
  have "verify_balancing_value t = Panic"
    using assms(1,5) by (auto simp: verify_balancing_value_def Let_def u256_from_i64_def)
  with assms show ?thesis
    by (cases "tx_action t") (auto simp: verify_private_tx_basic_def is_private_def split: option.splits)
qed

theorem verify_private_panics_witness: "verify_private_tx_basic (ref_private PrivateToPrivate (- 1)) = Panic"
  by (rule verify_private_panics) (simp_all add: ref_private_def is_private_def balancing_value_def)

section \<open>Intrinsic gas\<close>

lemma gas_fold:
  assumes "unat g + sum_list (map (\<lambda>b. unat (gas_of_byte s b)) data) < 2 ^ 64"
  shows "\<exists>g'. fold (\<lambda>b g. and_then g (\<lambda>g. checked_plus g (gas_of_byte s b))) data (Ok g) = (Ok g' :: ('e, u64) outcome) \<and>
    unat g' = unat g + sum_list (map (\<lambda>b. unat (gas_of_byte s b)) data)"
  using assms
proof (induction data arbitrary: g)
  case (Cons b data)
  then have room: "unat g + unat (gas_of_byte s b) < 2 ^ LENGTH(64)" by simp
  then have "unat (g + gas_of_byte s b) = unat g + unat (gas_of_byte s b)" by (rule unat_plus_exact)
  with Cons.IH [of "g + gas_of_byte s b"] Cons.prems room show ?case by (simp add: checked_plus_def add.assoc)
qed simp

lemma gas_of_bytes:
  "sum_list (map (\<lambda>b. unat (gas_of_byte s b)) data) =
    unat (sch_tx_data_zero_gas s) * length (filter (\<lambda>b. b = 0) data) +
    unat (sch_tx_data_non_zero_gas s) * length (filter (\<lambda>b. b \<noteq> 0) data)"
  by (induction data) (auto simp: gas_of_byte_def)

text \<open>
  C34. The intrinsic gas is the base price and the prices of the zero and of the other bytes of the data, computed
  without overflow for every schedule of the client and every data of fewer than 2^48 bytes.
\<close>

theorem gas_required_exact:
  assumes "s \<in> {new_frontier, new_homestead, new_byzantium, new_constantinople}" "length (tx_data t) < 2 ^ 48"
  shows "\<exists>g. gas_required s t = (Ok g :: ('e, u64) outcome) \<and>
    unat g = (if tx_action t = Create then unat (sch_tx_create_gas s) else unat (sch_tx_gas s)) +
      unat (sch_tx_data_zero_gas s) * length (filter (\<lambda>b. b = 0) (tx_data t)) +
      unat (sch_tx_data_non_zero_gas s) * length (filter (\<lambda>b. b \<noteq> 0) (tx_data t))"
proof -
  let ?base = "if tx_action t = Create then sch_tx_create_gas s else sch_tx_gas s"
  have prices: "unat (sch_tx_create_gas s) \<le> 53000" "unat (sch_tx_gas s) \<le> 53000"
    "unat (sch_tx_data_zero_gas s) \<le> 68" "unat (sch_tx_data_non_zero_gas s) \<le> 68"
    using assms(1) by (auto simp: new_frontier_def new_homestead_def new_byzantium_def new_constantinople_def
        new_schedule_def new_post_eip150_def)
  have "sum_list (map (\<lambda>b. unat (gas_of_byte s b)) (tx_data t)) \<le> (\<Sum>b\<leftarrow>tx_data t. 68)"
    by (rule sum_list_mono) (use prices in \<open>simp add: gas_of_byte_def\<close>)
  then have "unat ?base + sum_list (map (\<lambda>b. unat (gas_of_byte s b)) (tx_data t)) < 2 ^ 64"
    using prices(1,2) assms(2) by (simp add: sum_list_triv)
  from gas_fold [OF this] obtain g where "gas_required s t = (Ok g :: ('e, u64) outcome)"
      "unat g = unat ?base + sum_list (map (\<lambda>b. unat (gas_of_byte s b)) (tx_data t))"
    unfolding gas_required_def gas_required_for_def by blast
  then show ?thesis by (simp add: gas_of_bytes)
qed

theorem gas_required_exact_witness:
  "\<exists>g. gas_required new_byzantium (ref_transaction\<lparr>tx_data := [0, 1]\<rparr>) = (Ok g :: (unit, u64) outcome) \<and> unat g = 21072"
  using gas_required_exact [of new_byzantium "ref_transaction\<lparr>tx_data := [0, 1]\<rparr>", where 'e = unit]
  by (simp add: ref_transaction_def new_byzantium_def new_post_eip150_def)

end
