(* ===== verification/Builtins.thy ===== *)
theory Builtins
  imports Transaction Gas_Safety
begin

text \<open>
  The built-in contracts: src/ethcore/src/builtin.rs. Hash functions, signature recovery and the bn128 curve are
  parameters (\<open>builtin_crates\<close>, \<open>bn_crate\<close>): they come from the \<open>parity-crypto\<close>, \<open>secp256k1\<close> and \<open>bn\<close> crates. So does the
  output buffer of the \<open>parity-bytes\<close> crate: \<open>bc_write out offset input\<close> is the content of a flexible buffer after a write.
\<close>

section \<open>Prices\<close>

definition linear_cost :: "usize \<Rightarrow> usize \<Rightarrow> bytes \<Rightarrow> ('e, u256) outcome" where
  "linear_cost base word input =
    and_then (checked_times (ucast word) (word_of_nat ((length input + 31) div 32))) (\<lambda>w.
    checked_plus (ucast base) w)"

definition alt_bn128_pairing_cost :: "usize \<Rightarrow> usize \<Rightarrow> bytes \<Rightarrow> ('e, u256) outcome" where
  "alt_bn128_pairing_cost base pair input =
    and_then (checked_times (ucast pair) (word_of_nat (length input div 192))) (\<lambda>w.
    checked_plus (ucast base) w)"

text \<open>Reading from the input, extended with zeros without end.\<close>

definition padded_read :: "bytes \<Rightarrow> nat \<Rightarrow> nat \<Rightarrow> bytes" where
  "padded_read input off n = take n (drop off input) @ replicate (n - length (drop off input)) 0"

definition leading_zeros :: "u256 \<Rightarrow> nat" where
  "leading_zeros x = 256 - nat_bits (unat x)"

definition adjusted_exp_len :: "u64 \<Rightarrow> u256 \<Rightarrow> ('e, u64) outcome" where
  "adjusted_exp_len len exp_low =
    (let bit_index = (if exp_low = 0 then 0 else word_of_nat (255 - leading_zeros exp_low)) in
     if len \<le> 32 then Ok bit_index
     else and_then (checked_times 8 (len - 32)) (\<lambda>m. checked_plus m bit_index))"

definition mult_complexity :: "u64 \<Rightarrow> ('e, u64) outcome" where
  "mult_complexity x =
    and_then (checked_times x x) (\<lambda>xx.
    if x \<le> 64 then Ok xx
    else if x \<le> 1024 then
      and_then (checked_times 96 x) (\<lambda>m.
      and_then (checked_plus (xx div 4) m) (\<lambda>k. checked_minus k 3072))
    else
      and_then (checked_times 480 x) (\<lambda>m.
      and_then (checked_plus (xx div 16) m) (\<lambda>k. checked_minus k 199680)))"

definition overflowing_mul_u64 :: "u64 \<Rightarrow> u64 \<Rightarrow> u64 \<times> bool" where
  "overflowing_mul_u64 a b = (a * b, 2 ^ 64 \<le> unat a * unat b)"

definition modexp_cost :: "usize \<Rightarrow> bytes \<Rightarrow> ('e, u256) outcome" where
  "modexp_cost divisor input =
    (let base_len = be_word (padded_read input 0 32);
         exp_len = be_word (padded_read input 32 32);
         mod_len = be_word (padded_read input 64 32);
         max_len = 0x7FFFFFFF
     in if mod_len = 0 \<and> base_len = 0 then Ok 0
     else if max_len < base_len \<or> max_len < mod_len \<or> max_len < exp_len then Ok (- 1)
     else
       let base_len = ucast base_len :: u64; exp_len = ucast exp_len :: u64; mod_len = ucast mod_len :: u64;
           m = max mod_len base_len
       in
       and_then (checked_plus base_len 96) (\<lambda>start.
       let exp_low = (if length input \<le> unat start then 0
             else be_word (padded_read input (96 + unat base_len) (min (unat exp_len) 32)))
       in
       and_then (adjusted_exp_len exp_len exp_low) (\<lambda>adjusted.
       and_then (mult_complexity m) (\<lambda>c.
       let (gas, overflow) = overflowing_mul_u64 c (max adjusted 1) in
       if overflow then Ok (- 1)
       else and_then (assert_that (divisor \<noteq> 0)) (\<lambda>_. Ok (ucast (gas div divisor)))))))"

section \<open>Implementations\<close>

record builtin_crates =
  bc_ec_recover :: "h256 \<Rightarrow> h256 \<Rightarrow> u8 \<Rightarrow> h256 \<Rightarrow> bytes option"
  bc_keccak :: "bytes \<Rightarrow> h256"
  bc_sha256 :: "bytes \<Rightarrow> bytes"
  bc_ripemd160 :: "bytes \<Rightarrow> bytes"
  bc_write :: "bytes \<Rightarrow> nat \<Rightarrow> bytes \<Rightarrow> bytes"

text \<open>An implementation returns what it has written, or the text of its error.\<close>

type_synonym builtin_impl = "bytes \<Rightarrow> (string, bytes) outcome"

definition identity_impl :: "builtin_crates \<Rightarrow> builtin_impl" where
  "identity_impl K input = Ok (bc_write K [] 0 input)"

text \<open>\<open>Signature::is_valid\<close> of src/accounts/ethkey/src/signature.rs.\<close>

definition signature_is_valid :: "h256 \<Rightarrow> h256 \<Rightarrow> u8 \<Rightarrow> bool" where
  "signature_is_valid r s v \<longleftrightarrow> v \<le> 1 \<and>
     r < 0xfffffffffffffffffffffffffffffffebaaedce6af48a03bbfd25e8cd0364141 \<and> 1 \<le> r \<and>
     s < 0xfffffffffffffffffffffffffffffffebaaedce6af48a03bbfd25e8cd0364141 \<and> 1 \<le> s"

definition ec_recover_impl :: "builtin_crates \<Rightarrow> builtin_impl" where
  "ec_recover_impl K i =
    (let input = padded_read (take 128 i) 0 128;
         hash = be_word (take 32 input);
         v = take 32 (drop 32 input);
         r = be_word (take 32 (drop 64 input));
         s = be_word (take 32 (drop 96 input))
     in if (v ! 31 = 27 \<or> v ! 31 = 28) \<and> take 31 v = replicate 31 0 then
          let bit = v ! 31 - 27 in
          if signature_is_valid r s bit then
            (case bc_ec_recover K r s bit hash of
               Some p \<Rightarrow>
                 let out = bc_write K [] 0 (replicate 12 0)
                 in Ok (bc_write K out 12 (drop 12 (to_big_endian (bc_keccak K p))))
             | None \<Rightarrow> Ok [])
          else Ok []
        else Ok [])"

definition sha256_impl :: "builtin_crates \<Rightarrow> builtin_impl" where
  "sha256_impl K input = Ok (bc_write K [] 0 (bc_sha256 K input))"

definition ripemd160_impl :: "builtin_crates \<Rightarrow> builtin_impl" where
  "ripemd160_impl K input =
    Ok (bc_write K (bc_write K [] 0 (replicate 12 0)) 12 (bc_ripemd160 K input))"

section \<open>Modular exponentiation\<close>

text \<open>\<open>BigUint::from_bytes_be\<close> and \<open>to_bytes_be\<close>: zero has one digit.\<close>

definition nat_of_bytes :: "bytes \<Rightarrow> nat" where
  "nat_of_bytes bs = foldl (\<lambda>acc b. acc * 256 + unat b) 0 bs"

fun digits_be :: "nat \<Rightarrow> bytes" where
  "digits_be n = (if n < 256 then [word_of_nat n] else digits_be (n div 256) @ [word_of_nat (n mod 256)])"

declare digits_be.simps [simp del]

text \<open>One digit of the exponent: eight squarings, from its highest bit down.\<close>

primrec modexp_digit :: "nat \<Rightarrow> nat \<Rightarrow> u8 \<Rightarrow> nat \<Rightarrow> nat \<Rightarrow> nat" where
  "modexp_digit base modulus digit 0 result = result"
| "modexp_digit base modulus digit (Suc k) result =
    (let squared = result * result mod modulus in
     modexp_digit base modulus digit k
       (if bit digit k then squared * base mod modulus else squared))"

definition modexp :: "nat \<Rightarrow> bytes \<Rightarrow> nat \<Rightarrow> nat" where
  "modexp base exp modulus =
    (if modulus \<le> 1 then 0
     else let exp = dropWhile (\<lambda>d. d = 0) exp in
       if exp = [] then 1
       else if base = 0 then 0
       else let base = base mod modulus in
         if base = 0 then 0
         else foldl (\<lambda>result digit. modexp_digit base modulus digit 8 result) 1 exp)"

definition modexp_impl :: "builtin_crates \<Rightarrow> builtin_impl" where
  "modexp_impl K input =
    (let read_len = (\<lambda>off. unat (ucast (be_word (padded_read input off 32)) :: u64));
         base_len = read_len 0; exp_len = read_len 32; mod_len = read_len 64;
         r = (if base_len = 0 \<and> mod_len = 0 then 0
              else
                modexp (nat_of_bytes (padded_read input 96 base_len)) (padded_read input (96 + base_len) exp_len)
                  (nat_of_bytes (padded_read input (96 + base_len + exp_len) mod_len)));
         bytes = digits_be r
     in Ok (if length bytes \<le> mod_len then bc_write K [] (mod_len - length bytes) bytes else []))"

section \<open>The bn128 curve\<close>

text \<open>What the contracts use of the \<open>bn\<close> crate: field elements of 32 bytes, affine points, the groups and the pairing.\<close>

record ('fq, 'fr, 'fq2, 'g1, 'g2, 'gt) bn_crate =
  bn_fq_from_slice :: "bytes \<Rightarrow> 'fq option"
  bn_fq_to_big_endian :: "'fq \<Rightarrow> bytes"
  bn_fq_zero :: 'fq
  bn_fr_from_slice :: "bytes \<Rightarrow> 'fr option"
  bn_fq2_new :: "'fq \<Rightarrow> 'fq \<Rightarrow> 'fq2"
  bn_fq2_is_zero :: "'fq2 \<Rightarrow> bool"
  bn_g1_zero :: 'g1
  bn_affine_g1_new :: "'fq \<Rightarrow> 'fq \<Rightarrow> 'g1 option"
  bn_affine_g1_from_jacobian :: "'g1 \<Rightarrow> ('fq \<times> 'fq) option"
  bn_g1_add :: "'g1 \<Rightarrow> 'g1 \<Rightarrow> 'g1"
  bn_g1_mul :: "'g1 \<Rightarrow> 'fr \<Rightarrow> 'g1"
  bn_g2_zero :: 'g2
  bn_affine_g2_new :: "'fq2 \<Rightarrow> 'fq2 \<Rightarrow> 'g2 option"
  bn_gt_one :: 'gt
  bn_gt_mul :: "'gt \<Rightarrow> 'gt \<Rightarrow> 'gt"
  bn_pairing :: "'g1 \<Rightarrow> 'g2 \<Rightarrow> 'gt"

definition or_error :: "string \<Rightarrow> 'a option \<Rightarrow> (string, 'a) outcome" where
  "or_error msg x = (case x of Some v \<Rightarrow> Ok v | None \<Rightarrow> Err msg)"

definition read_fr :: "('fq, 'fr, 'fq2, 'g1, 'g2, 'gt) bn_crate \<Rightarrow> bytes \<Rightarrow> nat \<Rightarrow> (string, 'fr) outcome" where
  "read_fr N input off = or_error ''Invalid field element'' (bn_fr_from_slice N (padded_read input off 32))"

definition read_point :: "('fq, 'fr, 'fq2, 'g1, 'g2, 'gt) bn_crate \<Rightarrow> bytes \<Rightarrow> nat \<Rightarrow> (string, 'g1) outcome" where
  "read_point N input off =
    and_then (or_error ''Invalid point x coordinate'' (bn_fq_from_slice N (padded_read input off 32))) (\<lambda>px.
    and_then (or_error ''Invalid point y coordinate'' (bn_fq_from_slice N (padded_read input (off + 32) 32))) (\<lambda>py.
    if px = bn_fq_zero N \<and> py = bn_fq_zero N then Ok (bn_g1_zero N)
    else or_error ''Invalid curve point'' (bn_affine_g1_new N px py)))"

text \<open>The point at infinity is 64 zero bytes.\<close>

definition write_point :: "('fq, 'fr, 'fq2, 'g1, 'g2, 'gt) bn_crate \<Rightarrow> 'g1 \<Rightarrow> bytes" where
  "write_point N p = (case bn_affine_g1_from_jacobian N p of
      Some (x, y) \<Rightarrow> bn_fq_to_big_endian N x @ bn_fq_to_big_endian N y
    | None \<Rightarrow> replicate 64 0)"

definition bn128_add_impl :: "builtin_crates \<Rightarrow> ('fq, 'fr, 'fq2, 'g1, 'g2, 'gt) bn_crate \<Rightarrow> builtin_impl" where
  "bn128_add_impl K N input =
    and_then (read_point N input 0) (\<lambda>p1.
    and_then (read_point N input 64) (\<lambda>p2.
    Ok (bc_write K [] 0 (write_point N (bn_g1_add N p1 p2)))))"

definition bn128_mul_impl :: "builtin_crates \<Rightarrow> ('fq, 'fr, 'fq2, 'g1, 'g2, 'gt) bn_crate \<Rightarrow> builtin_impl" where
  "bn128_mul_impl K N input =
    and_then (read_point N input 0) (\<lambda>p.
    and_then (read_fr N input 64) (\<lambda>fr.
    Ok (bc_write K [] 0 (write_point N (bn_g1_mul N p fr)))))"

text \<open>The element of the pairing at one 192-byte chunk of the input.\<close>

definition read_pair :: "('fq, 'fr, 'fq2, 'g1, 'g2, 'gt) bn_crate \<Rightarrow> bytes \<Rightarrow> (string, 'g1 \<times> 'g2) outcome" where
  "read_pair N chunk =
    (let fq = (\<lambda>off msg. or_error msg (bn_fq_from_slice N (take 32 (drop off chunk)))) in
    and_then (fq 0 ''Invalid a argument x coordinate'') (\<lambda>a_x.
    and_then (fq 32 ''Invalid a argument y coordinate'') (\<lambda>a_y.
    and_then (fq 64 ''Invalid b argument imaginary coeff x coordinate'') (\<lambda>b_a_y.
    and_then (fq 96 ''Invalid b argument imaginary coeff y coordinate'') (\<lambda>b_a_x.
    and_then (fq 128 ''Invalid b argument real coeff x coordinate'') (\<lambda>b_b_y.
    and_then (fq 160 ''Invalid b argument real coeff y coordinate'') (\<lambda>b_b_x.
    let b_a = bn_fq2_new N b_a_x b_a_y; b_b = bn_fq2_new N b_b_x b_b_y in
    and_then (if bn_fq2_is_zero N b_a \<and> bn_fq2_is_zero N b_b then Ok (bn_g2_zero N)
      else or_error ''Invalid b argument - not on curve'' (bn_affine_g2_new N b_a b_b)) (\<lambda>b.
    and_then (if a_x = bn_fq_zero N \<and> a_y = bn_fq_zero N then Ok (bn_g1_zero N)
      else or_error ''Invalid a argument - not on curve'' (bn_affine_g1_new N a_x a_y)) (\<lambda>a.
    Ok (a, b))))))))))"

primrec read_pairs ::
  "('fq, 'fr, 'fq2, 'g1, 'g2, 'gt) bn_crate \<Rightarrow> bytes \<Rightarrow> nat \<Rightarrow> (string, ('g1 \<times> 'g2) list) outcome" where
  "read_pairs N input 0 = Ok []"
| "read_pairs N input (Suc n) =
    and_then (read_pairs N input n) (\<lambda>vals.
    and_then (read_pair N (take 192 (drop (n * 192) input))) (\<lambda>v.
    Ok (vals @ [v])))"

definition pairing_product :: "('fq, 'fr, 'fq2, 'g1, 'g2, 'gt) bn_crate \<Rightarrow> ('g1 \<times> 'g2) list \<Rightarrow> 'gt" where
  "pairing_product N vals = foldl (\<lambda>s (a, b). bn_gt_mul N s (bn_pairing N a b)) (bn_gt_one N) vals"

definition bn128_pairing_impl :: "builtin_crates \<Rightarrow> ('fq, 'fr, 'fq2, 'g1, 'g2, 'gt) bn_crate \<Rightarrow> builtin_impl" where
  "bn128_pairing_impl K N input =
    (if length input mod 192 \<noteq> 0 then Err ''Invalid input length, must be multiple of 192 (3 * (32*2))''
     else
       and_then (if input = [] then Ok 1
         else and_then (read_pairs N input (length input div 192)) (\<lambda>vals.
           Ok (if pairing_product N vals = bn_gt_one N then 1 else 0))) (\<lambda>ret_val.
       Ok (bc_write K [] 0 (to_big_endian ret_val))))"

section \<open>Built-in contracts\<close>

record builtin =
  bi_cost :: "bytes \<Rightarrow> (vm_error, u256) outcome"
  bi_execute :: builtin_impl
  bi_activate_at :: u64

definition is_active :: "builtin \<Rightarrow> u64 \<Rightarrow> bool" where
  "is_active b at \<longleftrightarrow> bi_activate_at b \<le> at"

text \<open>The conversion from the chain specification.\<close>

datatype pricing = Pricing_Linear usize usize | Pricing_Modexp usize | Pricing_AltBn128Pairing usize usize

primrec pricer :: "pricing \<Rightarrow> bytes \<Rightarrow> (vm_error, u256) outcome" where
  "pricer (Pricing_Linear base word) = linear_cost base word"
| "pricer (Pricing_Modexp divisor) = modexp_cost (if divisor = 0 then 10 else divisor)"
| "pricer (Pricing_AltBn128Pairing base pair) = alt_bn128_pairing_cost base pair"

definition ethereum_builtin ::
  "builtin_crates \<Rightarrow> ('fq, 'fr, 'fq2, 'g1, 'g2, 'gt) bn_crate \<Rightarrow> string \<Rightarrow> ('e, builtin_impl) outcome" where
  "ethereum_builtin K N name =
    (if name = ''identity'' then Ok (identity_impl K)
     else if name = ''ecrecover'' then Ok (ec_recover_impl K)
     else if name = ''sha256'' then Ok (sha256_impl K)
     else if name = ''ripemd160'' then Ok (ripemd160_impl K)
     else if name = ''modexp'' then Ok (modexp_impl K)
     else if name = ''alt_bn128_add'' then Ok (bn128_add_impl K N)
     else if name = ''alt_bn128_mul'' then Ok (bn128_mul_impl K N)
     else if name = ''alt_bn128_pairing'' then Ok (bn128_pairing_impl K N)
     else Panic)"

definition builtin_from ::
  "builtin_crates \<Rightarrow> ('fq, 'fr, 'fq2, 'g1, 'g2, 'gt) bn_crate \<Rightarrow> string \<Rightarrow> pricing \<Rightarrow> u64 option \<Rightarrow> ('e, builtin) outcome" where
  "builtin_from K N name pricing activate_at =
    and_then (ethereum_builtin K N name) (\<lambda>native.
    Ok \<lparr>bi_cost = pricer pricing, bi_execute = native,
        bi_activate_at = (case activate_at of Some n \<Rightarrow> n | None \<Rightarrow> 0)\<rparr>)"

text \<open>\<open>Machine::builtin\<close> of src/ethcore/src/machine/impls.rs.\<close>

definition machine_builtin :: "(address \<Rightarrow> builtin option) \<Rightarrow> address \<Rightarrow> u64 \<Rightarrow> builtin option" where
  "machine_builtin builtins a block_number = (case builtins a of
      Some b \<Rightarrow> if is_active b block_number then Some b else None
    | None \<Rightarrow> None)"


section \<open>Modular exponentiation is exact\<close>

lemma nat_of_bytes_snoc [simp]: "nat_of_bytes [] = 0" "nat_of_bytes (bs @ [b]) = nat_of_bytes bs * 256 + unat b"
  by (simp_all add: nat_of_bytes_def)

lemma nat_of_bytes_zeros: "nat_of_bytes (replicate n 0 @ bs) = nat_of_bytes bs"
proof -
  have "nat_of_bytes (replicate n 0) = 0" by (induction n) (simp_all add: nat_of_bytes_def)
  then show ?thesis by (simp add: nat_of_bytes_def)
qed

lemma nat_of_bytes_drop_zeros: "nat_of_bytes (dropWhile (\<lambda>d. d = 0) bs) = nat_of_bytes bs"
  by (induction bs) (simp_all add: nat_of_bytes_def)

lemma nat_of_bytes_pos: "0 < unat d \<Longrightarrow> 0 < nat_of_bytes (d # ds)"
proof (induction ds rule: rev_induct)
  case (snoc b ds)
  then show ?case using nat_of_bytes_snoc(2) [of "d # ds" b] by simp
qed (simp add: nat_of_bytes_def)

lemma nat_of_bytes_less: "nat_of_bytes bs < 256 ^ length bs"
proof (induction bs rule: rev_induct)
  case (snoc b bs)
  then have "nat_of_bytes bs * 256 + 256 \<le> 256 ^ length bs * 256" by simp
  moreover have "unat b < 256" using unat_below [of b] by simp
  ultimately show ?case by simp
qed simp

lemma nat_of_digits: "nat_of_bytes (digits_be n) = n"
proof (induction n rule: digits_be.induct)
  case (1 n)
  show ?case
  proof (cases "n < 256")
    case True
    then show ?thesis by (subst digits_be.simps) (simp add: nat_of_bytes_def unat_of_nat)
  next
    case False
    then have "nat_of_bytes (digits_be n) = n div 256 * 256 + n mod 256"
      by (subst digits_be.simps) (simp add: 1 unat_of_nat)
    then show ?thesis by simp
  qed
qed

lemma length_digits: "n < 256 ^ k \<Longrightarrow> 0 < k \<Longrightarrow> length (digits_be n) \<le> k"
proof (induction k arbitrary: n)
  case (Suc k)
  then have "n div 256 < 256 ^ k" by (simp add: less_mult_imp_div_less mult.commute)
  moreover have "n < 256" if "k = 0" using Suc.prems(1) that by simp
  ultimately show ?case
    using Suc.IH [of "n div 256"] by (cases "n < 256") (subst digits_be.simps; force)+
qed simp

text \<open>Square and multiply, one digit and then all of them.\<close>

lemma modexp_digit_step:
  assumes "result = base ^ e mod modulus" "1 < modulus" "0 < base" "base < modulus"
  shows "modexp_digit base modulus d k result = base ^ (e * 2 ^ k + unat (take_bit k d)) mod modulus"
  using assms(1)
proof (induction k arbitrary: result e)
  case (Suc k)
  let ?e = "2 * e + (if bit d k then 1 else 0)"
  have squared: "result * result mod modulus = base ^ (2 * e) mod modulus"
    unfolding Suc.prems by (simp add: mod_mult_eq mult_2 power_add)
  have "(if bit d k then (result * result mod modulus) * base mod modulus else result * result mod modulus)
      = base ^ ?e mod modulus"
    unfolding squared by (simp add: mod_mult_left_eq mult.commute [of _ base] mod_mult_right_eq)
  from Suc.IH [OF this] have "modexp_digit base modulus d (Suc k) result =
      base ^ (?e * 2 ^ k + unat (take_bit k d)) mod modulus"
    by (simp add: Let_def)
  moreover have "unat (take_bit (Suc k) d) = (if bit d k then 2 ^ k else 0) + unat (take_bit k d)"
    by (simp add: unsigned_take_bit_eq take_bit_Suc_from_most bit_unsigned_iff bit_imp_le_length)
  ultimately show ?case by (simp add: algebra_simps)
qed simp

lemma modexp_digits:
  assumes "1 < modulus" "0 < base" "base < modulus"
  shows "foldl (\<lambda>result digit. modexp_digit base modulus digit 8 result) 1 ds = base ^ nat_of_bytes ds mod modulus"
proof (induction ds rule: rev_induct)
  case (snoc d ds)
  have "modexp_digit base modulus d 8 (base ^ nat_of_bytes ds mod modulus) =
      base ^ (nat_of_bytes ds * 2 ^ 8 + unat (take_bit 8 d)) mod modulus"
    by (rule modexp_digit_step [OF refl assms])
  with snoc show ?case by (simp add: take_bit_word_eq_self)
qed (use assms in simp)

lemma normalized_pos:
  assumes "dropWhile (\<lambda>d. d = 0) exp = d # ds"
  shows "0 < nat_of_bytes exp"
proof -
  have "hd (dropWhile (\<lambda>d. d = 0) exp) \<noteq> 0" by (rule hd_dropWhile) (simp only: assms list.distinct not_False_eq_True)
  then have "0 < unat d" unfolding assms by (simp add: unat_gt_0)
  then show ?thesis using nat_of_bytes_pos nat_of_bytes_drop_zeros [of exp] unfolding assms by metis
qed

lemma modexp_eq: "modexp base exp modulus = (if modulus \<le> 1 then 0 else base ^ nat_of_bytes exp mod modulus)"
proof (cases "modulus \<le> 1")
  case False
  then have m: "1 < modulus" by simp
  have e: "nat_of_bytes exp = nat_of_bytes (dropWhile (\<lambda>d. d = 0) exp)" by (simp only: nat_of_bytes_drop_zeros)
  show ?thesis
  proof (cases "dropWhile (\<lambda>d. d = 0) exp")
    case Nil
    with m e show ?thesis by (simp add: modexp_def del: dropWhile_eq_Nil_conv)
  next
    case (Cons d ds)
    note ds = normalized_pos [OF Cons]
    show ?thesis
    proof (cases "base mod modulus = 0")
      case True
      then have "base ^ nat_of_bytes exp mod modulus = 0" using ds by (metis dvd_eq_mod_eq_0 dvd_power dvd_trans)
      with True m show ?thesis by (simp add: modexp_def Cons)
    next
      case nonzero: False
      have "foldl (\<lambda>result digit. modexp_digit (base mod modulus) modulus digit 8 result) 1 (d # ds) =
          (base mod modulus) ^ nat_of_bytes (d # ds) mod modulus"
        using m nonzero by (intro modexp_digits) simp_all
      moreover have "base \<noteq> 0" using nonzero by (intro notI) simp
      ultimately show ?thesis using m nonzero by (simp add: modexp_def Cons e power_mod del: foldl.simps)
    qed
  qed
qed (simp add: modexp_def)

definition modexp_len :: "bytes \<Rightarrow> nat \<Rightarrow> nat" where
  "modexp_len input off = unat (ucast (be_word (padded_read input off 32)) :: u64)"

definition modexp_spec :: "bytes \<Rightarrow> nat" where
  "modexp_spec input =
    (let base_len = modexp_len input 0; exp_len = modexp_len input 32; mod_len = modexp_len input 64;
         base = nat_of_bytes (padded_read input 96 base_len);
         exp = nat_of_bytes (padded_read input (96 + base_len) exp_len);
         modulus = nat_of_bytes (padded_read input (96 + base_len + exp_len) mod_len)
     in if modulus \<le> 1 then 0 else base ^ exp mod modulus)"

lemma length_padded_read [simp]: "length (padded_read input off n) = n"
  by (auto simp: padded_read_def)

lemma padded_read_none [simp]: "padded_read input off 0 = []"
  by (simp add: padded_read_def)

lemma modexp_spec_less: "modexp_spec input < 256 ^ modexp_len input 64"
proof -
  let ?l = "modexp_len input 64"
  have "nat_of_bytes (padded_read input off ?l) < 256 ^ ?l" for off
    using nat_of_bytes_less [of "padded_read input off ?l"] by simp
  then show ?thesis
    by (auto simp: modexp_spec_def Let_def intro: less_trans [OF mod_less_divisor])
qed

text \<open>
  C30. The modular exponentiation contract writes exactly as many bytes as the modulus has, and they are the base to
  the power of the exponent modulo the modulus, with 0 where the modulus is 0 or 1: the square-and-multiply loop over
  the bits of the exponent computes the power, for numbers of any length, and the padding does not change it.
\<close>

theorem modexp_contract:
  assumes "\<forall>off bytes. bc_write K [] off bytes = replicate off 0 @ bytes"
  shows "\<exists>out. modexp_impl K input = Ok out \<and> length out = modexp_len input 64 \<and> nat_of_bytes out = modexp_spec input"
proof -
  let ?l = "modexp_len input 64" and ?r = "modexp_spec input"
  have r: "modexp_impl K input = Ok (if length (digits_be ?r) \<le> ?l
      then bc_write K [] (?l - length (digits_be ?r)) (digits_be ?r) else [])"
    by (simp add: modexp_impl_def modexp_spec_def modexp_eq Let_def flip: modexp_len_def)
  show ?thesis
  proof (cases "?l = 0")
    case True
    then have "?r = 0" using modexp_spec_less [of input] by simp
    with True r show ?thesis by (simp add: digits_be.simps)
  next
    case False
    then have "length (digits_be ?r) \<le> ?l" by (intro length_digits modexp_spec_less) simp
    with r assms show ?thesis by (simp add: nat_of_bytes_zeros nat_of_digits)
  qed
qed

definition ref_builtin_crates :: builtin_crates where
  "ref_builtin_crates = \<lparr>bc_ec_recover = (\<lambda>_ _ _ _. None), bc_keccak = (\<lambda>_. 0), bc_sha256 = (\<lambda>_. replicate 32 0),
     bc_ripemd160 = (\<lambda>_. replicate 20 0),
     bc_write = (\<lambda>out off input. take off (out @ replicate (off - length out) 0) @ input)\<rparr>"

definition ref_modexp_input :: bytes where
  "ref_modexp_input = replicate 31 0 @ [65] @ replicate 31 0 @ [1] @ replicate 31 0 @ [1] @ replicate 64 0 @ [3, 2, 5]"

lemma be_word_all_zeros: "be_word (replicate n 0) = 0"
  by (induction n) (simp_all add: be_word_def)

lemma be_word_zeros_append: "be_word (replicate n 0 @ bs) = be_word bs"
  using be_word_all_zeros [of n] by (simp add: be_word_def)

lemma ref_modexp_fields:
  "be_word (padded_read ref_modexp_input 0 32) = 65" "be_word (padded_read ref_modexp_input 32 32) = 1"
  "be_word (padded_read ref_modexp_input 64 32) = 1" "be_word (padded_read ref_modexp_input 161 1) = 2"
  by (simp_all add: padded_read_def ref_modexp_input_def be_word_zeros_append) (simp_all add: be_word_def)

theorem modexp_contract_witness: "modexp_impl ref_builtin_crates ref_modexp_input = Ok [4]"
proof -
  have len: "modexp_len ref_modexp_input 0 = 65" "modexp_len ref_modexp_input 32 = 1" "modexp_len ref_modexp_input 64 = 1"
    by (simp_all add: modexp_len_def ref_modexp_fields)
  have "padded_read ref_modexp_input 96 65 = replicate 64 0 @ [3]" "padded_read ref_modexp_input 161 1 = [2]"
    "padded_read ref_modexp_input 162 1 = [5]"
    by (simp_all add: padded_read_def ref_modexp_input_def)
  then have spec: "modexp_spec ref_modexp_input = 4"
    unfolding modexp_spec_def Let_def len
    by (simp add: nat_of_bytes_zeros [of _ "[]", simplified]) (simp add: nat_of_bytes_def)
  obtain out where out: "modexp_impl ref_builtin_crates ref_modexp_input = Ok out" "length out = 1" "nat_of_bytes out = 4"
    using modexp_contract [of ref_builtin_crates ref_modexp_input] by (auto simp: ref_builtin_crates_def len spec)
  then obtain b where "out = [b]" by (cases out) auto
  with out(3) have "unat b = unat (4 :: u8)" by (simp add: nat_of_bytes_def)
  with out(1) \<open>out = [b]\<close> show ?thesis by (simp only: word_unat_eq_iff [symmetric])
qed

section \<open>Prices do not overflow\<close>

lemma linear_price_total:
  fixes base unit_price :: usize
  assumes "n < 2 ^ 64"
  shows "\<exists>w g. checked_times (ucast unit_price) (word_of_nat n :: u256) = (Ok w :: ('e, u256) outcome) \<and>
    checked_plus (ucast base) w = (Ok g :: ('e, u256) outcome) \<and> unat g = unat base + unat unit_price * n"
proof -
  have u: "unat (ucast x :: u256) = unat x" "unat x < 2 ^ 64" for x :: usize
    using unat_below [of x] by (simp_all add: unat_ucast_up)
  have n: "unat (word_of_nat n :: u256) = n" using assms by (simp add: unat_of_nat)
  have "unat unit_price * n < 2 ^ 64 * 2 ^ 64" using u(2) [of unit_price] assms by (intro mult_strict_mono) simp_all
  then have prod: "unat (ucast unit_price :: u256) * unat (word_of_nat n :: u256) < 2 ^ 128" by (simp add: u n)
  then have w: "unat (ucast unit_price * word_of_nat n :: u256) = unat unit_price * n"
    by (subst unat_times_exact) (simp_all add: u n)
  then have sum: "unat (ucast base :: u256) + unat (ucast unit_price * word_of_nat n :: u256) < 2 ^ 256"
    using u(2) [of base] prod by (simp add: u n)
  then have "unat (ucast base + ucast unit_price * word_of_nat n :: u256) = unat base + unat unit_price * n"
    by (subst unat_plus_exact) (simp_all add: u w)
  with prod sum show ?thesis by (simp add: checked_times_def checked_plus_def)
qed

text \<open>The price of EIP-198 in unbounded numbers; where it does not fit 64 bits the contract cannot be paid.\<close>

definition complexity_spec :: "nat \<Rightarrow> nat" where
  "complexity_spec n = (if n \<le> 64 then n * n
     else if n \<le> 1024 then n * n div 4 + 96 * n - 3072
     else n * n div 16 + 480 * n - 199680)"

definition adjusted_spec :: "nat \<Rightarrow> nat \<Rightarrow> nat" where
  "adjusted_spec len low = (if len \<le> 32 then 0 else 8 * (len - 32)) + (nat_bits low - 1)"

definition modexp_price :: "usize \<Rightarrow> bytes \<Rightarrow> nat" where
  "modexp_price divisor input =
    (let base_len = unat (be_word (padded_read input 0 32)); exp_len = unat (be_word (padded_read input 32 32));
         mod_len = unat (be_word (padded_read input 64 32));
         low = unat (be_word (padded_read input (96 + base_len) (min exp_len 32)));
         units = complexity_spec (max mod_len base_len) * max (adjusted_spec exp_len low) 1
     in if mod_len = 0 \<and> base_len = 0 then 0
        else if 2 ^ 31 \<le> max base_len (max exp_len mod_len) \<or> 2 ^ 64 \<le> units then 2 ^ 256 - 1
        else units div unat divisor)"

lemma unat_mult_room: "unat a * unat b < 2 ^ 64 \<Longrightarrow> unat (a * b :: u64) = unat a * unat b"
  by (rule unat_times_exact) simp

lemma unat_add_room: "unat a + unat b < 2 ^ 64 \<Longrightarrow> unat (a + b :: u64) = unat a + unat b"
  by (rule unat_plus_exact) simp

lemma square_room: "n < 2 ^ 31 \<Longrightarrow> n * n < 2 ^ 62" for n :: nat
  using mult_strict_mono [of n "2 ^ 31" n "2 ^ 31"] by simp

lemma complexity_exact:
  assumes "unat x < 2 ^ 31"
  shows "\<exists>c. mult_complexity x = (Ok c :: ('e, u64) outcome) \<and> unat c = complexity_spec (unat x)"
proof -
  let ?n = "unat x"
  have sq: "?n * ?n < 2 ^ 62" by (rule square_room [OF assms])
  then have xx: "unat (x * x) = ?n * ?n" by (intro unat_mult_room) simp
  have m: "unat (96 * x) = 96 * ?n" "unat (480 * x) = 480 * ?n"
    using assms by (subst unat_mult_room; simp)+
  have d: "unat (x * x div 4) = ?n * ?n div 4" "unat (x * x div 16) = ?n * ?n div 16" by (simp_all add: unat_div xx)
  have k: "unat (x * x div 4 + 96 * x) = ?n * ?n div 4 + 96 * ?n" "unat (x * x div 16 + 480 * x) = ?n * ?n div 16 + 480 * ?n"
    using sq assms by (subst unat_add_room; simp add: d m)+
  show ?thesis
  proof (cases "?n \<le> 64")
    case True
    with sq xx show ?thesis by (simp add: mult_complexity_def checked_times_def complexity_spec_def word_le_nat_alt)
  next
    case big: False
    have low: "3072 \<le> x * x div 4 + 96 * x" "1024 < ?n \<Longrightarrow> 199680 \<le> x * x div 16 + 480 * x"
      using big by (simp_all add: word_le_nat_alt k)
    show ?thesis
    proof (cases "?n \<le> 1024")
      case True
      with big sq assms low(1) show ?thesis
        by (simp add: mult_complexity_def checked_times_def checked_plus_def checked_minus_def complexity_spec_def
            word_le_nat_alt xx m d unat_minus_exact k)
    next
      case False
      with big sq assms low(2) show ?thesis
        by (simp add: mult_complexity_def checked_times_def checked_plus_def checked_minus_def complexity_spec_def
            word_le_nat_alt xx m d unat_minus_exact k)
    qed
  qed
qed

lemma adjusted_exact:
  assumes "unat len < 2 ^ 31"
  shows "\<exists>a. adjusted_exp_len len low = (Ok a :: ('e, u64) outcome) \<and> unat a = adjusted_spec (unat len) (unat low) \<and>
    unat a < 2 ^ 35"
proof -
  have bits: "nat_bits (unat low) \<le> 256" using unat_below [of low] by (intro nat_bits_le) simp
  define i :: u64 where "i = (if low = 0 then 0 else word_of_nat (255 - leading_zeros low))"
  have i: "unat i = nat_bits (unat low) - 1" using bits by (auto simp: i_def leading_zeros_def unat_of_nat unat_eq_zero nat_bits.simps [of "unat low"])
  show ?thesis
  proof (cases "len \<le> 32")
    case True
    with i bits show ?thesis by (simp add: adjusted_exp_len_def adjusted_spec_def word_le_nat_alt flip: i_def)
  next
    case False
    then have l: "unat (len - 32) = unat len - 32" by (simp add: unat_minus_exact word_le_nat_alt)
    then have "unat (8 * (len - 32)) = 8 * (unat len - 32)" using assms by (subst unat_mult_room) simp_all
    moreover from this have "unat (8 * (len - 32) + i) = 8 * (unat len - 32) + unat i"
      using assms i bits by (subst unat_add_room) simp_all
    moreover have "unat len - 32 < 2147483648" "nat_bits (unat low) - 1 \<le> 255" using assms bits by simp_all
    then have "8 * (unat len - 32) + (nat_bits (unat low) - 1) < 2 ^ 35" by simp
    ultimately show ?thesis using False assms i l
      by (simp add: adjusted_exp_len_def adjusted_spec_def checked_times_def checked_plus_def word_le_nat_alt flip: i_def)
  qed
qed

lemma padded_read_past: "length input \<le> off \<Longrightarrow> padded_read input off n = replicate n 0"
  by (simp add: padded_read_def)

lemma ucast_len:
  assumes "(n :: u256) \<le> 0x7FFFFFFF"
  shows "unat (ucast n :: u64) = unat n" "unat (ucast n :: u64) < 2 ^ 31"
proof -
  have "unat n < 2 ^ 31" using assms by (simp add: word_le_nat_alt)
  then show "unat (ucast n :: u64) = unat n" "unat (ucast n :: u64) < 2 ^ 31" by (simp_all add: unat_ucast)
qed

lemma modexp_paid:
  fixes input :: bytes
  defines "bl \<equiv> be_word (padded_read input 0 32)" and "el \<equiv> be_word (padded_read input 32 32)"
    and "ml \<equiv> be_word (padded_read input 64 32)"
  assumes "divisor \<noteq> 0" "bl \<le> 0x7FFFFFFF" "ml \<le> 0x7FFFFFFF" "el \<le> 0x7FFFFFFF" "\<not> (ml = 0 \<and> bl = 0)"
  shows "\<exists>g. modexp_cost divisor input = (Ok g :: ('e, u256) outcome) \<and> unat g = modexp_price divisor input"
proof -
  have top: "unat (- 1 :: u256) = 2 ^ 256 - 1" by (simp add: unsigned_minus_1_eq_mask mask_eq_exp_minus_1)
  have none: "\<not> (unat ml = 0 \<and> unat bl = 0)" using assms(8) by (simp add: unat_eq_zero)
  have small: "\<not> 2 ^ 31 \<le> max (unat bl) (max (unat el) (unat ml))" using assms(5-7) by (simp add: word_le_nat_alt)
  define low where "low = be_word (padded_read input (96 + unat bl) (min (unat el) 32))"
  define b e m :: u64 where "b = ucast bl" and "e = ucast el" and "m = ucast ml"
  have len: "unat b = unat bl" "unat b < 2 ^ 31" "unat e = unat el" "unat e < 2 ^ 31" "unat m = unat ml" "unat m < 2 ^ 31"
    unfolding b_def e_def m_def using ucast_len assms(5-7) by blast+
  then have mx: "unat (max m b) = max (unat ml) (unat bl)" "unat (max m b) < 2 ^ 31" by (auto simp: max_def word_le_nat_alt)
  obtain c where c: "mult_complexity (max m b) = (Ok c :: ('e, u64) outcome)" "unat c = complexity_spec (max (unat ml) (unat bl))"
    using complexity_exact [OF mx(2)] mx(1) by metis
  obtain a where a: "adjusted_exp_len e low = (Ok a :: ('e, u64) outcome)" "unat a = adjusted_spec (unat el) (unat low)"
    using adjusted_exact [OF len(4)] len(3) by metis
  have start: "unat (b + 96) = unat bl + 96" using len by (subst unat_add_room) simp_all
  have low: "(if length input \<le> unat (b + 96) then 0 else be_word (padded_read input (96 + unat b) (min (unat e) 32))) = low"
    by (simp add: start len low_def padded_read_past be_word_all_zeros add.commute)
  have "unat (max a 1) = max (unat a) 1" by (auto simp: max_def word_le_nat_alt)
  then have "modexp_price divisor input = (if 2 ^ 64 \<le> unat c * unat (max a 1) then 2 ^ 256 - 1
      else unat c * unat (max a 1) div unat divisor)"
    using none small by (auto simp: modexp_price_def Let_def a c simp flip: bl_def el_def ml_def low_def)
  moreover have cond: "(ml = 0 \<and> bl = 0) = False" "(0x7FFFFFFF < bl \<or> 0x7FFFFFFF < ml \<or> 0x7FFFFFFF < el) = False"
    using assms(5-8) linorder_not_less by blast+
  have plus: "checked_plus b 96 = (Ok (b + 96) :: ('e, u64) outcome)" using len by (simp add: checked_plus_def)
  have "modexp_cost divisor input = (Ok (if 2 ^ 64 \<le> unat c * unat (max a 1) then - 1
      else ucast (c * max a 1 div divisor)) :: ('e, u256) outcome)"
    unfolding modexp_cost_def Let_def bl_def [symmetric] el_def [symmetric] ml_def [symmetric]
      b_def [symmetric] e_def [symmetric] m_def [symmetric]
    by (simp only: cond plus and_then.simps low a c overflowing_mul_u64_def prod.case if_False assert_that_def assms(4)
        not_False_eq_True if_True if_distrib [of Ok])
  ultimately show ?thesis using top by (simp add: unat_ucast_up unat_div unat_mult_room)
qed

lemma modexp_cost_eq:
  assumes "divisor \<noteq> 0"
  shows "\<exists>g. modexp_cost divisor input = (Ok g :: ('e, u256) outcome) \<and> unat g = modexp_price divisor input"
proof -
  define bl el ml :: u256 where "bl = be_word (padded_read input 0 32)" and "el = be_word (padded_read input 32 32)"
    and "ml = be_word (padded_read input 64 32)"
  have top: "unat (- 1 :: u256) = 2 ^ 256 - 1" by (simp add: unsigned_minus_1_eq_mask mask_eq_exp_minus_1)
  consider "ml = 0 \<and> bl = 0" | "\<not> (ml = 0 \<and> bl = 0)" "0x7FFFFFFF < bl \<or> 0x7FFFFFFF < ml \<or> 0x7FFFFFFF < el"
    | "\<not> (ml = 0 \<and> bl = 0)" "bl \<le> 0x7FFFFFFF" "ml \<le> 0x7FFFFFFF" "el \<le> 0x7FFFFFFF"
    using linorder_not_less by blast
  then show ?thesis
  proof cases
    case 1
    then show ?thesis by (simp add: modexp_cost_def modexp_price_def Let_def flip: bl_def el_def ml_def)
  next
    case 2
    then have "2 ^ 31 \<le> max (unat bl) (max (unat el) (unat ml))" by (auto simp: word_less_nat_alt)
    with 2 top show ?thesis
      by (auto simp: modexp_cost_def modexp_price_def Let_def unat_eq_zero simp flip: bl_def el_def ml_def)
  next
    case 3
    show ?thesis
      using modexp_paid [OF assms 3(2-4) [unfolded bl_def el_def ml_def] 3(1) [unfolded bl_def ml_def]] .
  qed
qed



lemma pricer_total:
  assumes "length input < 2 ^ 64"
  shows "\<exists>g. pricer p input = Ok g"
proof (cases p)
  case (Pricing_Linear base word)
  have "(length input + 31) div 32 < 2 ^ 64" using assms by simp
  from linear_price_total [OF this, of word base, where 'e = vm_error] Pricing_Linear show ?thesis
    by (auto simp: linear_cost_def)
next
  case (Pricing_Modexp d)
  then show ?thesis using modexp_cost_eq [of "if d = 0 then 10 else d" input, where 'e = vm_error] by auto
next
  case (Pricing_AltBn128Pairing base pair)
  have "length input div 192 < 2 ^ 64" using assms by simp
  from linear_price_total [OF this, of pair base, where 'e = vm_error] Pricing_AltBn128Pairing show ?thesis
    by (auto simp: alt_bn128_pairing_cost_def)
qed

end
