(* ===== verification/Executive.thy ===== *)
theory Executive
  imports Interpreter Builtins
begin

text \<open>
  The executive: src/ethcore/src/executive.rs, with the virtual machine factory of src/ethcore/src/factory.rs and
  src/ethcore/evm/src/factory.rs. A call or creation is a \<open>cc_executive\<close> that runs a virtual machine until it
  ends or traps; \<open>consume\<close> runs it with a stack of suspended executives; \<open>transact\<close> checks a transaction, pays
  for it, runs it and finalizes it.

  The loops of the interpreter and of \<open>consume\<close> have a bound on their number of steps: \<open>None\<close> where it was too
  small. The WebAssembly machine and the executive that the externalities start themselves (EIP-210, and
  calls that may not trap, which no interpreter makes) are parameters. All interpreters of a transaction start
  from the same cache of jump destinations, whose content does not matter (\<open>Jump_Dests\<close>).
\<close>

section \<open>The virtual machine factory\<close>

definition WASM_MAGIC_NUMBER :: bytes where
  "WASM_MAGIC_NUMBER = [0, 97, 115, 109]"

datatype vm_instance =
    Vm_Usize "usize interpreter"
  | Vm_U256 "u256 interpreter"
  | Vm_Wasm action_params

definition can_fit_in_usize :: "u256 \<Rightarrow> bool" where
  "can_fit_in_usize gas \<longleftrightarrow> gas = ucast (ucast gas :: u64)"

definition evm_factory_create :: "shared_cache \<Rightarrow> action_params \<Rightarrow> schedule \<Rightarrow> vm_instance vm_result" where
  "evm_factory_create cache p s =
    (if can_fit_in_usize (ap_gas p) then and_then (new_interpreter p cache s) (\<lambda>it. Ok (Vm_Usize it))
     else and_then (new_interpreter p cache s) (\<lambda>it. Ok (Vm_U256 it)))"

definition vm_factory_create :: "shared_cache \<Rightarrow> action_params \<Rightarrow> schedule \<Rightarrow> vm_instance vm_result" where
  "vm_factory_create cache p s =
    (if sch_wasm s \<noteq> None \<and> (case ap_code p of None \<Rightarrow> False
        | Some code \<Rightarrow> 4 < length code \<and> take 4 code = WASM_MAGIC_NUMBER)
     then Ok (Vm_Wasm p) else evm_factory_create cache p s)"

section \<open>The environment of an execution\<close>

record ('b, 'l, 't, 'v) exec_env =
  ee_crates :: "'l crates"
  ee_backend :: "('b, 'l) backend"
  ee_nested :: "('b, 'l, 't, 'v) executive_ops"
  ee_tracers :: "('t, 'v) tracer_ops"
  ee_machine :: machine_params
  ee_builtins :: "address \<Rightarrow> builtin option"
  ee_wasm :: "action_params \<Rightarrow> ('b, 'l, 't, 'v, gas_left) ext_action"
  ee_cache :: shared_cache
  ee_trie_error_debug :: "trie_error \<Rightarrow> string"

definition ee_ext :: "('b, 'l, 't, 'v) exec_env \<Rightarrow> ('b, 'l, 't, 'v) externalities ext_ops" where
  "ee_ext X = externalities_ops (ee_crates X) (ee_backend X) (ee_nested X) (ee_tracers X)"

text \<open>\<open>Exec::exec\<close> of a virtual machine: a result, or a trap with the suspended machine.\<close>

type_synonym vm_outcome = "(trap_kind \<times> vm_instance) + (vm_error + gas_left)"

primrec exec_result_of :: "('g::len word interpreter \<Rightarrow> vm_instance) \<Rightarrow> 'g word interpreter \<Rightarrow> exec_result \<Rightarrow> vm_outcome" where
  "exec_result_of K it (Exec_Done r) = Inr r"
| "exec_result_of K it (Exec_Trap t) = Inl (t, K it)"

definition exec_interpreter ::
  "nat \<Rightarrow> ('b, 'l, 't, 'v) exec_env \<Rightarrow> ('g::len word interpreter \<Rightarrow> vm_instance) \<Rightarrow> 'g word interpreter \<Rightarrow>
   ('b, 'l, 't, 'v) externalities \<Rightarrow> (vm_outcome vm_result \<times> ('b, 'l, 't, 'v) externalities) option" where
  "exec_interpreter n X K it x = (case exec n (cr_keccak (ee_crates X)) (ee_ext X) (it, x) of
      None \<Rightarrow> None
    | Some (Ok r, it', x') \<Rightarrow> Some (Ok (exec_result_of K it' r), x')
    | Some (Err e, it', x') \<Rightarrow> Some (Ok (Inr (Inl e)), x')
    | Some (Panic, it', x') \<Rightarrow> Some (Panic, x'))"

definition exec_vm ::
  "nat \<Rightarrow> ('b, 'l, 't, 'v) exec_env \<Rightarrow> vm_instance \<Rightarrow> ('b, 'l, 't, 'v) externalities \<Rightarrow>
   (vm_outcome vm_result \<times> ('b, 'l, 't, 'v) externalities) option" where
  "exec_vm n X vm x = (case vm of
      Vm_Usize it \<Rightarrow> exec_interpreter n X Vm_Usize it x
    | Vm_U256 it \<Rightarrow> exec_interpreter n X Vm_U256 it x
    | Vm_Wasm p \<Rightarrow> (case ee_wasm X p x of
          (Ok g, x') \<Rightarrow> Some (Ok (Inr (Inr g)), x')
        | (Err e, x') \<Rightarrow> Some (Ok (Inr (Inl e)), x')
        | (Panic, x') \<Rightarrow> Some (Panic, x')))"

text \<open>Resumption. Only interpreters trap.\<close>

definition resume_vm_call :: "message_call_result \<Rightarrow> vm_instance \<Rightarrow> vm_instance vm_result" where
  "resume_vm_call result vm = (case vm of
      Vm_Usize it \<Rightarrow> and_then (resume_call result it) (\<lambda>it. Ok (Vm_Usize it))
    | Vm_U256 it \<Rightarrow> and_then (resume_call result it) (\<lambda>it. Ok (Vm_U256 it))
    | Vm_Wasm p \<Rightarrow> Panic)"

definition resume_vm_create :: "contract_create_result \<Rightarrow> vm_instance \<Rightarrow> vm_instance vm_result" where
  "resume_vm_create result vm = (case vm of
      Vm_Usize it \<Rightarrow> and_then (resume_create result it) (\<lambda>it. Ok (Vm_Usize it))
    | Vm_U256 it \<Rightarrow> and_then (resume_create result it) (\<lambda>it. Ok (Vm_U256 it))
    | Vm_Wasm p \<Rightarrow> Panic)"

section \<open>Executives for a call or a creation\<close>

datatype cc_kind =
    K_Transfer action_params
  | K_CallBuiltin action_params
  | K_ExecCall action_params substate
  | K_ExecCreate action_params substate
  | K_ResumeCall origin_info vm_instance substate
  | K_ResumeCreate origin_info vm_instance substate

record cc_executive =
  cc_info :: env_info
  cc_schedule :: schedule
  cc_depth :: nat
  cc_stack_depth :: nat
  cc_static_flag :: bool
  cc_is_create :: bool
  cc_gas :: u256
  cc_kind :: cc_kind

definition new_call_raw ::
  "(address \<Rightarrow> builtin option) \<Rightarrow> action_params \<Rightarrow> env_info \<Rightarrow> schedule \<Rightarrow> nat \<Rightarrow> nat \<Rightarrow> bool \<Rightarrow> cc_executive vm_result" where
  "new_call_raw builtins p env s depth stack_depth parent_static_flag =
    and_then (case machine_builtin builtins (ap_code_address p) (env_number env) of
        Some b \<Rightarrow> and_then (assert_that (is_active b (env_number env))) (\<lambda>_. Ok (K_CallBuiltin p))
      | None \<Rightarrow> Ok (if ap_code p \<noteq> None then K_ExecCall p new_substate else K_Transfer p)) (\<lambda>kind.
    Ok \<lparr>cc_info = env, cc_schedule = s, cc_depth = depth, cc_stack_depth = stack_depth,
        cc_static_flag = (parent_static_flag \<or> ap_call_type p = CT_StaticCall), cc_is_create = False,
        cc_gas = ap_gas p, cc_kind = kind\<rparr>)"

definition new_create_raw :: "action_params \<Rightarrow> env_info \<Rightarrow> schedule \<Rightarrow> nat \<Rightarrow> nat \<Rightarrow> bool \<Rightarrow> cc_executive" where
  "new_create_raw p env s depth stack_depth static_flag =
    \<lparr>cc_info = env, cc_schedule = s, cc_depth = depth, cc_stack_depth = stack_depth, cc_static_flag = static_flag,
     cc_is_create = True, cc_gas = ap_gas p, cc_kind = K_ExecCreate p new_substate\<rparr>"

text \<open>The unconfirmed substate, and its update through the mutable reference.\<close>

primrec kind_substate :: "cc_kind \<Rightarrow> substate option" where
  "kind_substate (K_Transfer p) = None"
| "kind_substate (K_CallBuiltin p) = None"
| "kind_substate (K_ExecCall p sub) = Some sub"
| "kind_substate (K_ExecCreate p sub) = Some sub"
| "kind_substate (K_ResumeCall oi vm sub) = Some sub"
| "kind_substate (K_ResumeCreate oi vm sub) = Some sub"

primrec put_kind_substate :: "substate \<Rightarrow> cc_kind \<Rightarrow> cc_kind" where
  "put_kind_substate s (K_Transfer p) = K_Transfer p"
| "put_kind_substate s (K_CallBuiltin p) = K_CallBuiltin p"
| "put_kind_substate s (K_ExecCall p sub) = K_ExecCall p s"
| "put_kind_substate s (K_ExecCreate p sub) = K_ExecCreate p s"
| "put_kind_substate s (K_ResumeCall oi vm sub) = K_ResumeCall oi vm s"
| "put_kind_substate s (K_ResumeCreate oi vm sub) = K_ResumeCreate oi vm s"

definition unconfirmed_substate :: "cc_executive \<Rightarrow> substate option" where
  "unconfirmed_substate ex = kind_substate (cc_kind ex)"

definition put_unconfirmed :: "substate \<Rightarrow> cc_executive \<Rightarrow> cc_executive" where
  "put_unconfirmed s ex = ex\<lparr>cc_kind := put_kind_substate s (cc_kind ex)\<rparr>"

definition check_static_flag :: "action_params \<Rightarrow> bool \<Rightarrow> bool \<Rightarrow> unit vm_result" where
  "check_static_flag p static_flag is_create =
    (if is_create then (if static_flag then Err MutableCallInStaticContext else Ok ())
     else if static_flag \<and> (ap_call_type p = CT_StaticCall \<or> ap_call_type p = CT_Call) \<and> 0 < value_of (ap_value p)
     then Err MutableCallInStaticContext else Ok ())"

section \<open>Actions on what an executive borrows\<close>

type_synonym ('b, 'l, 't, 'v, 'a) exec_action = "(('b, 'l, 't, 'v) borrowed, vm_error, 'a) action"

definition on_borrowed_state :: "'l crates \<Rightarrow> ('b, 'l, 'a) state_action \<Rightarrow> ('b, 'l, 't, 'v, 'a) exec_action" where
  "on_borrowed_state C m = (\<lambda>(st, sub, t, v). case m st of (r, st') \<Rightarrow>
    ((case r of Ok y \<Rightarrow> Ok y | Err e \<Rightarrow> Err (trie_to_vm C e) | Panic \<Rightarrow> Panic), st', sub, t, v))"

definition on_borrowed_touched :: "'l crates \<Rightarrow> ('b, 'l, 'a) touch_action \<Rightarrow> ('b, 'l, 't, 'v, 'a) exec_action" where
  "on_borrowed_touched C m = (\<lambda>(st, sub, t, v). case m (st, sub_touched sub) of (r, st', touched) \<Rightarrow>
    ((case r of Ok y \<Rightarrow> Ok y | Err e \<Rightarrow> Err (trie_to_vm C e) | Panic \<Rightarrow> Panic),
     st', sub\<lparr>sub_touched := touched\<rparr>, t, v))"

definition map_state :: "(('b, 'l) state \<Rightarrow> ('b, 'l) state) \<Rightarrow> ('b, 'l, 't, 'v, unit) exec_action" where
  "map_state f = modify (\<lambda>(st, b). (f st, b))"

text \<open>A \<open>Result\<close> as a value.\<close>

definition as_result :: "('s, vm_error, 'a) action \<Rightarrow> ('s, vm_error, vm_error + 'a) action" where
  "as_result m s = (case m s of
      (Ok y, s') \<Rightarrow> (Ok (Inr y), s')
    | (Err e, s') \<Rightarrow> (Ok (Inl e), s')
    | (Panic, s') \<Rightarrow> (Panic, s'))"

definition check_eip684 ::
  "'l crates \<Rightarrow> ('b, 'l) backend \<Rightarrow> action_params \<Rightarrow> ('b, 'l, 't, 'v, unit) exec_action" where
  "check_eip684 C B p =
    bind (on_borrowed_state C (exists_and_has_code_or_nonce C B (ap_address p))) (\<lambda>taken.
    if taken then fail OutOfGas else ret ())"

definition transfer_exec_balance ::
  "'l crates \<Rightarrow> ('b, 'l) backend \<Rightarrow> action_params \<Rightarrow> schedule \<Rightarrow> ('b, 'l, 't, 'v, unit) exec_action" where
  "transfer_exec_balance C B p s = (case ap_value p of
      Transfer val \<Rightarrow>
        (case (ap_is_input_private p, ap_is_output_private p) of
           (False, False) \<Rightarrow> on_borrowed_touched C (transfer_balance C B (ap_sender p) (ap_address p) val (to_cleanup_mode s))
         | (True, False) \<Rightarrow> on_borrowed_touched C
             (transfer_balance_from_private_to_public C B (ap_sender p) (ap_address p) val (to_cleanup_mode s))
         | (False, True) \<Rightarrow> on_borrowed_touched C
             (transfer_balance_from_public_to_private C B (ap_sender p) (ap_address p) val (to_cleanup_mode s))
         | (True, True) \<Rightarrow> ret ())
    | Apparent _ \<Rightarrow> ret ())"

definition transfer_exec_balance_and_init_contract ::
  "'l crates \<Rightarrow> ('b, 'l) backend \<Rightarrow> action_params \<Rightarrow> schedule \<Rightarrow> ('b, 'l, 't, 'v, unit) exec_action" where
  "transfer_exec_balance_and_init_contract C B p s =
    (let nonce_offset = (if sch_no_empty s then 1 else 0) in
     bind (on_borrowed_state C (state_balance C B (ap_address p))) (\<lambda>prev_bal.
     case ap_value p of
       Transfer val \<Rightarrow>
         bind (if \<not> ap_is_input_private p
           then on_borrowed_touched C (sub_balance C B (ap_sender p) val (to_cleanup_mode s)) else ret ()) (\<lambda>_.
         on_borrowed_state C (state_new_contract C B (ap_address p) (saturating_add val prev_bal) nonce_offset))
     | Apparent _ \<Rightarrow> on_borrowed_state C (state_new_contract C B (ap_address p) prev_bal nonce_offset)))"

text \<open>Whether the changes of a frame are taken back.\<close>

definition reverts :: "vm_error + finalization_result \<Rightarrow> bool" where
  "reverts r = (case r of
      Inl (Internal _) \<Rightarrow> False
    | Inl _ \<Rightarrow> True
    | Inr fin \<Rightarrow> \<not> fin_apply_state fin)"

definition enact_result ::
  "'l crates \<Rightarrow> vm_error + finalization_result \<Rightarrow> substate \<Rightarrow> ('b, 'l, 't, 'v, unit) exec_action" where
  "enact_result C r un_substate =
    (if reverts r then map_state (revert_to_checkpoint C)
     else
       bind (map_state discard_checkpoint) (\<lambda>_. (\<lambda>(st, sub, b). case accrue un_substate sub of
           Ok sub' \<Rightarrow> (Ok (), st, sub', b)
         | Err e \<Rightarrow> (Err e, st, sub, b)
         | Panic \<Rightarrow> (Panic, st, sub, b))))"

section \<open>Running an executive\<close>

datatype cc_result =
    CC_Done "vm_error + finalization_result"
  | CC_Call action_params cc_executive
  | CC_Create action_params address cc_executive

text \<open>A \<open>Transfer\<close> and a call of a built-in contract.\<close>

definition exec_transfer ::
  "('b, 'l, 't, 'v) exec_env \<Rightarrow> cc_executive \<Rightarrow> action_params \<Rightarrow> ('b, 'l, 't, 'v, finalization_result) exec_action" where
  "exec_transfer X ex p =
    bind (lift (check_static_flag p (cc_static_flag ex) (cc_is_create ex))) (\<lambda>_.
    bind (transfer_exec_balance (ee_crates X) (ee_backend X) p (cc_schedule ex)) (\<lambda>_.
    ret \<lparr>fin_gas_left = ap_gas p, fin_apply_state = True, fin_return_data = empty_return_data\<rparr>))"

definition exec_builtin ::
  "('b, 'l, 't, 'v) exec_env \<Rightarrow> cc_executive \<Rightarrow> action_params \<Rightarrow> ('b, 'l, 't, 'v, finalization_result) exec_action" where
  "exec_builtin X ex p =
    bind (lift (expect (machine_builtin (ee_builtins X) (ap_code_address p) (env_number (cc_info ex))))) (\<lambda>builtin.
    bind (lift (check_static_flag p (cc_static_flag ex) (cc_is_create ex))) (\<lambda>_.
    bind (map_state (snd \<circ> checkpoint)) (\<lambda>_.
    bind (transfer_exec_balance (ee_crates X) (ee_backend X) p (cc_schedule ex)) (\<lambda>_.
    let data = (case ap_data p of Some d \<Rightarrow> d | None \<Rightarrow> []) in
    bind (lift (bi_cost builtin data)) (\<lambda>cost.
    if cost \<le> ap_gas p then
      (case bi_execute builtin data of
         Err e \<Rightarrow> bind (map_state (revert_to_checkpoint (ee_crates X))) (\<lambda>_. fail (BuiltIn e))
       | Ok out \<Rightarrow>
           bind (map_state discard_checkpoint) (\<lambda>_.
           bind (lift (checked_minus (ap_gas p) cost)) (\<lambda>gas.
           ret \<lparr>fin_gas_left = gas, fin_apply_state = True, fin_return_data = new_return_data out 0 (length out)\<rparr>))
       | Panic \<Rightarrow> panic)
    else bind (map_state (revert_to_checkpoint (ee_crates X))) (\<lambda>_. fail OutOfGas))))))"

text \<open>What runs before the virtual machine is created.\<close>

definition pre_call ::
  "('b, 'l, 't, 'v) exec_env \<Rightarrow> cc_executive \<Rightarrow> action_params \<Rightarrow> ('b, 'l, 't, 'v, unit) exec_action" where
  "pre_call X ex p =
    bind (lift (check_static_flag p (cc_static_flag ex) (cc_is_create ex))) (\<lambda>_.
    bind (map_state (snd \<circ> checkpoint)) (\<lambda>_.
    transfer_exec_balance (ee_crates X) (ee_backend X) p (cc_schedule ex)))"

definition pre_create ::
  "('b, 'l, 't, 'v) exec_env \<Rightarrow> cc_executive \<Rightarrow> action_params \<Rightarrow> ('b, 'l, 't, 'v, unit) exec_action" where
  "pre_create X ex p =
    bind (check_eip684 (ee_crates X) (ee_backend X) p) (\<lambda>_.
    bind (lift (check_static_flag p (cc_static_flag ex) (cc_is_create ex))) (\<lambda>_.
    bind (map_state (snd \<circ> checkpoint)) (\<lambda>_.
    transfer_exec_balance_and_init_contract (ee_crates X) (ee_backend X) p (cc_schedule ex))))"

definition as_externalities ::
  "('b, 'l, 't, 'v) exec_env \<Rightarrow> cc_executive \<Rightarrow> origin_info \<Rightarrow> output_policy \<Rightarrow> substate \<Rightarrow>
   ('b, 'l, 't, 'v) borrowed \<Rightarrow> ('b, 'l, 't, 'v) externalities" where
  "as_externalities X ex oi output unsub = (\<lambda>(st, sub, t, v).
    new_externalities st (cc_info ex) (ee_machine X) (cc_schedule ex) (cc_depth ex) (cc_stack_depth ex) oi unsub output
      t v (cc_static_flag ex))"

text \<open>Run the machine over the externalities of the frame, and finalize its result.\<close>

definition gas_left_result :: "vm_error + gas_left \<Rightarrow> gas_left vm_result" where
  "gas_left_result r = (case r of Inl e \<Rightarrow> Err e | Inr g \<Rightarrow> Ok g)"

definition run_vm ::
  "nat \<Rightarrow> ('b, 'l, 't, 'v) exec_env \<Rightarrow> vm_instance \<Rightarrow> ('b, 'l, 't, 'v) externalities \<Rightarrow>
   (((trap_kind \<times> vm_instance) + (vm_error + finalization_result)) vm_result \<times> ('b, 'l, 't, 'v) externalities) option" where
  "run_vm n X vm x = (case exec_vm n X vm x of
      None \<Rightarrow> None
    | Some (Ok (Inl trap), x') \<Rightarrow> Some (Ok (Inl trap), x')
    | Some (Ok (Inr r), x') \<Rightarrow>
        (case as_result (finalize (ee_ext X) (gas_left_result r)) x' of
           (Ok fin, x'') \<Rightarrow> Some (Ok (Inr fin), x'')
         | (Err e, x'') \<Rightarrow> Some (Err e, x'')
         | (Panic, x'') \<Rightarrow> Some (Panic, x''))
    | Some (Err e, x') \<Rightarrow> Some (Err e, x')
    | Some (Panic, x') \<Rightarrow> Some (Panic, x'))"

text \<open>The frame after its machine: suspended by a trap, or its result enacted.\<close>

definition conclude ::
  "('b, 'l, 't, 'v) exec_env \<Rightarrow> cc_executive \<Rightarrow> origin_info \<Rightarrow> (trap_kind \<times> vm_instance) + (vm_error + finalization_result) \<Rightarrow>
   substate \<Rightarrow> ('b, 'l, 't, 'v, cc_result) exec_action" where
  "conclude X ex oi out unsub = (case out of
      Inl (Trap_Call p, vm) \<Rightarrow> ret (CC_Call p (ex\<lparr>cc_kind := K_ResumeCall oi vm unsub\<rparr>))
    | Inl (Trap_Create p a, vm) \<Rightarrow> ret (CC_Create p a (ex\<lparr>cc_kind := K_ResumeCreate oi vm unsub\<rparr>))
    | Inr res \<Rightarrow> bind (enact_result (ee_crates X) res unsub) (\<lambda>_. ret (CC_Done res)))"

definition exec_frame ::
  "nat \<Rightarrow> ('b, 'l, 't, 'v) exec_env \<Rightarrow> cc_executive \<Rightarrow> origin_info \<Rightarrow> output_policy \<Rightarrow> vm_instance \<Rightarrow> substate \<Rightarrow>
   ('b, 'l, 't, 'v) borrowed \<Rightarrow> (cc_result vm_result \<times> ('b, 'l, 't, 'v) borrowed) option" where
  "exec_frame n X ex oi output vm unsub = (\<lambda>(st, sub, t, v).
    case run_vm n X vm (as_externalities X ex oi output unsub (st, sub, t, v)) of
      None \<Rightarrow> None
    | Some (r, x) \<Rightarrow>
        let b = (ex_state x, sub, ex_tracer x, ex_vm_tracer x) in
        (case r of
           Ok out \<Rightarrow> Some (conclude X ex oi out (ex_substate x) b)
         | Err e \<Rightarrow> Some (Err e, b)
         | Panic \<Rightarrow> Some (Panic, b)))"

definition start_frame ::
  "nat \<Rightarrow> ('b, 'l, 't, 'v) exec_env \<Rightarrow> cc_executive \<Rightarrow> action_params \<Rightarrow> ('b, 'l, 't, 'v, unit) exec_action \<Rightarrow> output_policy \<Rightarrow>
   substate \<Rightarrow> ('b, 'l, 't, 'v) borrowed \<Rightarrow> (cc_result vm_result \<times> ('b, 'l, 't, 'v) borrowed) option" where
  "start_frame n X ex p pre output unsub b = (case as_result pre b of
      (Ok (Inl e), b') \<Rightarrow> Some (Ok (CC_Done (Inl e)), b')
    | (Ok (Inr _), b') \<Rightarrow>
        (case vm_factory_create (ee_cache X) p (cc_schedule ex) of
           Ok vm \<Rightarrow> exec_frame n X ex (origin_info_from p) output vm unsub b'
         | Err e \<Rightarrow> Some (Err e, b')
         | Panic \<Rightarrow> Some (Panic, b'))
    | (Err e, b') \<Rightarrow> Some (Err e, b')
    | (Panic, b') \<Rightarrow> Some (Panic, b'))"

definition done_with ::
  "('b, 'l, 't, 'v, finalization_result) exec_action \<Rightarrow> ('b, 'l, 't, 'v, cc_result) exec_action" where
  "done_with m = bind (as_result m) (\<lambda>r. ret (CC_Done r))"

definition cc_exec ::
  "nat \<Rightarrow> ('b, 'l, 't, 'v) exec_env \<Rightarrow> cc_executive \<Rightarrow> ('b, 'l, 't, 'v) borrowed \<Rightarrow>
   (cc_result vm_result \<times> ('b, 'l, 't, 'v) borrowed) option" where
  "cc_exec n X ex b = (case cc_kind ex of
      K_Transfer p \<Rightarrow> if cc_is_create ex then Some (Panic, b) else Some (done_with (exec_transfer X ex p) b)
    | K_CallBuiltin p \<Rightarrow> if cc_is_create ex then Some (Panic, b) else Some (done_with (exec_builtin X ex p) b)
    | K_ExecCall p unsub \<Rightarrow>
        if cc_is_create ex then Some (Panic, b) else start_frame n X ex p (pre_call X ex p) Return unsub b
    | K_ExecCreate p unsub \<Rightarrow>
        if \<not> cc_is_create ex then Some (Panic, b) else start_frame n X ex p (pre_create X ex p) InitContract unsub b
    | _ \<Rightarrow> Some (Panic, b))"

definition resumed_policy :: "cc_executive \<Rightarrow> output_policy" where
  "resumed_policy ex = (if cc_is_create ex then InitContract else Return)"

definition cc_resume_call ::
  "nat \<Rightarrow> ('b, 'l, 't, 'v) exec_env \<Rightarrow> cc_executive \<Rightarrow> message_call_result \<Rightarrow> ('b, 'l, 't, 'v) borrowed \<Rightarrow>
   (cc_result vm_result \<times> ('b, 'l, 't, 'v) borrowed) option" where
  "cc_resume_call n X ex result b = (case cc_kind ex of
      K_ResumeCall oi vm unsub \<Rightarrow>
        (case resume_vm_call result vm of
           Ok vm' \<Rightarrow> exec_frame n X ex oi (resumed_policy ex) vm' unsub b
         | Err e \<Rightarrow> Some (Err e, b)
         | Panic \<Rightarrow> Some (Panic, b))
    | _ \<Rightarrow> Some (Panic, b))"

definition cc_resume_create ::
  "nat \<Rightarrow> ('b, 'l, 't, 'v) exec_env \<Rightarrow> cc_executive \<Rightarrow> contract_create_result \<Rightarrow> ('b, 'l, 't, 'v) borrowed \<Rightarrow>
   (cc_result vm_result \<times> ('b, 'l, 't, 'v) borrowed) option" where
  "cc_resume_create n X ex result b = (case cc_kind ex of
      K_ResumeCreate oi vm unsub \<Rightarrow>
        (case resume_vm_create result vm of
           Ok vm' \<Rightarrow> exec_frame n X ex oi (resumed_policy ex) vm' unsub b
         | Err e \<Rightarrow> Some (Err e, b)
         | Panic \<Rightarrow> Some (Panic, b))
    | _ \<Rightarrow> Some (Panic, b))"

section \<open>Consuming an executive\<close>

text \<open>
  The loop of \<open>consume\<close>: the last result with its executive's \<open>is_create\<close> and gas, or \<open>None\<close>, and the stack of
  executives, the top first. An executive runs with the unconfirmed substate of the one below it, or with the
  substate of the caller at the bottom.
\<close>

type_synonym last_res = "(bool \<times> u256 \<times> cc_result) option"
type_synonym call_stack = "(address option \<times> cc_executive) list"

definition with_parent ::
  "call_stack \<Rightarrow> (('b, 'l, 't, 'v) borrowed \<Rightarrow> (cc_result vm_result \<times> ('b, 'l, 't, 'v) borrowed) option) \<Rightarrow>
   ('b, 'l, 't, 'v) borrowed \<Rightarrow> ((cc_result \<times> call_stack) vm_result \<times> ('b, 'l, 't, 'v) borrowed) option" where
  "with_parent stack m = (\<lambda>(st, top, t, v). case stack of
      [] \<Rightarrow> (case m (st, top, t, v) of
          None \<Rightarrow> None
        | Some (r, b) \<Rightarrow> Some (and_then r (\<lambda>res. Ok (res, [])), b))
    | (a, parent) # rest \<Rightarrow> (case unconfirmed_substate parent of
          None \<Rightarrow> Some (Panic, st, top, t, v)
        | Some sub \<Rightarrow> (case m (st, sub, t, v) of
              None \<Rightarrow> None
            | Some (r, st', sub', t', v') \<Rightarrow>
                Some (and_then r (\<lambda>res. Ok (res, (a, put_unconfirmed sub' parent) # rest)), st', top, t', v'))))"

definition on_tracer :: "('t, vm_error, unit) action \<Rightarrow> ('b, 'l, 't, 'v, unit) exec_action" where
  "on_tracer m = (\<lambda>(st, sub, t, v). case m t of (r, t') \<Rightarrow> (r, st, sub, t', v))"

text \<open>The end of the trace of an execution, by its result; the address is there for a creation.\<close>

definition done_trace ::
  "('t, 'v) tracer_ops \<Rightarrow> address option \<Rightarrow> u256 \<Rightarrow> vm_error + finalization_result \<Rightarrow> ('b, 'l, 't, 'v, unit) exec_action" where
  "done_trace T created gas val =
    bind (case val of
        Inr fin \<Rightarrow>
          if fin_apply_state fin then
            bind (lift (checked_minus gas (fin_gas_left fin))) (\<lambda>used.
            bind (lift (return_data_deref (fin_return_data fin))) (\<lambda>output.
            on_tracer (case created of
                Some a \<Rightarrow> tr_done_trace_create T used output a
              | None \<Rightarrow> tr_done_trace_call T used output)))
          else on_tracer (tr_done_trace_failed T Reverted)
      | Inl e \<Rightarrow> on_tracer (tr_done_trace_failed T e)) (\<lambda>_.
    modify (\<lambda>(st, sub, t, v). (st, sub, t, vt_done_subtrace T v)))"

definition code_or_empty :: "action_params \<Rightarrow> bytes" where
  "code_or_empty p = (case ap_code p of Some c \<Rightarrow> c | None \<Rightarrow> [])"

definition prepare_call :: "('b, 'l, 't, 'v) exec_env \<Rightarrow> action_params \<Rightarrow> nat \<Rightarrow> env_info \<Rightarrow> ('b, 'l, 't, 'v, unit) exec_action" where
  "prepare_call X p depth env =
    modify (\<lambda>(st, sub, t, v). (st, sub,
      tr_prepare_trace_call (ee_tracers X) p depth (machine_builtin (ee_builtins X) (ap_address p) (env_number env) \<noteq> None) t,
      vt_prepare_subtrace (ee_tracers X) (code_or_empty p) v))"

definition prepare_create :: "('b, 'l, 't, 'v) exec_env \<Rightarrow> action_params \<Rightarrow> ('b, 'l, 't, 'v, unit) exec_action" where
  "prepare_create X p =
    modify (\<lambda>(st, sub, t, v). (st, sub, tr_prepare_trace_create (ee_tracers X) p t,
      vt_prepare_subtrace (ee_tracers X) (code_or_empty p) v))"

text \<open>One iteration: the final result, or the next state of the loop.\<close>

type_synonym ('b, 'l, 't, 'v) loop_result =
  "(((vm_error + finalization_result) + last_res \<times> call_stack) vm_result \<times> ('b, 'l, 't, 'v) borrowed) option"

definition continue_with ::
  "bool \<Rightarrow> u256 \<Rightarrow> ((cc_result \<times> call_stack) vm_result \<times> ('b, 'l, 't, 'v) borrowed) option \<Rightarrow> ('b, 'l, 't, 'v) loop_result" where
  "continue_with is_create gas r = (case r of
      None \<Rightarrow> None
    | Some (q, b) \<Rightarrow> Some (and_then q (\<lambda>(res, stack). Ok (Inr (Some (is_create, gas, res), stack))), b))"

definition then_run ::
  "('b, 'l, 't, 'v, 'a) exec_action \<Rightarrow> ('a \<Rightarrow> ('b, 'l, 't, 'v) borrowed \<Rightarrow> ('b, 'l, 't, 'v) loop_result) \<Rightarrow>
   ('b, 'l, 't, 'v) borrowed \<Rightarrow> ('b, 'l, 't, 'v) loop_result" where
  "then_run m f b = (case m b of
      (Ok y, b') \<Rightarrow> f y b'
    | (Err e, b') \<Rightarrow> Some (Err e, b')
    | (Panic, b') \<Rightarrow> Some (Panic, b'))"

text \<open>Resume the executive on top of the stack with the result of the one it waited for.\<close>

definition resume_top ::
  "nat \<Rightarrow> ('b, 'l, 't, 'v) exec_env \<Rightarrow> bool \<Rightarrow> u256 \<Rightarrow> vm_error + finalization_result \<Rightarrow> address option \<Rightarrow> cc_executive \<Rightarrow>
   call_stack \<Rightarrow> ('b, 'l, 't, 'v) borrowed \<Rightarrow> ('b, 'l, 't, 'v) loop_result" where
  "resume_top n X is_create gas val address ex stack =
    (if is_create then
       then_run (bind (lift (expect address)) (\<lambda>a.
           bind (done_trace (ee_tracers X) (Some a) gas val) (\<lambda>_.
           bind (lift (expect (unconfirmed_substate ex))) (\<lambda>sub. ret (into_contract_create_result val a sub))))) (\<lambda>(result, sub).
       \<lambda>b. continue_with (cc_is_create ex) (cc_gas ex)
         (with_parent stack (cc_resume_create n X (put_unconfirmed sub ex) result) b))
     else
       then_run (done_trace (ee_tracers X) None gas val) (\<lambda>_ b.
       continue_with (cc_is_create ex) (cc_gas ex)
         (with_parent stack (cc_resume_call n X ex (into_message_call_result val)) b)))"

definition consume_step ::
  "nat \<Rightarrow> ('b, 'l, 't, 'v) exec_env \<Rightarrow> last_res \<Rightarrow> call_stack \<Rightarrow> ('b, 'l, 't, 'v) borrowed \<Rightarrow> ('b, 'l, 't, 'v) loop_result" where
  "consume_step n X last_res stack b = (case last_res of
      None \<Rightarrow> (case stack of
          (_, ex) # rest \<Rightarrow> continue_with (cc_is_create ex) (cc_gas ex) (with_parent rest (cc_exec n X ex) b)
        | [] \<Rightarrow> Some (Panic, b))
    | Some (is_create, gas, CC_Done val) \<Rightarrow> (case stack of
          (address, ex) # rest \<Rightarrow> resume_top n X is_create gas val address ex rest b
        | [] \<Rightarrow> Some (Ok (Inl val), b))
    | Some (_, _, CC_Call p ex) \<Rightarrow>
        then_run (bind (prepare_call X p (cc_depth ex + 1) (cc_info ex)) (\<lambda>_.
          lift (new_call_raw (ee_builtins X) p (cc_info ex) (cc_schedule ex) (cc_depth ex + 1) (cc_stack_depth ex)
            (cc_static_flag ex)))) (\<lambda>sub_exec b.
        Some (Ok (Inr (None, (None, sub_exec) # (None, ex) # stack)), b)) b
    | Some (_, _, CC_Create p a ex) \<Rightarrow>
        then_run (prepare_create X p) (\<lambda>_ b.
        Some (Ok (Inr (None, (None, new_create_raw p (cc_info ex) (cc_schedule ex) (cc_depth ex + 1) (cc_stack_depth ex)
            (cc_static_flag ex)) # (Some a, ex) # stack)), b)) b)"

primrec consume_loop ::
  "nat \<Rightarrow> nat \<Rightarrow> ('b, 'l, 't, 'v) exec_env \<Rightarrow> last_res \<Rightarrow> call_stack \<Rightarrow> ('b, 'l, 't, 'v) borrowed \<Rightarrow>
   ((vm_error + finalization_result) vm_result \<times> ('b, 'l, 't, 'v) borrowed) option" where
  "consume_loop 0 n X last_res stack b = None"
| "consume_loop (Suc k) n X last_res stack b = (case consume_step n X last_res stack b of
      None \<Rightarrow> None
    | Some (Ok (Inl val), b') \<Rightarrow> Some (Ok val, b')
    | Some (Ok (Inr (last_res', stack')), b') \<Rightarrow> consume_loop k n X last_res' stack' b'
    | Some (Err e, b') \<Rightarrow> Some (Err e, b')
    | Some (Panic, b') \<Rightarrow> Some (Panic, b'))"

definition consume ::
  "nat \<Rightarrow> ('b, 'l, 't, 'v) exec_env \<Rightarrow> cc_executive \<Rightarrow> ('b, 'l, 't, 'v) borrowed \<Rightarrow>
   ((vm_error + finalization_result) vm_result \<times> ('b, 'l, 't, 'v) borrowed) option" where
  "consume n X ex b = (case cc_exec n X ex b of
      None \<Rightarrow> None
    | Some (Ok res, b') \<Rightarrow> consume_loop n n X (Some (False, cc_gas ex, res)) [] b'
    | Some (Err e, b') \<Rightarrow> Some (Err e, b')
    | Some (Panic, b') \<Rightarrow> Some (Panic, b'))"

end
