(* ===== verification/Transact.thy ===== *)
theory Transact
  imports Executive
begin

text \<open>
  The executive of a transaction: the type \<open>Executive\<close> of src/ethcore/src/executive.rs, and the receipt of
  src/ethcore/src/executed.rs. \<open>call\<close> and \<open>create\<close> wrap \<open>consume\<close> in a trace; the threads that the variants
  with \<open>crossbeam\<close> start do not change what is computed.
\<close>

record executive =
  xe_env :: env_info
  xe_schedule :: schedule
  xe_depth :: nat
  xe_static_flag :: bool

definition new_executive :: "env_info \<Rightarrow> schedule \<Rightarrow> executive" where
  "new_executive env s = \<lparr>xe_env = env, xe_schedule = s, xe_depth = 0, xe_static_flag = False\<rparr>"

definition executive_from_parent :: "env_info \<Rightarrow> schedule \<Rightarrow> nat \<Rightarrow> bool \<Rightarrow> executive" where
  "executive_from_parent env s parent_depth static_flag =
    \<lparr>xe_env = env, xe_schedule = s, xe_depth = parent_depth + 1, xe_static_flag = static_flag\<rparr>"

section \<open>Calls and creations\<close>

text \<open>The result comes as a value; the trace ends with it.\<close>

definition traced ::
  "('b, 'l, 't, 'v) exec_env \<Rightarrow> address option \<Rightarrow> u256 \<Rightarrow>
   ((vm_error + finalization_result) vm_result \<times> ('b, 'l, 't, 'v) borrowed) option \<Rightarrow>
   ((vm_error + finalization_result) vm_result \<times> ('b, 'l, 't, 'v) borrowed) option" where
  "traced X created gas r = (case r of
      None \<Rightarrow> None
    | Some (Ok val, b) \<Rightarrow> Some (bind (done_trace (ee_tracers X) created gas val) (\<lambda>_. ret val) b)
    | Some (Err e, b) \<Rightarrow> Some (Err e, b)
    | Some (Panic, b) \<Rightarrow> Some (Panic, b))"

definition call_with_stack_depth ::
  "nat \<Rightarrow> ('b, 'l, 't, 'v) exec_env \<Rightarrow> executive \<Rightarrow> action_params \<Rightarrow> nat \<Rightarrow> ('b, 'l, 't, 'v) borrowed \<Rightarrow>
   ((vm_error + finalization_result) vm_result \<times> ('b, 'l, 't, 'v) borrowed) option" where
  "call_with_stack_depth n X xe p stack_depth b =
    (case bind (prepare_call X p (xe_depth xe) (xe_env xe)) (\<lambda>_.
         lift (new_call_raw (ee_builtins X) p (xe_env xe) (xe_schedule xe) (xe_depth xe) stack_depth (xe_static_flag xe))) b of
       (Ok ex, b') \<Rightarrow> traced X None (ap_gas p) (consume n X ex b')
     | (Err e, b') \<Rightarrow> Some (Err e, b')
     | (Panic, b') \<Rightarrow> Some (Panic, b'))"

definition create_with_stack_depth ::
  "nat \<Rightarrow> ('b, 'l, 't, 'v) exec_env \<Rightarrow> executive \<Rightarrow> action_params \<Rightarrow> nat \<Rightarrow> ('b, 'l, 't, 'v) borrowed \<Rightarrow>
   ((vm_error + finalization_result) vm_result \<times> ('b, 'l, 't, 'v) borrowed) option" where
  "create_with_stack_depth n X xe p stack_depth b =
    (case prepare_create X p b of
       (Ok _, b') \<Rightarrow> traced X (Some (ap_address p)) (ap_gas p)
         (consume n X (new_create_raw p (xe_env xe) (xe_schedule xe) (xe_depth xe) stack_depth (xe_static_flag xe)) b')
     | (Err e, b') \<Rightarrow> Some (Err e, b')
     | (Panic, b') \<Rightarrow> Some (Panic, b'))"

definition x_call_action ::
  "nat \<Rightarrow> ('b, 'l, 't, 'v) exec_env \<Rightarrow> executive \<Rightarrow> action_params \<Rightarrow> ('b, 'l, 't, 'v) borrowed \<Rightarrow>
   ((vm_error + finalization_result) vm_result \<times> ('b, 'l, 't, 'v) borrowed) option" where
  "x_call_action n X xe p = call_with_stack_depth n X xe p 0"

definition x_create_action ::
  "nat \<Rightarrow> ('b, 'l, 't, 'v) exec_env \<Rightarrow> executive \<Rightarrow> action_params \<Rightarrow> ('b, 'l, 't, 'v) borrowed \<Rightarrow>
   ((vm_error + finalization_result) vm_result \<times> ('b, 'l, 't, 'v) borrowed) option" where
  "x_create_action n X xe p = create_with_stack_depth n X xe p 0"

section \<open>Receipts\<close>

text \<open>The tracers are kept as they are; \<open>drain\<close> reads the traces off them. No state difference is computed here.\<close>

record ('t, 'v) executed =
  exd_exception :: "vm_error option"
  exd_gas :: u256
  exd_gas_used :: u256
  exd_refunded :: u256
  exd_cumulative_gas_used :: u256
  exd_logs :: "log_entry list"
  exd_contracts_created :: "address list"
  exd_output :: bytes
  exd_trace :: 't
  exd_vm_trace :: 'v

section \<open>Checks before a transaction runs\<close>

type_synonym ('b, 'l, 'a) tx_state_action = "(('b, 'l) state, execution_error, 'a) action"

definition on_tx_state :: "('b, 'l, 't, 'v) exec_env \<Rightarrow> ('b, 'l, 'a) state_action \<Rightarrow> ('b, 'l, 'a) tx_state_action" where
  "on_tx_state X m st = (case m st of
      (Ok y, st') \<Rightarrow> (Ok y, st')
    | (Err e, st') \<Rightarrow> (Err (EE_Internal (ee_trie_error_debug X e)), st')
    | (Panic, st') \<Rightarrow> (Panic, st'))"

definition full_mul :: "u256 \<Rightarrow> u256 \<Rightarrow> u512" where
  "full_mul a b = ucast a * ucast b"

definition requires_sender :: "executive \<Rightarrow> signed_transaction \<Rightarrow> bool \<Rightarrow> bool" where
  "requires_sender xe t check_nonce \<longleftrightarrow>
     \<not> is_unsigned (sgn_transaction t) \<and> check_nonce \<and> sch_kill_dust (xe_schedule xe) \<noteq> Off"

text \<open>The nonce, the gas for the execution and the cost of the gas of a transaction that may run.\<close>

definition check_transaction ::
  "('b, 'l, 't, 'v) exec_env \<Rightarrow> executive \<Rightarrow> signed_transaction \<Rightarrow> bool \<Rightarrow> ('b, 'l, u256 \<times> u256 \<times> u512) tx_state_action" where
  "check_transaction X xe t check_nonce =
    (let C = ee_crates X; B = ee_backend X; tx = ut_unsigned (sgn_transaction t); sender = sgn_sender t; env = xe_env xe in
     bind (on_tx_state X (state_nonce C B sender)) (\<lambda>nonce.
     bind (lift (gas_required (xe_schedule xe) tx)) (\<lambda>required.
     let base_gas_required = ucast required :: u256 in
     if tx_gas tx < base_gas_required then fail (NotEnoughBaseGas base_gas_required (tx_gas tx)) else
     bind (if requires_sender xe t check_nonce then on_tx_state X (state_exists C B sender) else ret True) (\<lambda>exists.
     if \<not> exists then fail SenderMustExist else
     bind (lift (checked_minus (tx_gas tx) base_gas_required)) (\<lambda>init_gas.
     if check_nonce \<and> tx_nonce tx \<noteq> nonce then fail (InvalidNonce nonce (tx_nonce tx)) else
     bind (lift (checked_plus (env_gas_used env) (tx_gas tx))) (\<lambda>total_gas.
     if env_gas_limit env < total_gas
     then fail (BlockGasLimitReached (env_gas_limit env) (env_gas_used env) (tx_gas tx)) else
     bind (on_tx_state X (state_balance C B sender)) (\<lambda>balance.
     let gas_cost = full_mul (tx_gas tx) (tx_gas_price tx) in
     bind (lift (checked_plus (ucast (tx_value tx)) gas_cost)) (\<lambda>total_cost.
     if ucast balance < total_cost \<and> \<not> is_input_private (tx_action tx)
     then fail (NotEnoughCash total_cost (ucast balance))
     else ret (nonce, init_gas, gas_cost)))))))))"

definition bump_sender_nonce ::
  "('b, 'l, 't, 'v) exec_env \<Rightarrow> executive \<Rightarrow> signed_transaction \<Rightarrow> ('b, 'l, unit) tx_state_action" where
  "bump_sender_nonce X xe t =
    (if (\<not> sch_keep_unsigned_nonce (xe_schedule xe) \<or> \<not> is_unsigned (sgn_transaction t)) \<and>
        \<not> is_input_private (tx_action (ut_unsigned (sgn_transaction t)))
     then on_tx_state X (state_inc_nonce (ee_crates X) (ee_backend X) (sgn_sender t)) else ret ())"

section \<open>Finalization\<close>

type_synonym ('b, 'l, 'a) tx_touch_action = "(('b, 'l) state \<times> substate, execution_error, 'a) action"

definition on_tx_touched :: "('b, 'l, 't, 'v) exec_env \<Rightarrow> ('b, 'l, 'a) touch_action \<Rightarrow> ('b, 'l, 'a) tx_touch_action" where
  "on_tx_touched X m = (\<lambda>(st, sub). case m (st, sub_touched sub) of (r, st', touched) \<Rightarrow>
    ((case r of Ok y \<Rightarrow> Ok y | Err e \<Rightarrow> Err (EE_Internal (ee_trie_error_debug X e)) | Panic \<Rightarrow> Panic),
     st', sub\<lparr>sub_touched := touched\<rparr>))"

text \<open>The gas that is refunded, left and used. \<open>as u64\<close> keeps the low bits of the counter.\<close>

definition gas_settlement ::
  "schedule \<Rightarrow> u256 \<Rightarrow> substate \<Rightarrow> vm_error + finalization_result \<Rightarrow> (execution_error, u256 \<times> u256 \<times> u256) outcome" where
  "gas_settlement s gas sub r =
    and_then (assert_that (0 \<le> sub_sstore_clears_refund sub)) (\<lambda>_.
    let sstore_refunds = ucast (word_of_int (sub_sstore_clears_refund sub) :: u64) :: u256 in
    and_then (checked_times (ucast (sch_suicide_refund_gas s)) (word_of_nat (card (sub_suicides sub)))) (\<lambda>suicide_refunds.
    and_then (checked_plus sstore_refunds suicide_refunds) (\<lambda>refunds_bound.
    let gas_left_prerefund = (case r of Inr fin \<Rightarrow> fin_gas_left fin | Inl _ \<Rightarrow> 0) in
    and_then (checked_minus gas gas_left_prerefund) (\<lambda>used.
    let refunded = min refunds_bound (drop_bit 1 used) in
    and_then (checked_plus gas_left_prerefund refunded) (\<lambda>gas_left.
    Ok (refunded, gas_left, if gas_left \<le> gas then gas - gas_left else 0))))))"

text \<open>The suicides are a hash set, iterated in some order; the model takes the ascending one.\<close>

definition kill_suicides :: "address set \<Rightarrow> ('b, 'l) state \<Rightarrow> ('b, 'l) state" where
  "kill_suicides as st = fold kill_account (sorted_list_of_set as) st"

definition min_dust_balance :: "schedule \<Rightarrow> u256 \<Rightarrow> u256 option" where
  "min_dust_balance s gas_price =
    (if sch_kill_dust s \<noteq> Off then Some (ucast (sch_tx_gas s) * gas_price) else None)"

definition receipt ::
  "executive \<Rightarrow> transaction \<Rightarrow> substate \<Rightarrow> vm_error + finalization_result \<Rightarrow> bytes \<Rightarrow> 't \<Rightarrow> 'v \<Rightarrow> u256 \<Rightarrow> u256 \<Rightarrow>
   (execution_error, ('t, 'v) executed) outcome" where
  "receipt xe tx sub r output trace vm_trace gas_used refunded = (case r of
      Inl (Internal msg) \<Rightarrow> Err (EE_Internal msg)
    | Inl e \<Rightarrow>
        and_then (checked_plus (env_gas_used (xe_env xe)) (tx_gas tx)) (\<lambda>cumulative.
        Ok \<lparr>exd_exception = Some e, exd_gas = tx_gas tx, exd_gas_used = tx_gas tx, exd_refunded = 0,
            exd_cumulative_gas_used = cumulative, exd_logs = [], exd_contracts_created = [], exd_output = output,
            exd_trace = trace, exd_vm_trace = vm_trace\<rparr>)
    | Inr fin \<Rightarrow>
        and_then (checked_plus (env_gas_used (xe_env xe)) gas_used) (\<lambda>cumulative.
        Ok \<lparr>exd_exception = (if fin_apply_state fin then None else Some Reverted), exd_gas = tx_gas tx,
            exd_gas_used = gas_used, exd_refunded = refunded, exd_cumulative_gas_used = cumulative,
            exd_logs = sub_logs sub, exd_contracts_created = sub_contracts_created sub, exd_output = output,
            exd_trace = trace, exd_vm_trace = vm_trace\<rparr>))"

definition refund_account :: "signed_transaction \<Rightarrow> address" where
  "refund_account t =
    (if is_input_private (tx_action (ut_unsigned (sgn_transaction t))) then PRIVATE_EXECUTIVE_ADDRESS else sgn_sender t)"

definition finalize_transaction ::
  "('b, 'l, 't, 'v) exec_env \<Rightarrow> executive \<Rightarrow> signed_transaction \<Rightarrow> vm_error + finalization_result \<Rightarrow> bytes \<Rightarrow> 't \<Rightarrow> 'v \<Rightarrow>
   ('b, 'l, ('t, 'v) executed) tx_touch_action" where
  "finalize_transaction X xe t r output trace vm_trace =
    (let C = ee_crates X; B = ee_backend X; s = xe_schedule xe; tx = ut_unsigned (sgn_transaction t) in
     bind (gets snd) (\<lambda>sub.
     bind (lift (gas_settlement s (tx_gas tx) sub r)) (\<lambda>(refunded, gas_left, gas_used).
     let refund_value = gas_left * tx_gas_price tx; fees_value = gas_used * tx_gas_price tx in
     if 2 ^ 256 \<le> unat gas_left * unat (tx_gas_price tx) \<or> 2 ^ 256 \<le> unat gas_used * unat (tx_gas_price tx)
     then fail (TransactionMalformed ''U256 Overflow'') else
     bind (on_tx_touched X (add_balance C B (refund_account t) refund_value NoEmpty)) (\<lambda>_.
     bind (on_tx_touched X (add_balance C B (env_author (xe_env xe)) fees_value (to_cleanup_mode s))) (\<lambda>_.
     bind (modify (\<lambda>(st, sub). (kill_suicides (sub_suicides sub) st, sub))) (\<lambda>_.
     bind (modify (\<lambda>(st, sub). (kill_garbage C (sub_touched sub) (sch_kill_empty s)
         (min_dust_balance s (tx_gas_price tx)) (sch_kill_dust s = WithCodeAndStorage) st, sub))) (\<lambda>_.
     bind (gets snd) (\<lambda>sub.
     lift (receipt xe tx sub r output trace vm_trace gas_used refunded)))))))))"

section \<open>Transactions\<close>

text \<open>The parameters of the execution that a transaction asks for.\<close>

definition message_params ::
  "address \<Rightarrow> address \<Rightarrow> u256 \<Rightarrow> transaction \<Rightarrow> bytes option \<Rightarrow> h256 option \<Rightarrow> bool \<Rightarrow> bool \<Rightarrow> action_params" where
  "message_params a sender init_gas tx code code_hash input_private output_private =
    \<lparr>ap_code_address = a, ap_code_hash = code_hash, ap_address = a, ap_sender = sender, ap_origin = sender,
     ap_gas = init_gas, ap_gas_price = tx_gas_price tx, ap_value = Transfer (tx_value tx), ap_code = code,
     ap_data = Some (tx_data tx), ap_call_type = CT_Call, ap_params_type = Separate,
     ap_is_input_private = input_private, ap_is_output_private = output_private\<rparr>"

definition creation_params :: "address \<Rightarrow> h256 option \<Rightarrow> address \<Rightarrow> u256 \<Rightarrow> transaction \<Rightarrow> action_params" where
  "creation_params a code_hash sender init_gas tx =
    \<lparr>ap_code_address = a, ap_code_hash = code_hash, ap_address = a, ap_sender = sender, ap_origin = sender,
     ap_gas = init_gas, ap_gas_price = tx_gas_price tx, ap_value = Transfer (tx_value tx), ap_code = Some (tx_data tx),
     ap_data = None, ap_call_type = CT_None, ap_params_type = Embedded,
     ap_is_input_private = False, ap_is_output_private = False\<rparr>"

text \<open>Whether the gas is paid from the public balance of the sender before the execution.\<close>

definition pays_gas :: "tx_action \<Rightarrow> bool" where
  "pays_gas a \<longleftrightarrow> \<not> is_input_private a"

definition pay_gas ::
  "('b, 'l, 't, 'v) exec_env \<Rightarrow> executive \<Rightarrow> signed_transaction \<Rightarrow> u512 \<Rightarrow> ('b, 'l, unit) tx_touch_action" where
  "pay_gas X xe t gas_cost =
    (if pays_gas (tx_action (ut_unsigned (sgn_transaction t))) then
       bind (lift (assert_that (unat gas_cost < 2 ^ 256))) (\<lambda>_.
       on_tx_touched X (sub_balance (ee_crates X) (ee_backend X) (sgn_sender t) (ucast gas_cost) (to_cleanup_mode (xe_schedule xe))))
     else ret ())"

definition on_tx_pair :: "('b, 'l, 't, 'v) exec_env \<Rightarrow> ('b, 'l, 'a) state_action \<Rightarrow> ('b, 'l, 'a) tx_touch_action" where
  "on_tx_pair X m = (\<lambda>(st, sub). case on_tx_state X m st of (r, st') \<Rightarrow> (r, st', sub))"

definition execution_params ::
  "('b, 'l, 't, 'v) exec_env \<Rightarrow> signed_transaction \<Rightarrow> u256 \<Rightarrow> u256 \<Rightarrow> ('b, 'l, action_params) tx_touch_action" where
  "execution_params X t nonce init_gas =
    (let C = ee_crates X; B = ee_backend X; tx = ut_unsigned (sgn_transaction t); sender = sgn_sender t;
         message = (\<lambda>a from input_private output_private.
           bind (on_tx_pair X (state_code C B a)) (\<lambda>code.
           bind (on_tx_pair X (state_code_hash C B a)) (\<lambda>code_hash.
           ret (message_params a from init_gas tx code code_hash input_private output_private))))
     in case tx_action tx of
       PrivateToPrivate \<Rightarrow> message PRIVATE_EXECUTIVE_ADDRESS PRIVATE_EXECUTIVE_ADDRESS True True
     | PublicToPrivate \<Rightarrow> message PRIVATE_EXECUTIVE_ADDRESS sender False True
     | PrivateCall a \<Rightarrow> message a PRIVATE_EXECUTIVE_ADDRESS True False
     | Call a \<Rightarrow> message a sender False False
     | Create \<Rightarrow>
         (let (a, code_hash) = contract_address C FromSenderAndNonce sender nonce (tx_data tx)
          in ret (creation_params a code_hash sender init_gas tx)))"

definition output_of :: "tx_action \<Rightarrow> bool \<Rightarrow> vm_error + finalization_result \<Rightarrow> (execution_error, bytes) outcome" where
  "output_of a output_from_create r = (case r of
      Inr fin \<Rightarrow>
        if a \<noteq> Create \<or> output_from_create then return_data_deref (fin_return_data fin) else Ok []
    | Inl _ \<Rightarrow> Ok [])"

text \<open>Run the execution and finalize.\<close>

definition run_transaction ::
  "nat \<Rightarrow> ('b, 'l, 't, 'v) exec_env \<Rightarrow> executive \<Rightarrow> signed_transaction \<Rightarrow> bool \<Rightarrow> action_params \<Rightarrow> ('b, 'l, 't, 'v) borrowed \<Rightarrow>
   ((execution_error, ('t, 'v) executed) outcome \<times> ('b, 'l) state \<times> 't \<times> 'v) option" where
  "run_transaction n X xe t output_from_create p b =
    (let a = tx_action (ut_unsigned (sgn_transaction t)) in
     case (if a = Create then x_create_action n X xe p b else x_call_action n X xe p b) of
       None \<Rightarrow> None
     | Some (Ok r, st, sub, tr, vt) \<Rightarrow>
         (case bind (lift (output_of a output_from_create r)) (\<lambda>out. finalize_transaction X xe t r out tr vt) (st, sub) of
            (res, st', sub') \<Rightarrow> Some (res, st', tr, vt))
     | Some (_, st, sub, tr, vt) \<Rightarrow> Some (Panic, st, tr, vt))"

definition transact_with_tracer ::
  "nat \<Rightarrow> ('b, 'l, 't, 'v) exec_env \<Rightarrow> executive \<Rightarrow> signed_transaction \<Rightarrow> bool \<Rightarrow> bool \<Rightarrow> ('b, 'l) state \<times> 't \<times> 'v \<Rightarrow>
   ((execution_error, ('t, 'v) executed) outcome \<times> ('b, 'l) state \<times> 't \<times> 'v) option" where
  "transact_with_tracer n X xe t check_nonce output_from_create = (\<lambda>(st, tr, vt).
    case bind (check_transaction X xe t check_nonce) (\<lambda>r. bind (bump_sender_nonce X xe t) (\<lambda>_. ret r)) st of
      (Ok (nonce, init_gas, gas_cost), st') \<Rightarrow>
        (case bind (pay_gas X xe t gas_cost) (\<lambda>_. execution_params X t nonce init_gas) (st', new_substate) of
           (Ok p, st'', sub) \<Rightarrow> run_transaction n X xe t output_from_create p (st'', sub, tr, vt)
         | (Err e, st'', sub) \<Rightarrow> Some (Err e, st'', tr, vt)
         | (Panic, st'', sub) \<Rightarrow> Some (Panic, st'', tr, vt))
    | (Err e, st') \<Rightarrow> Some (Err e, st', tr, vt)
    | (Panic, st') \<Rightarrow> Some (Panic, st', tr, vt))"

record ('t, 'v) transact_options =
  to_tracer :: 't
  to_vm_tracer :: 'v
  to_check_nonce :: bool
  to_output_from_init_contract :: bool

definition new_transact_options :: "'t \<Rightarrow> 'v \<Rightarrow> ('t, 'v) transact_options" where
  "new_transact_options t v =
    \<lparr>to_tracer = t, to_vm_tracer = v, to_check_nonce = True, to_output_from_init_contract = False\<rparr>"

definition dont_check_nonce :: "('t, 'v) transact_options \<Rightarrow> ('t, 'v) transact_options" where
  "dont_check_nonce opts = opts\<lparr>to_check_nonce := False\<rparr>"

definition save_output_from_contract :: "('t, 'v) transact_options \<Rightarrow> ('t, 'v) transact_options" where
  "save_output_from_contract opts = opts\<lparr>to_output_from_init_contract := True\<rparr>"

definition transact ::
  "nat \<Rightarrow> ('b, 'l, 't, 'v) exec_env \<Rightarrow> executive \<Rightarrow> signed_transaction \<Rightarrow> ('t, 'v) transact_options \<Rightarrow> ('b, 'l) state \<Rightarrow>
   ((execution_error, ('t, 'v) executed) outcome \<times> ('b, 'l) state \<times> 't \<times> 'v) option" where
  "transact n X xe t opts st =
    transact_with_tracer n X xe t (to_check_nonce opts) (to_output_from_init_contract opts)
      (st, to_tracer opts, to_vm_tracer opts)"

definition saturating_mul :: "u256 \<Rightarrow> u256 \<Rightarrow> u256" where
  "saturating_mul a b = (if unat a * unat b < 2 ^ 256 then a * b else - 1)"

definition transact_virtual ::
  "nat \<Rightarrow> ('b, 'l, 't, 'v) exec_env \<Rightarrow> executive \<Rightarrow> signed_transaction \<Rightarrow> ('t, 'v) transact_options \<Rightarrow> ('b, 'l) state \<Rightarrow>
   ((execution_error, ('t, 'v) executed) outcome \<times> ('b, 'l) state \<times> 't \<times> 'v) option" where
  "transact_virtual n X xe t opts st =
    (let C = ee_crates X; B = ee_backend X; tx = ut_unsigned (sgn_transaction t); sender = sgn_sender t;
         needed_balance = saturating_add (tx_value tx) (saturating_mul (tx_gas tx) (tx_gas_price tx))
     in case bind (on_tx_pair X (state_balance C B sender)) (\<lambda>balance.
         if balance < needed_balance
         then on_tx_touched X (add_balance C B sender (needed_balance - balance) NoEmpty) else ret ()) (st, new_substate) of
       (Ok _, st', sub) \<Rightarrow> transact n X xe t opts st'
     | (Err e, st', sub) \<Rightarrow> Some (Err e, st', to_tracer opts, to_vm_tracer opts)
     | (Panic, st', sub) \<Rightarrow> Some (Panic, st', to_tracer opts, to_vm_tracer opts))"

end
