(* ===== verification/Spec2Isabelle.thy ===== *)
theory Spec2Isabelle
  imports Vm_Over_State State_Properties Transact
begin

text \<open>
  \<^bold>\<open>The execution of transactions in the Origo client.\<close>

  Origo is an Ethereum client in Rust (a fork of Parity) with private transactions. This development models
  the part that decides what a transaction does: the virtual machine, the accounts it runs on, the executive that
  drives both, the transactions and the built-in contracts.

  \<^bold>\<open>The parts and how they interact.\<close> A transaction (\<open>Transaction\<close>) is checked and paid for by the executive
  (\<open>Transact\<close>), which runs calls and creations (\<open>Executive\<close>). A call takes a checkpoint of the state
  (\<open>State\<close>, \<open>Account\<close>, \<open>Substate\<close>), moves the value, and runs a built-in contract (\<open>Builtins\<close>) or the interpreter
  (\<open>Interpreter\<close>) over the externalities (\<open>Externalities\<close>), the implementation of the trait \<open>Ext\<close> that gives the interpreter
  the accounts, the logs and the refund counter. An instruction that calls or creates a contract
  suspends the interpreter with a trap; the executive runs the nested frame and resumes it. At the end of a frame its
  checkpoint is discarded or reverted.

  \<^bold>\<open>Theories and sources.\<close> Names keep the source's names where Isabelle allows it. A theory follows its file function
  by function.

  \<^item> \<open>Prelude\<close>: machine types, outcomes, actions and their weakest preconditions.
  \<^item> \<open>Instructions\<close>, \<open>Schedule\<close>, \<open>Vm_Types\<close>: src/ethcore/evm/src/instructions.rs and the crate src/ethcore/vm (schedule, errors, parameters,
    results, the trait \<open>Ext\<close> as the record \<open>ext_ops\<close>, \<open>Finalize\<close>).
  \<^item> \<open>Cost\<close>, \<open>Vm_Stack\<close>, \<open>Vm_Memory\<close>, \<open>Jump_Dests\<close>, \<open>Gasometer\<close>, \<open>Interpreter\<close> (with its arithmetic in \<open>Evm_Arith\<close>): src/ethcore/evm/src
    (evm.rs and interpreter/stack.rs, memory.rs, shared_cache.rs, gasometer.rs, mod.rs). The interpreter is the record \<open>interpreter\<close>, one arm
    of \<open>exec_instruction\<close> is one definition, \<open>step\<close> is one instruction and \<open>exec\<close> the loop.
  \<^item> \<open>Account\<close>, \<open>State\<close>, \<open>Substate\<close>, \<open>Externalities\<close>: src/ethcore/src/state/account.rs, state/mod.rs, state/substate.rs, externalities.rs. The state is the
    record \<open>state\<close>: the database, the root, the cache of entries and the stack of checkpoints.
  \<^item> \<open>Backends\<close>: the backend \<open>Basic\<close> of src/ethcore/src/state/backend.rs.
  \<^item> \<open>Transaction\<close>, \<open>Builtins\<close>: src/ethcore/types/src/transaction/transaction.rs, src/ethcore/src/transaction_ext.rs, src/ethcore/src/builtin.rs.
  \<^item> \<open>Executive\<close>, \<open>Transact\<close>: src/ethcore/src/executive.rs with the machine factories. A \<open>cc_executive\<close> is a frame, \<open>consume\<close> the loop over the stack
    of frames, \<open>transact_with_tracer\<close> the whole transaction with its checks and its finalization.

  \<^bold>\<open>Errors and panics.\<close> A result is \<open>Ok\<close>, \<open>Err\<close> or \<open>Panic\<close>: an unchecked overflow, a failed assertion or \<open>expect\<close>, a slice out of range is
  \<open>Panic\<close>, so that a theorem \<open>= Ok \<dots>\<close> or \<open>wp\<close> also says that the code does not panic. Machine integers are words of their width; the refund
  counter is an integer with the range of \<open>i128\<close> checked.

  \<^bold>\<open>Contracts.\<close> Two interfaces carry the proofs. The locale \<open>ext_trait\<close> (\<open>Ext_Trait\<close>) is what the interpreter needs of \<open>Ext\<close>: no method
  panics, an invariant is kept, values handed to traps are covered by balances. The locale \<open>state_backend\<close> (\<open>State_Spec\<close>) is what the state needs
  of its backend and of the LRU cache: answers agree with a ground truth. \<open>Externalities_Safety\<close> shows that the externalities over any such
  backend meet \<open>ext_trait\<close>; \<open>vm_over_state\<close> joins both (\<open>Vm_Over_State\<close>), and \<open>Backends\<close> interprets the backend contract with the basic
  backend over a reference database.

  \<^bold>\<open>What is shown.\<close>

  \<^item> The interpreter (\<open>Interpreter_Arms\<close> to \<open>Interpreter_Exec\<close>, \<open>Gas_Safety\<close>): one step from a ready interpreter never panics, the gas never grows, every
    execution returns. With gas below 2^64, which selects \<open>usize\<close> costs, the loop needs at most one step per unit of gas and two more:
    this is the fuel of \<open>exec\<close>. Suspended executions resume. In a static context nothing observable changes.
  \<^item> The state (\<open>State_Checkpoints\<close> to \<open>State_Runs\<close>, \<open>State_Properties\<close>): caches and checkpoints refine a map from addresses to accounts and a list of
    earlier maps. Reverting restores the map, discarding keeps it, reads and writes act on it as they should, transfers move exactly their amount.
  \<^item> Data and arithmetic: instruction table, schedules, memory, jump destinations, signed and unsigned arithmetic, memory gas, call data.
  \<^item> Transactions and built-in contracts: accepted private transactions balance exactly, encodings and replay protection round trip, intrinsic gas is
    exact, modular exponentiation and its price are exact.

  \<^bold>\<open>Not modelled.\<close> The WebAssembly machine, tries, RLP of whole transactions, journalled databases, hashing, signatures and curves come
  from external crates: they are parameters with their documented behaviour as hypotheses, or absent. Committing the state to the trie, blocks, consensus,
  the transaction pool, the network, RPC and the command line are not modelled: they are databases, protocols, threads and user interfaces
  around the execution. The threads that the executive starts for deep stacks do not change results and are left out. Tracers are a parameter.
\<close>

end
